(* ===== verification/Prelude.thy ===== *)
theory Prelude
  imports Main "HOL-Library.State_Monad" "HOL-Library.Word" "HOL-Library.While_Combinator"
begin

text \<open>
  The shared base of the development: how the Go language features that the program
  relies on are represented, and the generic lemmas the components share.

  \<^item> A call that may panic returns a value of type \<open>'a go\<close>: \<open>Returns x\<close> or \<open>Panics msg\<close>.
  \<^item> A function that talks to the outside world (the API server behind \<open>client.Client\<close>) is a
    computation of the state monad of \<open>HOL-Library.State_Monad\<close> over a world of an
    arbitrary type \<open>'w\<close>; the world is never inspected by the model.
  \<^item> A Go error result is an \<open>'e option\<close> (\<open>None\<close> is \<open>nil\<close>), a result-or-error pair is
    \<open>'e + 'a\<close>, for an arbitrary error type \<open>'e\<close>.
  \<^item> A Go \<open>map[string]string\<close> is \<open>gomap\<close>: \<open>None\<close> is the nil map, which reads as empty and
    panics when it is written.
\<close>

section \<open>Panics, worlds, results\<close>

datatype 'a go = Returns 'a | Panics string

abbreviation ret :: "'a \<Rightarrow> ('w, 'a) state" where
  "ret \<equiv> State_Monad.return"

text \<open>The collections that carry the component proofs.\<close>

named_theorems handler_defs \<open>definitions of the handlers and their helpers\<close>
named_theorems mutate_defs \<open>definitions of the mutate functions\<close>

section \<open>Go maps\<close>

type_synonym gomap = "(string \<rightharpoonup> string) option"

definition gomap_lookup :: "gomap \<Rightarrow> string \<Rightarrow> string option" where
  "gomap_lookup m k = (case m of None \<Rightarrow> None | Some f \<Rightarrow> f k)"

definition gomap_index :: "gomap \<Rightarrow> string \<Rightarrow> string" where
  "gomap_index m k = (case gomap_lookup m k of None \<Rightarrow> '''' | Some v \<Rightarrow> v)"

definition gomap_assign :: "gomap \<Rightarrow> string \<Rightarrow> string \<Rightarrow> gomap go" where
  "gomap_assign m k v =
     (case m of
        None \<Rightarrow> Panics ''assignment to entry in nil map''
      | Some f \<Rightarrow> Returns (Some (f(k \<mapsto> v))))"

text \<open>Several assignments in a row; the first one that panics ends them.\<close>

fun gomap_assigns :: "gomap \<Rightarrow> (string \<times> string) list \<Rightarrow> gomap go" where
  "gomap_assigns m [] = Returns m"
| "gomap_assigns m ((k, v) # kvs) =
     (case gomap_assign m k v of
        Panics p \<Rightarrow> Panics p
      | Returns m' \<Rightarrow> gomap_assigns m' kvs)"

text \<open>\<open>if m == nil { m = make(map[string]string) }\<close>\<close>

definition gomap_made :: "gomap \<Rightarrow> gomap" where
  "gomap_made m = (case m of None \<Rightarrow> Some Map.empty | Some f \<Rightarrow> Some f)"

definition gomap_literal :: "(string \<times> string) list \<Rightarrow> gomap" where
  "gomap_literal kvs = Some (map_of kvs)"

lemma gomap_lookup_simps [simp]:
  "gomap_lookup None k = None"
  "gomap_lookup (Some f) k = f k"
  by (simp_all add: gomap_lookup_def)

lemma gomap_index_simps [simp]:
  "gomap_index None k = ''''"
  "gomap_index (Some f) k = (case f k of None \<Rightarrow> '''' | Some v \<Rightarrow> v)"
  by (simp_all add: gomap_index_def)

lemma gomap_assign_simps [simp]:
  "gomap_assign None k v = Panics ''assignment to entry in nil map''"
  "gomap_assign (Some f) k v = Returns (Some (f(k \<mapsto> v)))"
  by (simp_all add: gomap_assign_def)

lemma gomap_lookup_literal [simp]: "gomap_lookup (gomap_literal kvs) k = map_of kvs k"
  by (simp add: gomap_literal_def)

lemma gomap_index_literal [simp]:
  "gomap_index (gomap_literal kvs) k = (case map_of kvs k of None \<Rightarrow> [] | Some v \<Rightarrow> v)"
  by (simp add: gomap_index_def)

section \<open>Durations\<close>

text \<open>\<open>time.Duration\<close> is an \<open>int64\<close> count of nanoseconds.\<close>

type_synonym duration = "64 word"

definition time_Minute :: duration where
  "time_Minute = 60000000000"

section \<open>Command line flags\<close>

text \<open>
  What \<open>pflag.Parse\<close> found on the command line: the values of the flags that were given. A flag
  that was not given has the default it was declared with.
\<close>

record pflags =
  given_strings :: "string \<rightharpoonup> string"
  given_bools :: "string \<rightharpoonup> bool"

definition StringVar :: "pflags \<Rightarrow> string \<Rightarrow> string \<Rightarrow> string" where
  "StringVar args name dflt = (case given_strings args name of None \<Rightarrow> dflt | Some s \<Rightarrow> s)"

definition BoolVar :: "pflags \<Rightarrow> string \<Rightarrow> bool \<Rightarrow> bool" where
  "BoolVar args name dflt = (case given_bools args name of None \<Rightarrow> dflt | Some b \<Rightarrow> b)"

section \<open>Generic lemmas\<close>

text \<open>A loop whose measure decreases ends, after at most as many iterations as the measure says.\<close>

lemma while_option_bounded:
  fixes f :: "'s \<Rightarrow> nat"
  assumes "\<And>s. P s \<Longrightarrow> b s \<Longrightarrow> P (c s) \<and> f (c s) < f s" and "P s"
  shows "\<exists>t n. while_option b c s = Some t \<and> n \<le> f s \<and> t = (c ^^ n) s \<and> P t \<and> \<not> b t"
  using assms(2)
proof (induction "f s" arbitrary: s rule: less_induct)
  case less
  show ?case
  proof (cases "b s")
    case True
    with assms(1) less.prems have "P (c s)" "f (c s) < f s" by blast+
    from less.hyps [OF this(2,1)] obtain t n where "while_option b c (c s) = Some t" "n \<le> f (c s)"
      "t = (c ^^ n) (c s)" "P t" "\<not> b t" by blast
    with True \<open>f (c s) < f s\<close> show ?thesis
      by (intro exI [of _ t] exI [of _ "Suc n"]) (simp add: while_option_unfold funpow_swap1)
  next
    case False
    with less.prems show ?thesis
      by (intro exI [of _ s] exI [of _ 0]) (simp add: while_option_unfold)
  qed
qed

lemma append_same_length_inject:
  "length s = length t \<Longrightarrow> xs @ s = ys @ t \<longleftrightarrow> xs = ys \<and> s = t"
  by auto

end
