(* ===== verification/Kube_Api.thy ===== *)
theory Kube_Api
  imports Prelude
begin

text \<open>
  The Kubernetes API as the program sees it: the metadata every object carries, object
  keys, reconcile requests and results, and the parameters that stand for
  \<open>controller-runtime\<close> and \<open>apimachinery\<close>, with what their documentation promises as named
  predicates. The objects live in an arbitrary world \<open>'w\<close>; a \<open>view\<close> is the part of the world
  that holds the objects of one kind.
\<close>

section \<open>Objects\<close>

record OwnerReference =
  or_APIVersion :: string
  or_Kind :: string
  or_Name :: string
  or_UID :: string
  or_Controller :: "bool option"
  or_BlockOwnerDeletion :: "bool option"

record ObjectMeta =
  om_Name :: string
  om_Namespace :: string
  om_UID :: string
  om_Labels :: gomap
  om_OwnerReferences :: "OwnerReference list"
  om_DeletionTimestamp :: "int option"

record ObjectKey =
  key_Namespace :: string
  key_Name :: string

definition meta_key :: "ObjectMeta \<Rightarrow> ObjectKey" where
  "meta_key m = \<lparr>key_Namespace = om_Namespace m, key_Name = om_Name m\<rparr>"

text \<open>\<open>metav1.ObjectMeta{Name: n, Namespace: ns}\<close>: every other field has its zero value.\<close>

definition new_meta :: "string \<Rightarrow> string \<Rightarrow> ObjectMeta" where
  "new_meta n ns =
     \<lparr>om_Name = n, om_Namespace = ns, om_UID = '''', om_Labels = None,
      om_OwnerReferences = [], om_DeletionTimestamp = None\<rparr>"

text \<open>\<open>DeletionTimestamp.IsZero()\<close>\<close>

definition not_deleted :: "ObjectMeta \<Rightarrow> bool" where
  "not_deleted m \<longleftrightarrow> om_DeletionTimestamp m = None"

record ctrl_Request =
  NamespacedName :: ObjectKey

record ctrl_Result =
  Requeue :: bool
  RequeueAfter :: int

text \<open>\<open>ctrl.Result{}\<close>\<close>

definition Result0 :: ctrl_Result where
  "Result0 = \<lparr>Requeue = False, RequeueAfter = 0\<rparr>"

type_synonym 'e reconciled = "(ctrl_Result \<times> 'e option) go"

section \<open>Parameters: error helpers\<close>

text \<open>\<open>apierrors.IsNotFound\<close>, \<open>client.IgnoreNotFound\<close>, \<open>kerrors.NewAggregate\<close>.\<close>

record 'e errlib =
  IsNotFound :: "'e option \<Rightarrow> bool"
  IgnoreNotFound :: "'e option \<Rightarrow> 'e option"
  NewAggregate :: "'e option list \<Rightarrow> 'e option"

text \<open>
  Their documentation: \<open>IsNotFound\<close> is false for nil; \<open>IgnoreNotFound\<close> returns nil on
  not-found errors and returns every other value unmodified; \<open>NewAggregate\<close> drops nil errors
  and is nil when nothing is left.
\<close>

definition errlib_ok :: "'e errlib \<Rightarrow> bool" where
  "errlib_ok L \<longleftrightarrow>
     \<not> IsNotFound L None \<and>
     (\<forall>e. IgnoreNotFound L e = (if IsNotFound L e then None else e)) \<and>
     (\<forall>es. NewAggregate L es = None \<longleftrightarrow> (\<forall>e \<in> set es. e = None))"

text \<open>The deferred function of two reconcilers: a failing patch replaces the result and joins its error.\<close>

definition deferred_result ::
  "'e errlib \<Rightarrow> 'e reconciled \<Rightarrow> 'e option \<Rightarrow> 'e reconciled" where
  "deferred_result L outcome patchErr =
     (case patchErr of
        None \<Rightarrow> outcome
      | Some err \<Rightarrow>
          (case outcome of
             Panics p \<Rightarrow> Panics p
           | Returns (result, reterr) \<Rightarrow> Returns (Result0, NewAggregate L [reterr, Some err])))"

section \<open>Parameters: CreateOrPatch\<close>

datatype OperationResult =
    OperationResultNone
  | OperationResultCreated
  | OperationResultUpdated
  | OperationResultUpdatedStatus
  | OperationResultUpdatedStatusOnly

type_synonym ('e, 'o) mutate_fn = "'o \<Rightarrow> ('e + 'o) go"

type_synonym ('w, 'e, 'o) create_or_patch =
  "'o \<Rightarrow> ('e, 'o) mutate_fn \<Rightarrow> ('w, ('e + OperationResult) go) state"

type_synonym ('w, 'e, 'o) getter = "ObjectKey \<Rightarrow> ('w, 'e + 'o) state"

text \<open>The object the mutate function is applied to: the stored one, or the given one.\<close>

definition current_object :: "('o \<Rightarrow> 'k) \<Rightarrow> ('w \<Rightarrow> 'k \<rightharpoonup> 'o) \<Rightarrow> 'w \<Rightarrow> 'o \<Rightarrow> 'o" where
  "current_object key view w obj = (case view w (key obj) of None \<Rightarrow> obj | Some x \<Rightarrow> x)"

text \<open>
  The documentation of \<open>controllerutil.CreateOrPatch\<close>: the object is fetched, the mutate
  function is called on the fetched object (or on the given one if there is none), and the
  outcome is patched or created. On success the mutate function succeeded and its outcome is
  stored; only the object with this key is written; a panic can only come from the mutate
  function. Nothing is promised about the object when an error is returned.
\<close>

definition create_or_patch_ok ::
  "('o \<Rightarrow> 'k) \<Rightarrow> ('w \<Rightarrow> 'k \<rightharpoonup> 'o) \<Rightarrow> ('w, 'e, 'o) create_or_patch \<Rightarrow> bool" where
  "create_or_patch_ok key view cop \<longleftrightarrow>
     (\<forall>obj f w r w'. run_state (cop obj f) w = (r, w') \<longrightarrow>
        (\<forall>k. k \<noteq> key obj \<longrightarrow> view w' k = view w k) \<and>
        (case r of
           Returns (Inr _) \<Rightarrow>
             (\<exists>y. f (current_object key view w obj) = Returns (Inr y) \<and>
                  view w' (key obj) = Some y)
         | Returns (Inl _) \<Rightarrow> True
         | Panics p \<Rightarrow> f (current_object key view w obj) = Panics p))"

text \<open>
  And what it may have written whatever it returns, as when the answer to a patch is lost: nothing,
  or the outcome of the mutate function.
\<close>

definition create_or_patch_writes_ok ::
  "('o \<Rightarrow> 'k) \<Rightarrow> ('w \<Rightarrow> 'k \<rightharpoonup> 'o) \<Rightarrow> ('w, 'e, 'o) create_or_patch \<Rightarrow> bool" where
  "create_or_patch_writes_ok key view cop \<longleftrightarrow>
     (\<forall>obj f w r w'. run_state (cop obj f) w = (r, w') \<longrightarrow>
        view w' (key obj) = view w (key obj) \<or>
        (\<exists>y. f (current_object key view w obj) = Returns (Inr y) \<and> view w' (key obj) = Some y))"

text \<open>An API server that answers: no call fails whose mutate function succeeds.\<close>

definition reliable ::
  "('o \<Rightarrow> 'k) \<Rightarrow> ('w \<Rightarrow> 'k \<rightharpoonup> 'o) \<Rightarrow> ('w, 'e, 'o) create_or_patch \<Rightarrow> bool" where
  "reliable key view cop \<longleftrightarrow>
     (\<forall>obj f w y. f (current_object key view w obj) = Returns (Inr y) \<longrightarrow>
        (\<exists>op. fst (run_state (cop obj f) w) = Returns (Inr op)))"

text \<open>A store that behaves as documented: the world is the map of the stored objects.\<close>

definition store_create_or_patch ::
  "('o \<Rightarrow> 'k) \<Rightarrow> ('k \<rightharpoonup> 'o, 'e, 'o) create_or_patch" where
  "store_create_or_patch key obj f = State (\<lambda>w.
     case f (current_object key (\<lambda>w. w) w obj) of
       Panics p \<Rightarrow> (Panics p, w)
     | Returns (Inl e) \<Rightarrow> (Returns (Inl e), w)
     | Returns (Inr y) \<Rightarrow> (Returns (Inr OperationResultUpdated), w(key obj \<mapsto> y)))"

text \<open>Error helpers that behave as documented, on errors that are strings.\<close>

definition store_errlib :: "string errlib" where
  "store_errlib =
     \<lparr>IsNotFound = (\<lambda>e. e = Some ''NotFound''),
      IgnoreNotFound = (\<lambda>e. if e = Some ''NotFound'' then None else e),
      NewAggregate = (\<lambda>es. if \<forall>e \<in> set es. e = None then None else Some ''aggregate'')\<rparr>"

text \<open>What a computation does to the world, whatever it returns, as a relation.\<close>

definition within :: "('w \<Rightarrow> 'w \<Rightarrow> bool) \<Rightarrow> ('w, 'b) state \<Rightarrow> bool" where
  "within Q m \<longleftrightarrow> (\<forall>w r w'. run_state m w = (r, w') \<longrightarrow> Q w w')"

text \<open>A call that leaves a part of the world alone, such as a read, or a write to another kind.\<close>

definition keeps_view :: "('w \<Rightarrow> 'a) \<Rightarrow> ('w, 'b) state \<Rightarrow> bool" where
  "keeps_view view m \<longleftrightarrow> within (\<lambda>w w'. view w' = view w) m"

section \<open>Using the promise of CreateOrPatch\<close>

lemma create_or_patch_okD:
  assumes "create_or_patch_ok key view cop" and "run_state (cop obj f) w = (r, w')"
  shows "(\<forall>k. k \<noteq> key obj \<longrightarrow> view w' k = view w k) \<and>
    (case r of
       Returns (Inr _) \<Rightarrow>
         (\<exists>y. f (current_object key view w obj) = Returns (Inr y) \<and> view w' (key obj) = Some y)
     | Returns (Inl _) \<Rightarrow> True
     | Panics p \<Rightarrow> f (current_object key view w obj) = Panics p)"
  using assms unfolding create_or_patch_ok_def by blast

lemma create_or_patch_frame:
  assumes "create_or_patch_ok key view cop"
    and "run_state (cop obj f) w = (r, w')" and "k \<noteq> key obj"
  shows "view w' k = view w k"
  using create_or_patch_okD [OF assms(1,2)] assms(3) by simp

lemma create_or_patch_writesD:
  assumes "create_or_patch_writes_ok key view cop" and "run_state (cop obj f) w = (r, w')"
  shows "view w' (key obj) = view w (key obj) \<or>
    (\<exists>y. f (current_object key view w obj) = Returns (Inr y) \<and> view w' (key obj) = Some y)"
  using assms unfolding create_or_patch_writes_ok_def by blast

lemma create_or_patch_stored:
  assumes "create_or_patch_ok key view cop"
    and "run_state (cop obj f) w = (Returns (Inr op), w')"
  obtains y where "f (current_object key view w obj) = Returns (Inr y)"
    and "view w' (key obj) = Some y"
  using create_or_patch_okD [OF assms] by auto

lemma create_or_patch_panics:
  assumes "create_or_patch_ok key view cop"
    and "run_state (cop obj f) w = (Panics p, w')"
  shows "f (current_object key view w obj) = Panics p"
  using create_or_patch_okD [OF assms] by simp

section \<open>The contract of a mutate function\<close>

text \<open>
  A mutate function drives one object to a desired state. It keeps the object's key, its
  outcome is in the desired state, and it leaves an object in the desired state alone.
  Everything a reconciler gains from calling \<open>CreateOrPatch\<close> with it follows.
\<close>

locale mutator =
  fixes key :: "'o \<Rightarrow> 'k"
    and mutate :: "('e, 'o) mutate_fn"
    and desired :: "'o \<Rightarrow> bool"
  assumes mutate_key: "mutate x = Returns (Inr y) \<Longrightarrow> key y = key x"
    and mutate_desired: "mutate x = Returns (Inr y) \<Longrightarrow> desired y"
    and mutate_stable: "mutate x = Returns (Inr y) \<Longrightarrow> desired x \<Longrightarrow> y = x"
begin

lemma mutate_idem:
  assumes "mutate x = Returns (Inr y)" and "mutate y = Returns (Inr z)"
  shows "z = y"
  using assms mutate_desired mutate_stable by blast

lemma cop_reaches_desired:
  assumes "create_or_patch_ok key view cop"
    and "run_state (cop obj mutate) w = (Returns (Inr op), w')"
  shows "\<exists>y. view w' (key obj) = Some y \<and> desired y"
  using create_or_patch_stored [OF assms] mutate_desired by metis

lemma cop_settled:
  assumes ok: "create_or_patch_ok key view cop"
    and stored: "view w (key obj) = Some x" "desired x"
    and run: "run_state (cop obj mutate) w = (Returns (Inr op), w')"
  shows "view w' = view w"
proof
  fix k
  from create_or_patch_stored [OF ok run] obtain y
    where y: "mutate (current_object key view w obj) = Returns (Inr y)"
      and y': "view w' (key obj) = Some y" .
  note frame = create_or_patch_frame [OF ok run, of k]
  from stored y have "y = x"
    by (simp add: current_object_def) (metis mutate_stable)
  with y' stored frame show "view w' k = view w k" by (cases "k = key obj") simp_all
qed

end

text \<open>A mutate function that always succeeds: the call panics never.\<close>

locale total_mutator = mutator +
  assumes mutate_total: "\<exists>y. mutate x = Returns (Inr y)"
begin

lemma cop_no_panic:
  assumes "create_or_patch_ok key view cop"
    and "run_state (cop obj mutate) w = (r, w')"
  shows "\<exists>v. r = Returns v"
proof (cases r)
  case (Panics p)
  with assms have "mutate (current_object key view w obj) = Panics p"
    by (simp add: create_or_patch_panics)
  with mutate_total [of "current_object key view w obj"] show ?thesis by simp
qed simp

end

section \<open>The contract of a reconciler\<close>

text \<open>
  \<open>controller-runtime\<close> runs a request again when its reconciler returned an error or asked
  for it in the result. Every reconciler of the program returns the zero result, so that the
  returned error alone decides.
\<close>

definition retried :: "ctrl_Result \<Rightarrow> 'e option \<Rightarrow> bool" where
  "retried res err \<longleftrightarrow> err \<noteq> None \<or> Requeue res \<or> 0 < RequeueAfter res"

locale reconciler =
  fixes reconcile :: "ctrl_Request \<Rightarrow> ('w, 'e reconciled) state"
  assumes zero_result: "run_state (reconcile req) w = (Returns (res, err), w') \<Longrightarrow> res = Result0"
begin

lemma retried_iff_error:
  assumes "run_state (reconcile req) w = (Returns (res, err), w')"
  shows "retried res err \<longleftrightarrow> err \<noteq> None"
  using zero_result [OF assms] by (simp add: retried_def Result0_def)

end

section \<open>Lemmas\<close>

lemma meta_key_new_meta [simp]:
  "meta_key (new_meta n ns) = \<lparr>key_Namespace = ns, key_Name = n\<rparr>"
  by (simp add: meta_key_def new_meta_def)

lemma store_create_or_patch_ok:
  "create_or_patch_ok key (\<lambda>w. w) (store_create_or_patch key)"
  unfolding create_or_patch_ok_def store_create_or_patch_def
  by (auto split: go.splits sum.splits)

lemma store_create_or_patch_writes: "create_or_patch_writes_ok key (\<lambda>w. w) (store_create_or_patch key)"
  unfolding create_or_patch_writes_ok_def store_create_or_patch_def
  by (auto split: go.splits sum.splits)

lemma store_create_or_patch_reliable: "reliable key (\<lambda>w. w) (store_create_or_patch key)"
  by (simp add: reliable_def store_create_or_patch_def)

lemma store_errlib_ok: "errlib_ok store_errlib"
  by (simp add: errlib_ok_def store_errlib_def)

lemma withinD: "within Q m \<Longrightarrow> run_state m w = (r, w') \<Longrightarrow> Q w w'"
  by (simp add: within_def)

text \<open>Effects that compose: a sequence of computations stays within a reflexive and transitive relation.\<close>

locale world_preorder =
  fixes Q :: "'w \<Rightarrow> 'w \<Rightarrow> bool"
  assumes effect_refl: "Q w w"
    and effect_trans: "Q w w1 \<Longrightarrow> Q w1 w2 \<Longrightarrow> Q w w2"
begin

lemma within_ret: "within Q (ret x)"
  by (simp add: within_def effect_refl)

lemma within_bind_results:
  assumes "within Q m" and "\<And>w x w'. run_state m w = (x, w') \<Longrightarrow> within Q (f x)"
  shows "within Q (State_Monad.bind m f)"
  unfolding within_def
  by (auto split: prod.splits intro: effect_trans dest: withinD [OF assms(1)] withinD [OF assms(2)])

lemma within_bind:
  assumes "within Q m" and "\<And>x. within Q (f x)"
  shows "within Q (State_Monad.bind m f)"
  unfolding within_def
  by (auto split: prod.splits intro: effect_trans dest: withinD [OF assms(1)] withinD [OF assms(2)])

end

interpretation keeping: world_preorder "\<lambda>w w'. view w' = view w" for view
  by unfold_locales simp_all

lemma keeps_viewD: "keeps_view view m \<Longrightarrow> run_state m w = (r, w') \<Longrightarrow> view w' = view w"
  unfolding keeps_view_def by (rule withinD)

lemma keeps_view_ret [simp]: "keeps_view view (ret x)"
  by (simp add: keeps_view_def keeping.within_ret)

lemma NewAggregate_joined:
  "errlib_ok L \<Longrightarrow> NewAggregate L [a, Some b] \<noteq> None"
  by (auto simp: errlib_ok_def)

text \<open>The deferred function reports an error exactly when the handler or the patch failed.\<close>

lemma deferred_result_error:
  assumes "errlib_ok L" and "deferred_result L (Returns (Result0, err)) patchErr = Returns (res, err')"
  shows "res = Result0 \<and> (err' = None \<longleftrightarrow> err = None \<and> patchErr = None)"
  using assms NewAggregate_joined [of L err] by (cases patchErr) (auto simp: deferred_result_def)

lemma deferred_result_no_error:
  assumes "errlib_ok L" and "deferred_result L outcome patchErr = Returns (res, None)"
  shows "patchErr = None \<and> outcome = Returns (res, None)"
proof (cases patchErr)
  case None
  with assms(2) show ?thesis by (simp add: deferred_result_def)
next
  case (Some e)
  with assms(2) obtain x where "NewAggregate L [x, Some e] = None"
    by (auto simp: deferred_result_def split: go.splits)
  with NewAggregate_joined [OF assms(1), of x e] show ?thesis by simp
qed

lemma deferred_result_returns:
  "\<exists>err'. deferred_result L (Returns (Result0, err)) patchErr = Returns (Result0, err')"
  by (simp add: deferred_result_def split: option.splits)

lemma IgnoreNotFound_cases:
  assumes "errlib_ok L"
  shows "IgnoreNotFound L (Some e) = (if IsNotFound L (Some e) then None else Some e)"
    and "IgnoreNotFound L None = None"
  using assms by (auto simp: errlib_ok_def)

end
