(* ===== verification/Dockyards_Api.thy ===== *)
theory Dockyards_Api
  imports Kube_Api
begin

text \<open>
  The API types and constants of \<open>dockyards-backend/api/v1alpha3\<close> that the program reads and
  writes, as the schemas under \<open>cue.mod/gen\<close> declare them. A pointer field is an option, an
  embedded \<open>ObjectMeta\<close> is the field \<open>*_meta\<close>; fields the program never touches are left out,
  but for the ones kept to state that they are preserved.
\<close>

section \<open>Constants\<close>

definition dockyards_Group :: string where
  "dockyards_Group = ''dockyards.io''"

definition dockyards_GroupVersion :: string where
  "dockyards_GroupVersion = ''dockyards.io/v1alpha3''"

definition LabelOrganizationName :: string where
  "LabelOrganizationName = ''dockyards.io/organization-name''"

definition LabelClusterName :: string where
  "LabelClusterName = ''dockyards.io/cluster-name''"

definition LabelWorkloadName :: string where
  "LabelWorkloadName = ''dockyards.io/workload-name''"

definition ClusterKind :: string where
  "ClusterKind = ''Cluster''"

definition WorkloadKind :: string where
  "WorkloadKind = ''Workload''"

definition WorkloadTemplateKind :: string where
  "WorkloadTemplateKind = ''WorkloadTemplate''"

definition WorktreeKind :: string where
  "WorktreeKind = ''Worktree''"

definition WorkloadTemplateTypeCue :: string where
  "WorkloadTemplateTypeCue = ''dockyards.io/cue''"

definition ReadyCondition :: string where
  "ReadyCondition = ''Ready''"

definition ReadyReason :: string where
  "ReadyReason = ''Ready''"

definition WorkloadTemplateReconciledCondition :: string where
  "WorkloadTemplateReconciledCondition = ''WorkloadTemplateReconciled''"

definition ReconcilingCondition :: string where
  "ReconcilingCondition = ''Reconciling''"

section \<open>Objects\<close>

datatype ConditionStatus = ConditionTrue | ConditionFalse | ConditionUnknown

record Condition =
  cond_Type :: string
  cond_Status :: ConditionStatus
  cond_Reason :: string
  cond_Message :: string

record Cluster =
  cl_meta :: ObjectMeta
  cl_Conditions :: "Condition list"

record TypedObjectReference =
  tor_APIGroup :: "string option"
  tor_Kind :: string
  tor_Name :: string
  tor_Namespace :: "string option"

text \<open>\<open>apiextensionsv1.JSON\<close> holds raw bytes.\<close>

type_synonym json_raw = string

record Workload =
  wl_meta :: ObjectMeta
  wl_ClusterComponent :: bool
  wl_TargetNamespace :: string
  wl_WorkloadTemplateInput :: "json_raw option"
  wl_Input :: "json_raw option"
  wl_WorkloadTemplateRef :: "TypedObjectReference option"
  wl_Provenience :: string
  wl_Conditions :: "Condition list"

record WorkloadTemplate =
  wlt_meta :: ObjectMeta
  wlt_Source :: string
  wlt_Type :: string

record WorkloadInventory =
  inv_meta :: ObjectMeta
  inv_Selector :: gomap
  inv_URLs :: "string list"

abbreviation wl_key :: "Workload \<Rightarrow> ObjectKey" where
  "wl_key w \<equiv> meta_key (wl_meta w)"

abbreviation inv_key :: "WorkloadInventory \<Rightarrow> ObjectKey" where
  "inv_key i \<equiv> meta_key (inv_meta i)"

text \<open>The condition of a type, as \<open>conditions.Get\<close> finds it.\<close>

definition find_condition :: "Condition list \<Rightarrow> string \<Rightarrow> Condition option" where
  "find_condition cs t = find (\<lambda>c. cond_Type c = t) cs"

lemmas label_defs = LabelOrganizationName_def LabelClusterName_def LabelWorkloadName_def

lemma labels_distinct [simp]:
  "LabelClusterName \<noteq> LabelWorkloadName" "LabelWorkloadName \<noteq> LabelClusterName"
  "LabelClusterName \<noteq> LabelOrganizationName" "LabelOrganizationName \<noteq> LabelClusterName"
  "LabelWorkloadName \<noteq> LabelOrganizationName" "LabelOrganizationName \<noteq> LabelWorkloadName"
  by (simp_all add: label_defs)

end
