(* ===== verification/Worktree_Controller.thy ===== *)
theory Worktree_Controller
  imports Dockyards_Api
begin

text \<open>
  \<open>controllers/dockyardsworktree_controller.go\<close>: a \<open>Worktree\<close> whose status names a URL and a
  reference or a commit is mirrored into a Flux \<open>GitRepository\<close> of the same name.
\<close>

section \<open>Data\<close>

record Worktree =
  wt_meta :: ObjectMeta
  wt_URL :: "string option"
  wt_ReferenceName :: "string option"
  wt_CommitHash :: "string option"

record GitRepositoryRef =
  ref_Branch :: string
  ref_Tag :: string
  ref_SemVer :: string
  ref_Name :: string
  ref_Commit :: string

definition GitRepositoryRef0 :: GitRepositoryRef where
  "GitRepositoryRef0 =
     \<lparr>ref_Branch = '''', ref_Tag = '''', ref_SemVer = '''', ref_Name = '''', ref_Commit = ''''\<rparr>"

record GitRepository =
  gr_meta :: ObjectMeta
  gr_URL :: string
  gr_SecretRef :: "string option"
  gr_Interval :: duration
  gr_Reference :: "GitRepositoryRef option"
  gr_Suspend :: bool

abbreviation gr_key :: "GitRepository \<Rightarrow> ObjectKey" where
  "gr_key g \<equiv> meta_key (gr_meta g)"

definition new_GitRepository :: "Worktree \<Rightarrow> GitRepository" where
  "new_GitRepository wt =
     \<lparr>gr_meta = new_meta (om_Name (wt_meta wt)) (om_Namespace (wt_meta wt)), gr_URL = '''',
      gr_SecretRef = None, gr_Interval = 0, gr_Reference = None, gr_Suspend = False\<rparr>"

text \<open>The reconciler: its client and the error helpers.\<close>

record ('w, 'e) DockyardsWorktreeReconciler =
  wtr_Get :: "('w, 'e, Worktree) getter"
  wtr_CreateOrPatch :: "('w, 'e, GitRepository) create_or_patch"
  wtr_errlib :: "'e errlib"

section \<open>Operations\<close>

definition worktree_owner :: "Worktree \<Rightarrow> OwnerReference" where
  "worktree_owner wt =
     \<lparr>or_APIVersion = dockyards_GroupVersion, or_Kind = WorktreeKind,
      or_Name = om_Name (wt_meta wt), or_UID = om_UID (wt_meta wt),
      or_Controller = None, or_BlockOwnerDeletion = Some True\<rparr>"

definition gitRepository_mutate :: "Worktree \<Rightarrow> ('e, GitRepository) mutate_fn" where
  [mutate_defs]: "gitRepository_mutate wt g =
     (case wt_URL wt of
        None \<Rightarrow> Panics ''nil pointer dereference''
      | Some url \<Rightarrow>
          let g1 = g\<lparr>gr_meta := (gr_meta g)\<lparr>om_OwnerReferences := [worktree_owner wt]\<rparr>\<rparr>;
              g2 = g1\<lparr>gr_URL := url, gr_Interval := time_Minute * 5\<rparr>;
              g3 = (case wt_ReferenceName wt of
                      None \<Rightarrow> g2
                    | Some n \<Rightarrow> g2\<lparr>gr_Reference := Some (GitRepositoryRef0\<lparr>ref_Name := n\<rparr>)\<rparr>);
              g4 = (case wt_CommitHash wt of
                      None \<Rightarrow> g3
                    | Some c \<Rightarrow> g3\<lparr>gr_Reference := Some (GitRepositoryRef0\<lparr>ref_Commit := c\<rparr>)\<rparr>)
          in Returns (Inr g4))"

definition Worktree_Reconcile ::
  "('w, 'e) DockyardsWorktreeReconciler \<Rightarrow> ctrl_Request \<Rightarrow> ('w, 'e reconciled) state" where
  [handler_defs]: "Worktree_Reconcile r req = do {
     got \<leftarrow> wtr_Get r (NamespacedName req);
     case got of
       Inl err \<Rightarrow> ret (Returns (Result0, IgnoreNotFound (wtr_errlib r) (Some err)))
     | Inr dockyardsWorktree \<Rightarrow>
         if wt_URL dockyardsWorktree = None then ret (Returns (Result0, None))
         else if wt_ReferenceName dockyardsWorktree = None \<and> wt_CommitHash dockyardsWorktree = None
         then ret (Returns (Result0, None))
         else do {
           res \<leftarrow> wtr_CreateOrPatch r (new_GitRepository dockyardsWorktree)
                    (gitRepository_mutate dockyardsWorktree);
           ret (case res of
                  Panics p \<Rightarrow> Panics p
                | Returns (Inl err) \<Rightarrow> Returns (Result0, Some err)
                | Returns (Inr operationResult) \<Rightarrow> Returns (Result0, None))
         }
   }"

section \<open>The desired state\<close>

text \<open>The reference Flux is told to check out: the commit if there is one, else the name.\<close>

definition worktree_reference :: "Worktree \<Rightarrow> GitRepositoryRef option" where
  "worktree_reference wt =
     (case wt_CommitHash wt of
        Some c \<Rightarrow> Some (GitRepositoryRef0\<lparr>ref_Commit := c\<rparr>)
      | None \<Rightarrow> map_option (\<lambda>n. GitRepositoryRef0\<lparr>ref_Name := n\<rparr>) (wt_ReferenceName wt))"

definition worktree_desired :: "Worktree \<Rightarrow> GitRepository \<Rightarrow> bool" where
  "worktree_desired wt g \<longleftrightarrow>
     om_OwnerReferences (gr_meta g) = [worktree_owner wt] \<and>
     wt_URL wt = Some (gr_URL g) \<and>
     gr_Interval g = 300000000000 \<and>
     (worktree_reference wt \<noteq> None \<longrightarrow> gr_Reference g = worktree_reference wt)"

section \<open>Lemmas\<close>

lemma five_minutes [simp]: "time_Minute * 5 = 300000000000"
  by (simp add: time_Minute_def)

lemma gitRepository_mutate_eq:
  assumes "wt_URL wt = Some url"
  shows "gitRepository_mutate wt g =
    Returns (Inr (g\<lparr>gr_meta := (gr_meta g)\<lparr>om_OwnerReferences := [worktree_owner wt]\<rparr>,
      gr_URL := url, gr_Interval := 300000000000,
      gr_Reference := (if worktree_reference wt = None then gr_Reference g
                       else worktree_reference wt)\<rparr>))"
  using assms
  by (simp add: mutate_defs worktree_reference_def Let_def split: option.splits)

lemma gitRepository_mutate_cases:
  assumes "gitRepository_mutate wt g = Returns (Inr y)"
  obtains url where "wt_URL wt = Some url"
    and "y = g\<lparr>gr_meta := (gr_meta g)\<lparr>om_OwnerReferences := [worktree_owner wt]\<rparr>,
      gr_URL := url, gr_Interval := 300000000000,
      gr_Reference := (if worktree_reference wt = None then gr_Reference g
                       else worktree_reference wt)\<rparr>"
proof (cases "wt_URL wt")
  case None
  with assms show ?thesis by (simp add: mutate_defs)
next
  case (Some url)
  with assms that show ?thesis by (simp add: gitRepository_mutate_eq)
qed

interpretation git: mutator "\<lambda>g. gr_key g" "gitRepository_mutate wt" "worktree_desired wt" for wt
proof unfold_locales
  fix x y :: GitRepository
  assume m: "gitRepository_mutate wt x = Returns (Inr y)"
  then show "gr_key y = gr_key x"
    by (elim gitRepository_mutate_cases) (simp add: meta_key_def)
  from m show "worktree_desired wt y"
    by (elim gitRepository_mutate_cases) (simp add: worktree_desired_def)
  show "y = x" if "worktree_desired wt x"
    using m that by (elim gitRepository_mutate_cases) (simp add: worktree_desired_def)
qed

interpretation wtr: reconciler "Worktree_Reconcile r" for r
  by unfold_locales
    (auto simp: handler_defs split: prod.splits sum.splits if_splits go.splits)

context world_preorder
begin

lemma Worktree_Reconcile_within:
  assumes get: "within Q (wtr_Get r (NamespacedName req))"
    and store: "\<And>w wt w'. run_state (wtr_Get r (NamespacedName req)) w = (Inr wt, w') \<Longrightarrow>
      wt_ReferenceName wt \<noteq> None \<or> wt_CommitHash wt \<noteq> None \<Longrightarrow>
      within Q (wtr_CreateOrPatch r (new_GitRepository wt) (gitRepository_mutate wt))"
  shows "within Q (Worktree_Reconcile r req)"
  unfolding Worktree_Reconcile_def
  by (rule within_bind_results [OF get])
    (auto intro!: within_bind within_ret store split: sum.splits)

end

section \<open>Properties\<close>

text \<open>An example worktree, for the witnesses.\<close>

definition example_worktree :: Worktree where
  "example_worktree =
     \<lparr>wt_meta = (new_meta ''wt'' ''ns'')\<lparr>om_UID := ''u1''\<rparr>, wt_URL = Some ''https://git'',
      wt_ReferenceName = Some ''refs/heads/main'', wt_CommitHash = Some ''abc''\<rparr>"

definition example_worktree_reconciler ::
  "(ObjectKey \<rightharpoonup> GitRepository, string) DockyardsWorktreeReconciler" where
  "example_worktree_reconciler =
     \<lparr>wtr_Get = (\<lambda>k. State (\<lambda>w. (Inr example_worktree, w))),
      wtr_CreateOrPatch = store_create_or_patch (\<lambda>g. gr_key g),
      wtr_errlib = store_errlib\<rparr>"

text \<open>
  C20. Worktree synchronisation. For a worktree with a URL and a reference or a commit, the
  reconciler never panics, returns the zero result with exactly the error of the API, and when
  it returns no error the \<open>GitRepository\<close> with the worktree's name is in the desired state
  (owned by the worktree, its URL, a five minute interval, the commit if there is one and else
  the reference name). No other \<open>GitRepository\<close> is touched.
\<close>

theorem worktree_reconcile_synced:
  assumes ok: "create_or_patch_ok (\<lambda>g. gr_key g) view (wtr_CreateOrPatch r)"
    and get: "run_state (wtr_Get r (NamespacedName req)) w = (Inr wt, w1)"
    and url: "wt_URL wt \<noteq> None"
    and ref: "wt_ReferenceName wt \<noteq> None \<or> wt_CommitHash wt \<noteq> None"
    and run: "run_state (Worktree_Reconcile r req) w = (res, w2)"
  shows "\<exists>err. res = Returns (Result0, err) \<and>
      (err = None \<longrightarrow>
        (\<exists>g. view w2 (meta_key (wt_meta wt)) = Some g \<and> worktree_desired wt g \<and>
             gr_Reference g = worktree_reference wt)) \<and>
      (\<forall>k. k \<noteq> meta_key (wt_meta wt) \<longrightarrow> view w2 k = view w1 k)"
proof -
  obtain c where c: "run_state (wtr_CreateOrPatch r (new_GitRepository wt) (gitRepository_mutate wt)) w1
      = (c, w2)"
    and res: "res = (case c of
        Panics p \<Rightarrow> Panics p
      | Returns (Inl err) \<Rightarrow> Returns (Result0, Some err)
      | Returns (Inr operationResult) \<Rightarrow> Returns (Result0, None))"
    using run get url ref by (auto simp: Worktree_Reconcile_def split: prod.splits if_splits)
  have key: "gr_key (new_GitRepository wt) = meta_key (wt_meta wt)"
    by (simp add: new_GitRepository_def meta_key_def new_meta_def)
  have frame: "\<forall>k. k \<noteq> meta_key (wt_meta wt) \<longrightarrow> view w2 k = view w1 k"
    using create_or_patch_frame [OF ok c] key by auto
  show ?thesis
  proof (cases c)
    case (Panics p)
    with create_or_patch_panics [OF ok] c url show ?thesis
      by (fastforce simp: gitRepository_mutate_eq)
  next
    case (Returns v)
    show ?thesis
    proof (cases v)
      case (Inl e)
      with Returns res frame show ?thesis by simp
    next
      case (Inr op)
      with Returns c have "run_state (wtr_CreateOrPatch r (new_GitRepository wt)
          (gitRepository_mutate wt)) w1 = (Returns (Inr op), w2)" by simp
      from git.cop_reaches_desired [OF ok this] key ref Returns Inr res frame
      show ?thesis
        by (auto simp: worktree_desired_def worktree_reference_def split: option.splits)
    qed
  qed
qed

theorem worktree_reconcile_synced_witness:
  "\<exists>g. snd (run_state (Worktree_Reconcile example_worktree_reconciler
        \<lparr>NamespacedName = \<lparr>key_Namespace = ''ns'', key_Name = ''wt''\<rparr>\<rparr>) Map.empty)
        \<lparr>key_Namespace = ''ns'', key_Name = ''wt''\<rparr> = Some g \<and>
     gr_URL g = ''https://git'' \<and> gr_Reference g = Some (GitRepositoryRef0\<lparr>ref_Commit := ''abc''\<rparr>)"
proof -
  let ?req = "\<lparr>NamespacedName = \<lparr>key_Namespace = ''ns'', key_Name = ''wt''\<rparr>\<rparr>"
  have hyps: "create_or_patch_ok (\<lambda>g. gr_key g) (\<lambda>w. w) (wtr_CreateOrPatch example_worktree_reconciler)"
    "run_state (wtr_Get example_worktree_reconciler (NamespacedName ?req)) Map.empty =
      (Inr example_worktree, Map.empty)"
    "wt_URL example_worktree \<noteq> None"
    "wt_ReferenceName example_worktree \<noteq> None \<or> wt_CommitHash example_worktree \<noteq> None"
    by (simp_all add: example_worktree_reconciler_def store_create_or_patch_ok example_worktree_def)
  obtain w2 where run: "run_state (Worktree_Reconcile example_worktree_reconciler ?req) Map.empty =
      (Returns (Result0, None), w2)"
    by (simp add: Worktree_Reconcile_def example_worktree_reconciler_def example_worktree_def
        store_create_or_patch_def gitRepository_mutate_def Let_def)
  have "meta_key (wt_meta example_worktree) = \<lparr>key_Namespace = ''ns'', key_Name = ''wt''\<rparr>"
    by (simp add: example_worktree_def meta_key_def new_meta_def)
  with worktree_reconcile_synced [OF hyps run] run show ?thesis
    by (auto simp: worktree_desired_def worktree_reference_def example_worktree_def)
qed

end
