(* ===== verification/Workload_Inventory.thy ===== *)
theory Workload_Inventory
  imports Dockyards_Api
begin

text \<open>
  What the four inventory reconcilers share: a Flux object that carries the cluster and the
  workload label is mirrored into a \<open>WorkloadInventory\<close> named after it with a fixed suffix.
  The locale \<open>inventory_reconciler\<close> is the contract; the Kustomization, HelmRelease,
  HelmRepository and OCIRepository reconcilers interpret it in their own theories.
\<close>

section \<open>Operations\<close>

definition has_inventory_labels :: "ObjectMeta \<Rightarrow> bool" where
  "has_inventory_labels m \<longleftrightarrow>
     gomap_lookup (om_Labels m) LabelClusterName \<noteq> None \<and>
     gomap_lookup (om_Labels m) LabelWorkloadName \<noteq> None"

definition new_inventory :: "ObjectMeta \<Rightarrow> string \<Rightarrow> WorkloadInventory" where
  "new_inventory m suffix =
     \<lparr>inv_meta = new_meta (om_Name m @ suffix) (om_Namespace m), inv_Selector = None,
      inv_URLs = []\<rparr>"

definition inventory_key :: "ObjectMeta \<Rightarrow> string \<Rightarrow> ObjectKey" where
  "inventory_key m suffix =
     \<lparr>key_Namespace = om_Namespace m, key_Name = om_Name m @ suffix\<rparr>"

text \<open>
  The body of the closures: owner references, the labels (the map is made first when it is
  nil), the selector.
\<close>

definition write_inventory ::
  "OwnerReference \<Rightarrow> (string \<times> string) list \<Rightarrow> gomap \<Rightarrow> ('e, WorkloadInventory) mutate_fn" where
  [mutate_defs]: "write_inventory owner labels selector wi =
     (case gomap_assigns (gomap_made (om_Labels (inv_meta wi))) labels of
        Panics p \<Rightarrow> Panics p
      | Returns m \<Rightarrow>
          Returns (Inr (wi\<lparr>inv_meta := (inv_meta wi)\<lparr>om_OwnerReferences := [owner], om_Labels := m\<rparr>,
                            inv_Selector := selector\<rparr>)))"

text \<open>The tail of the handlers: the error of \<open>CreateOrPatch\<close> is passed on by \<open>report\<close>.\<close>

definition inventory_outcome ::
  "('e \<Rightarrow> 'e option) \<Rightarrow> ('e + OperationResult) go \<Rightarrow> 'e reconciled" where
  "inventory_outcome report c =
     (case c of
        Panics p \<Rightarrow> Panics p
      | Returns (Inl err) \<Rightarrow> Returns (Result0, report err)
      | Returns (Inr operationResult) \<Rightarrow> Returns (Result0, None))"

section \<open>The desired state\<close>

definition inventory_desired ::
  "OwnerReference \<Rightarrow> string \<Rightarrow> string \<Rightarrow> gomap \<Rightarrow> WorkloadInventory \<Rightarrow> bool" where
  "inventory_desired owner workloadName clusterName selector wi \<longleftrightarrow>
     om_OwnerReferences (inv_meta wi) = [owner] \<and>
     gomap_lookup (om_Labels (inv_meta wi)) LabelWorkloadName = Some workloadName \<and>
     gomap_lookup (om_Labels (inv_meta wi)) LabelClusterName = Some clusterName \<and>
     inv_Selector wi = selector"

section \<open>Lemmas\<close>

lemma inv_key_new_inventory [simp]: "inv_key (new_inventory m suffix) = inventory_key m suffix"
  by (simp add: new_inventory_def inventory_key_def)

lemma inventory_key_inject:
  assumes "length s = length t"
  shows "inventory_key m s = inventory_key n t \<longleftrightarrow>
    om_Namespace m = om_Namespace n \<and> om_Name m = om_Name n \<and> s = t"
  using append_same_length_inject [OF assms] by (simp add: inventory_key_def)

lemma gomap_made_Some: "\<exists>f. gomap_made m = Some f \<and> (\<forall>k. f k = gomap_lookup m k)"
  by (cases m) (simp_all add: gomap_made_def)

text \<open>Both orders in which the closures assign the two labels.\<close>

lemma write_inventory_cases:
  assumes "labels = [(LabelWorkloadName, wn), (LabelClusterName, cn)] \<or>
      labels = [(LabelClusterName, cn), (LabelWorkloadName, wn)]"
  obtains f where "gomap_made (om_Labels (inv_meta wi)) = Some f"
    and "\<And>k. f k = gomap_lookup (om_Labels (inv_meta wi)) k"
    and "write_inventory owner labels selector wi =
      Returns (Inr (wi\<lparr>inv_meta := (inv_meta wi)\<lparr>om_OwnerReferences := [owner],
          om_Labels := Some (f(LabelWorkloadName \<mapsto> wn, LabelClusterName \<mapsto> cn))\<rparr>,
        inv_Selector := selector\<rparr>))"
proof -
  from gomap_made_Some [of "om_Labels (inv_meta wi)"] obtain f
    where f: "gomap_made (om_Labels (inv_meta wi)) = Some f"
      and fk: "\<And>k. f k = gomap_lookup (om_Labels (inv_meta wi)) k" by blast
  have "f(LabelClusterName \<mapsto> cn, LabelWorkloadName \<mapsto> wn) =
      f(LabelWorkloadName \<mapsto> wn, LabelClusterName \<mapsto> cn)"
    by (rule fun_upd_twist) simp
  with assms f have "write_inventory owner labels selector wi =
      Returns (Inr (wi\<lparr>inv_meta := (inv_meta wi)\<lparr>om_OwnerReferences := [owner],
          om_Labels := Some (f(LabelWorkloadName \<mapsto> wn, LabelClusterName \<mapsto> cn))\<rparr>,
        inv_Selector := selector\<rparr>))"
    by (auto simp: write_inventory_def)
  from that [OF f fk this] show ?thesis .
qed

lemma write_inventory_mutator:
  assumes labels: "labels = [(LabelWorkloadName, wn), (LabelClusterName, cn)] \<or>
      labels = [(LabelClusterName, cn), (LabelWorkloadName, wn)]"
  shows "total_mutator (\<lambda>i. inv_key i)
    (write_inventory owner labels selector :: ('e, WorkloadInventory) mutate_fn)
    (inventory_desired owner wn cn selector)"
proof unfold_locales
  fix x y :: WorkloadInventory
  assume m: "(write_inventory owner labels selector x :: ('e + WorkloadInventory) go) = Returns (Inr y)"
  from write_inventory_cases [OF labels] obtain f
    where f: "gomap_made (om_Labels (inv_meta x)) = Some f"
      and fk: "\<And>k. f k = gomap_lookup (om_Labels (inv_meta x)) k"
      and w: "(write_inventory owner labels selector x :: ('e + WorkloadInventory) go) =
        Returns (Inr (x\<lparr>inv_meta := (inv_meta x)\<lparr>om_OwnerReferences := [owner],
          om_Labels := Some (f(LabelWorkloadName \<mapsto> wn, LabelClusterName \<mapsto> cn))\<rparr>,
        inv_Selector := selector\<rparr>))" by blast
  from m w have y: "y = x\<lparr>inv_meta := (inv_meta x)\<lparr>om_OwnerReferences := [owner],
      om_Labels := Some (f(LabelWorkloadName \<mapsto> wn, LabelClusterName \<mapsto> cn))\<rparr>,
      inv_Selector := selector\<rparr>" by simp
  then show "inv_key y = inv_key x" by (simp add: meta_key_def)
  from y show "inventory_desired owner wn cn selector y" by (simp add: inventory_desired_def)
  show "y = x" if "inventory_desired owner wn cn selector x"
  proof -
    from that fk have "f LabelWorkloadName = Some wn" "f LabelClusterName = Some cn"
      by (simp_all add: inventory_desired_def)
    then have same: "f(LabelWorkloadName \<mapsto> wn, LabelClusterName \<mapsto> cn) = f"
      by (auto simp: fun_eq_iff)
    from that f have "om_Labels (inv_meta x) = Some f"
      by (cases "om_Labels (inv_meta x)") (auto simp: inventory_desired_def gomap_made_def)
    with y same that show ?thesis by (simp add: inventory_desired_def)
  qed
next
  fix x :: WorkloadInventory
  show "\<exists>y. (write_inventory owner labels selector x :: ('e + WorkloadInventory) go) = Returns (Inr y)"
    by (rule write_inventory_cases [OF labels, of x owner selector]) blast
qed

section \<open>The contract\<close>

locale inventory_reconciler =
  fixes meta :: "'s \<Rightarrow> ObjectMeta"
    and suffix :: string
    and goal :: "'s \<Rightarrow> WorkloadInventory \<Rightarrow> bool"
    and mutate :: "'s \<Rightarrow> ('e, WorkloadInventory) mutate_fn"
    and reconcile :: "('w, 'e, WorkloadInventory) create_or_patch \<Rightarrow> 's \<Rightarrow> ('w, 'e reconciled) state"
    and report :: "'e \<Rightarrow> 'e option"
  assumes goal_mutator: "mutator (\<lambda>i. inv_key i) (mutate s) (goal s)"
    and unlabelled: "\<not> has_inventory_labels (meta s) \<Longrightarrow>
      run_state (reconcile cop s) w = (Returns (Result0, None), w)"
    and labelled: "has_inventory_labels (meta s) \<Longrightarrow>
      run_state (reconcile cop s) w =
        (case run_state (cop (new_inventory (meta s) suffix) (mutate s)) w of
           (c, w') \<Rightarrow> (inventory_outcome report c, w'))"
begin

lemma other_inventories_kept:
  assumes "create_or_patch_ok (\<lambda>i. inv_key i) view cop"
    and "run_state (reconcile cop s) w = (r, w')"
    and "k \<noteq> inventory_key (meta s) suffix"
  shows "view w' k = view w k"
proof (cases "has_inventory_labels (meta s)")
  case True
  then obtain c where "run_state (cop (new_inventory (meta s) suffix) (mutate s)) w = (c, w')"
    using assms(2) by (auto simp: labelled split: prod.splits)
  from create_or_patch_frame [OF assms(1) this] assms(3) show ?thesis by simp
next
  case False
  with assms(2) show ?thesis by (simp add: unlabelled)
qed

lemma goal_kept:
  assumes ok: "create_or_patch_ok (\<lambda>i. inv_key i) view cop"
    and run: "run_state (reconcile cop s) w = (Returns (Result0, None), w')"
    and stored: "view w (inventory_key (meta s) suffix) = Some wi" "goal s wi"
    and op: "\<And>e. report e = Some e"
  shows "view w' = view w"
proof (cases "has_inventory_labels (meta s)")
  case True
  then obtain c where c: "run_state (cop (new_inventory (meta s) suffix) (mutate s)) w = (c, w')"
    and "inventory_outcome report c = Returns (Result0, None)"
    using run by (auto simp: labelled split: prod.splits)
  then obtain opr where "c = Returns (Inr opr)"
    using op by (auto simp: inventory_outcome_def split: go.splits sum.splits)
  with mutator.cop_settled [OF goal_mutator ok, of w "new_inventory (meta s) suffix"] c stored
  show ?thesis by simp
next
  case False
  with run show ?thesis by (simp add: unlabelled)
qed

text \<open>The handler does nothing, or makes one call of \<open>CreateOrPatch\<close> for its own inventory.\<close>

lemma handler_call:
  assumes "run_state (reconcile cop s) w = (r, w')"
  shows "w' = w \<or> (\<exists>c. run_state (cop (new_inventory (meta s) suffix) (mutate s)) w = (c, w'))"
  using assms
  by (cases "has_inventory_labels (meta s)") (auto simp: labelled unlabelled split: prod.splits)

text \<open>With an API server that answers, a handler whose mutate function succeeds settles its inventory.\<close>

lemma reliable_call:
  assumes rel: "reliable (\<lambda>i. inv_key i) view cop" and labels: "has_inventory_labels (meta s)"
    and total: "\<And>x. \<exists>y. mutate s x = Returns (Inr y)"
    and run: "run_state (reconcile cop s) w = (out, w')"
  obtains op where "run_state (cop (new_inventory (meta s) suffix) (mutate s)) w = (Returns (Inr op), w')"
    and "out = Returns (Result0, None)"
proof -
  obtain c w1 where c: "run_state (cop (new_inventory (meta s) suffix) (mutate s)) w = (c, w1)"
    by (metis prod.collapse)
  with rel total obtain op where op: "c = Returns (Inr op)"
    unfolding reliable_def by (metis fst_conv)
  from run c op labels have "w1 = w'" "out = Returns (Result0, None)"
    by (simp_all add: labelled inventory_outcome_def)
  with that c op show ?thesis by blast
qed

lemma reliable_written:
  assumes ok: "create_or_patch_ok (\<lambda>i. inv_key i) view cop" and rel: "reliable (\<lambda>i. inv_key i) view cop"
    and labels: "has_inventory_labels (meta s)" and total: "\<And>x. \<exists>y. mutate s x = Returns (Inr y)"
    and run: "run_state (reconcile cop s) w = (out, w')"
  shows "\<exists>wi. view w' (inventory_key (meta s) suffix) = Some wi \<and> goal s wi"
  using reliable_call [OF rel labels total run] mutator.cop_reaches_desired [OF goal_mutator ok]
  by (metis inv_key_new_inventory)

lemma reliable_settled:
  assumes ok: "create_or_patch_ok (\<lambda>i. inv_key i) view cop" and rel: "reliable (\<lambda>i. inv_key i) view cop"
    and labels: "has_inventory_labels (meta s)" and total: "\<And>x. \<exists>y. mutate s x = Returns (Inr y)"
    and stored: "view w (inventory_key (meta s) suffix) = Some wi" "goal s wi"
    and run: "run_state (reconcile cop s) w = (out, w')"
  shows "view w' = view w"
proof -
  from reliable_call [OF rel labels total run] obtain op where
    "run_state (cop (new_inventory (meta s) suffix) (mutate s)) w = (Returns (Inr op), w')" by blast
  from mutator.cop_settled [OF goal_mutator ok _ stored(2) this] stored(1) show ?thesis by simp
qed

lemma handler_panics:
  assumes "create_or_patch_ok (\<lambda>i. inv_key i) view cop"
    and "run_state (reconcile cop s) w = (Panics p, w')"
  shows "has_inventory_labels (meta s) \<and> (\<exists>x. mutate s x = Panics p)"
proof (cases "has_inventory_labels (meta s)")
  case True
  with assms(2) have "run_state (cop (new_inventory (meta s) suffix) (mutate s)) w = (Panics p, w')"
    by (auto simp: labelled inventory_outcome_def split: prod.splits go.splits sum.splits)
  from create_or_patch_panics [OF assms(1) this] True show ?thesis by blast
next
  case False
  with assms(2) show ?thesis by (simp add: unlabelled)
qed

lemma reconcile_zero_result:
  assumes "run_state (reconcile cop s) w = (Returns (res, err), w')"
  shows "res = Result0"
  using assms
  by (cases "has_inventory_labels (meta s)")
    (auto simp: labelled unlabelled inventory_outcome_def split: prod.splits go.splits sum.splits)

end

text \<open>A reconciler that reports the errors of \<open>CreateOrPatch\<close>: no error means it is written.\<close>

locale reporting_inventory_reconciler = inventory_reconciler +
  assumes reports: "report e = Some e"
begin

lemma written_call:
  assumes "has_inventory_labels (meta s)" and "run_state (reconcile cop s) w = (Returns (res, None), w')"
  shows "\<exists>op. run_state (cop (new_inventory (meta s) suffix) (mutate s)) w = (Returns (Inr op), w')"
  using assms
  by (auto simp: labelled inventory_outcome_def reports split: prod.splits go.splits sum.splits)

lemma inventory_written:
  assumes ok: "create_or_patch_ok (\<lambda>i. inv_key i) view cop"
    and labels: "has_inventory_labels (meta s)"
    and run: "run_state (reconcile cop s) w = (Returns (res, None), w')"
  shows "\<exists>wi. view w' (inventory_key (meta s) suffix) = Some wi \<and> goal s wi"
  using written_call [OF labels run] mutator.cop_reaches_desired [OF goal_mutator ok] by fastforce

end

end
