(* ===== verification/SourceRepository_Controller.thy ===== *)
theory SourceRepository_Controller
  imports Workload_Inventory
begin

text \<open>
  \<open>controllers/sourcerepository_controller.go\<close>: one reconciler for two kinds. A request names
  a \<open>HelmRepository\<close>, an \<open>OCIRepository\<close>, or both; each that exists is mirrored into its own
  \<open>WorkloadInventory\<close>.
\<close>

section \<open>Data\<close>

definition HelmRepositorySuffix :: string where
  "HelmRepositorySuffix = ''-j3w8d''"

definition OCIRepositorySuffix :: string where
  "OCIRepositorySuffix = ''-v5f7k''"

definition source_GroupVersion :: string where
  "source_GroupVersion = ''source.toolkit.fluxcd.io/v1''"

definition HelmRepositoryKind :: string where
  "HelmRepositoryKind = ''HelmRepository''"

definition OCIRepositoryKind :: string where
  "OCIRepositoryKind = ''OCIRepository''"

record HelmRepository =
  hrepo_meta :: ObjectMeta

record OCIRepository =
  ocirepo_meta :: ObjectMeta

record ('w, 'e) SourceRepositoryReconciler =
  srr_GetHelmRepository :: "('w, 'e, HelmRepository) getter"
  srr_GetOCIRepository :: "('w, 'e, OCIRepository) getter"
  srr_CreateOrPatch :: "('w, 'e, WorkloadInventory) create_or_patch"
  srr_errlib :: "'e errlib"

section \<open>Operations\<close>

definition helmRepository_owner :: "HelmRepository \<Rightarrow> OwnerReference" where
  "helmRepository_owner h =
     \<lparr>or_APIVersion = source_GroupVersion, or_Kind = HelmRepositoryKind,
      or_Name = om_Name (hrepo_meta h), or_UID = om_UID (hrepo_meta h),
      or_Controller = None, or_BlockOwnerDeletion = None\<rparr>"

definition ociRepository_owner :: "OCIRepository \<Rightarrow> OwnerReference" where
  "ociRepository_owner c =
     \<lparr>or_APIVersion = source_GroupVersion, or_Kind = OCIRepositoryKind,
      or_Name = om_Name (ocirepo_meta c), or_UID = om_UID (ocirepo_meta c),
      or_Controller = None, or_BlockOwnerDeletion = None\<rparr>"

definition source_selector :: "ObjectMeta \<Rightarrow> gomap" where
  "source_selector m = gomap_literal
     [(''source.toolkit.fluxcd.io/name'', om_Name m),
      (''source.toolkit.fluxcd.io/namespace'', om_Namespace m)]"

definition helmRepository_inventory_mutate ::
  "HelmRepository \<Rightarrow> string \<Rightarrow> string \<Rightarrow> ('e, WorkloadInventory) mutate_fn" where
  [mutate_defs]: "helmRepository_inventory_mutate helmRepository clusterName workloadName =
     write_inventory (helmRepository_owner helmRepository)
       [(LabelClusterName, clusterName), (LabelWorkloadName, workloadName)]
       (source_selector (hrepo_meta helmRepository))"

definition ociRepository_inventory_mutate ::
  "OCIRepository \<Rightarrow> string \<Rightarrow> string \<Rightarrow> ('e, WorkloadInventory) mutate_fn" where
  [mutate_defs]: "ociRepository_inventory_mutate ociRepository clusterName workloadName =
     write_inventory (ociRepository_owner ociRepository)
       [(LabelClusterName, clusterName), (LabelWorkloadName, workloadName)]
       (source_selector (ocirepo_meta ociRepository))"

definition reconcileHelmRepositoryWorkloadInventory ::
  "('w, 'e, WorkloadInventory) create_or_patch \<Rightarrow> HelmRepository \<Rightarrow> ('w, 'e reconciled) state" where
  [handler_defs]: "reconcileHelmRepositoryWorkloadInventory cop helmRepository =
     (case gomap_lookup (om_Labels (hrepo_meta helmRepository)) LabelClusterName of
        None \<Rightarrow> ret (Returns (Result0, None))
      | Some clusterName \<Rightarrow>
          (case gomap_lookup (om_Labels (hrepo_meta helmRepository)) LabelWorkloadName of
             None \<Rightarrow> ret (Returns (Result0, None))
           | Some workloadName \<Rightarrow> do {
               c \<leftarrow> cop (new_inventory (hrepo_meta helmRepository) HelmRepositorySuffix)
                     (helmRepository_inventory_mutate helmRepository clusterName workloadName);
               ret (inventory_outcome (\<lambda>err. Some err) c)
             }))"

definition reconcileOCIRepositoryWorkloadInventory ::
  "('w, 'e, WorkloadInventory) create_or_patch \<Rightarrow> OCIRepository \<Rightarrow> ('w, 'e reconciled) state" where
  [handler_defs]: "reconcileOCIRepositoryWorkloadInventory cop ociRepository =
     (case gomap_lookup (om_Labels (ocirepo_meta ociRepository)) LabelClusterName of
        None \<Rightarrow> ret (Returns (Result0, None))
      | Some clusterName \<Rightarrow>
          (case gomap_lookup (om_Labels (ocirepo_meta ociRepository)) LabelWorkloadName of
             None \<Rightarrow> ret (Returns (Result0, None))
           | Some workloadName \<Rightarrow> do {
               c \<leftarrow> cop (new_inventory (ocirepo_meta ociRepository) OCIRepositorySuffix)
                     (ociRepository_inventory_mutate ociRepository clusterName workloadName);
               ret (inventory_outcome (\<lambda>err. Some err) c)
             }))"

text \<open>The second half of the handler, from line 56: the OCI repository of the request.\<close>

definition SourceRepository_Reconcile_oci ::
  "('w, 'e) SourceRepositoryReconciler \<Rightarrow> ctrl_Request \<Rightarrow> ('w, 'e reconciled) state" where
  [handler_defs]: "SourceRepository_Reconcile_oci r req = do {
     got \<leftarrow> srr_GetOCIRepository r (NamespacedName req);
     case got of
       Inl ociRepositoryErr \<Rightarrow>
         if IgnoreNotFound (srr_errlib r) (Some ociRepositoryErr) \<noteq> None
         then ret (Returns (Result0, Some ociRepositoryErr))
         else ret (Returns (Result0, None))
     | Inr ociRepository \<Rightarrow>
         if IgnoreNotFound (srr_errlib r) None \<noteq> None then ret (Returns (Result0, None))
         else if not_deleted (ocirepo_meta ociRepository) then do {
           out \<leftarrow> reconcileOCIRepositoryWorkloadInventory (srr_CreateOrPatch r) ociRepository;
           ret (case out of
                  Panics p \<Rightarrow> Panics p
                | Returns (result, err) \<Rightarrow>
                    if err \<noteq> None then Returns (result, err) else Returns (Result0, None))
         }
         else ret (Returns (Result0, None))
   }"

definition SourceRepository_Reconcile ::
  "('w, 'e) SourceRepositoryReconciler \<Rightarrow> ctrl_Request \<Rightarrow> ('w, 'e reconciled) state" where
  [handler_defs]: "SourceRepository_Reconcile r req = do {
     got \<leftarrow> srr_GetHelmRepository r (NamespacedName req);
     case got of
       Inl helmRepositoryErr \<Rightarrow>
         if IgnoreNotFound (srr_errlib r) (Some helmRepositoryErr) \<noteq> None
         then ret (Returns (Result0, Some helmRepositoryErr))
         else SourceRepository_Reconcile_oci r req
     | Inr helmRepository \<Rightarrow>
         if IgnoreNotFound (srr_errlib r) None \<noteq> None then ret (Returns (Result0, None))
         else if not_deleted (hrepo_meta helmRepository) then do {
           out \<leftarrow> reconcileHelmRepositoryWorkloadInventory (srr_CreateOrPatch r) helmRepository;
           case out of
             Panics p \<Rightarrow> ret (Panics p)
           | Returns (result, err) \<Rightarrow>
               if err \<noteq> None then ret (Returns (result, err))
               else SourceRepository_Reconcile_oci r req
         }
         else SourceRepository_Reconcile_oci r req
   }"

definition objectToRequest :: "ObjectMeta \<Rightarrow> ctrl_Request list" where
  "objectToRequest obj =
     [\<lparr>NamespacedName = \<lparr>key_Namespace = om_Namespace obj, key_Name = om_Name obj\<rparr>\<rparr>]"

section \<open>The desired state\<close>

definition helmRepository_goal :: "HelmRepository \<Rightarrow> WorkloadInventory \<Rightarrow> bool" where
  "helmRepository_goal h =
     inventory_desired (helmRepository_owner h)
       (gomap_index (om_Labels (hrepo_meta h)) LabelWorkloadName)
       (gomap_index (om_Labels (hrepo_meta h)) LabelClusterName)
       (source_selector (hrepo_meta h))"

definition ociRepository_goal :: "OCIRepository \<Rightarrow> WorkloadInventory \<Rightarrow> bool" where
  "ociRepository_goal c =
     inventory_desired (ociRepository_owner c)
       (gomap_index (om_Labels (ocirepo_meta c)) LabelWorkloadName)
       (gomap_index (om_Labels (ocirepo_meta c)) LabelClusterName)
       (source_selector (ocirepo_meta c))"

section \<open>Lemmas\<close>

interpretation helmRepository_inv: reporting_inventory_reconciler
  hrepo_meta HelmRepositorySuffix helmRepository_goal
  "\<lambda>h. helmRepository_inventory_mutate h
     (gomap_index (om_Labels (hrepo_meta h)) LabelClusterName)
     (gomap_index (om_Labels (hrepo_meta h)) LabelWorkloadName)"
  reconcileHelmRepositoryWorkloadInventory "\<lambda>err. Some err"
proof (intro reporting_inventory_reconciler.intro inventory_reconciler.intro
    reporting_inventory_reconciler_axioms.intro)
  fix s :: HelmRepository
  show "mutator (\<lambda>i. inv_key i) (helmRepository_inventory_mutate s
      (gomap_index (om_Labels (hrepo_meta s)) LabelClusterName)
      (gomap_index (om_Labels (hrepo_meta s)) LabelWorkloadName)) (helmRepository_goal s)"
    unfolding helmRepository_inventory_mutate_def helmRepository_goal_def
    by (rule total_mutator.axioms(1) [OF write_inventory_mutator]) simp
qed (auto simp: reconcileHelmRepositoryWorkloadInventory_def has_inventory_labels_def gomap_index_def
    split: option.splits prod.splits)

interpretation ociRepository_inv: reporting_inventory_reconciler
  ocirepo_meta OCIRepositorySuffix ociRepository_goal
  "\<lambda>c. ociRepository_inventory_mutate c
     (gomap_index (om_Labels (ocirepo_meta c)) LabelClusterName)
     (gomap_index (om_Labels (ocirepo_meta c)) LabelWorkloadName)"
  reconcileOCIRepositoryWorkloadInventory "\<lambda>err. Some err"
proof (intro reporting_inventory_reconciler.intro inventory_reconciler.intro
    reporting_inventory_reconciler_axioms.intro)
  fix s :: OCIRepository
  show "mutator (\<lambda>i. inv_key i) (ociRepository_inventory_mutate s
      (gomap_index (om_Labels (ocirepo_meta s)) LabelClusterName)
      (gomap_index (om_Labels (ocirepo_meta s)) LabelWorkloadName)) (ociRepository_goal s)"
    unfolding ociRepository_inventory_mutate_def ociRepository_goal_def
    by (rule total_mutator.axioms(1) [OF write_inventory_mutator]) simp
qed (auto simp: reconcileOCIRepositoryWorkloadInventory_def has_inventory_labels_def gomap_index_def
    split: option.splits prod.splits)

interpretation srr_oci: reconciler "SourceRepository_Reconcile_oci r" for r
  by unfold_locales
    (auto simp: SourceRepository_Reconcile_oci_def dest: ociRepository_inv.reconcile_zero_result
      split: prod.splits sum.splits if_splits go.splits)

interpretation srr: reconciler "SourceRepository_Reconcile r" for r
  by unfold_locales
    (auto simp: SourceRepository_Reconcile_def
      dest: helmRepository_inv.reconcile_zero_result srr_oci.zero_result
      split: prod.splits sum.splits if_splits go.splits)

context world_preorder
begin

lemma SourceRepository_Reconcile_oci_within:
  assumes get: "within Q (srr_GetOCIRepository r (NamespacedName req))"
    and handler: "\<And>w c w'. run_state (srr_GetOCIRepository r (NamespacedName req)) w = (Inr c, w') \<Longrightarrow>
      within Q (reconcileOCIRepositoryWorkloadInventory (srr_CreateOrPatch r) c)"
  shows "within Q (SourceRepository_Reconcile_oci r req)"
  unfolding SourceRepository_Reconcile_oci_def
  by (rule within_bind_results [OF get])
    (auto intro!: within_bind within_ret handler split: sum.splits)

lemma SourceRepository_Reconcile_within:
  assumes get: "within Q (srr_GetHelmRepository r (NamespacedName req))"
    and handler: "\<And>w h w'. run_state (srr_GetHelmRepository r (NamespacedName req)) w = (Inr h, w') \<Longrightarrow>
      within Q (reconcileHelmRepositoryWorkloadInventory (srr_CreateOrPatch r) h)"
    and oci: "within Q (SourceRepository_Reconcile_oci r req)"
  shows "within Q (SourceRepository_Reconcile r req)"
  unfolding SourceRepository_Reconcile_def
  by (rule within_bind_results [OF get])
    (auto intro!: within_bind within_ret handler oci split: sum.splits go.splits)

end

section \<open>Properties\<close>

text \<open>Example repositories and reconciler, for the witnesses.\<close>

definition example_source_meta :: ObjectMeta where
  "example_source_meta =
     (new_meta ''app'' ''ns'')\<lparr>om_UID := ''uid-s'',
        om_Labels := gomap_literal [(LabelWorkloadName, ''w1''), (LabelClusterName, ''c1'')]\<rparr>"

definition example_source_reconciler ::
  "(ObjectKey \<rightharpoonup> WorkloadInventory, string) SourceRepositoryReconciler" where
  "example_source_reconciler =
     \<lparr>srr_GetHelmRepository = (\<lambda>key. ret (Inr \<lparr>hrepo_meta = example_source_meta\<rparr>)),
      srr_GetOCIRepository = (\<lambda>key. ret (Inr \<lparr>ocirepo_meta = example_source_meta\<rparr>)),
      srr_CreateOrPatch = store_create_or_patch (\<lambda>i. inv_key i),
      srr_errlib = store_errlib\<rparr>"

text \<open>The two halves of a reconcile that returns no error.\<close>

lemma source_oci_no_error:
  assumes L: "errlib_ok (srr_errlib r)"
    and oci: "\<And>w. fst (run_state (srr_GetOCIRepository r (NamespacedName req)) w) = got"
    and run: "run_state (SourceRepository_Reconcile_oci r req) w = (Returns (res, None), w')"
  obtains (missing) e where "got = Inl e" "IsNotFound (srr_errlib r) (Some e)"
      "snd (run_state (srr_GetOCIRepository r (NamespacedName req)) w) = w'"
  | (deleted) c where "got = Inr c" "\<not> not_deleted (ocirepo_meta c)"
      "snd (run_state (srr_GetOCIRepository r (NamespacedName req)) w) = w'"
  | (live) c w1 where "got = Inr c" "not_deleted (ocirepo_meta c)"
      "run_state (srr_GetOCIRepository r (NamespacedName req)) w = (got, w1)"
      "run_state (reconcileOCIRepositoryWorkloadInventory (srr_CreateOrPatch r) c) w1 =
        (Returns (Result0, None), w')"
proof -
  obtain w1 where w1: "run_state (srr_GetOCIRepository r (NamespacedName req)) w = (got, w1)"
    using oci [of w] by (metis prod.collapse)
  note run' = run [unfolded SourceRepository_Reconcile_oci_def run_state_bind w1 prod.case]
  show ?thesis
  proof (cases got)
    case (Inl e)
    with run' w1 L show ?thesis
      by (intro missing [of e]) (auto simp: errlib_ok_def split: if_splits)
  next
    case (Inr c)
    with L have n: "\<not> IgnoreNotFound (srr_errlib r) None \<noteq> None" by (simp add: errlib_ok_def)
    show ?thesis
    proof (cases "not_deleted (ocirepo_meta c)")
      case False
      with n Inr run' w1 show ?thesis by (intro deleted [of c]) auto
    next
      case True
      obtain out w2 where o: "run_state (reconcileOCIRepositoryWorkloadInventory (srr_CreateOrPatch r) c) w1
          = (out, w2)" by (metis prod.collapse)
      with n Inr True run' obtain res1 where "out = Returns (res1, None)" "w2 = w'"
        by (auto split: go.splits if_splits)
      with o Inr True w1 ociRepository_inv.reconcile_zero_result show ?thesis
        by (intro live [of c w1]) auto
    qed
  qed
qed

lemma source_helm_no_error:
  assumes L: "errlib_ok (srr_errlib r)"
    and helm: "\<And>w. fst (run_state (srr_GetHelmRepository r (NamespacedName req)) w) = got"
    and run: "run_state (SourceRepository_Reconcile r req) w = (Returns (res, None), w')"
  obtains (skipped) w1 where "run_state (srr_GetHelmRepository r (NamespacedName req)) w = (got, w1)"
      "(\<exists>e. got = Inl e \<and> IsNotFound (srr_errlib r) (Some e)) \<or>
        (\<exists>h. got = Inr h \<and> \<not> not_deleted (hrepo_meta h))"
      "run_state (SourceRepository_Reconcile_oci r req) w1 = (Returns (res, None), w')"
  | (live) h w1 w2 where "got = Inr h" "not_deleted (hrepo_meta h)"
      "run_state (srr_GetHelmRepository r (NamespacedName req)) w = (got, w1)"
      "run_state (reconcileHelmRepositoryWorkloadInventory (srr_CreateOrPatch r) h) w1 =
        (Returns (Result0, None), w2)"
      "run_state (SourceRepository_Reconcile_oci r req) w2 = (Returns (res, None), w')"
proof -
  obtain w1 where w1: "run_state (srr_GetHelmRepository r (NamespacedName req)) w = (got, w1)"
    using helm [of w] by (metis prod.collapse)
  note run' = run [unfolded SourceRepository_Reconcile_def run_state_bind w1 prod.case]
  show ?thesis
  proof (cases got)
    case (Inl e)
    with run' w1 L show ?thesis
      by (intro skipped [of w1]) (auto simp: errlib_ok_def split: if_splits)
  next
    case (Inr h)
    with L have n: "\<not> IgnoreNotFound (srr_errlib r) None \<noteq> None" by (simp add: errlib_ok_def)
    show ?thesis
    proof (cases "not_deleted (hrepo_meta h)")
      case False
      with n Inr run' w1 show ?thesis by (intro skipped [of w1]) auto
    next
      case True
      obtain out w2 where o: "run_state (reconcileHelmRepositoryWorkloadInventory (srr_CreateOrPatch r) h) w1
          = (out, w2)" by (metis prod.collapse)
      with n Inr True run' obtain res1 where "out = Returns (res1, None)"
        "run_state (SourceRepository_Reconcile_oci r req) w2 = (Returns (res, None), w')"
        by (auto split: go.splits if_splits)
      with o Inr True w1 helmRepository_inv.reconcile_zero_result show ?thesis
        by (intro live [of h w1 w2]) auto
    qed
  qed
qed

lemma source_keys_distinct:
  "inventory_key (hrepo_meta (h :: HelmRepository)) HelmRepositorySuffix \<noteq>
     inventory_key (ocirepo_meta (c :: OCIRepository)) OCIRepositorySuffix"
  by (simp add: inventory_key_inject HelmRepositorySuffix_def OCIRepositorySuffix_def)

text \<open>What the second half achieves, from any world.\<close>

lemma source_oci_effect:
  assumes ok: "create_or_patch_ok (\<lambda>i. inv_key i) view (srr_CreateOrPatch r)"
    and L: "errlib_ok (srr_errlib r)"
    and read: "keeps_view view (srr_GetOCIRepository r (NamespacedName req))"
    and oci: "\<And>w. fst (run_state (srr_GetOCIRepository r (NamespacedName req)) w) = gc"
    and run: "run_state (SourceRepository_Reconcile_oci r req) w = (Returns (res, None), w')"
  shows "\<forall>e. gc = Inl e \<longrightarrow> IsNotFound (srr_errlib r) (Some e)" (is ?found)
    and "\<forall>c. gc = Inr c \<and> not_deleted (ocirepo_meta c) \<and> has_inventory_labels (ocirepo_meta c) \<longrightarrow>
      (\<exists>wi. view w' (inventory_key (ocirepo_meta c) OCIRepositorySuffix) = Some wi \<and> ociRepository_goal c wi)"
      (is ?goal)
    and "\<forall>k. (\<forall>c. gc = Inr c \<longrightarrow> k \<noteq> inventory_key (ocirepo_meta c) OCIRepositorySuffix) \<longrightarrow>
      view w' k = view w k" (is ?frame)
proof -
  have "?found \<and> ?goal \<and> ?frame"
  proof (rule source_oci_no_error [OF L oci run])
    fix c w3
    assume live: "gc = Inr c" "not_deleted (ocirepo_meta c)"
      "run_state (srr_GetOCIRepository r (NamespacedName req)) w = (gc, w3)"
      "run_state (reconcileOCIRepositoryWorkloadInventory (srr_CreateOrPatch r) c) w3 =
        (Returns (Result0, None), w')"
    from keeps_viewD [OF read live(3)] ociRepository_inv.inventory_written [OF ok _ live(4)]
      ociRepository_inv.other_inventories_kept [OF ok live(4)] live(1)
    show ?thesis by auto
  qed (use keeps_viewD [OF read, of w] in \<open>(metis prod.collapse sum.distinct(1) sum.inject)+\<close>)
  then show ?found ?goal ?frame by blast+
qed

text \<open>
  C21. One request, two kinds. When the reconcile of a source repository returns no error, each of
  the helm repository and the OCI repository of that name either exists or was not found, and
  each that is live and labelled has its own inventory stored with the right owner, labels and
  selector; the two inventories have different names, so neither overwrites the other. No
  inventory but these two changes.
\<close>

theorem source_repositories_mirrored:
  assumes ok: "create_or_patch_ok (\<lambda>i. inv_key i) view (srr_CreateOrPatch r)"
    and L: "errlib_ok (srr_errlib r)"
    and reads: "keeps_view view (srr_GetHelmRepository r (NamespacedName req))"
      "keeps_view view (srr_GetOCIRepository r (NamespacedName req))"
    and helm: "\<And>w. fst (run_state (srr_GetHelmRepository r (NamespacedName req)) w) = gh"
    and oci: "\<And>w. fst (run_state (srr_GetOCIRepository r (NamespacedName req)) w) = gc"
    and run: "run_state (SourceRepository_Reconcile r req) w = (Returns (res, None), w')"
  shows "(\<forall>e. gh = Inl e \<longrightarrow> IsNotFound (srr_errlib r) (Some e)) \<and>
    (\<forall>e. gc = Inl e \<longrightarrow> IsNotFound (srr_errlib r) (Some e)) \<and>
    (\<forall>h. gh = Inr h \<and> not_deleted (hrepo_meta h) \<and> has_inventory_labels (hrepo_meta h) \<longrightarrow>
      (\<exists>wi. view w' (inventory_key (hrepo_meta h) HelmRepositorySuffix) = Some wi \<and> helmRepository_goal h wi)) \<and>
    (\<forall>c. gc = Inr c \<and> not_deleted (ocirepo_meta c) \<and> has_inventory_labels (ocirepo_meta c) \<longrightarrow>
      (\<exists>wi. view w' (inventory_key (ocirepo_meta c) OCIRepositorySuffix) = Some wi \<and> ociRepository_goal c wi)) \<and>
    (\<forall>k. (\<forall>h. gh = Inr h \<longrightarrow> k \<noteq> inventory_key (hrepo_meta h) HelmRepositorySuffix) \<and>
         (\<forall>c. gc = Inr c \<longrightarrow> k \<noteq> inventory_key (ocirepo_meta c) OCIRepositorySuffix) \<longrightarrow>
      view w' k = view w k)"
proof (rule source_helm_no_error [OF L helm run])
  fix w1
  assume skipped: "run_state (srr_GetHelmRepository r (NamespacedName req)) w = (gh, w1)"
    "(\<exists>e. gh = Inl e \<and> IsNotFound (srr_errlib r) (Some e)) \<or>
      (\<exists>h. gh = Inr h \<and> \<not> not_deleted (hrepo_meta h))"
    "run_state (SourceRepository_Reconcile_oci r req) w1 = (Returns (res, None), w')"
  with source_oci_effect [OF ok L reads(2) oci skipped(3)] keeps_viewD [OF reads(1) skipped(1)]
  show ?thesis by auto
next
  fix h w1 w2
  assume live: "gh = Inr h" "not_deleted (hrepo_meta h)"
    "run_state (srr_GetHelmRepository r (NamespacedName req)) w = (gh, w1)"
    "run_state (reconcileHelmRepositoryWorkloadInventory (srr_CreateOrPatch r) h) w1 =
      (Returns (Result0, None), w2)"
    "run_state (SourceRepository_Reconcile_oci r req) w2 = (Returns (res, None), w')"
  note second = source_oci_effect [OF ok L reads(2) oci live(5)]
  from second(3) source_keys_distinct have
    "view w' (inventory_key (hrepo_meta h) HelmRepositorySuffix) =
      view w2 (inventory_key (hrepo_meta h) HelmRepositorySuffix)" by metis
  with second keeps_viewD [OF reads(1) live(3)] live(1)
    helmRepository_inv.inventory_written [OF ok _ live(4)]
    helmRepository_inv.other_inventories_kept [OF ok live(4)]
  show ?thesis by auto
qed

theorem source_repositories_mirrored_witness:
  "\<exists>w' wi wi'. run_state (SourceRepository_Reconcile example_source_reconciler
        \<lparr>NamespacedName = \<lparr>key_Namespace = ''ns'', key_Name = ''app''\<rparr>\<rparr>) Map.empty = (Returns (Result0, None), w') \<and>
     w' \<lparr>key_Namespace = ''ns'', key_Name = ''app-j3w8d''\<rparr> = Some wi \<and>
     helmRepository_goal \<lparr>hrepo_meta = example_source_meta\<rparr> wi \<and>
     w' \<lparr>key_Namespace = ''ns'', key_Name = ''app-v5f7k''\<rparr> = Some wi' \<and>
     ociRepository_goal \<lparr>ocirepo_meta = example_source_meta\<rparr> wi'"
proof -
  let ?req = "\<lparr>NamespacedName = \<lparr>key_Namespace = ''ns'', key_Name = ''app''\<rparr>\<rparr>"
  have hyps: "create_or_patch_ok (\<lambda>i. inv_key i) (\<lambda>w. w) (srr_CreateOrPatch example_source_reconciler)"
    "errlib_ok (srr_errlib example_source_reconciler)"
    "keeps_view (\<lambda>w. w) (srr_GetHelmRepository example_source_reconciler (NamespacedName ?req))"
    "keeps_view (\<lambda>w. w) (srr_GetOCIRepository example_source_reconciler (NamespacedName ?req))"
    "fst (run_state (srr_GetHelmRepository example_source_reconciler (NamespacedName ?req)) w) =
      Inr \<lparr>hrepo_meta = example_source_meta\<rparr>"
    "fst (run_state (srr_GetOCIRepository example_source_reconciler (NamespacedName ?req)) w) =
      Inr \<lparr>ocirepo_meta = example_source_meta\<rparr>" for w
    by (simp_all add: example_source_reconciler_def store_create_or_patch_ok store_errlib_ok)
  have labels: "has_inventory_labels example_source_meta" "not_deleted example_source_meta"
    by (simp_all add: example_source_meta_def has_inventory_labels_def not_deleted_def new_meta_def)
  obtain w' where run: "run_state (SourceRepository_Reconcile example_source_reconciler ?req) Map.empty =
      (Returns (Result0, None), w')"
    by (simp add: SourceRepository_Reconcile_def SourceRepository_Reconcile_oci_def example_source_reconciler_def
        reconcileHelmRepositoryWorkloadInventory_def reconcileOCIRepositoryWorkloadInventory_def
        example_source_meta_def new_meta_def not_deleted_def store_errlib_def store_create_or_patch_def
        helmRepository_inventory_mutate_def ociRepository_inventory_mutate_def write_inventory_def
        current_object_def new_inventory_def gomap_made_def inventory_outcome_def
        HelmRepositorySuffix_def OCIRepositorySuffix_def meta_key_def)
  from source_repositories_mirrored [OF hyps run] labels run show ?thesis
    by (simp add: inventory_key_def HelmRepositorySuffix_def OCIRepositorySuffix_def
        example_source_meta_def new_meta_def)
qed

end
