(* ===== verification/Go_Std.thy ===== *)
theory Go_Std
  imports Prelude
begin

text \<open>
  What the program uses of the Go standard library, written out as executable functions:
  \<open>encoding/base64\<close> (\<open>StdEncoding.EncodeToString\<close>), \<open>net/url\<close> (\<open>URL.String\<close> of a URL with a
  scheme and a host only), \<open>path.Join\<close> and \<open>path/filepath.Base\<close>, \<open>strings.TrimSuffix\<close>,
  \<open>strings.Reader.Seek\<close> followed by one \<open>Scan\<close> of a \<open>bufio.Scanner\<close>. Strings are byte
  strings, as in Go: a \<open>char\<close> is one byte.
\<close>

section \<open>encoding/base64\<close>

definition b64_alphabet :: string where
  "b64_alphabet = ''ABCDEFGHIJKLMNOPQRSTUVWXYZabcdefghijklmnopqrstuvwxyz0123456789+/''"

definition b64_char :: "nat \<Rightarrow> char" where
  "b64_char n = b64_alphabet ! (n mod 64)"

fun b64_encode :: "8 word list \<Rightarrow> string" where
  "b64_encode [] = []"
| "b64_encode [a] =
     [b64_char (unat a div 4), b64_char ((unat a mod 4) * 16), CHR ''='', CHR ''='']"
| "b64_encode [a, b] =
     [b64_char (unat a div 4), b64_char ((unat a mod 4) * 16 + unat b div 16),
      b64_char ((unat b mod 16) * 4), CHR ''='']"
| "b64_encode (a # b # c # rest) =
     b64_char (unat a div 4) # b64_char ((unat a mod 4) * 16 + unat b div 16) #
     b64_char ((unat b mod 16) * 4 + unat c div 64) # b64_char (unat c mod 64) #
     b64_encode rest"

text \<open>The inverse, used to state that nothing is lost: the value of a digit is its index.\<close>

fun index_of :: "'a \<Rightarrow> 'a list \<Rightarrow> nat option" where
  "index_of x [] = None"
| "index_of x (y # ys) = (if x = y then Some 0 else map_option Suc (index_of x ys))"

definition b64_value :: "char \<Rightarrow> nat option" where
  "b64_value c = index_of c b64_alphabet"

fun b64_decode :: "string \<Rightarrow> 8 word list option" where
  "b64_decode [] = Some []"
| "b64_decode (p # q # r # s # rest) =
     (case (b64_value p, b64_value q) of
        (Some i, Some j) \<Rightarrow>
          (if r = CHR ''='' then
             (if s = CHR ''='' \<and> rest = [] then Some [word_of_nat (i * 4 + j div 16)] else None)
           else
             (case b64_value r of
                None \<Rightarrow> None
              | Some k \<Rightarrow>
                  (if s = CHR ''='' then
                     (if rest = []
                      then Some [word_of_nat (i * 4 + j div 16),
                                 word_of_nat ((j mod 16) * 16 + k div 4)]
                      else None)
                   else
                     (case (b64_value s, b64_decode rest) of
                        (Some l, Some bs) \<Rightarrow>
                          Some (word_of_nat (i * 4 + j div 16) #
                                word_of_nat ((j mod 16) * 16 + k div 4) #
                                word_of_nat ((k mod 4) * 64 + l) # bs)
                      | _ \<Rightarrow> None))))
      | _ \<Rightarrow> None)"
| "b64_decode _ = None"

section \<open>net/url\<close>

definition is_alnum :: "char \<Rightarrow> bool" where
  "is_alnum c \<longleftrightarrow>
     (97 \<le> (of_char c :: nat) \<and> (of_char c :: nat) \<le> 122) \<or>
     (65 \<le> (of_char c :: nat) \<and> (of_char c :: nat) \<le> 90) \<or>
     (48 \<le> (of_char c :: nat) \<and> (of_char c :: nat) \<le> 57)"

text \<open>\<open>shouldEscape(c, encodeHost)\<close>; the two characters by code are the two quotes.\<close>

definition shouldEscapeHost :: "char \<Rightarrow> bool" where
  "shouldEscapeHost c \<longleftrightarrow>
     \<not> is_alnum c \<and> c \<notin> set (''!$&()*+,;=:[]<>-_.~'' @ [CHR 0x27, CHR 0x22])"

definition upperhex :: "nat \<Rightarrow> char" where
  "upperhex n = ''0123456789ABCDEF'' ! (n mod 16)"

definition escape_byte :: "char \<Rightarrow> string" where
  "escape_byte c =
     (if shouldEscapeHost c
      then [CHR ''%'', upperhex (of_char c div 16), upperhex (of_char c mod 16)]
      else [c])"

definition escapeHost :: "string \<Rightarrow> string" where
  "escapeHost s = concat (map escape_byte s)"

record URL =
  url_Scheme :: string
  url_Host :: string

text \<open>\<open>(*URL).String\<close> for a URL whose other fields have their zero values.\<close>

definition URL_String :: "URL \<Rightarrow> string" where
  "URL_String u =
     (if url_Scheme u \<noteq> '''' then url_Scheme u @ '':'' else '''') @
     (if url_Host u \<noteq> '''' then ''//'' @ escapeHost (url_Host u) else '''')"

section \<open>path, path/filepath, strings\<close>

fun split_slash :: "string \<Rightarrow> string list" where
  "split_slash [] = [[]]"
| "split_slash (c # cs) =
     (if c = CHR ''/'' then [] # split_slash cs
      else (case split_slash cs of [] \<Rightarrow> [[c]] | x # xs \<Rightarrow> (c # x) # xs))"

fun join_slash :: "string list \<Rightarrow> string" where
  "join_slash [] = []"
| "join_slash [x] = x"
| "join_slash (x # xs) = x @ ''/'' @ join_slash xs"

text \<open>The stack (innermost element first) that \<open>path.Clean\<close> keeps in its output buffer.\<close>

fun clean_elems :: "bool \<Rightarrow> string list \<Rightarrow> string list \<Rightarrow> string list" where
  "clean_elems rooted out [] = rev out"
| "clean_elems rooted out (e # es) =
     (if e = '''' \<or> e = ''.'' then clean_elems rooted out es
      else if e = ''..'' then
        (case out of
           [] \<Rightarrow> (if rooted then clean_elems rooted [] es else clean_elems rooted [''..''] es)
         | o1 # out' \<Rightarrow>
             (if o1 = ''..'' then clean_elems rooted (''..'' # out) es
              else clean_elems rooted out' es))
      else clean_elems rooted (e # out) es)"

definition path_Clean :: "string \<Rightarrow> string" where
  "path_Clean p =
     (if p = '''' then ''.''
      else
        let rooted = (hd p = CHR ''/'');
            body = join_slash (clean_elems rooted [] (split_slash p))
        in if rooted then ''/'' @ body else if body = '''' then ''.'' else body)"

definition path_Join :: "string list \<Rightarrow> string" where
  "path_Join elems =
     (case filter (\<lambda>e. e \<noteq> '''') elems of
        [] \<Rightarrow> ''''
      | es \<Rightarrow> path_Clean (join_slash es))"

definition strip_trailing_slashes :: "string \<Rightarrow> string" where
  "strip_trailing_slashes p = rev (dropWhile (\<lambda>c. c = CHR ''/'') (rev p))"

definition filepath_Base :: "string \<Rightarrow> string" where
  "filepath_Base p =
     (if p = '''' then ''.''
      else
        let q = strip_trailing_slashes p;
            b = rev (takeWhile (\<lambda>c. c \<noteq> CHR ''/'') (rev q))
        in if b = '''' then ''/'' else b)"

definition strings_TrimSuffix :: "string \<Rightarrow> string \<Rightarrow> string" where
  "strings_TrimSuffix s suffix =
     (if length suffix \<le> length s \<and> drop (length s - length suffix) s = suffix
      then take (length s - length suffix) s else s)"

section \<open>strings.Reader and bufio.Scanner\<close>

text \<open>\<open>Seek(offset, io.SeekStart)\<close>: the rest of the source, or the error of a negative offset.\<close>

definition reader_Seek :: "string \<Rightarrow> int \<Rightarrow> string + string" where
  "reader_Seek s off =
     (if off < 0 then Inl ''strings.Reader.Seek: negative position''
      else Inr (drop (nat off) s))"

definition dropCR :: "string \<Rightarrow> string" where
  "dropCR s = (if s \<noteq> [] \<and> last s = CHR 0x0D then butlast s else s)"

definition MaxScanTokenSize :: nat where
  "MaxScanTokenSize = 64 * 1024"

text \<open>
  The text of a new scanner after one \<open>Scan\<close>: the first line without its end-of-line
  marker, or the empty string when no line end is found in a full buffer.
\<close>

definition scanner_first_line :: "string \<Rightarrow> string" where
  "scanner_first_line s =
     (if CHR 0x0A \<in> set (take MaxScanTokenSize s)
      then dropCR (takeWhile (\<lambda>c. c \<noteq> CHR 0x0A) s)
      else if length s < MaxScanTokenSize then dropCR s
      else '''')"

section \<open>Lemmas\<close>

lemma b64_digits: "list_all (\<lambda>n. b64_value (b64_char n) = Some n \<and> b64_char n \<noteq> CHR ''='') [0..<64]"
  by code_simp

lemma b64_value_char: "n < 64 \<Longrightarrow> b64_value (b64_char n) = Some n"
  and b64_char_not_pad: "n < 64 \<Longrightarrow> b64_char n \<noteq> CHR ''=''"
  using b64_digits by (auto simp: list_all_iff)

lemma digit_split:
  fixes x y m :: nat
  assumes "y < m"
  shows "(x * m + y) div m = x" and "(x * m + y) mod m = y"
  using assms by simp_all

lemma byte_div_bounds:
  fixes a :: "8 word"
  shows "unat a div 4 < 64" and "unat a div 16 < 16" and "unat a div 64 < 4"
proof -
  have "unat a < 256" using unsigned_less [of a] by simp
  then show "unat a div 4 < 64" and "unat a div 16 < 16" and "unat a div 64 < 4"
    by (simp_all add: less_mult_imp_div_less)
qed

lemma digit_bound: "x < k \<Longrightarrow> y < m \<Longrightarrow> x * m + y < k * m" for x y k m :: nat
proof -
  assume "x < k" "y < m"
  then have "x * m + y < Suc x * m" by simp
  also have "\<dots> \<le> k * m" using \<open>x < k\<close> by (intro mult_le_mono) auto
  finally show ?thesis .
qed

lemma sextets:
  fixes a b c :: "8 word"
  shows "unat a mod 4 * 16 < 64" and "unat b mod 16 * 4 < 64"
    and "unat a mod 4 * 16 + unat b div 16 < 64" and "unat b mod 16 * 4 + unat c div 64 < 64"
  using digit_bound [of "unat a mod 4" 4 "unat b div 16" 16]
    digit_bound [of "unat b mod 16" 16 "unat c div 64" 4] byte_div_bounds [of b]
    byte_div_bounds [of c]
  by simp_all

lemma b64_decode_encode: "b64_decode (b64_encode bs) = Some bs"
  by (induction bs rule: b64_encode.induct)
    (simp_all add: b64_value_char b64_char_not_pad sextets byte_div_bounds digit_split)

lemma upperhex_inj: "m < 16 \<Longrightarrow> n < 16 \<Longrightarrow> upperhex m = upperhex n \<Longrightarrow> m = n"
proof -
  have "distinct (map upperhex [0..<16])" by code_simp
  then show "m < 16 \<Longrightarrow> n < 16 \<Longrightarrow> upperhex m = upperhex n \<Longrightarrow> m = n"
    by (simp add: distinct_map inj_on_def)
qed

lemma percent_escaped: "shouldEscapeHost (CHR ''%'')"
  by code_simp

lemma escape_byte_inj:
  assumes "escape_byte c @ s = escape_byte d @ t"
  shows "c = d \<and> s = t"
proof (cases "shouldEscapeHost c \<and> shouldEscapeHost d")
  case True
  have bound: "of_char x div 16 < (16::nat)" for x :: char
    by (rule less_mult_imp_div_less) simp
  from True assms have "upperhex (of_char c div 16) = upperhex (of_char d div 16)"
    "upperhex (of_char c mod 16) = upperhex (of_char d mod 16)" and st: "s = t"
    by (simp_all add: escape_byte_def)
  then have "of_char c div 16 = (of_char d div 16 :: nat)"
    "of_char c mod 16 = (of_char d mod 16 :: nat)"
    by (auto intro!: upperhex_inj bound)
  then have "of_char c = (of_char d :: nat)" by (metis div_mod_decomp)
  with st show ?thesis by simp
next
  case False
  with assms percent_escaped show ?thesis
    by (auto simp: escape_byte_def split: if_splits)
qed

lemma escapeHost_inj: "escapeHost s = escapeHost t \<Longrightarrow> s = t"
proof (induction s arbitrary: t)
  case Nil
  then show ?case by (cases t) (auto simp: escapeHost_def escape_byte_def split: if_splits)
next
  case (Cons c s)
  then obtain d t' where t: "t = d # t'"
    by (cases t) (auto simp: escapeHost_def escape_byte_def split: if_splits)
  with Cons.prems have "escape_byte c @ escapeHost s = escape_byte d @ escapeHost t'"
    by (simp add: escapeHost_def)
  from escape_byte_inj [OF this] Cons.IH t show ?case by simp
qed
lemma URL_String_inj:
  assumes "URL_String \<lparr>url_Scheme = s, url_Host = h\<rparr> = URL_String \<lparr>url_Scheme = s, url_Host = h'\<rparr>"
  shows "h = h'"
  using assms by (auto simp: URL_String_def dest: escapeHost_inj split: if_splits)

lemma TrimSuffix_append [simp]: "strings_TrimSuffix (s @ t) t = s"
  by (simp add: strings_TrimSuffix_def)

lemma newline_not_in_first_line: "CHR 0x0A \<notin> set (scanner_first_line s)"
proof -
  have sub: "set (dropCR t) \<subseteq> set t" for t
    by (auto simp: dropCR_def dest: in_set_butlastD)
  have "CHR 0x0A \<notin> set (takeWhile (\<lambda>c. c \<noteq> CHR 0x0A) s)"
    by (auto dest: set_takeWhileD)
  moreover have "CHR 0x0A \<notin> set s"
    if "CHR 0x0A \<notin> set (take MaxScanTokenSize s)" and "length s < MaxScanTokenSize"
    using that by simp
  ultimately show ?thesis
    using sub [of s] sub [of "takeWhile (\<lambda>c. c \<noteq> CHR 0x0A) s"]
    by (auto simp: scanner_first_line_def)
qed

lemma dropCR_cases:
  obtains (cr) "s = dropCR s @ [CHR 0x0D]" | (no) "dropCR s = s" "s = [] \<or> last s \<noteq> CHR 0x0D"
  by (cases "s \<noteq> [] \<and> last s = CHR 0x0D") (simp_all add: dropCR_def, metis append_butlast_last_id)

text \<open>
  What one line of a text is: everything up to its end, which is a newline with or without a
  carriage return before it, or the end of the text, likewise. A line whose end does not
  lie within the scanner's buffer is empty.
\<close>

definition first_line_of :: "string \<Rightarrow> string \<Rightarrow> bool" where
  "first_line_of s line \<longleftrightarrow>
     (if CHR 0x0A \<in> set (take MaxScanTokenSize s) \<or> length s < MaxScanTokenSize
      then CHR 0x0A \<notin> set line \<and>
        (\<exists>eol rest. s = line @ eol @ rest \<and>
           (eol \<in> {[CHR 0x0A], [CHR 0x0D, CHR 0x0A]} \<or> eol \<in> {[], [CHR 0x0D]} \<and> rest = []) \<and>
           (eol \<in> {[CHR 0x0A], []} \<longrightarrow> line = [] \<or> last line \<noteq> CHR 0x0D))
      else line = [])"

text \<open>This determines the line, and it is what the scanner returns.\<close>

lemma dropCR_line:
  "dropCR (line @ [CHR 0x0D]) = line"
  "line = [] \<or> last line \<noteq> CHR 0x0D \<Longrightarrow> dropCR line = line"
  by (auto simp: dropCR_def)

lemma scanner_first_line_split:
  assumes "CHR 0x0A \<notin> set t" and "s = t @ CHR 0x0A # rest" and "CHR 0x0A \<in> set (take MaxScanTokenSize s)"
  shows "scanner_first_line s = dropCR t"
proof -
  have "takeWhile (\<lambda>c. c \<noteq> CHR 0x0A) s = t"
    using assms(1) unfolding assms(2) by (subst takeWhile_append2) auto
  with assms(3) show ?thesis by (simp add: scanner_first_line_def)
qed

lemma scanner_first_line_of: "first_line_of s (scanner_first_line s)"
proof (cases "CHR 0x0A \<in> set (take MaxScanTokenSize s)")
  case True
  then have "CHR 0x0A \<in> set s" by (rule in_set_takeD)
  from split_list_first [OF this] obtain t rest where t: "s = t @ CHR 0x0A # rest" "CHR 0x0A \<notin> set t" by blast
  from scanner_first_line_split [OF t(2,1) True] have line: "scanner_first_line s = dropCR t" .
  show ?thesis
  proof (cases t rule: dropCR_cases)
    case cr
    then have "s = dropCR t @ [CHR 0x0D, CHR 0x0A] @ rest" unfolding t(1) by (metis append.assoc append_Cons append_Nil)
    with True line newline_not_in_first_line [of s] show ?thesis
      by (simp only: first_line_of_def simp_thms if_True) (intro conjI exI [of _ "[CHR 0x0D, CHR 0x0A]"] exI [of _ rest], simp_all)
  next
    case no
    then have "s = dropCR t @ [CHR 0x0A] @ rest" using t(1) by simp
    with True line no newline_not_in_first_line [of s] show ?thesis
      by (simp only: first_line_of_def simp_thms if_True) (intro conjI exI [of _ "[CHR 0x0A]"] exI [of _ rest], simp_all)
  qed
next
  case no_newline: False
  show ?thesis
  proof (cases "length s < MaxScanTokenSize")
    case True
    with no_newline have line: "scanner_first_line s = dropCR s" by (simp add: scanner_first_line_def)
    have "\<exists>eol. s = dropCR s @ eol @ [] \<and> eol \<in> {[], [CHR 0x0D]} \<and>
        (eol \<in> {[CHR 0x0A], []} \<longrightarrow> dropCR s = [] \<or> last (dropCR s) \<noteq> CHR 0x0D)"
    proof (cases s rule: dropCR_cases)
      case cr
      then show ?thesis by (intro exI [of _ "[CHR 0x0D]"]) simp
    qed (intro exI [of _ "[]"], simp)
    then obtain eol where "s = dropCR s @ eol @ []" "eol \<in> {[], [CHR 0x0D]}"
      "eol \<in> {[CHR 0x0A], []} \<longrightarrow> dropCR s = [] \<or> last (dropCR s) \<noteq> CHR 0x0D" by blast
    with True line newline_not_in_first_line [of s] show ?thesis
      unfolding first_line_of_def by (simp only: simp_thms if_True) (intro conjI exI [of _ eol] exI [of _ "[]"], simp_all)
  qed (use no_newline in \<open>simp add: scanner_first_line_def first_line_of_def\<close>)
qed

lemma first_line_of_unique:
  assumes "first_line_of s line"
  shows "line = scanner_first_line s"
proof (cases "CHR 0x0A \<in> set (take MaxScanTokenSize s) \<or> length s < MaxScanTokenSize")
  case True
  with assms obtain eol rest where line: "CHR 0x0A \<notin> set line" and s: "s = line @ eol @ rest"
    and "eol \<in> {[CHR 0x0A], [CHR 0x0D, CHR 0x0A]} \<or> eol \<in> {[], [CHR 0x0D]} \<and> rest = []"
    and bare: "eol \<in> {[CHR 0x0A], []} \<longrightarrow> line = [] \<or> last line \<noteq> CHR 0x0D"
    unfolding first_line_of_def if_P [OF True] by (elim conjE exE)
  then consider "eol = [CHR 0x0A]" | "eol = [CHR 0x0D, CHR 0x0A]" | "eol = []" "rest = []" | "eol = [CHR 0x0D]" "rest = []"
    by blast
  moreover have inside: "CHR 0x0A \<in> set (take MaxScanTokenSize s)" if "CHR 0x0A \<in> set s"
    using True that by (metis less_imp_le_nat take_all)
  moreover have outside: "scanner_first_line s = dropCR s" if "CHR 0x0A \<notin> set s"
    using True that by (auto simp: scanner_first_line_def dest: in_set_takeD)
  ultimately show ?thesis
  proof cases
    case 1
    with scanner_first_line_split [of line s rest] line s inside bare dropCR_line(2) [of line] show ?thesis by simp
  next
    case 2
    with scanner_first_line_split [of "line @ [CHR 0x0D]" s rest] line s inside dropCR_line(1) [of line] show ?thesis by simp
  next
    case 3
    with outside line s bare dropCR_line(2) [of line] show ?thesis by simp
  next
    case 4
    with outside line s dropCR_line(1) [of line] show ?thesis by simp
  qed
qed (use assms in \<open>simp add: first_line_of_def scanner_first_line_def\<close>)

lemma filepath_Base_file:
  assumes "CHR ''/'' \<notin> set f" and "f \<noteq> []" and "dir = [] \<or> last dir = CHR ''/''"
  shows "filepath_Base (dir @ f) = f"
proof -
  obtain c g where rf: "rev f = c # g" using assms(2) by (cases "rev f") auto
  have all: "x \<noteq> CHR ''/''" if "x \<in> set (rev f)" for x using that assms(1) by auto
  with rf have "strip_trailing_slashes (dir @ f) = dir @ f"
    by (simp add: strip_trailing_slashes_def)
  moreover have "takeWhile (\<lambda>c. c \<noteq> CHR ''/'') (rev dir) = []"
    using assms(3) by (cases "rev dir") (auto simp: rev_swap)
  then have "takeWhile (\<lambda>c. c \<noteq> CHR ''/'') (rev f @ rev dir) = rev f"
    using takeWhile_append2 [of "rev f" "\<lambda>c. c \<noteq> CHR ''/''" "rev dir"] all by simp
  ultimately show ?thesis
    using assms(2) by (simp add: filepath_Base_def Let_def)
qed

end
