(* ===== verification/Json_Values.thy ===== *)
theory Json_Values
  imports Go_Std "HOL-Library.Multiset"
begin

text \<open>
  The values that decoding a CUE value into \<open>map[string]any\<close> produces, and
  \<open>ensureValidJSON\<close> of \<open>controllers/dockyardsworkload_controller.go\<close>, which rewrites byte
  strings to base64 text before the map goes into an unstructured object.

  A Go map is the list of its entries; Go iterates over it in an unspecified order, so the
  lemma \<open>ensureValidJSON_perm\<close> shows that the order does not matter.
\<close>

section \<open>Data\<close>

text \<open>
  A \<open>float64\<close> is its bit pattern. Integers come in two forms: \<open>int64\<close>, and any other integer type
  of Go, which is \<open>*big.Int\<close> for the integers beyond 64 bits.
\<close>

datatype gval =
    GNil
  | GBool bool
  | GInt "64 word"
  | GBigInt int
  | GFloat "64 word"
  | GString string
  | GBytes "8 word list"
  | GList "gval list"
  | GMap "(string \<times> gval) list"

type_synonym gentries = "(string \<times> gval) list"

section \<open>Operations\<close>

fun ensureValidJSON :: "gentries \<Rightarrow> gentries" where
  "ensureValidJSON [] = []"
| "ensureValidJSON ((k, GMap t) # x) = (k, GMap (ensureValidJSON t)) # ensureValidJSON x"
| "ensureValidJSON ((k, GBytes t) # x) = (k, GString (b64_encode t)) # ensureValidJSON x"
| "ensureValidJSON ((k, v) # x) = (k, v) # ensureValidJSON x"

section \<open>Specification\<close>

text \<open>What \<open>encoding/json\<close> has a counterpart for: everything but byte strings.\<close>

fun valid_json :: "gval \<Rightarrow> bool" where
  "valid_json (GBytes _) = False"
| "valid_json (GList vs) = (\<forall>v \<in> set vs. valid_json v)"
| "valid_json (GMap es) = (\<forall>e \<in> set es. valid_json (snd e))"
| "valid_json _ = True"

text \<open>No byte string at the end of a path of map keys.\<close>

fun bytes_free :: "gval \<Rightarrow> bool" where
  "bytes_free (GBytes _) = False"
| "bytes_free (GMap es) = (\<forall>e \<in> set es. bytes_free (snd e))"
| "bytes_free _ = True"

text \<open>Every list in the value, at the end of a path of map keys, is valid JSON.\<close>

fun lists_valid :: "gval \<Rightarrow> bool" where
  "lists_valid (GList vs) = (\<forall>v \<in> set vs. valid_json v)"
| "lists_valid (GMap es) = (\<forall>e \<in> set es. lists_valid (snd e))"
| "lists_valid _ = True"

text \<open>The value at the end of a path of map keys.\<close>

fun lookup_keys :: "gval \<Rightarrow> string list \<Rightarrow> gval option" where
  "lookup_keys v [] = Some v"
| "lookup_keys (GMap es) (k # ks) =
     (case map_of es k of None \<Rightarrow> None | Some v \<Rightarrow> lookup_keys v ks)"
| "lookup_keys _ (k # ks) = None"

definition ensure_value :: "gval \<Rightarrow> gval" where
  "ensure_value v =
     (case v of
        GMap t \<Rightarrow> GMap (ensureValidJSON t)
      | GBytes t \<Rightarrow> GString (b64_encode t)
      | _ \<Rightarrow> v)"

text \<open>
  What the deep copy of an unstructured object (\<open>runtime.DeepCopyJSONValue\<close>) knows: no byte strings,
  and no integers but \<open>int64\<close>. On everything else it panics.
\<close>

fun deep_copyable :: "gval \<Rightarrow> bool" where
  "deep_copyable (GBytes _) = False"
| "deep_copyable (GBigInt _) = False"
| "deep_copyable (GList vs) = (\<forall>v \<in> set vs. deep_copyable v)"
| "deep_copyable (GMap es) = (\<forall>e \<in> set es. deep_copyable (snd e))"
| "deep_copyable _ = True"

text \<open>No integer but \<open>int64\<close>, anywhere in the value.\<close>

fun int64_only :: "gval \<Rightarrow> bool" where
  "int64_only (GBigInt _) = False"
| "int64_only (GList vs) = (\<forall>v \<in> set vs. int64_only v)"
| "int64_only (GMap es) = (\<forall>e \<in> set es. int64_only (snd e))"
| "int64_only _ = True"

section \<open>Lemmas\<close>

lemma ensureValidJSON_map: "ensureValidJSON es = map (\<lambda>(k, v). (k, ensure_value v)) es"
  by (induction es rule: ensureValidJSON.induct) (simp_all add: ensure_value_def)

lemma ensureValidJSON_perm:
  "mset es = mset es' \<Longrightarrow> mset (ensureValidJSON es) = mset (ensureValidJSON es')"
  by (simp add: ensureValidJSON_map mset_map)

lemma map_of_ensureValidJSON: "map_of (ensureValidJSON es) k = map_option ensure_value (map_of es k)"
  by (induction es) (auto simp: ensureValidJSON_map)

lemma keys_ensureValidJSON: "map fst (ensureValidJSON es) = map fst es"
  by (induction es) (auto simp: ensureValidJSON_map)

lemma lookup_keys_ensure_value:
  "lookup_keys (ensure_value v) ks = map_option ensure_value (lookup_keys v ks)"
  by (induction v ks rule: lookup_keys.induct)
    (simp_all add: ensure_value_def map_of_ensureValidJSON split: option.splits)

lemma bytes_free_ensure: "\<forall>e \<in> set (ensureValidJSON es). bytes_free (snd e)"
  by (induction es rule: ensureValidJSON.induct) simp_all

lemma ensureValidJSON_id: "\<forall>e \<in> set es. bytes_free (snd e) \<Longrightarrow> ensureValidJSON es = es"
  by (induction es rule: ensureValidJSON.induct) simp_all

lemma valid_json_ensure:
  "(\<forall>e \<in> set (ensureValidJSON es). valid_json (snd e)) \<longleftrightarrow> (\<forall>e \<in> set es. lists_valid (snd e))"
  by (induction es rule: ensureValidJSON.induct) simp_all

lemma deep_copyable_iff: "deep_copyable v \<longleftrightarrow> valid_json v \<and> int64_only v"
  by (induction v rule: deep_copyable.induct) auto

lemma int64_only_ensure:
  "(\<forall>e \<in> set (ensureValidJSON es). int64_only (snd e)) \<longleftrightarrow> (\<forall>e \<in> set es. int64_only (snd e))"
  by (induction es rule: ensureValidJSON.induct) simp_all

lemma deep_copyable_ensure:
  "deep_copyable (GMap (ensureValidJSON es)) \<longleftrightarrow> lists_valid (GMap es) \<and> int64_only (GMap es)"
  unfolding deep_copyable_iff using valid_json_ensure [of es] int64_only_ensure [of es] by simp

section \<open>Properties\<close>

text \<open>
  C28. The byte strings that \<open>ensureValidJSON\<close> reaches (through maps) become text that decodes
  to the same bytes; every other value at such a path is kept, but for the maps it recurses
  into, whose keys are kept.
\<close>

theorem ensureValidJSON_roundtrip:
  "lookup_keys (GMap (ensureValidJSON es)) ks =
     map_option ensure_value (lookup_keys (GMap es) ks) \<and>
   (lookup_keys (GMap es) ks = Some (GBytes b) \<longrightarrow>
     (\<exists>s. lookup_keys (GMap (ensureValidJSON es)) ks = Some (GString s) \<and> b64_decode s = Some b)) \<and>
   map fst (ensureValidJSON es) = map fst es"
proof -
  have "lookup_keys (GMap (ensureValidJSON es)) ks =
      map_option ensure_value (lookup_keys (GMap es) ks)"
    using lookup_keys_ensure_value [of "GMap es" ks] by (simp add: ensure_value_def)
  then show ?thesis
    by (auto simp: ensure_value_def b64_decode_encode keys_ensureValidJSON)
qed

theorem ensureValidJSON_roundtrip_witness:
  "lookup_keys (GMap (ensureValidJSON [(''a'', GMap [(''b'', GBytes [77, 97, 110])])])) [''a'', ''b'']
     = Some (GString ''TWFu'') \<and> b64_decode ''TWFu'' = Some [77, 97, 110]"
proof -
  have "lookup_keys (GMap [(''a'', GMap [(''b'', GBytes [77, 97, 110])])]) [''a'', ''b'']
      = Some (GBytes [77, 97, 110])" by simp
  with ensureValidJSON_roundtrip [of "[(''a'', GMap [(''b'', GBytes [77, 97, 110])])]" "[''a'', ''b'']"]
  have "\<exists>s. lookup_keys (GMap (ensureValidJSON [(''a'', GMap [(''b'', GBytes [77, 97, 110])])]))
      [''a'', ''b''] = Some (GString s) \<and> b64_decode s = Some [77, 97, 110]" by blast
  moreover have "lookup_keys (GMap (ensureValidJSON [(''a'', GMap [(''b'', GBytes [77, 97, 110])])]))
      [''a'', ''b''] = Some (GString (b64_encode [77, 97, 110]))"
    by (simp del: b64_encode.simps)
  moreover have "b64_encode [77, 97, 110] = ''TWFu''" by code_simp
  ultimately show ?thesis by (simp del: b64_encode.simps b64_decode.simps)
qed

text \<open>
  C29. The result of \<open>ensureValidJSON\<close> is valid JSON exactly when no list of the input holds a
  byte string; it never leaves a byte string at a path of map keys, and running it again
  changes nothing. A byte string inside a list is left in place. The deep copy that puts the
  result into the object accepts it exactly when, besides, the input has no integer beyond
  \<open>int64\<close>, at any place: these are left in place, too.
\<close>

theorem ensureValidJSON_valid:
  "(valid_json (GMap (ensureValidJSON es)) \<longleftrightarrow> lists_valid (GMap es)) \<and>
   bytes_free (GMap (ensureValidJSON es)) \<and>
   ensureValidJSON (ensureValidJSON es) = ensureValidJSON es \<and>
   \<not> valid_json (GMap (ensureValidJSON [(''k'', GList [GBytes b])])) \<and>
   (deep_copyable (GMap (ensureValidJSON es)) \<longleftrightarrow> lists_valid (GMap es) \<and> int64_only (GMap es)) \<and>
   \<not> deep_copyable (GMap (ensureValidJSON [(''k'', GBigInt i)]))"
  using bytes_free_ensure [of es] valid_json_ensure [of es] deep_copyable_ensure [of es]
  by (simp add: ensureValidJSON_id)

end
