(* ===== verification/Cue_Lang.thy ===== *)
theory Cue_Lang
  imports Dockyards_Api Json_Values
begin

text \<open>
  The parameters that stand for the CUE libraries (\<open>cuelang.org/go/cue\<close>, \<open>cue/load\<close>,
  \<open>cue/errors\<close>, \<open>encoding/json\<close>) and for the unstructured objects a template decodes to.
  \<open>'i\<close> is a build instance, \<open>'v\<close> a CUE value, \<open>'p\<close> a path, \<open>'e\<close> the type of all Go errors.
\<close>

section \<open>Unstructured objects\<close>

text \<open>
  \<open>unstructured.Unstructured\<close>: type, metadata, and every other top-level field (\<open>spec\<close>,
  \<open>data\<close>, \<open>status\<close>, \<dots>).
\<close>

record Unstructured =
  u_APIVersion :: string
  u_Kind :: string
  u_meta :: ObjectMeta
  u_Fields :: "string \<rightharpoonup> gval"

record UnstructuredKey =
  uk_APIVersion :: string
  uk_Kind :: string
  uk_Key :: ObjectKey

definition u_key :: "Unstructured \<Rightarrow> UnstructuredKey" where
  "u_key u = \<lparr>uk_APIVersion = u_APIVersion u, uk_Kind = u_Kind u, uk_Key = meta_key (u_meta u)\<rparr>"

text \<open>\<open>unstructured.SetNestedMap(obj, value, field)\<close>\<close>

type_synonym 'e set_nested_map =
  "(string \<rightharpoonup> gval) \<Rightarrow> gentries \<Rightarrow> string \<Rightarrow> ('e + (string \<rightharpoonup> gval)) go"

text \<open>
  Its documentation: it sets the field to a deep copy of the value; it may fail, and the deep copy
  panics on values it does not know.
\<close>

definition set_nested_map_ok :: "'e set_nested_map \<Rightarrow> bool" where
  "set_nested_map_ok snm \<longleftrightarrow>
     (\<forall>obj m k obj'. snm obj m k = Returns (Inr obj') \<longrightarrow> obj' = obj(k \<mapsto> GMap m))"

definition set_nested_map_panics_ok :: "'e set_nested_map \<Rightarrow> bool" where
  "set_nested_map_panics_ok snm \<longleftrightarrow> (\<forall>obj m k p. snm obj m k = Panics p \<longrightarrow> \<not> deep_copyable (GMap m))"

section \<open>The CUE libraries\<close>

record ('i, 'v, 'p, 'e) cue =
  Instances :: "string \<Rightarrow> string \<Rightarrow> string \<Rightarrow> 'i list"
  Instance_Err :: "'i \<Rightarrow> 'e option"
  BuildInstance :: "'i \<Rightarrow> 'v"
  Value_Err :: "'v \<Rightarrow> 'e option"
  Def :: "string \<Rightarrow> 'p"
  ParsePath :: "string \<Rightarrow> 'p"
  LookupPath :: "'v \<Rightarrow> 'p \<Rightarrow> 'v"
  Exists :: "'v \<Rightarrow> bool"
  FillCluster :: "'v \<Rightarrow> 'p \<Rightarrow> Cluster \<Rightarrow> 'v"
  FillWorkload :: "'v \<Rightarrow> 'p \<Rightarrow> Workload \<Rightarrow> 'v"
  Validate :: "'v \<Rightarrow> 'e option"
  ValidateConcrete :: "'v \<Rightarrow> 'e option"
  Fields :: "'v \<Rightarrow> 'e + 'v list"
  DecodeUnstructured :: "'v \<Rightarrow> 'e + Unstructured"
  DecodeMap :: "'v \<Rightarrow> 'e + gentries"
  json_Validate :: "string \<Rightarrow> 'v \<Rightarrow> 'e option"
  Errors :: "'e \<Rightarrow> 'e list"
  Position_Offset :: "'e \<Rightarrow> int"
  Error_String :: "'e \<Rightarrow> string"

text \<open>
  What the program relies on: a definition selector is completed with \<open>#\<close> when it lacks one;
  a value that does not exist is an error; building an instance that failed to load gives an
  erroneous value; the individual errors of an error are at least one, the error itself.
\<close>

definition cue_ok :: "('i, 'v, 'p, 'e) cue \<Rightarrow> bool" where
  "cue_ok c \<longleftrightarrow>
     (\<forall>s. hd s \<noteq> CHR ''#'' \<longrightarrow> Def c s = Def c (CHR ''#'' # s)) \<and>
     (\<forall>v. \<not> Exists c v \<longrightarrow> Value_Err c v \<noteq> None) \<and>
     (\<forall>i. Instance_Err c i \<noteq> None \<longrightarrow> Value_Err c (BuildInstance c i) \<noteq> None) \<and>
     (\<forall>e. Errors c e \<noteq> [])"

text \<open>The overlay file that holds the source of a template: \<open>path.Join(wd, "template.cue")\<close>.\<close>

definition template_filename :: "string \<Rightarrow> string" where
  "template_filename wd = path_Join [wd, ''template.cue'']"

definition load_template :: "('i, 'v, 'p, 'e) cue \<Rightarrow> string \<Rightarrow> string \<Rightarrow> 'i list" where
  "load_template c wd source = Instances c ''template'' (template_filename wd) source"

text \<open>The template a workload refers to; the namespace defaults to the workload's own.\<close>

definition template_key :: "Workload \<Rightarrow> TypedObjectReference \<Rightarrow> ObjectKey" where
  "template_key workload ref =
     \<lparr>key_Namespace = (case tor_Namespace ref of None \<Rightarrow> om_Namespace (wl_meta workload) | Some ns \<Rightarrow> ns),
      key_Name = tor_Name ref\<rparr>"

text \<open>\<open>dockyardsv1.WorkloadTemplate{}\<close>\<close>

definition WorkloadTemplate0 :: WorkloadTemplate where
  "WorkloadTemplate0 = \<lparr>wlt_meta = new_meta '''' '''', wlt_Source = '''', wlt_Type = ''''\<rparr>"

text \<open>A \<open>client.Object\<close> or \<open>runtime.Object\<close>, as far as the type assertions of the program see.\<close>

datatype api_object =
    OWorkload Workload
  | OWorkloadTemplate WorkloadTemplate
  | OCluster Cluster
  | OOther ObjectMeta

section \<open>An instance\<close>

text \<open>
  A small CUE implementation that behaves as documented, on which the witnesses evaluate the
  program. An instance is its source. The value 0 is a template with the definitions
  \<open>#cluster\<close>, \<open>#workload\<close>, \<open>#Input\<close> and the one field 1, whose spec is 2; 5 is the same without
  \<open>#Input\<close>; 99 is the value that does not exist.
\<close>

definition example_object :: Unstructured where
  "example_object =
     \<lparr>u_APIVersion = ''kustomize.toolkit.fluxcd.io/v1'', u_Kind = ''Kustomization'',
      u_meta = new_meta ''app'' ''ns'', u_Fields = Map.empty\<rparr>"

definition example_spec :: gentries where
  "example_spec = [(''path'', GString ''./''), (''blob'', GBytes [77, 97, 110])]"

definition example_lookup :: "nat \<Rightarrow> string \<Rightarrow> nat" where
  "example_lookup v p =
     (if v \<in> {0, 5} \<and> p \<in> {''#cluster'', ''#workload''} then 3
      else if v = 0 \<and> p = ''#Input'' then 4
      else if v = 1 \<and> p = ''spec'' then 2
      else 99)"

definition example_cue :: "(string, nat, string, string) cue" where
  "example_cue =
     \<lparr>Instances = (\<lambda>pkg filename source. [source]),
      Instance_Err = (\<lambda>i. if i = ''broken'' then Some ''syntax error'' else None),
      BuildInstance = (\<lambda>i. if i = ''broken'' then 99 else if i = ''no input'' then 5 else 0),
      Value_Err = (\<lambda>v. if v = 99 then Some ''reference not found'' else None),
      Def = (\<lambda>s. if s \<noteq> [] \<and> hd s = CHR ''#'' then s else CHR ''#'' # s),
      ParsePath = (\<lambda>s. s),
      LookupPath = example_lookup,
      Exists = (\<lambda>v. v \<noteq> 99),
      FillCluster = (\<lambda>v p c. v),
      FillWorkload = (\<lambda>v p w. v),
      Validate = (\<lambda>v. None),
      ValidateConcrete = (\<lambda>v. None),
      Fields = (\<lambda>v. Inr [1]),
      DecodeUnstructured = (\<lambda>v. if v = 1 then Inr example_object else Inl ''cannot decode''),
      DecodeMap = (\<lambda>v. if v = 2 then Inr example_spec else Inl ''cannot decode''),
      json_Validate = (\<lambda>raw v. if raw = ''{}'' then None else Some ''field not allowed''),
      Errors = (\<lambda>e. [e]),
      Position_Offset = (\<lambda>e. 0),
      Error_String = (\<lambda>e. e)\<rparr>"

definition store_set_nested_map :: "string set_nested_map" where
  "store_set_nested_map obj m k = Returns (Inr (obj(k \<mapsto> GMap m)))"

lemma example_cue_ok: "cue_ok example_cue"
  by (simp add: cue_ok_def example_cue_def)

lemma store_set_nested_map_ok: "set_nested_map_ok store_set_nested_map"
  by (simp add: set_nested_map_ok_def store_set_nested_map_def)

end
