(* ===== verification/Condition_Consts.thy ===== *)
theory Condition_Consts
  imports Prelude
begin

text \<open>
  \<open>controllers/condition_consts.go\<close>: the condition types and reasons. The first three groups
  stem from older controllers; of them the program still uses \<open>WaitingForClusterReadyReason\<close>.
\<close>

section \<open>Data\<close>

definition KustomizationReadyCondition :: string where
  "KustomizationReadyCondition = ''KustomizationReady''"

definition WaitingForKustomizationConditionReason :: string where
  "WaitingForKustomizationConditionReason = ''WaitingForKustomizationCondition''"

definition WaitingForRepositoryURLReason :: string where
  "WaitingForRepositoryURLReason = ''WaitingForRepositoryURL''"

definition HelmReleaseReadyCondition :: string where
  "HelmReleaseReadyCondition = ''HelmReleaseReady''"

definition WaitingForClusterReadyReason :: string where
  "WaitingForClusterReadyReason = ''WaitingForClusterReady''"

definition WaitingForHelmReleaseConditionReason :: string where
  "WaitingForHelmReleaseConditionReason = ''WaitingForHelmReleaseCondition''"

definition DeploymentReferencesReadyCondition :: string where
  "DeploymentReferencesReadyCondition = ''DeploymentReferencesReady''"

definition WaitingForDeploymentReadyConditionReason :: string where
  "WaitingForDeploymentReadyConditionReason = ''WaitingForDeploymentReadyCondition''"

definition DeploymentReferenceNotReadyReason :: string where
  "DeploymentReferenceNotReadyReason = ''DeploymentReferenceNotReady''"

definition UnsupportedDeploymentReferenceKindReason :: string where
  "UnsupportedDeploymentReferenceKindReason = ''UnsupportedDeploymentReferenceKind''"

definition DeploymentMissingReason :: string where
  "DeploymentMissingReason = ''DeploymentMissing''"

definition WaitingForWorkloadTemplateReason :: string where
  "WaitingForWorkloadTemplateReason = ''WaitingForWorkloadTemplate''"

definition IncorrectWorkloadTemplateTypeReason :: string where
  "IncorrectWorkloadTemplateTypeReason = ''IncorrectWorkloadTemplateType''"

definition LoadInstanceFailedReason :: string where
  "LoadInstanceFailedReason = ''LoadInstanceFailed''"

definition BuildInstanceFailedReason :: string where
  "BuildInstanceFailedReason = ''BuildInstanceFailed''"

definition LookupPathFailedReason :: string where
  "LookupPathFailedReason = ''LookupPathFailed''"

definition FillPathFailedReason :: string where
  "FillPathFailedReason = ''FillPathFailed''"

definition ValidateFailedReason :: string where
  "ValidateFailedReason = ''ValidateFailed''"

definition FieldsFailedReason :: string where
  "FieldsFailedReason = ''FieldsFailed''"

definition DecodeFailedReason :: string where
  "DecodeFailedReason = ''DecodeFailed''"

definition ReconcileFailedReason :: string where
  "ReconcileFailedReason = ''ReconcileFailed''"

definition KustomizationReconcilingReason :: string where
  "KustomizationReconcilingReason = ''KustomizationReconciling''"

definition HelmReleaseReconcilingReason :: string where
  "HelmReleaseReconcilingReason = ''HelmReleaseReconciling''"

section \<open>Lemmas\<close>

text \<open>All reasons, in the order of the file.\<close>

definition all_reasons :: "string list" where
  "all_reasons =
     [WaitingForKustomizationConditionReason, WaitingForRepositoryURLReason,
      WaitingForClusterReadyReason, WaitingForHelmReleaseConditionReason,
      WaitingForDeploymentReadyConditionReason, DeploymentReferenceNotReadyReason,
      UnsupportedDeploymentReferenceKindReason, DeploymentMissingReason,
      WaitingForWorkloadTemplateReason, IncorrectWorkloadTemplateTypeReason,
      LoadInstanceFailedReason, BuildInstanceFailedReason, LookupPathFailedReason,
      FillPathFailedReason, ValidateFailedReason, FieldsFailedReason, DecodeFailedReason,
      ReconcileFailedReason, KustomizationReconcilingReason, HelmReleaseReconcilingReason]"

lemmas reason_defs =
  WaitingForKustomizationConditionReason_def WaitingForRepositoryURLReason_def
  WaitingForClusterReadyReason_def WaitingForHelmReleaseConditionReason_def
  WaitingForDeploymentReadyConditionReason_def DeploymentReferenceNotReadyReason_def
  UnsupportedDeploymentReferenceKindReason_def DeploymentMissingReason_def
  WaitingForWorkloadTemplateReason_def IncorrectWorkloadTemplateTypeReason_def
  LoadInstanceFailedReason_def BuildInstanceFailedReason_def
  LookupPathFailedReason_def FillPathFailedReason_def
  ValidateFailedReason_def FieldsFailedReason_def
  DecodeFailedReason_def ReconcileFailedReason_def
  KustomizationReconcilingReason_def HelmReleaseReconcilingReason_def

text \<open>
  A reason tells the causes apart: no two of them are the same string. None is the reason
  \<open>Ready\<close> of a reconciled workload.
\<close>

lemma reasons_distinct: "distinct all_reasons" "''Ready'' \<notin> set all_reasons"
  by (simp_all add: all_reasons_def reason_defs)

lemma condition_types_distinct:
  "distinct [KustomizationReadyCondition, HelmReleaseReadyCondition, DeploymentReferencesReadyCondition]"
  by (simp add: KustomizationReadyCondition_def HelmReleaseReadyCondition_def DeploymentReferencesReadyCondition_def)

end
