(* ===== verification/Kustomization_Controller.thy ===== *)
theory Kustomization_Controller
  imports Workload_Inventory
begin

text \<open>
  \<open>controllers/kustomization_controller.go\<close>: mirrors a labelled Flux \<open>Kustomization\<close> into a
  \<open>WorkloadInventory\<close>; while it is being deleted, turns pruning off when the kubeconfig secret
  it prunes with is gone. The patch helper writes the object back when the handler returns,
  whatever it returns.
\<close>

section \<open>Data\<close>

definition KustomizationSuffix :: string where
  "KustomizationSuffix = ''-4l8sj''"

definition kustomize_GroupVersion :: string where
  "kustomize_GroupVersion = ''kustomize.toolkit.fluxcd.io/v1''"

definition KustomizationKind :: string where
  "KustomizationKind = ''Kustomization''"

record SecretKeyReference =
  skr_Name :: string
  skr_Key :: string

record KubeConfigReference =
  kc_SecretRef :: SecretKeyReference

record Kustomization =
  k_meta :: ObjectMeta
  k_Interval :: duration
  k_KubeConfig :: "KubeConfigReference option"
  k_Path :: string
  k_Prune :: bool
  k_Conditions :: "Condition list"

record Secret =
  sec_meta :: ObjectMeta

text \<open>The reconciler: its client, the patch helper (\<open>'h\<close>) and the error helpers.\<close>

record ('w, 'e, 'h) KustomizationReconciler =
  kr_Get :: "('w, 'e, Kustomization) getter"
  kr_GetSecret :: "('w, 'e, Secret) getter"
  kr_NewHelper :: "Kustomization \<Rightarrow> 'e + 'h"
  kr_Patch :: "'h \<Rightarrow> Kustomization \<Rightarrow> ('w, 'e option) state"
  kr_CreateOrPatch :: "('w, 'e, WorkloadInventory) create_or_patch"
  kr_errlib :: "'e errlib"

section \<open>Operations\<close>

definition kustomization_owner :: "Kustomization \<Rightarrow> OwnerReference" where
  "kustomization_owner k =
     \<lparr>or_APIVersion = kustomize_GroupVersion, or_Kind = KustomizationKind,
      or_Name = om_Name (k_meta k), or_UID = om_UID (k_meta k),
      or_Controller = None, or_BlockOwnerDeletion = None\<rparr>"

definition kustomization_selector :: "Kustomization \<Rightarrow> gomap" where
  "kustomization_selector k = gomap_literal
     [(''kustomize.toolkit.fluxcd.io/name'', om_Name (k_meta k)),
      (''kustomize.toolkit.fluxcd.io/namespace'', om_Namespace (k_meta k))]"

definition kustomization_inventory_mutate ::
  "Kustomization \<Rightarrow> string \<Rightarrow> string \<Rightarrow> ('e, WorkloadInventory) mutate_fn" where
  [mutate_defs]: "kustomization_inventory_mutate kustomization workloadName clusterName =
     write_inventory (kustomization_owner kustomization)
       [(LabelWorkloadName, workloadName), (LabelClusterName, clusterName)]
       (kustomization_selector kustomization)"

definition Kustomization_reconcileWorkloadInventory ::
  "('w, 'e, WorkloadInventory) create_or_patch \<Rightarrow> Kustomization \<Rightarrow> ('w, 'e reconciled) state" where
  [handler_defs]: "Kustomization_reconcileWorkloadInventory cop kustomization =
     (case gomap_lookup (om_Labels (k_meta kustomization)) LabelWorkloadName of
        None \<Rightarrow> ret (Returns (Result0, None))
      | Some workloadName \<Rightarrow>
          (case gomap_lookup (om_Labels (k_meta kustomization)) LabelClusterName of
             None \<Rightarrow> ret (Returns (Result0, None))
           | Some clusterName \<Rightarrow> do {
               c \<leftarrow> cop (new_inventory (k_meta kustomization) KustomizationSuffix)
                     (kustomization_inventory_mutate kustomization workloadName clusterName);
               ret (inventory_outcome (\<lambda>err. Some err) c)
             }))"

definition Kustomization_reconcileDelete ::
  "('w, 'e, 'h) KustomizationReconciler \<Rightarrow> Kustomization \<Rightarrow>
     ('w, Kustomization \<times> ctrl_Result \<times> 'e option) state" where
  [handler_defs]: "Kustomization_reconcileDelete r kustomization =
     (case k_KubeConfig kustomization of
        None \<Rightarrow> ret (kustomization, Result0, None)
      | Some kubeConfig \<Rightarrow>
          if \<not> k_Prune kustomization then ret (kustomization, Result0, None)
          else do {
            got \<leftarrow> kr_GetSecret r \<lparr>key_Namespace = om_Namespace (k_meta kustomization),
                                  key_Name = skr_Name (kc_SecretRef kubeConfig)\<rparr>;
            let err = (case got of Inl e \<Rightarrow> Some e | Inr _ \<Rightarrow> None) in
            if IgnoreNotFound (kr_errlib r) err \<noteq> None then ret (kustomization, Result0, err)
            else if IsNotFound (kr_errlib r) err
            then ret (kustomization\<lparr>k_Prune := False, k_Interval := time_Minute\<rparr>, Result0, None)
            else ret (kustomization, Result0, None)
          })"

definition Kustomization_Reconcile ::
  "('w, 'e, 'h) KustomizationReconciler \<Rightarrow> ctrl_Request \<Rightarrow> ('w, 'e reconciled) state" where
  [handler_defs]: "Kustomization_Reconcile r req = do {
     got \<leftarrow> kr_Get r (NamespacedName req);
     case got of
       Inl err \<Rightarrow> ret (Returns (Result0, IgnoreNotFound (kr_errlib r) (Some err)))
     | Inr kustomization \<Rightarrow>
         (case kr_NewHelper r kustomization of
            Inl err \<Rightarrow> ret (Returns (Result0, Some err))
          | Inr patchHelper \<Rightarrow> do {
              (kustomization', outcome) \<leftarrow>
                (if \<not> not_deleted (k_meta kustomization) then do {
                   (k', result, err) \<leftarrow> Kustomization_reconcileDelete r kustomization;
                   ret (k', Returns (result, err))
                 }
                 else do {
                   out \<leftarrow> Kustomization_reconcileWorkloadInventory (kr_CreateOrPatch r) kustomization;
                   ret (kustomization,
                     (case out of
                        Panics p \<Rightarrow> Panics p
                      | Returns (result, err) \<Rightarrow>
                          if err \<noteq> None then Returns (result, err) else Returns (Result0, None)))
                 });
              patchErr \<leftarrow> kr_Patch r patchHelper kustomization';
              ret (deferred_result (kr_errlib r) outcome patchErr)
            })
   }"

section \<open>The desired state\<close>

definition kustomization_goal :: "Kustomization \<Rightarrow> WorkloadInventory \<Rightarrow> bool" where
  "kustomization_goal k =
     inventory_desired (kustomization_owner k)
       (gomap_index (om_Labels (k_meta k)) LabelWorkloadName)
       (gomap_index (om_Labels (k_meta k)) LabelClusterName)
       (kustomization_selector k)"

section \<open>Lemmas\<close>

interpretation kustomization_inv: reporting_inventory_reconciler
  k_meta KustomizationSuffix kustomization_goal
  "\<lambda>k. kustomization_inventory_mutate k
     (gomap_index (om_Labels (k_meta k)) LabelWorkloadName)
     (gomap_index (om_Labels (k_meta k)) LabelClusterName)"
  Kustomization_reconcileWorkloadInventory "\<lambda>err. Some err"
proof (intro reporting_inventory_reconciler.intro inventory_reconciler.intro
    reporting_inventory_reconciler_axioms.intro)
  fix s :: Kustomization
  show "mutator (\<lambda>i. inv_key i) (kustomization_inventory_mutate s
      (gomap_index (om_Labels (k_meta s)) LabelWorkloadName)
      (gomap_index (om_Labels (k_meta s)) LabelClusterName)) (kustomization_goal s)"
    unfolding kustomization_inventory_mutate_def kustomization_goal_def
    by (rule total_mutator.axioms(1) [OF write_inventory_mutator]) simp
qed (auto simp: Kustomization_reconcileWorkloadInventory_def has_inventory_labels_def gomap_index_def
    split: option.splits prod.splits)

interpretation kr: reconciler "Kustomization_Reconcile r" for r
  by unfold_locales
    (auto simp: Kustomization_Reconcile_def Kustomization_reconcileDelete_def deferred_result_def Let_def
      dest: kustomization_inv.reconcile_zero_result
      split: prod.splits sum.splits if_splits go.splits option.splits)

context world_preorder
begin

lemma Kustomization_Reconcile_within:
  assumes reads: "within Q (kr_Get r (NamespacedName req))" "\<And>k. within Q (kr_GetSecret r k)"
    and patch: "\<And>h k. within Q (kr_Patch r h k)"
    and handler: "\<And>w k w'. run_state (kr_Get r (NamespacedName req)) w = (Inr k, w') \<Longrightarrow>
      within Q (Kustomization_reconcileWorkloadInventory (kr_CreateOrPatch r) k)"
  shows "within Q (Kustomization_Reconcile r req)"
proof -
  have delete: "within Q (Kustomization_reconcileDelete r k)" for k
    unfolding Kustomization_reconcileDelete_def Let_def
    by (auto intro!: within_bind within_ret reads(2) split: option.splits)
  show ?thesis
    unfolding Kustomization_Reconcile_def
    by (rule within_bind_results [OF reads(1)])
      (auto intro!: within_bind within_ret delete patch handler split: sum.splits)
qed

end

section \<open>Properties\<close>

text \<open>An example kustomization and reconciler, for the witnesses; \<open>secret\<close> is what the API answers.\<close>

definition example_kustomization :: Kustomization where
  "example_kustomization =
     \<lparr>k_meta = (new_meta ''app'' ''ns'')\<lparr>om_UID := ''uid-k'',
        om_Labels := gomap_literal [(LabelWorkloadName, ''w1''), (LabelClusterName, ''c1'')]\<rparr>,
      k_Interval = time_Minute * 15, k_KubeConfig = Some \<lparr>kc_SecretRef = \<lparr>skr_Name = ''kc'', skr_Key = ''value''\<rparr>\<rparr>,
      k_Path = ''./'', k_Prune = True, k_Conditions = []\<rparr>"

definition deleted_kustomization :: Kustomization where
  "deleted_kustomization = example_kustomization\<lparr>k_meta := (k_meta example_kustomization)\<lparr>om_DeletionTimestamp := Some 1\<rparr>\<rparr>"

definition example_kustomization_reconciler ::
  "Kustomization \<Rightarrow> string + Secret \<Rightarrow> (ObjectKey \<rightharpoonup> WorkloadInventory, string, unit) KustomizationReconciler" where
  "example_kustomization_reconciler k secret =
     \<lparr>kr_Get = (\<lambda>key. ret (Inr k)),
      kr_GetSecret = (\<lambda>key. ret secret),
      kr_NewHelper = (\<lambda>k. Inr ()),
      kr_Patch = (\<lambda>h k. ret None),
      kr_CreateOrPatch = store_create_or_patch (\<lambda>i. inv_key i),
      kr_errlib = store_errlib\<rparr>"

abbreviation example_kustomization_request :: ctrl_Request where
  "example_kustomization_request \<equiv> \<lparr>NamespacedName = \<lparr>key_Namespace = ''ns'', key_Name = ''app''\<rparr>\<rparr>"

lemma kustomization_secret_error:
  assumes "errlib_ok (kr_errlib r)" and "k_KubeConfig k = Some kc" and "k_Prune k"
    and "run_state (kr_GetSecret r \<lparr>key_Namespace = om_Namespace (k_meta k),
        key_Name = skr_Name (kc_SecretRef kc)\<rparr>) w = (got, w1)"
  shows "run_state (Kustomization_reconcileDelete r k) w =
    (case got of
       Inr secret \<Rightarrow> ((k, Result0, None), w1)
     | Inl e \<Rightarrow>
         if IsNotFound (kr_errlib r) (Some e)
         then ((k\<lparr>k_Prune := False, k_Interval := time_Minute\<rparr>, Result0, None), w1)
         else ((k, Result0, Some e), w1))"
  using assms
  by (auto simp: Kustomization_reconcileDelete_def errlib_ok_def split: sum.splits)

text \<open>
  C11. Deleting a kustomization whose cluster is gone. When a kustomization under deletion prunes
  through a kubeconfig and the kubeconfig's secret does not exist, exactly pruning is turned
  off and the interval set to one minute, and this is what is patched back; when the secret
  exists or cannot be read, the kustomization is patched back as it was read. An error reading
  the secret and an error of the patch are reported, and nothing else is.
\<close>

theorem kustomization_deletion:
  assumes L: "errlib_ok (kr_errlib r)"
    and get: "run_state (kr_Get r (NamespacedName req)) w = (Inr k, w1)"
    and helper: "kr_NewHelper r k = Inr h"
    and deleted: "om_DeletionTimestamp (k_meta k) \<noteq> None"
    and kc: "k_KubeConfig k = Some kc" and prune: "k_Prune k"
    and secret: "run_state (kr_GetSecret r \<lparr>key_Namespace = om_Namespace (k_meta k),
        key_Name = skr_Name (kc_SecretRef kc)\<rparr>) w1 = (got, w2)"
    and gone: "gone \<longleftrightarrow> (\<exists>e. got = Inl e \<and> IsNotFound (kr_errlib r) (Some e))"
    and patch: "run_state (kr_Patch r h
        (if gone then k\<lparr>k_Prune := False, k_Interval := 60000000000\<rparr> else k)) w2 = (patchErr, w3)"
  shows "\<exists>err. run_state (Kustomization_Reconcile r req) w = (Returns (Result0, err), w3) \<and>
    (err = None \<longleftrightarrow> (gone \<or> (\<exists>s. got = Inr s)) \<and> patchErr = None)"
proof -
  define e' where "e' = (case got of Inr _ \<Rightarrow> None | Inl e \<Rightarrow> if gone then None else Some e)"
  have del: "run_state (Kustomization_reconcileDelete r k) w1 =
      ((if gone then k\<lparr>k_Prune := False, k_Interval := 60000000000\<rparr> else k, Result0, e'), w2)"
    using kustomization_secret_error [OF L kc prune secret] gone
    by (auto simp: e'_def time_Minute_def split: sum.splits)
  have run: "run_state (Kustomization_Reconcile r req) w =
      (deferred_result (kr_errlib r) (Returns (Result0, e')) patchErr, w3)"
    using get helper deleted del patch by (simp add: Kustomization_Reconcile_def not_deleted_def)
  obtain err where err: "deferred_result (kr_errlib r) (Returns (Result0, e')) patchErr =
      Returns (Result0, err)" using deferred_result_returns by blast
  have "e' = None \<longleftrightarrow> gone \<or> (\<exists>s. got = Inr s)" by (auto simp: e'_def split: sum.splits)
  with run err deferred_result_error [OF L err] show ?thesis by auto
qed

theorem kustomization_deletion_witness:
  "\<exists>err. run_state (Kustomization_Reconcile
       (example_kustomization_reconciler deleted_kustomization (Inl ''NotFound''))
       example_kustomization_request) Map.empty = (Returns (Result0, err), Map.empty) \<and> err = None"
proof -
  let ?r = "example_kustomization_reconciler deleted_kustomization (Inl ''NotFound'')"
  have "errlib_ok (kr_errlib ?r)"
    "run_state (kr_Get ?r (NamespacedName example_kustomization_request)) Map.empty =
      (Inr deleted_kustomization, Map.empty)"
    "kr_NewHelper ?r deleted_kustomization = Inr ()"
    "om_DeletionTimestamp (k_meta deleted_kustomization) \<noteq> None"
    "k_KubeConfig deleted_kustomization = Some \<lparr>kc_SecretRef = \<lparr>skr_Name = ''kc'', skr_Key = ''value''\<rparr>\<rparr>"
    "k_Prune deleted_kustomization"
    "run_state (kr_GetSecret ?r key) Map.empty = (Inl ''NotFound'', Map.empty)"
    "True \<longleftrightarrow> (\<exists>e. (Inl ''NotFound'' :: string + Secret) = Inl e \<and> IsNotFound (kr_errlib ?r) (Some e))"
    "run_state (kr_Patch ?r () k) Map.empty = (None, Map.empty)" for key k
    by (simp_all add: example_kustomization_reconciler_def deleted_kustomization_def
        example_kustomization_def store_errlib_ok) (simp add: store_errlib_def)
  from kustomization_deletion [OF this] show ?thesis by simp
qed

text \<open>
  A kustomization under deletion that does not prune, or that prunes without a kubeconfig,
  is patched back exactly as it was read and no secret is looked at; no inventory is written
  for it.
\<close>

lemma kustomization_deletion_untouched:
  assumes get: "run_state (kr_Get r (NamespacedName req)) w = (Inr k, w1)"
    and helper: "kr_NewHelper r k = Inr h"
    and deleted: "om_DeletionTimestamp (k_meta k) \<noteq> None"
    and free: "k_KubeConfig k = None \<or> \<not> k_Prune k"
  shows "run_state (Kustomization_Reconcile r req) w =
    (case run_state (kr_Patch r h k) w1 of
       (None, w2) \<Rightarrow> (Returns (Result0, None), w2)
     | (Some e, w2) \<Rightarrow> (Returns (Result0, NewAggregate (kr_errlib r) [None, Some e]), w2))"
  using assms
  by (auto simp: handler_defs not_deleted_def
      deferred_result_def split: option.splits prod.splits)

lemma kustomization_live_no_error:
  assumes L: "errlib_ok (kr_errlib r)"
    and get: "run_state (kr_Get r (NamespacedName req)) w = (Inr k, w1)"
    and live: "not_deleted (k_meta k)"
    and run: "run_state (Kustomization_Reconcile r req) w = (Returns (res, None), w')"
  obtains h w2 where "run_state (Kustomization_reconcileWorkloadInventory (kr_CreateOrPatch r) k) w1 =
      (Returns (Result0, None), w2)" "run_state (kr_Patch r h k) w2 = (None, w')"
proof -
  from run get obtain h where h: "kr_NewHelper r k = Inr h"
    by (cases "kr_NewHelper r k") (auto simp: Kustomization_Reconcile_def)
  obtain out w2 where inv: "run_state (Kustomization_reconcileWorkloadInventory (kr_CreateOrPatch r) k) w1 = (out, w2)"
    by (metis prod.collapse)
  obtain patchErr w3 where patch: "run_state (kr_Patch r h k) w2 = (patchErr, w3)" by (metis prod.collapse)
  have "w3 = w'" and "deferred_result (kr_errlib r) (case out of Panics p \<Rightarrow> Panics p
      | Returns (result, err) \<Rightarrow> if err \<noteq> None then Returns (result, err) else Returns (Result0, None)) patchErr =
      Returns (res, None)"
    using run get h live inv patch by (auto simp: Kustomization_Reconcile_def)
  moreover from deferred_result_no_error [OF L this(2)] obtain res1 where "patchErr = None" "out = Returns (res1, None)"
    by (auto split: go.splits if_splits)
  ultimately show ?thesis using that inv patch kustomization_inv.reconcile_zero_result by metis
qed

text \<open>
  C22. Inventory of a kustomization. When the reconcile of a live, labelled kustomization returns
  no error, the \<open>WorkloadInventory\<close> named after it is stored: owned by the kustomization, with
  its workload and cluster labels and a selector for exactly the objects Flux labels with the
  kustomization's name and namespace. Whatever is returned, no other inventory changes.
\<close>

theorem kustomization_inventory_synced:
  assumes ok: "create_or_patch_ok (\<lambda>i. inv_key i) view (kr_CreateOrPatch r)"
    and L: "errlib_ok (kr_errlib r)"
    and other: "keeps_view view (kr_Get r (NamespacedName req))" "\<And>h k. keeps_view view (kr_Patch r h k)"
    and get: "run_state (kr_Get r (NamespacedName req)) w = (Inr k, w1)"
    and live: "om_DeletionTimestamp (k_meta k) = None"
    and labels: "has_inventory_labels (k_meta k)"
    and run: "run_state (Kustomization_Reconcile r req) w = (out, w')"
  shows "(\<forall>i. i \<noteq> inventory_key (k_meta k) KustomizationSuffix \<longrightarrow> view w' i = view w i) \<and>
    (\<forall>res. out = Returns (res, None) \<longrightarrow>
      (\<exists>wi. view w' (inventory_key (k_meta k) KustomizationSuffix) = Some wi \<and> kustomization_goal k wi))"
proof (cases "kr_NewHelper r k")
  case (Inl e)
  with run get live keeps_viewD [OF other(1) get] show ?thesis by (auto simp: Kustomization_Reconcile_def)
next
  case (Inr h)
  obtain out1 w2 where inv: "run_state (Kustomization_reconcileWorkloadInventory (kr_CreateOrPatch r) k) w1
      = (out1, w2)" by (metis prod.collapse)
  obtain patchErr w3 where patch: "run_state (kr_Patch r h k) w2 = (patchErr, w3)"
    by (metis prod.collapse)
  have out: "w3 = w'" "out = deferred_result (kr_errlib r) (case out1 of Panics p \<Rightarrow> Panics p
      | Returns (result, err) \<Rightarrow> if err \<noteq> None then Returns (result, err) else Returns (Result0, None)) patchErr"
    using run get Inr live inv patch by (auto simp: Kustomization_Reconcile_def not_deleted_def)
  have views: "view w1 = view w" "view w' = view w2"
    using keeps_viewD [OF other(1) get] keeps_viewD [OF other(2) patch] out by simp_all
  have written: "\<exists>wi. view w2 (inventory_key (k_meta k) KustomizationSuffix) = Some wi \<and> kustomization_goal k wi"
    if "out = Returns (res, None)" for res
  proof -
    from deferred_result_no_error [OF L out(2) [symmetric, unfolded that]]
    obtain res1 where "out1 = Returns (res1, None)" by (auto split: go.splits if_splits)
    with kustomization_inv.inventory_written [OF ok labels] inv show ?thesis by blast
  qed
  show ?thesis
    using kustomization_inv.other_inventories_kept [OF ok inv] written views by auto
qed

theorem kustomization_inventory_synced_witness:
  "\<exists>wi. snd (run_state (Kustomization_Reconcile
        (example_kustomization_reconciler example_kustomization (Inl ''NotFound''))
        example_kustomization_request) Map.empty) \<lparr>key_Namespace = ''ns'', key_Name = ''app-4l8sj''\<rparr> = Some wi \<and>
     kustomization_goal example_kustomization wi"
proof -
  let ?r = "example_kustomization_reconciler example_kustomization (Inl ''NotFound'')"
  have hyps: "create_or_patch_ok (\<lambda>i. inv_key i) (\<lambda>w. w) (kr_CreateOrPatch ?r)"
    "errlib_ok (kr_errlib ?r)"
    "keeps_view (\<lambda>w. w) (kr_Get ?r (NamespacedName example_kustomization_request))"
    "keeps_view (\<lambda>w. w) (kr_Patch ?r h k)"
    "run_state (kr_Get ?r (NamespacedName example_kustomization_request)) Map.empty =
      (Inr example_kustomization, Map.empty)"
    "om_DeletionTimestamp (k_meta example_kustomization) = None"
    "has_inventory_labels (k_meta example_kustomization)" for h k
    by (simp_all add: example_kustomization_reconciler_def store_create_or_patch_ok store_errlib_ok
        example_kustomization_def new_meta_def has_inventory_labels_def)
  obtain w' where run: "run_state (Kustomization_Reconcile ?r example_kustomization_request) Map.empty =
      (Returns (Result0, None), w')"
    by (simp add: Kustomization_Reconcile_def example_kustomization_reconciler_def
        Kustomization_reconcileWorkloadInventory_def example_kustomization_def new_meta_def not_deleted_def
        store_create_or_patch_def kustomization_inventory_mutate_def write_inventory_def
        current_object_def new_inventory_def gomap_made_def inventory_outcome_def deferred_result_def)
  from kustomization_inventory_synced [OF hyps run] run show ?thesis
    by (simp add: inventory_key_def KustomizationSuffix_def example_kustomization_def new_meta_def)
qed

end
