(* ===== verification/HelmRelease_Controller.thy ===== *)
theory HelmRelease_Controller
  imports Workload_Inventory
begin

text \<open>
  \<open>controllers/helmrelease_controller.go\<close>: mirrors a labelled Flux \<open>HelmRelease\<close> into a
  \<open>WorkloadInventory\<close> that selects what the chart's standard labels select.
\<close>

section \<open>Data\<close>

definition HelmReleaseSuffix :: string where
  "HelmReleaseSuffix = ''-lpfhh''"

definition helm_GroupVersion :: string where
  "helm_GroupVersion = ''helm.toolkit.fluxcd.io/v2''"

definition HelmReleaseKind :: string where
  "HelmReleaseKind = ''HelmRelease''"

record HelmChartTemplate =
  hct_Chart :: string
  hct_Version :: string

text \<open>\<open>Spec.Chart\<close> is a pointer: a release that uses \<open>chartRef\<close> has none.\<close>

record HelmRelease =
  hr_meta :: ObjectMeta
  hr_Chart :: "HelmChartTemplate option"
  hr_ChartRef :: "string option"
  hr_Conditions :: "Condition list"

record ('w, 'e) HelmReleaseReconciler =
  hrr_Get :: "('w, 'e, HelmRelease) getter"
  hrr_CreateOrPatch :: "('w, 'e, WorkloadInventory) create_or_patch"
  hrr_errlib :: "'e errlib"

section \<open>Operations\<close>

definition helmrelease_owner :: "HelmRelease \<Rightarrow> OwnerReference" where
  "helmrelease_owner h =
     \<lparr>or_APIVersion = helm_GroupVersion, or_Kind = HelmReleaseKind,
      or_Name = om_Name (hr_meta h), or_UID = om_UID (hr_meta h),
      or_Controller = None, or_BlockOwnerDeletion = None\<rparr>"

definition helmrelease_selector :: "HelmRelease \<Rightarrow> HelmChartTemplate \<Rightarrow> gomap" where
  "helmrelease_selector h chart = gomap_literal
     [(''app.kubernetes.io/managed-by'', ''Helm''),
      (''app.kubernetes.io/name'', hct_Chart chart),
      (''app.kubernetes.io/version'', hct_Version chart),
      (''helm.sh/chart'', hct_Chart chart @ ''-'' @ hct_Version chart),
      (''helm.toolkit.fluxcd.io/name'', om_Name (hr_meta h)),
      (''helm.toolkit.fluxcd.io/namespace'', om_Namespace (hr_meta h))]"

definition helmrelease_inventory_mutate ::
  "HelmRelease \<Rightarrow> string \<Rightarrow> string \<Rightarrow> ('e, WorkloadInventory) mutate_fn" where
  [mutate_defs]: "helmrelease_inventory_mutate helmRelease clusterName workloadName wi =
     (case hr_Chart helmRelease of
        None \<Rightarrow> Panics ''nil pointer dereference''
      | Some chart \<Rightarrow>
          write_inventory (helmrelease_owner helmRelease)
            [(LabelClusterName, clusterName), (LabelWorkloadName, workloadName)]
            (helmrelease_selector helmRelease chart) wi)"

definition HelmRelease_reconcileWorkloadInventory ::
  "('w, 'e, WorkloadInventory) create_or_patch \<Rightarrow> HelmRelease \<Rightarrow> ('w, 'e reconciled) state" where
  [handler_defs]: "HelmRelease_reconcileWorkloadInventory cop helmRelease =
     (case gomap_lookup (om_Labels (hr_meta helmRelease)) LabelClusterName of
        None \<Rightarrow> ret (Returns (Result0, None))
      | Some clusterName \<Rightarrow>
          (case gomap_lookup (om_Labels (hr_meta helmRelease)) LabelWorkloadName of
             None \<Rightarrow> ret (Returns (Result0, None))
           | Some workloadName \<Rightarrow> do {
               c \<leftarrow> cop (new_inventory (hr_meta helmRelease) HelmReleaseSuffix)
                     (helmrelease_inventory_mutate helmRelease clusterName workloadName);
               ret (inventory_outcome (\<lambda>err. None) c)
             }))"

definition HelmRelease_Reconcile ::
  "('w, 'e) HelmReleaseReconciler \<Rightarrow> ctrl_Request \<Rightarrow> ('w, 'e reconciled) state" where
  [handler_defs]: "HelmRelease_Reconcile r req = do {
     got \<leftarrow> hrr_Get r (NamespacedName req);
     case got of
       Inl err \<Rightarrow> ret (Returns (Result0, IgnoreNotFound (hrr_errlib r) (Some err)))
     | Inr helmRelease \<Rightarrow>
         if \<not> not_deleted (hr_meta helmRelease) then ret (Returns (Result0, None))
         else do {
           out \<leftarrow> HelmRelease_reconcileWorkloadInventory (hrr_CreateOrPatch r) helmRelease;
           ret (case out of
                  Panics p \<Rightarrow> Panics p
                | Returns (result, err) \<Rightarrow>
                    if err \<noteq> None then Returns (result, err) else Returns (Result0, None))
         }
   }"

section \<open>The desired state\<close>

definition helmrelease_goal :: "HelmRelease \<Rightarrow> WorkloadInventory \<Rightarrow> bool" where
  "helmrelease_goal h wi \<longleftrightarrow>
     (case hr_Chart h of
        None \<Rightarrow> False
      | Some chart \<Rightarrow>
          inventory_desired (helmrelease_owner h)
            (gomap_index (om_Labels (hr_meta h)) LabelWorkloadName)
            (gomap_index (om_Labels (hr_meta h)) LabelClusterName)
            (helmrelease_selector h chart) wi)"

section \<open>Lemmas\<close>

lemma helmrelease_mutator:
  "mutator (\<lambda>i. inv_key i)
     (helmrelease_inventory_mutate h (gomap_index (om_Labels (hr_meta h)) LabelClusterName)
       (gomap_index (om_Labels (hr_meta h)) LabelWorkloadName)
       :: ('e, WorkloadInventory) mutate_fn)
     (helmrelease_goal h)"
proof (cases "hr_Chart h")
  case None
  then show ?thesis by unfold_locales (simp_all add: helmrelease_inventory_mutate_def)
next
  case (Some chart)
  let ?cn = "gomap_index (om_Labels (hr_meta h)) LabelClusterName"
    and ?wn = "gomap_index (om_Labels (hr_meta h)) LabelWorkloadName"
  from Some have "(helmrelease_inventory_mutate h ?cn ?wn :: ('e, WorkloadInventory) mutate_fn) =
      write_inventory (helmrelease_owner h) [(LabelClusterName, ?cn), (LabelWorkloadName, ?wn)]
        (helmrelease_selector h chart)"
    and "helmrelease_goal h = inventory_desired (helmrelease_owner h) ?wn ?cn
        (helmrelease_selector h chart)"
    by (simp_all add: fun_eq_iff helmrelease_inventory_mutate_def helmrelease_goal_def)
  then show ?thesis by (simp only:) (rule total_mutator.axioms(1) [OF write_inventory_mutator], simp)
qed

interpretation helmrelease_inv: inventory_reconciler
  hr_meta HelmReleaseSuffix helmrelease_goal
  "\<lambda>h. helmrelease_inventory_mutate h
     (gomap_index (om_Labels (hr_meta h)) LabelClusterName)
     (gomap_index (om_Labels (hr_meta h)) LabelWorkloadName)"
  HelmRelease_reconcileWorkloadInventory "\<lambda>err. None"
  by (intro inventory_reconciler.intro helmrelease_mutator)
    (auto simp: HelmRelease_reconcileWorkloadInventory_def has_inventory_labels_def gomap_index_def
      split: option.splits prod.splits)

interpretation hrr: reconciler "HelmRelease_Reconcile r" for r
  by unfold_locales
    (auto simp: HelmRelease_Reconcile_def dest: helmrelease_inv.reconcile_zero_result
      split: prod.splits sum.splits if_splits go.splits)

context world_preorder
begin

lemma HelmRelease_Reconcile_within:
  assumes get: "within Q (hrr_Get r (NamespacedName req))"
    and handler: "\<And>w h w'. run_state (hrr_Get r (NamespacedName req)) w = (Inr h, w') \<Longrightarrow>
      within Q (HelmRelease_reconcileWorkloadInventory (hrr_CreateOrPatch r) h)"
  shows "within Q (HelmRelease_Reconcile r req)"
  unfolding HelmRelease_Reconcile_def
  by (rule within_bind_results [OF get])
    (auto intro!: within_bind within_ret handler split: sum.splits)

end

section \<open>Properties\<close>

text \<open>An example release and reconciler, for the witnesses; \<open>cop\<close> is what \<open>CreateOrPatch\<close> does.\<close>

definition example_helmrelease :: HelmRelease where
  "example_helmrelease =
     \<lparr>hr_meta = (new_meta ''app'' ''ns'')\<lparr>om_UID := ''uid-h'',
        om_Labels := gomap_literal [(LabelWorkloadName, ''w1''), (LabelClusterName, ''c1'')]\<rparr>,
      hr_Chart = Some \<lparr>hct_Chart = ''podinfo'', hct_Version = ''6.5.1''\<rparr>, hr_ChartRef = None,
      hr_Conditions = []\<rparr>"

definition example_helmrelease_reconciler ::
  "HelmRelease \<Rightarrow> (ObjectKey \<rightharpoonup> WorkloadInventory, string, WorkloadInventory) create_or_patch \<Rightarrow>
     (ObjectKey \<rightharpoonup> WorkloadInventory, string) HelmReleaseReconciler" where
  "example_helmrelease_reconciler h cop =
     \<lparr>hrr_Get = (\<lambda>key. ret (Inr h)), hrr_CreateOrPatch = cop, hrr_errlib = store_errlib\<rparr>"

abbreviation example_helmrelease_request :: ctrl_Request where
  "example_helmrelease_request \<equiv> \<lparr>NamespacedName = \<lparr>key_Namespace = ''ns'', key_Name = ''app''\<rparr>\<rparr>"

lemma helmrelease_reconcile_live:
  assumes "run_state (hrr_Get r (NamespacedName req)) w = (Inr h, w1)"
    and "om_DeletionTimestamp (hr_meta h) = None" and "has_inventory_labels (hr_meta h)"
    and "run_state (hrr_CreateOrPatch r (new_inventory (hr_meta h) HelmReleaseSuffix)
        (helmrelease_inventory_mutate h (gomap_index (om_Labels (hr_meta h)) LabelClusterName)
          (gomap_index (om_Labels (hr_meta h)) LabelWorkloadName))) w1 = (c, w2)"
  shows "run_state (HelmRelease_Reconcile r req) w = (inventory_outcome (\<lambda>_. None) c, w2)"
  using assms helmrelease_inv.labelled [of h "hrr_CreateOrPatch r" w1]
  by (simp add: HelmRelease_Reconcile_def not_deleted_def)
    (auto simp: inventory_outcome_def split: go.splits sum.splits)

text \<open>
  C23. Inventory of a helm release. For a live, labelled release with an inline chart, whenever
  \<open>CreateOrPatch\<close> succeeds the \<open>WorkloadInventory\<close> named after the release is stored: owned by
  the release, with its labels, and with a selector of the chart's name and version and the
  release's name and namespace. Whatever happens no other inventory changes.
\<close>

theorem helmrelease_inventory_synced:
  assumes ok: "create_or_patch_ok (\<lambda>i. inv_key i) view (hrr_CreateOrPatch r)"
    and read: "keeps_view view (hrr_Get r (NamespacedName req))"
    and get: "run_state (hrr_Get r (NamespacedName req)) w = (Inr h, w1)"
    and live: "om_DeletionTimestamp (hr_meta h) = None"
    and labels: "has_inventory_labels (hr_meta h)"
    and cop: "run_state (hrr_CreateOrPatch r (new_inventory (hr_meta h) HelmReleaseSuffix)
        (helmrelease_inventory_mutate h (gomap_index (om_Labels (hr_meta h)) LabelClusterName)
          (gomap_index (om_Labels (hr_meta h)) LabelWorkloadName))) w1 = (c, w2)"
    and run: "run_state (HelmRelease_Reconcile r req) w = (out, w')"
  shows "(\<forall>i. i \<noteq> inventory_key (hr_meta h) HelmReleaseSuffix \<longrightarrow> view w' i = view w i) \<and>
    (\<forall>op. c = Returns (Inr op) \<longrightarrow>
      (\<exists>wi. view w' (inventory_key (hr_meta h) HelmReleaseSuffix) = Some wi \<and> helmrelease_goal h wi))"
proof -
  from helmrelease_reconcile_live [OF get live labels cop] run have w': "w' = w2" by simp
  have "view w1 = view w" using keeps_viewD [OF read get] .
  moreover have "\<exists>wi. view w2 (inventory_key (hr_meta h) HelmReleaseSuffix) = Some wi \<and> helmrelease_goal h wi"
    if "c = Returns (Inr op)" for op
    using mutator.cop_reaches_desired [OF helmrelease_mutator ok] cop that by fastforce
  ultimately show ?thesis
    using create_or_patch_frame [OF ok cop] w' by auto
qed

theorem helmrelease_inventory_synced_witness:
  "\<exists>wi. snd (run_state (HelmRelease_Reconcile
        (example_helmrelease_reconciler example_helmrelease (store_create_or_patch (\<lambda>i. inv_key i)))
        example_helmrelease_request) Map.empty) \<lparr>key_Namespace = ''ns'', key_Name = ''app-lpfhh''\<rparr> = Some wi \<and>
     helmrelease_goal example_helmrelease wi"
proof -
  let ?r = "example_helmrelease_reconciler example_helmrelease (store_create_or_patch (\<lambda>i. inv_key i))"
  have hyps: "create_or_patch_ok (\<lambda>i. inv_key i) (\<lambda>w. w) (hrr_CreateOrPatch ?r)"
    "keeps_view (\<lambda>w. w) (hrr_Get ?r (NamespacedName example_helmrelease_request))"
    "run_state (hrr_Get ?r (NamespacedName example_helmrelease_request)) Map.empty =
      (Inr example_helmrelease, Map.empty)"
    "om_DeletionTimestamp (hr_meta example_helmrelease) = None"
    "has_inventory_labels (hr_meta example_helmrelease)"
    by (simp_all add: example_helmrelease_reconciler_def store_create_or_patch_ok
        example_helmrelease_def new_meta_def has_inventory_labels_def)
  let ?cop = "run_state (hrr_CreateOrPatch ?r (new_inventory (hr_meta example_helmrelease) HelmReleaseSuffix)
        (helmrelease_inventory_mutate example_helmrelease
          (gomap_index (om_Labels (hr_meta example_helmrelease)) LabelClusterName)
          (gomap_index (om_Labels (hr_meta example_helmrelease)) LabelWorkloadName))) Map.empty"
  obtain op w2 where cop: "?cop = (Returns (Inr op), w2)"
    by (simp add: example_helmrelease_reconciler_def store_create_or_patch_def helmrelease_inventory_mutate_def
        write_inventory_def current_object_def new_inventory_def gomap_made_def example_helmrelease_def
        new_meta_def)
  obtain out w' where run: "run_state (HelmRelease_Reconcile ?r example_helmrelease_request) Map.empty = (out, w')"
    by (metis prod.collapse)
  from helmrelease_inventory_synced [OF hyps cop run] run show ?thesis
    by (simp add: inventory_key_def HelmReleaseSuffix_def example_helmrelease_def new_meta_def)
qed

text \<open>
  C37. The helm release reconciler drops the error of \<open>CreateOrPatch\<close>: it returns no error,
  so the request is not retried, even when the inventory could not be written.
\<close>

theorem helmrelease_error_dropped:
  assumes get: "run_state (hrr_Get r (NamespacedName req)) w = (Inr h, w1)"
    and live: "om_DeletionTimestamp (hr_meta h) = None"
    and labels: "has_inventory_labels (hr_meta h)"
    and cop: "run_state (hrr_CreateOrPatch r (new_inventory (hr_meta h) HelmReleaseSuffix)
        (helmrelease_inventory_mutate h (gomap_index (om_Labels (hr_meta h)) LabelClusterName)
          (gomap_index (om_Labels (hr_meta h)) LabelWorkloadName))) w1 = (Returns (Inl e), w2)"
  shows "\<exists>res err. run_state (HelmRelease_Reconcile r req) w = (Returns (res, err), w2) \<and>
    err = None \<and> \<not> retried res err"
  using helmrelease_reconcile_live [OF assms]
  by (simp add: inventory_outcome_def retried_def Result0_def)

theorem helmrelease_error_dropped_witness:
  "\<exists>res err. run_state (HelmRelease_Reconcile
        (example_helmrelease_reconciler example_helmrelease (\<lambda>obj f. ret (Returns (Inl ''conflict''))))
        example_helmrelease_request) Map.empty = (Returns (res, err), Map.empty) \<and> \<not> retried res err"
proof -
  let ?r = "example_helmrelease_reconciler example_helmrelease (\<lambda>obj f. ret (Returns (Inl ''conflict'')))"
  have "run_state (hrr_Get ?r (NamespacedName example_helmrelease_request)) Map.empty =
      (Inr example_helmrelease, Map.empty)"
    "om_DeletionTimestamp (hr_meta example_helmrelease) = None"
    "has_inventory_labels (hr_meta example_helmrelease)"
    "run_state (hrr_CreateOrPatch ?r (new_inventory (hr_meta example_helmrelease) HelmReleaseSuffix)
        (helmrelease_inventory_mutate example_helmrelease
          (gomap_index (om_Labels (hr_meta example_helmrelease)) LabelClusterName)
          (gomap_index (om_Labels (hr_meta example_helmrelease)) LabelWorkloadName))) Map.empty =
      (Returns (Inl ''conflict''), Map.empty)"
    by (simp_all add: example_helmrelease_reconciler_def example_helmrelease_def new_meta_def
        has_inventory_labels_def)
  from helmrelease_error_dropped [OF this] show ?thesis by blast
qed

text \<open>
  C38. A live, labelled release that takes its chart from \<open>chartRef\<close> has no inline chart, and the
  reconciler dereferences the missing one: it panics, unless \<open>CreateOrPatch\<close> failed before it
  called the mutate function. It never succeeds in writing the inventory of such a release.
\<close>

theorem helmrelease_chartRef_panics:
  assumes ok: "create_or_patch_ok (\<lambda>i. inv_key i) view (hrr_CreateOrPatch r)"
    and get: "run_state (hrr_Get r (NamespacedName req)) w = (Inr h, w1)"
    and live: "om_DeletionTimestamp (hr_meta h) = None"
    and labels: "has_inventory_labels (hr_meta h)"
    and chart: "hr_Chart h = None"
    and cop: "run_state (hrr_CreateOrPatch r (new_inventory (hr_meta h) HelmReleaseSuffix)
        (helmrelease_inventory_mutate h (gomap_index (om_Labels (hr_meta h)) LabelClusterName)
          (gomap_index (om_Labels (hr_meta h)) LabelWorkloadName))) w1 = (c, w2)"
  shows "(\<exists>e. c = Returns (Inl e)) \<or>
    run_state (HelmRelease_Reconcile r req) w = (Panics ''nil pointer dereference'', w2)"
proof -
  from chart have mut: "(helmrelease_inventory_mutate h cn wn x :: ('b + WorkloadInventory) go) =
      Panics ''nil pointer dereference''" for cn wn x
    by (simp add: helmrelease_inventory_mutate_def)
  have "(\<exists>e. c = Returns (Inl e)) \<or> c = Panics ''nil pointer dereference''"
    using create_or_patch_okD [OF ok cop] by (cases c) (auto simp: mut split: sum.splits)
  with helmrelease_reconcile_live [OF get live labels cop] show ?thesis
    by (auto simp: inventory_outcome_def)
qed

theorem helmrelease_chartRef_panics_witness:
  "fst (run_state (HelmRelease_Reconcile
        (example_helmrelease_reconciler (example_helmrelease\<lparr>hr_Chart := None, hr_ChartRef := Some ''oci''\<rparr>)
          (store_create_or_patch (\<lambda>i. inv_key i)))
        example_helmrelease_request) Map.empty) = Panics ''nil pointer dereference''"
proof -
  let ?h = "example_helmrelease\<lparr>hr_Chart := None, hr_ChartRef := Some ''oci''\<rparr>"
  let ?r = "example_helmrelease_reconciler ?h (store_create_or_patch (\<lambda>i. inv_key i))"
  have "create_or_patch_ok (\<lambda>i. inv_key i) (\<lambda>w. w) (hrr_CreateOrPatch ?r)"
    "run_state (hrr_Get ?r (NamespacedName example_helmrelease_request)) Map.empty = (Inr ?h, Map.empty)"
    "om_DeletionTimestamp (hr_meta ?h) = None" "has_inventory_labels (hr_meta ?h)" "hr_Chart ?h = None"
    "run_state (hrr_CreateOrPatch ?r (new_inventory (hr_meta ?h) HelmReleaseSuffix)
        (helmrelease_inventory_mutate ?h (gomap_index (om_Labels (hr_meta ?h)) LabelClusterName)
          (gomap_index (om_Labels (hr_meta ?h)) LabelWorkloadName))) Map.empty =
      (Panics ''nil pointer dereference'', Map.empty)"
    by (simp_all add: example_helmrelease_reconciler_def example_helmrelease_def new_meta_def
        has_inventory_labels_def store_create_or_patch_ok)
      (simp add: store_create_or_patch_def helmrelease_inventory_mutate_def)
  from helmrelease_chartRef_panics [OF this] show ?thesis by simp
qed

end
