(* ===== verification/Workload_Controller.thy ===== *)
theory Workload_Controller
  imports Cue_Lang Condition_Consts Kustomization_Controller HelmRelease_Controller
begin

text \<open>
  \<open>controllers/dockyardsworkload_controller.go\<close>: renders the CUE template a workload refers to
  with the owning cluster and the workload filled in, creates or patches every field of the
  result, and keeps the conditions \<open>WorkloadTemplateReconciled\<close>, \<open>Reconciling\<close> and \<open>Ready\<close>.
\<close>

section \<open>Data\<close>

text \<open>The arguments of a condition's message format: an error, possibly nil, or a number.\<close>

datatype 'e fmt_arg = FmtErr "'e option" | FmtInt nat

text \<open>\<open>github.com/fluxcd/pkg/runtime/conditions\<close>\<close>

record 'e condlib =
  MarkFalse :: "Workload \<Rightarrow> string \<Rightarrow> string \<Rightarrow> string \<Rightarrow> 'e fmt_arg list \<Rightarrow> Workload"
  MarkTrue :: "Workload \<Rightarrow> string \<Rightarrow> string \<Rightarrow> string \<Rightarrow> 'e fmt_arg list \<Rightarrow> Workload"
  DeleteCondition :: "Workload \<Rightarrow> string \<Rightarrow> Workload"
  SetSummary :: "Workload \<Rightarrow> string \<Rightarrow> string list \<Rightarrow> string list \<Rightarrow> Workload"
  Cluster_IsFalse :: "Cluster \<Rightarrow> string \<Rightarrow> bool"
  Kustomization_IsReconciling :: "Kustomization \<Rightarrow> bool"
  HelmRelease_IsReconciling :: "HelmRelease \<Rightarrow> bool"

definition condition_status :: "Workload \<Rightarrow> string \<Rightarrow> ConditionStatus option" where
  "condition_status w t = map_option cond_Status (find_condition (wl_Conditions w) t)"

definition condition_reason :: "Workload \<Rightarrow> string \<Rightarrow> string option" where
  "condition_reason w t = map_option cond_Reason (find_condition (wl_Conditions w) t)"

text \<open>\<open>w'\<close> is \<open>w\<close> but for the condition \<open>t\<close>.\<close>

definition only_condition_changed :: "string \<Rightarrow> Workload \<Rightarrow> Workload \<Rightarrow> bool" where
  "only_condition_changed t w w' \<longleftrightarrow>
     w'\<lparr>wl_Conditions := []\<rparr> = w\<lparr>wl_Conditions := []\<rparr> \<and>
     (\<forall>t'. t' \<noteq> t \<longrightarrow> find_condition (wl_Conditions w') t' = find_condition (wl_Conditions w) t')"

text \<open>
  Their documentation: marking sets the status and the reason of one condition, deleting
  removes it, the summary writes its target condition; nothing else of the object changes.
\<close>

definition condlib_ok :: "'e condlib \<Rightarrow> bool" where
  "condlib_ok C \<longleftrightarrow>
     (\<forall>w t reason f a.
        only_condition_changed t w (MarkFalse C w t reason f a) \<and>
        condition_status (MarkFalse C w t reason f a) t = Some ConditionFalse \<and>
        condition_reason (MarkFalse C w t reason f a) t = Some reason) \<and>
     (\<forall>w t reason f a.
        only_condition_changed t w (MarkTrue C w t reason f a) \<and>
        condition_status (MarkTrue C w t reason f a) t = Some ConditionTrue \<and>
        condition_reason (MarkTrue C w t reason f a) t = Some reason) \<and>
     (\<forall>w t. only_condition_changed t w (DeleteCondition C w t) \<and>
        condition_status (DeleteCondition C w t) t = None) \<and>
     (\<forall>w t cs ns. only_condition_changed t w (SetSummary C w t cs ns))"

text \<open>
  The summary has positive polarity: an issue among the listed conditions, that is a condition
  that is false, or true when it is listed as one of negative polarity, makes it false; when
  every listed condition that exists is well and one does, it is true.
\<close>

definition summary_issue :: "Workload \<Rightarrow> string list \<Rightarrow> string list \<Rightarrow> bool" where
  "summary_issue w cs ns \<longleftrightarrow>
     (\<exists>t \<in> set cs. condition_status w t = Some (if t \<in> set ns then ConditionTrue else ConditionFalse))"

definition summary_well :: "Workload \<Rightarrow> string list \<Rightarrow> string list \<Rightarrow> bool" where
  "summary_well w cs ns \<longleftrightarrow>
     (\<forall>t \<in> set cs. condition_status w t \<in> {None, Some (if t \<in> set ns then ConditionFalse else ConditionTrue)}) \<and>
     (\<exists>t \<in> set cs. condition_status w t \<noteq> None)"

definition summary_ok :: "'e condlib \<Rightarrow> bool" where
  "summary_ok C \<longleftrightarrow>
     (\<forall>w t cs ns.
        (summary_issue w cs ns \<longrightarrow> condition_status (SetSummary C w t cs ns) t = Some ConditionFalse) \<and>
        (summary_well w cs ns \<longrightarrow> condition_status (SetSummary C w t cs ns) t = Some ConditionTrue))"

text \<open>The reconciler: client, patch helper, owner lookup, CUE, conditions, error helpers.\<close>

record ('w, 'e, 'h, 'i, 'v, 'p) DockyardsWorkloadReconciler =
  wlr_Get :: "('w, 'e, Workload) getter"
  wlr_GetTemplate :: "('w, 'e, WorkloadTemplate) getter"
  wlr_GetOwnerCluster :: "Workload \<Rightarrow> ('w, 'e + Cluster option) state"
  wlr_ListKustomizations :: "(string \<times> string) list \<Rightarrow> string \<Rightarrow> ('w, 'e + Kustomization list) state"
  wlr_ListHelmReleases :: "(string \<times> string) list \<Rightarrow> string \<Rightarrow> ('w, 'e + HelmRelease list) state"
  wlr_ListWorkloads :: "(string \<times> string) list \<Rightarrow> string \<Rightarrow> ('w, 'e + Workload list) state"
  wlr_ListWorkloadsByField :: "(string \<times> string) list \<Rightarrow> ('w, 'e + Workload list) state"
  wlr_WorkloadTemplateReferenceField :: string
  wlr_TypedObjectRef :: "TypedObjectReference \<Rightarrow> string"
  wlr_CreateOrPatch :: "('w, 'e, Unstructured) create_or_patch"
  wlr_NewHelper :: "Workload \<Rightarrow> 'e + 'h"
  wlr_Patch :: "'h \<Rightarrow> Workload \<Rightarrow> ('w, 'e option) state"
  wlr_SetNestedMap :: "'e set_nested_map"
  wlr_Getwd :: "'e + string"
  wlr_cue :: "('i, 'v, 'p, 'e) cue"
  wlr_cond :: "'e condlib"
  wlr_errlib :: "'e errlib"

section \<open>Rendering a template\<close>

text \<open>Why \<open>reconcileWorkloadTemplate\<close> gives up: the reason, message format and arguments.\<close>

record 'e failure =
  fail_Reason :: string
  fail_Format :: string
  fail_Args :: "'e fmt_arg list"

definition fails :: "string \<Rightarrow> string \<Rightarrow> 'e fmt_arg list \<Rightarrow> 'e failure" where
  "fails reason format args = \<lparr>fail_Reason = reason, fail_Format = format, fail_Args = args\<rparr>"

text \<open>Lines 166 to 239: from the source to the fields to apply.\<close>

definition render_template ::
  "('i, 'v, 'p, 'e) cue \<Rightarrow> string \<Rightarrow> string \<Rightarrow> Cluster \<Rightarrow> Workload \<Rightarrow> 'e failure + 'v list" where
  [handler_defs]: "render_template c wd source ownerCluster workload =
     (case load_template c wd source of
        [inst] \<Rightarrow>
          (let value = BuildInstance c inst in
           if Value_Err c value \<noteq> None
           then Inl (fails BuildInstanceFailedReason ''%s'' [FmtErr None])
           else let look = LookupPath c value (Def c ''#workload'') in
           if Value_Err c look \<noteq> None
           then Inl (fails LookupPathFailedReason ''%s'' [FmtErr (Value_Err c look)])
           else let look2 = LookupPath c value (Def c ''#cluster'') in
           if Value_Err c look2 \<noteq> None
           then Inl (fails LookupPathFailedReason ''%s'' [FmtErr (Value_Err c look2)])
           else let v1 = FillCluster c value (Def c ''#cluster'') ownerCluster in
           if Value_Err c v1 \<noteq> None
           then Inl (fails FillPathFailedReason ''%s'' [FmtErr (Value_Err c v1)])
           else let v2 = FillWorkload c v1 (Def c ''#workload'') workload in
           if Value_Err c v2 \<noteq> None
           then Inl (fails FillPathFailedReason ''%s'' [FmtErr (Value_Err c v2)])
           else if Validate c v2 \<noteq> None
           then Inl (fails ValidateFailedReason ''%s'' [FmtErr (Validate c v2)])
           else (case Fields c v2 of
                   Inl err \<Rightarrow> Inl (fails FieldsFailedReason ''%s'' [FmtErr (Some err)])
                 | Inr vs \<Rightarrow> Inr vs))
      | instances \<Rightarrow>
          Inl (fails LoadInstanceFailedReason ''incorrect instance count %d''
                 [FmtInt (length instances)]))"

section \<open>Applying the fields\<close>

definition workload_owner :: "Workload \<Rightarrow> OwnerReference" where
  "workload_owner workload =
     \<lparr>or_APIVersion = dockyards_GroupVersion, or_Kind = WorkloadKind,
      or_Name = om_Name (wl_meta workload), or_UID = om_UID (wl_meta workload),
      or_Controller = Some True, or_BlockOwnerDeletion = Some True\<rparr>"

definition workload_labels :: "Workload \<Rightarrow> Cluster \<Rightarrow> gomap" where
  "workload_labels workload ownerCluster = gomap_literal
     [(LabelWorkloadName, om_Name (wl_meta workload)),
      (LabelClusterName, om_Name (cl_meta ownerCluster))]"

definition unstructured_mutate ::
  "('i, 'v, 'p, 'e) cue \<Rightarrow> 'e set_nested_map \<Rightarrow> Workload \<Rightarrow> Cluster \<Rightarrow> 'v \<Rightarrow>
     ('e, Unstructured) mutate_fn" where
  [mutate_defs]: "unstructured_mutate c setNestedMap workload ownerCluster value u =
     (let u2 = u\<lparr>u_meta := (u_meta u)\<lparr>om_OwnerReferences := [workload_owner workload],
                                     om_Labels := workload_labels workload ownerCluster\<rparr>\<rparr>;
          spec = LookupPath c value (ParsePath c ''spec'')
      in if \<not> Exists c spec then Returns (Inr u2)
         else (case DecodeMap c spec of
                 Inl err \<Rightarrow> Returns (Inl err)
               | Inr nestedMap \<Rightarrow>
                   (case setNestedMap (u_Fields u2) (ensureValidJSON nestedMap) ''spec'' of
                      Panics p \<Rightarrow> Panics p
                    | Returns (Inl err) \<Rightarrow> Returns (Inl err)
                    | Returns (Inr object) \<Rightarrow> Returns (Inr (u2\<lparr>u_Fields := object\<rparr>)))))"

text \<open>How the loop over the fields ends: all applied, given up, or panicking.\<close>

datatype 'e loop = Completed | Stopped "'e failure" | Panicked string

definition apply_field ::
  "('w, 'e, 'h, 'i, 'v, 'p) DockyardsWorkloadReconciler \<Rightarrow> Workload \<Rightarrow> Cluster \<Rightarrow> 'v \<Rightarrow>
     ('w, 'e loop) state" where
  [handler_defs]: "apply_field r workload ownerCluster value =
     (case ValidateConcrete (wlr_cue r) value of
        Some err \<Rightarrow> ret (Stopped (fails ValidateFailedReason ''%s'' [FmtErr (Some err)]))
      | None \<Rightarrow>
          (case DecodeUnstructured (wlr_cue r) value of
             Inl err \<Rightarrow> ret (Stopped (fails DecodeFailedReason ''%s'' [FmtErr (Some err)]))
           | Inr u \<Rightarrow> do {
               res \<leftarrow> wlr_CreateOrPatch r u
                       (unstructured_mutate (wlr_cue r) (wlr_SetNestedMap r) workload ownerCluster value);
               ret (case res of
                      Panics p \<Rightarrow> Panicked p
                    | Returns (Inl err) \<Rightarrow>
                        Stopped (fails ReconcileFailedReason ''%s'' [FmtErr (Some err)])
                    | Returns (Inr operationResult) \<Rightarrow> Completed)
             }))"

fun apply_fields ::
  "('w, 'e, 'h, 'i, 'v, 'p) DockyardsWorkloadReconciler \<Rightarrow> Workload \<Rightarrow> Cluster \<Rightarrow> 'v list \<Rightarrow>
     ('w, 'e loop) state" where
  "apply_fields r workload ownerCluster [] = ret Completed"
| "apply_fields r workload ownerCluster (value # iterator) = do {
     res \<leftarrow> apply_field r workload ownerCluster value;
     case res of
       Completed \<Rightarrow> apply_fields r workload ownerCluster iterator
     | Stopped f \<Rightarrow> ret (Stopped f)
     | Panicked p \<Rightarrow> ret (Panicked p)
   }"

section \<open>The handlers\<close>

text \<open>\<open>conditions.MarkFalse(workload, WorkloadTemplateReconciledCondition, \<dots>)\<close>\<close>

definition mark_failed :: "'e condlib \<Rightarrow> Workload \<Rightarrow> 'e failure \<Rightarrow> Workload" where
  "mark_failed C workload f =
     MarkFalse C workload WorkloadTemplateReconciledCondition
       (fail_Reason f) (fail_Format f) (fail_Args f)"

definition give_up ::
  "('w, 'e, 'h, 'i, 'v, 'p) DockyardsWorkloadReconciler \<Rightarrow> Workload \<Rightarrow> 'e failure \<Rightarrow>
     ('w, Workload \<times> 'e reconciled) state" where
  "give_up r workload f = ret (mark_failed (wlr_cond r) workload f, Returns (Result0, None))"

text \<open>Lines 166 to 319: a usable template is rendered and its fields are applied.\<close>

definition apply_template ::
  "('w, 'e, 'h, 'i, 'v, 'p) DockyardsWorkloadReconciler \<Rightarrow> Workload \<Rightarrow> Cluster \<Rightarrow> WorkloadTemplate \<Rightarrow>
     ('w, Workload \<times> 'e reconciled) state" where
  [handler_defs]: "apply_template r workload ownerCluster workloadTemplate =
     (case wlr_Getwd r of
        Inl err \<Rightarrow> ret (workload, Returns (Result0, Some err))
      | Inr wd \<Rightarrow>
          (case render_template (wlr_cue r) wd (wlt_Source workloadTemplate) ownerCluster workload of
             Inl f \<Rightarrow> give_up r workload f
           | Inr vals \<Rightarrow> do {
               res \<leftarrow> apply_fields r workload ownerCluster vals;
               case res of
                 Completed \<Rightarrow>
                   ret (MarkTrue (wlr_cond r) workload WorkloadTemplateReconciledCondition
                          ReadyReason '''' [], Returns (Result0, None))
               | Stopped f \<Rightarrow> give_up r workload f
               | Panicked p \<Rightarrow> ret (workload, Panics p)
             }))"

text \<open>Lines 143 to 164: what \<open>Get\<close> said about the template decides whether it is usable.\<close>

definition check_template ::
  "('w, 'e, 'h, 'i, 'v, 'p) DockyardsWorkloadReconciler \<Rightarrow> Workload \<Rightarrow> Cluster \<Rightarrow> 'e + WorkloadTemplate \<Rightarrow>
     ('w, Workload \<times> 'e reconciled) state" where
  [handler_defs]: "check_template r workload ownerCluster got =
     (let err = (case got of Inl e \<Rightarrow> Some e | Inr _ \<Rightarrow> None);
          workloadTemplate = (case got of Inl _ \<Rightarrow> WorkloadTemplate0 | Inr t \<Rightarrow> t)
      in
      if IgnoreNotFound (wlr_errlib r) err \<noteq> None then ret (workload, Returns (Result0, err))
      else if IsNotFound (wlr_errlib r) err
      then give_up r workload (fails WaitingForWorkloadTemplateReason '''' [])
      else if wlt_Type workloadTemplate \<noteq> WorkloadTemplateTypeCue
      then give_up r workload (fails IncorrectWorkloadTemplateTypeReason '''' [])
      else if \<not> wl_ClusterComponent workload \<and> Cluster_IsFalse (wlr_cond r) ownerCluster ReadyCondition
      then give_up r workload (fails WaitingForClusterReadyReason '''' [])
      else apply_template r workload ownerCluster workloadTemplate)"

definition reconcileWorkloadTemplate ::
  "('w, 'e, 'h, 'i, 'v, 'p) DockyardsWorkloadReconciler \<Rightarrow> Workload \<Rightarrow>
     ('w, Workload \<times> 'e reconciled) state" where
  [handler_defs]: "reconcileWorkloadTemplate r workload =
     (if \<not> not_deleted (wl_meta workload) then ret (workload, Returns (Result0, None))
      else do {
        owner \<leftarrow> wlr_GetOwnerCluster r workload;
        case owner of
          Inl err \<Rightarrow> ret (workload, Returns (Result0, Some err))
        | Inr None \<Rightarrow> ret (workload, Returns (Result0, None))
        | Inr (Some ownerCluster) \<Rightarrow>
            (case wl_WorkloadTemplateRef workload of
               None \<Rightarrow> ret (workload, Returns (Result0, None))
             | Some ref \<Rightarrow> do {
                 got \<leftarrow> wlr_GetTemplate r (template_key workload ref);
                 check_template r workload ownerCluster got
               })
      })"

definition reconcileReconcilingCondition ::
  "('w, 'e, 'h, 'i, 'v, 'p) DockyardsWorkloadReconciler \<Rightarrow> Workload \<Rightarrow>
     ('w, Workload \<times> ctrl_Result \<times> 'e option) state" where
  [handler_defs]: "reconcileReconcilingCondition r workload =
     (let matchingLabels = [(LabelWorkloadName, om_Name (wl_meta workload))];
          inNamespace = om_Namespace (wl_meta workload)
      in do {
        ks \<leftarrow> wlr_ListKustomizations r matchingLabels inNamespace;
        case ks of
          Inl err \<Rightarrow> ret (workload, Result0, Some err)
        | Inr kustomizationList \<Rightarrow>
            if \<exists>k \<in> set kustomizationList. Kustomization_IsReconciling (wlr_cond r) k
            then ret (MarkTrue (wlr_cond r) workload ReconcilingCondition
                        KustomizationReconcilingReason '''' [], Result0, None)
            else do {
              hs \<leftarrow> wlr_ListHelmReleases r matchingLabels inNamespace;
              case hs of
                Inl err \<Rightarrow> ret (workload, Result0, Some err)
              | Inr helmReleaseList \<Rightarrow>
                  if \<exists>h \<in> set helmReleaseList. HelmRelease_IsReconciling (wlr_cond r) h
                  then ret (MarkTrue (wlr_cond r) workload ReconcilingCondition
                              HelmReleaseReconcilingReason '''' [], Result0, None)
                  else ret (DeleteCondition (wlr_cond r) workload ReconcilingCondition,
                            Result0, None)
            }
      })"

text \<open>The deferred part of \<open>Reconcile\<close> before the patch: the summary condition.\<close>

definition summarize :: "'e condlib \<Rightarrow> Workload \<Rightarrow> Workload" where
  "summarize C workload =
     SetSummary C workload ReadyCondition
       [WorkloadTemplateReconciledCondition, ReconcilingCondition] [ReconcilingCondition]"

text \<open>Lines 96 to 106: what runs before the deferred function.\<close>

definition workload_stages ::
  "('w, 'e, 'h, 'i, 'v, 'p) DockyardsWorkloadReconciler \<Rightarrow> Workload \<Rightarrow> ('w, Workload \<times> 'e reconciled) state" where
  [handler_defs]: "workload_stages r workload = do {
     (workload1, out1) \<leftarrow> reconcileWorkloadTemplate r workload;
     case out1 of
       Panics p \<Rightarrow> ret (workload1, Panics p)
     | Returns (result, err) \<Rightarrow>
         if err \<noteq> None then ret (workload1, Returns (result, err))
         else do {
           (w2, result2, err2) \<leftarrow> reconcileReconcilingCondition r workload1;
           ret (w2, if err2 \<noteq> None then Returns (result2, err2) else Returns (Result0, None))
         }
   }"

definition Workload_Reconcile ::
  "('w, 'e, 'h, 'i, 'v, 'p) DockyardsWorkloadReconciler \<Rightarrow> ctrl_Request \<Rightarrow>
     ('w, 'e reconciled) state" where
  [handler_defs]: "Workload_Reconcile r req = do {
     got \<leftarrow> wlr_Get r (NamespacedName req);
     case got of
       Inl err \<Rightarrow> ret (Returns (Result0, IgnoreNotFound (wlr_errlib r) (Some err)))
     | Inr workload \<Rightarrow>
         (case wlr_NewHelper r workload of
            Inl err \<Rightarrow> ret (Returns (Result0, Some err))
          | Inr patchHelper \<Rightarrow> do {
              (workload2, outcome) \<leftarrow> workload_stages r workload;
              patchErr \<leftarrow> wlr_Patch r patchHelper (summarize (wlr_cond r) workload2);
              ret (deferred_result (wlr_errlib r) outcome patchErr)
            })
   }"

section \<open>Watches\<close>

definition workload_requests :: "Workload list \<Rightarrow> ctrl_Request list" where
  "workload_requests workloads =
     map (\<lambda>w. \<lparr>NamespacedName = \<lparr>key_Namespace = om_Namespace (wl_meta w),
                               key_Name = om_Name (wl_meta w)\<rparr>\<rparr>) workloads"

definition workloadTemplateToWorkloads ::
  "('w, 'e, 'h, 'i, 'v, 'p) DockyardsWorkloadReconciler \<Rightarrow> api_object \<Rightarrow>
     ('w, ctrl_Request list go) state" where
  [handler_defs]: "workloadTemplateToWorkloads r obj =
     (case obj of
        OWorkloadTemplate workloadTemplate \<Rightarrow>
          (let ref = \<lparr>tor_APIGroup = None, tor_Kind = WorkloadTemplateKind,
                      tor_Name = om_Name (wlt_meta workloadTemplate),
                      tor_Namespace = Some (om_Namespace (wlt_meta workloadTemplate))\<rparr>
           in do {
             res \<leftarrow> wlr_ListWorkloadsByField r
                      [(wlr_WorkloadTemplateReferenceField r, wlr_TypedObjectRef r ref)];
             ret (case res of
                    Inl err \<Rightarrow> Panics ''workloadTemplateToWorkloads''
                  | Inr items \<Rightarrow> Returns (workload_requests items))
           })
      | _ \<Rightarrow> ret (Returns []))"

definition clusterToWorkloads ::
  "('w, 'e, 'h, 'i, 'v, 'p) DockyardsWorkloadReconciler \<Rightarrow> api_object \<Rightarrow>
     ('w, ctrl_Request list go) state" where
  [handler_defs]: "clusterToWorkloads r obj =
     (case obj of
        OCluster cluster \<Rightarrow> do {
          res \<leftarrow> wlr_ListWorkloads r [(LabelClusterName, om_Name (cl_meta cluster))]
                   (om_Namespace (cl_meta cluster));
          ret (case res of
                 Inl err \<Rightarrow> Panics ''clusterToWorkloads''
               | Inr items \<Rightarrow> Returns (workload_requests items))
        }
      | _ \<Rightarrow> ret (Returns []))"

section \<open>The desired state\<close>

text \<open>What a rendered field asks of the stored object.\<close>

definition unstructured_desired ::
  "('i, 'v, 'p, 'e) cue \<Rightarrow> Workload \<Rightarrow> Cluster \<Rightarrow> 'v \<Rightarrow> Unstructured \<Rightarrow> bool" where
  "unstructured_desired c workload ownerCluster value x \<longleftrightarrow>
     om_OwnerReferences (u_meta x) = [workload_owner workload] \<and>
     om_Labels (u_meta x) = workload_labels workload ownerCluster \<and>
     (Exists c (LookupPath c value (ParsePath c ''spec'')) \<longrightarrow>
       (case DecodeMap c (LookupPath c value (ParsePath c ''spec'')) of
          Inl _ \<Rightarrow> False
        | Inr m \<Rightarrow> u_Fields x ''spec'' = Some (GMap (ensureValidJSON m))))"

text \<open>Every field is stored as desired, unless a later field with the same key overwrote it.\<close>

definition fields_applied ::
  "('i, 'v, 'p, 'e) cue \<Rightarrow> Workload \<Rightarrow> Cluster \<Rightarrow> 'v list \<Rightarrow> (UnstructuredKey \<rightharpoonup> Unstructured) \<Rightarrow> bool" where
  "fields_applied c workload ownerCluster vals stored \<longleftrightarrow>
     (\<forall>pre v post. vals = pre @ v # post \<longrightarrow>
        (\<exists>u. DecodeUnstructured c v = Inr u \<and>
          ((\<forall>v' u'. v' \<in> set post \<and> DecodeUnstructured c v' = Inr u' \<longrightarrow> u_key u' \<noteq> u_key u) \<longrightarrow>
           (\<exists>x. stored (u_key u) = Some x \<and> unstructured_desired c workload ownerCluster v x))))"

section \<open>Lemmas\<close>

lemma unstructured_mutate_cases:
  assumes "unstructured_mutate c snm workload ownerCluster value u = Returns (Inr y)"
    and "set_nested_map_ok snm"
  obtains fs where "y = u\<lparr>u_meta := (u_meta u)\<lparr>om_OwnerReferences := [workload_owner workload],
        om_Labels := workload_labels workload ownerCluster\<rparr>, u_Fields := fs\<rparr>"
    and "\<not> Exists c (LookupPath c value (ParsePath c ''spec'')) \<Longrightarrow> fs = u_Fields u"
    and "Exists c (LookupPath c value (ParsePath c ''spec'')) \<Longrightarrow>
      \<exists>m. DecodeMap c (LookupPath c value (ParsePath c ''spec'')) = Inr m \<and>
        fs = (u_Fields u)(''spec'' \<mapsto> GMap (ensureValidJSON m))"
proof (cases "Exists c (LookupPath c value (ParsePath c ''spec''))")
  case False
  with assms(1) show ?thesis
    by (intro that [of "u_Fields u"]) (auto simp: unstructured_mutate_def)
next
  case True
  with assms(1) obtain m obj
    where m: "DecodeMap c (LookupPath c value (ParsePath c ''spec'')) = Inr m"
      and obj: "snm (u_Fields u) (ensureValidJSON m) ''spec'' = Returns (Inr obj)"
      and y: "y = u\<lparr>u_meta := (u_meta u)\<lparr>om_OwnerReferences := [workload_owner workload],
        om_Labels := workload_labels workload ownerCluster\<rparr>, u_Fields := obj\<rparr>"
    by (auto simp: unstructured_mutate_def Let_def split: sum.splits go.splits)
  from assms(2) obj have "obj = (u_Fields u)(''spec'' \<mapsto> GMap (ensureValidJSON m))"
    by (simp add: set_nested_map_ok_def)
  with True m y show ?thesis by (intro that [of obj]) simp_all
qed

lemma unstructured_mutator:
  assumes snm: "set_nested_map_ok snm"
  shows "mutator u_key (unstructured_mutate c snm workload ownerCluster value)
    (unstructured_desired c workload ownerCluster value)"
proof unfold_locales
  fix x y
  assume m: "unstructured_mutate c snm workload ownerCluster value x = Returns (Inr y)"
  show "u_key y = u_key x"
    using m snm by (elim unstructured_mutate_cases) (auto simp: u_key_def meta_key_def)
  show "unstructured_desired c workload ownerCluster value y"
    using m snm by (elim unstructured_mutate_cases) (auto simp: unstructured_desired_def)
  show "y = x" if "unstructured_desired c workload ownerCluster value x"
    using m snm
  proof (elim unstructured_mutate_cases)
    fix fs
    assume y: "y = x\<lparr>u_meta := (u_meta x)\<lparr>om_OwnerReferences := [workload_owner workload],
          om_Labels := workload_labels workload ownerCluster\<rparr>, u_Fields := fs\<rparr>"
      and n: "\<not> Exists c (LookupPath c value (ParsePath c ''spec'')) \<Longrightarrow> fs = u_Fields x"
      and e: "Exists c (LookupPath c value (ParsePath c ''spec'')) \<Longrightarrow>
        \<exists>m. DecodeMap c (LookupPath c value (ParsePath c ''spec'')) = Inr m \<and>
          fs = (u_Fields x)(''spec'' \<mapsto> GMap (ensureValidJSON m))"
    have "fs = u_Fields x"
      using n e that
      by (cases "Exists c (LookupPath c value (ParsePath c ''spec''))")
        (auto simp: unstructured_desired_def fun_upd_idem_iff)
    with y that show ?thesis by (simp add: unstructured_desired_def)
  qed
qed

text \<open>Whatever it reads, the mutate function keeps the key and sets the owner and the labels.\<close>

lemma unstructured_mutate_result:
  assumes "unstructured_mutate c snm workload ownerCluster v x = Returns (Inr y)"
  shows "u_key y = u_key x" "om_OwnerReferences (u_meta y) = [workload_owner workload]"
    "om_Labels (u_meta y) = workload_labels workload ownerCluster"
  using assms
  by (auto simp: unstructured_mutate_def Let_def u_key_def meta_key_def split: if_splits sum.splits go.splits)

lemma apply_field_run:
  assumes "run_state (apply_field r workload cluster v) w = (res, w')"
  obtains (untouched) f where "res = Stopped f" and "w' = w"
  | (called) u c where "DecodeUnstructured (wlr_cue r) v = Inr u"
      and "run_state (wlr_CreateOrPatch r u
        (unstructured_mutate (wlr_cue r) (wlr_SetNestedMap r) workload cluster v)) w = (c, w')"
      and "res = Completed \<longleftrightarrow> (\<exists>op. c = Returns (Inr op))"
  using assms
  by (auto simp: apply_field_def split: option.splits sum.splits prod.splits go.splits)

lemma apply_field_completed:
  assumes ok: "create_or_patch_ok u_key view (wlr_CreateOrPatch r)"
    and snm: "set_nested_map_ok (wlr_SetNestedMap r)"
    and run: "run_state (apply_field r workload cluster v) w = (Completed, w')"
  obtains u x where "DecodeUnstructured (wlr_cue r) v = Inr u" and "view w' (u_key u) = Some x"
    and "unstructured_desired (wlr_cue r) workload cluster v x"
  using run
proof (cases rule: apply_field_run)
  case (called u c)
  then obtain op where "run_state (wlr_CreateOrPatch r u (unstructured_mutate (wlr_cue r)
      (wlr_SetNestedMap r) workload cluster v)) w = (Returns (Inr op), w')" by auto
  from mutator.cop_reaches_desired [OF unstructured_mutator [OF snm] ok this] called(1) that
  show ?thesis by blast
qed simp

lemma apply_field_frame:
  assumes ok: "create_or_patch_ok u_key view (wlr_CreateOrPatch r)"
    and run: "run_state (apply_field r workload cluster v) w = (res, w')"
    and other: "\<And>u. DecodeUnstructured (wlr_cue r) v = Inr u \<Longrightarrow> u_key u \<noteq> k"
  shows "view w' k = view w k"
  using run
proof (cases rule: apply_field_run)
  case (called u c)
  then show ?thesis using create_or_patch_frame [OF ok] other by metis
qed simp

lemma apply_fields_frame:
  assumes ok: "create_or_patch_ok u_key view (wlr_CreateOrPatch r)"
    and "run_state (apply_fields r workload cluster vals) w = (res, w')"
    and "\<And>v u. v \<in> set vals \<Longrightarrow> DecodeUnstructured (wlr_cue r) v = Inr u \<Longrightarrow> u_key u \<noteq> k"
  shows "view w' k = view w k"
  using assms(2,3)
proof (induction vals arbitrary: w)
  case Nil
  then show ?case by simp
next
  case (Cons v vs)
  from Cons.prems(1) obtain a w1 where a: "run_state (apply_field r workload cluster v) w = (a, w1)"
    and rest: "run_state (case a of Completed \<Rightarrow> apply_fields r workload cluster vs
        | Stopped f \<Rightarrow> ret (Stopped f) | Panicked p \<Rightarrow> ret (Panicked p)) w1 = (res, w')"
    by (auto split: prod.splits)
  have first: "view w1 k = view w k"
    by (rule apply_field_frame [OF ok a]) (use Cons.prems(2) [of v] in simp)
  show ?case
  proof (cases a)
    case Completed
    with rest have "run_state (apply_fields r workload cluster vs) w1 = (res, w')" by simp
    then have "view w' k = view w1 k" by (rule Cons.IH) (use Cons.prems(2) in auto)
    with first show ?thesis by simp
  qed (use rest first in simp_all)
qed

lemma apply_fields_applied:
  assumes ok: "create_or_patch_ok u_key view (wlr_CreateOrPatch r)"
    and snm: "set_nested_map_ok (wlr_SetNestedMap r)"
    and "run_state (apply_fields r workload cluster vals) w = (Completed, w')"
  shows "fields_applied (wlr_cue r) workload cluster vals (view w')"
  using assms(3)
proof (induction vals arbitrary: w)
  case Nil
  then show ?case by (simp add: fields_applied_def)
next
  case (Cons v vs)
  from Cons.prems obtain w1 where a: "run_state (apply_field r workload cluster v) w = (Completed, w1)"
    and rest: "run_state (apply_fields r workload cluster vs) w1 = (Completed, w')"
    by (auto split: prod.splits loop.splits)
  from apply_field_completed [OF ok snm a] obtain u x
    where u: "DecodeUnstructured (wlr_cue r) v = Inr u" and x: "view w1 (u_key u) = Some x"
      "unstructured_desired (wlr_cue r) workload cluster v x" .
  show ?case
    unfolding fields_applied_def
  proof (intro allI impI)
    fix pre v0 post
    assume split: "v # vs = pre @ v0 # post"
    show "\<exists>u. DecodeUnstructured (wlr_cue r) v0 = Inr u \<and>
        ((\<forall>v' u'. v' \<in> set post \<and> DecodeUnstructured (wlr_cue r) v' = Inr u' \<longrightarrow> u_key u' \<noteq> u_key u) \<longrightarrow>
         (\<exists>x. view w' (u_key u) = Some x \<and> unstructured_desired (wlr_cue r) workload cluster v0 x))"
    proof (cases pre)
      case Nil
      with split u x apply_fields_frame [OF ok rest, of "u_key u"] show ?thesis by auto
    next
      case (Cons _ pre')
      with split Cons.IH [OF rest] show ?thesis by (simp add: fields_applied_def)
    qed
  qed
qed

lemma apply_fields_stopped:
  assumes "run_state (apply_fields r workload cluster vals) w = (Stopped f, w')"
  shows "\<exists>pre v post w1. vals = pre @ v # post \<and>
    run_state (apply_fields r workload cluster pre) w = (Completed, w1) \<and>
    run_state (apply_field r workload cluster v) w1 = (Stopped f, w')"
  using assms
proof (induction vals arbitrary: w)
  case (Cons v vs)
  obtain a w1 where a: "run_state (apply_field r workload cluster v) w = (a, w1)"
    by (cases "run_state (apply_field r workload cluster v) w")
  show ?case
  proof (cases a)
    case Completed
    with Cons.prems a have "run_state (apply_fields r workload cluster vs) w1 = (Stopped f, w')"
      by simp
    from Cons.IH [OF this] obtain pre v' post w2 where
      "vs = pre @ v' # post" "run_state (apply_fields r workload cluster pre) w1 = (Completed, w2)"
      "run_state (apply_field r workload cluster v') w2 = (Stopped f, w')" by blast
    with a Completed show ?thesis by (intro exI [of _ "v # pre"]) auto
  next
    case (Stopped g)
    with Cons.prems a show ?thesis by (intro exI [of _ "[]"]) auto
  next
    case (Panicked p)
    with Cons.prems a show ?thesis by simp
  qed
qed simp

lemma apply_fields_settled:
  assumes ok: "create_or_patch_ok u_key view (wlr_CreateOrPatch r)"
    and snm: "set_nested_map_ok (wlr_SetNestedMap r)"
    and "run_state (apply_fields r workload cluster vals) w = (Completed, w')"
    and "\<And>v. v \<in> set vals \<Longrightarrow> \<exists>u x. DecodeUnstructured (wlr_cue r) v = Inr u \<and>
      view w (u_key u) = Some x \<and> unstructured_desired (wlr_cue r) workload cluster v x"
  shows "view w' = view w"
  using assms(3,4)
proof (induction vals arbitrary: w)
  case (Cons v vs)
  from Cons.prems(1) obtain w1 where a: "run_state (apply_field r workload cluster v) w = (Completed, w1)"
    and rest: "run_state (apply_fields r workload cluster vs) w1 = (Completed, w')"
    by (auto split: prod.splits loop.splits)
  from a have same: "view w1 = view w"
  proof (cases rule: apply_field_run)
    case (called u c)
    then obtain op where "run_state (wlr_CreateOrPatch r u (unstructured_mutate (wlr_cue r)
        (wlr_SetNestedMap r) workload cluster v)) w = (Returns (Inr op), w1)" by auto
    with mutator.cop_settled [OF unstructured_mutator [OF snm] ok] Cons.prems(2) [of v] called(1)
    show ?thesis by fastforce
  qed simp
  have "view w' = view w1"
    by (rule Cons.IH [OF rest]) (use Cons.prems(2) same in simp)
  with same show ?case by simp
qed simp

text \<open>
  What a reconcile of a workload may apply: the fields of the templates it can read, rendered with
  the clusters it can read. What they decode to is up to the template.
\<close>

definition renders ::
  "('w, 'e, 'h, 'i, 'v, 'p) DockyardsWorkloadReconciler \<Rightarrow> Workload \<Rightarrow> Cluster \<Rightarrow> 'v \<Rightarrow> Unstructured \<Rightarrow> bool" where
  "renders r workload ownerCluster v u \<longleftrightarrow>
     (\<exists>w w'. run_state (wlr_GetOwnerCluster r workload) w = (Inr (Some ownerCluster), w')) \<and>
     (\<exists>ref t w w' wd vals. wl_WorkloadTemplateRef workload = Some ref \<and>
        run_state (wlr_GetTemplate r (template_key workload ref)) w = (Inr t, w') \<and>
        wlt_Type t = WorkloadTemplateTypeCue \<and> wlr_Getwd r = Inr wd \<and>
        render_template (wlr_cue r) wd (wlt_Source t) ownerCluster workload = Inr vals \<and> v \<in> set vals) \<and>
     DecodeUnstructured (wlr_cue r) v = Inr u"

lemma WorkloadTemplate0_not_cue: "wlt_Type WorkloadTemplate0 \<noteq> WorkloadTemplateTypeCue"
  by (simp add: WorkloadTemplate0_def WorkloadTemplateTypeCue_def)

text \<open>Applying fields leaves every part of the world alone that the calls for their objects leave alone.\<close>

context world_preorder
begin

lemma apply_fields_within:
  assumes "\<And>v u. v \<in> set vals \<Longrightarrow> DecodeUnstructured (wlr_cue r) v = Inr u \<Longrightarrow>
      within Q (wlr_CreateOrPatch r u
        (unstructured_mutate (wlr_cue r) (wlr_SetNestedMap r) workload ownerCluster v))"
  shows "within Q (apply_fields r workload ownerCluster vals)"
  using assms
proof (induction vals)
  case (Cons v vs)
  have "within Q (apply_field r workload ownerCluster v)"
    unfolding apply_field_def
    using Cons.prems [of v] by (auto intro!: within_bind within_ret split: option.splits sum.splits)
  moreover have "within Q (apply_fields r workload ownerCluster vs)"
    by (rule Cons.IH) (simp add: Cons.prems)
  ultimately show ?case by (auto intro!: within_bind within_ret split: loop.splits)
qed (simp add: within_ret)

text \<open>What the calls of a reconcile do to the world, the stages before the final patch do to it.\<close>

lemma workload_stages_within:
  assumes cop: "\<And>cl v u. renders r workload cl v u \<Longrightarrow>
      within Q (wlr_CreateOrPatch r u (unstructured_mutate (wlr_cue r) (wlr_SetNestedMap r) workload cl v))"
    and reads: "\<And>v. within Q (wlr_GetOwnerCluster r v)" "\<And>k. within Q (wlr_GetTemplate r k)"
      "\<And>ls ns. within Q (wlr_ListKustomizations r ls ns)" "\<And>ls ns. within Q (wlr_ListHelmReleases r ls ns)"
  shows "within Q (workload_stages r workload)"
proof -
  have applied: "within Q (apply_template r workload cl t)"
    if "\<And>wd vals v u. wlr_Getwd r = Inr wd \<Longrightarrow>
        render_template (wlr_cue r) wd (wlt_Source t) cl workload = Inr vals \<Longrightarrow> v \<in> set vals \<Longrightarrow>
        DecodeUnstructured (wlr_cue r) v = Inr u \<Longrightarrow> renders r workload cl v u" for cl t
    unfolding apply_template_def give_up_def
    by (auto intro!: within_bind within_ret apply_fields_within cop dest: that split: sum.splits loop.splits)
  have "within Q (check_template r workload cl got)"
    if ref: "wl_WorkloadTemplateRef workload = Some ref"
      and cl: "run_state (wlr_GetOwnerCluster r workload) w = (Inr (Some cl), w1)"
      and got: "run_state (wlr_GetTemplate r (template_key workload ref)) w2 = (got, w3)" for cl got ref w w1 w2 w3
  proof (cases got)
    case (Inr t)
    have "within Q (apply_template r workload cl t)" if "wlt_Type t = WorkloadTemplateTypeCue"
      using that ref cl got Inr
      by (intro applied) (unfold renders_def, blast)
    with Inr show ?thesis by (simp add: check_template_def give_up_def Let_def within_ret)
  qed (simp add: check_template_def give_up_def Let_def within_ret WorkloadTemplate0_not_cue)
  then have tpl: "within Q (reconcileWorkloadTemplate r workload)"
    unfolding reconcileWorkloadTemplate_def
    by (auto intro!: within_bind_results within_ret reads split: sum.splits option.splits)
  have "within Q (reconcileReconcilingCondition r v)" for v
    unfolding reconcileReconcilingCondition_def Let_def
    by (auto intro!: within_bind within_ret reads split: sum.splits)
  with tpl show ?thesis
    unfolding workload_stages_def by (auto intro!: within_bind within_ret split: go.splits)
qed

end

lemma apply_template_cases:
  assumes "run_state (apply_template r workload ownerCluster t) w = ((workload', out), w')"
  obtains (error) err where "workload' = workload" and "out = Returns (Result0, Some err)" and "w' = w"
  | (failed) f where "workload' = mark_failed (wlr_cond r) workload f" and "out = Returns (Result0, None)"
  | (applied) wd vals where "wlr_Getwd r = Inr wd"
      "render_template (wlr_cue r) wd (wlt_Source t) ownerCluster workload = Inr vals"
      "run_state (apply_fields r workload ownerCluster vals) w = (Completed, w')"
      "workload' = MarkTrue (wlr_cond r) workload WorkloadTemplateReconciledCondition ReadyReason '''' []"
      "out = Returns (Result0, None)"
  | (panicked) p where "workload' = workload" and "out = Panics p"
proof (cases "wlr_Getwd r")
  case (Inl err)
  with assms show ?thesis by (intro error [of err]) (simp_all add: apply_template_def)
next
  case wd: (Inr wd)
  show ?thesis
  proof (cases "render_template (wlr_cue r) wd (wlt_Source t) ownerCluster workload")
    case (Inl f)
    with wd assms show ?thesis by (intro failed [of f]) (simp_all add: apply_template_def give_up_def)
  next
    case vals: (Inr vals)
    obtain res w1 where res: "run_state (apply_fields r workload ownerCluster vals) w = (res, w1)"
      by (cases "run_state (apply_fields r workload ownerCluster vals) w")
    note run = assms [unfolded apply_template_def wd vals sum.case run_state_bind res prod.case]
    show ?thesis
    proof (cases res)
      case Completed
      with run res show ?thesis by (intro applied [OF wd vals]) simp_all
    next
      case (Stopped f)
      with run show ?thesis by (intro failed [of f]) (simp_all add: give_up_def)
    next
      case (Panicked p)
      with run show ?thesis by (intro panicked [of p]) simp_all
    qed
  qed
qed

lemma check_template_cases:
  assumes "run_state (check_template r workload ownerCluster got) w = ((workload', out), w')"
  obtains (error) err where "workload' = workload" and "out = Returns (Result0, err)" and "w' = w"
  | (failed) f where "workload' = mark_failed (wlr_cond r) workload f"
      and "out = Returns (Result0, None)" and "w' = w"
  | (usable) t where "got = Inr t \<or> t = WorkloadTemplate0" "wlt_Type t = WorkloadTemplateTypeCue"
      "wl_ClusterComponent workload \<or> \<not> Cluster_IsFalse (wlr_cond r) ownerCluster ReadyCondition"
      "run_state (apply_template r workload ownerCluster t) w = ((workload', out), w')"
proof -
  define err where "err = (case got of Inl e \<Rightarrow> Some e | Inr _ \<Rightarrow> None)"
  define t where "t = (case got of Inl _ \<Rightarrow> WorkloadTemplate0 | Inr t \<Rightarrow> t)"
  note run = assms [unfolded check_template_def Let_def, folded err_def t_def]
  have t: "got = Inr t \<or> t = WorkloadTemplate0" by (cases got) (simp_all add: t_def)
  consider (a) "IgnoreNotFound (wlr_errlib r) err \<noteq> None"
    | (b) f where "run_state (give_up r workload f) w = ((workload', out), w')"
    | (c) "wlt_Type t = WorkloadTemplateTypeCue"
      "wl_ClusterComponent workload \<or> \<not> Cluster_IsFalse (wlr_cond r) ownerCluster ReadyCondition"
      "run_state (apply_template r workload ownerCluster t) w = ((workload', out), w')"
    using run by (simp split: if_splits)
  then show ?thesis
  proof cases
    case a
    with run show ?thesis by (intro error [of err]) simp_all
  next
    case b
    then show ?thesis by (intro failed [of f]) (simp_all add: give_up_def)
  next
    case c
    with t show ?thesis by (intro usable [of t]) simp_all
  qed
qed

lemma reconcileWorkloadTemplate_cases:
  assumes "run_state (reconcileWorkloadTemplate r workload) w = ((workload', out), w')"
  obtains (stopped) err where "workload' = workload" and "out = Returns (Result0, err)"
  | (checked) ownerCluster ref w1 w2 got where
      "not_deleted (wl_meta workload)"
      "run_state (wlr_GetOwnerCluster r workload) w = (Inr (Some ownerCluster), w1)"
      "wl_WorkloadTemplateRef workload = Some ref"
      "run_state (wlr_GetTemplate r (template_key workload ref)) w1 = (got, w2)"
      "run_state (check_template r workload ownerCluster got) w2 = ((workload', out), w')"
  using assms
  by (auto simp: reconcileWorkloadTemplate_def split: if_splits sum.splits option.splits prod.splits)

lemma mark_failed_status:
  assumes "condlib_ok C"
  shows "condition_status (mark_failed C workload f) WorkloadTemplateReconciledCondition = Some ConditionFalse"
    and "condition_reason (mark_failed C workload f) WorkloadTemplateReconciledCondition = Some (fail_Reason f)"
  using assms by (simp_all add: condlib_ok_def mark_failed_def)

end
