(* ===== verification/Workload_Properties.thy ===== *)
theory Workload_Properties
  imports Workload_Controller
begin

text \<open>
  What the workload reconciler guarantees, over the definitions and lemmas of
  \<open>Workload_Controller\<close>, and the example reconciler its witnesses run.
\<close>

section \<open>The example reconciler\<close>

definition set_condition :: "Workload \<Rightarrow> Condition \<Rightarrow> Workload" where
  "set_condition w c =
     w\<lparr>wl_Conditions := c # filter (\<lambda>c'. cond_Type c' \<noteq> cond_Type c) (wl_Conditions w)\<rparr>"

definition mark :: "ConditionStatus \<Rightarrow> Workload \<Rightarrow> string \<Rightarrow> string \<Rightarrow> string \<Rightarrow> string fmt_arg list \<Rightarrow> Workload" where
  "mark status w t reason format args =
     set_condition w \<lparr>cond_Type = t, cond_Status = status, cond_Reason = reason, cond_Message = format\<rparr>"

definition example_condlib :: "string condlib" where
  "example_condlib =
     \<lparr>MarkFalse = mark ConditionFalse,
      MarkTrue = mark ConditionTrue,
      DeleteCondition = (\<lambda>w t. w\<lparr>wl_Conditions := filter (\<lambda>c. cond_Type c \<noteq> t) (wl_Conditions w)\<rparr>),
      SetSummary = (\<lambda>w t cs ns. mark
        (if summary_issue w cs ns then ConditionFalse
         else if summary_well w cs ns then ConditionTrue else ConditionUnknown) w t ''Summary'' '''' []),
      Cluster_IsFalse = (\<lambda>c t. \<exists>x \<in> set (cl_Conditions c). cond_Type x = t \<and> cond_Status x = ConditionFalse),
      Kustomization_IsReconciling =
        (\<lambda>k. \<exists>x \<in> set (k_Conditions k). cond_Type x = ReconcilingCondition \<and> cond_Status x = ConditionTrue),
      HelmRelease_IsReconciling =
        (\<lambda>h. \<exists>x \<in> set (hr_Conditions h). cond_Type x = ReconcilingCondition \<and> cond_Status x = ConditionTrue)\<rparr>"

definition example_cluster :: Cluster where
  "example_cluster = \<lparr>cl_meta = (new_meta ''c1'' ''ns'')\<lparr>om_UID := ''uid-c1''\<rparr>, cl_Conditions = []\<rparr>"

definition example_workload :: Workload where
  "example_workload =
     \<lparr>wl_meta = (new_meta ''w1'' ''ns'')\<lparr>om_UID := ''uid-w1'',
        om_Labels := gomap_literal [(LabelClusterName, ''c1''), (LabelOrganizationName, ''org'')]\<rparr>,
      wl_ClusterComponent = False, wl_TargetNamespace = ''app'', wl_WorkloadTemplateInput = None,
      wl_Input = None,
      wl_WorkloadTemplateRef = Some \<lparr>tor_APIGroup = None, tor_Kind = WorkloadTemplateKind,
        tor_Name = ''t1'', tor_Namespace = None\<rparr>,
      wl_Provenience = '''', wl_Conditions = []\<rparr>"

definition example_template :: WorkloadTemplate where
  "example_template =
     \<lparr>wlt_meta = new_meta ''t1'' ''ns'', wlt_Source = ''ok'', wlt_Type = WorkloadTemplateTypeCue\<rparr>"

text \<open>The template \<open>got\<close> is what the API answers when the template is read.\<close>

definition example_workload_reconciler ::
  "string + WorkloadTemplate \<Rightarrow>
     (UnstructuredKey \<rightharpoonup> Unstructured, string, unit, string, nat, string) DockyardsWorkloadReconciler" where
  "example_workload_reconciler got =
     \<lparr>wlr_Get = (\<lambda>k. ret (Inr example_workload)),
      wlr_GetTemplate = (\<lambda>k. ret got),
      wlr_GetOwnerCluster = (\<lambda>w. ret (Inr (Some example_cluster))),
      wlr_ListKustomizations = (\<lambda>ls ns. ret (Inr [])),
      wlr_ListHelmReleases = (\<lambda>ls ns. ret (Inr [])),
      wlr_ListWorkloads = (\<lambda>ls ns. ret (Inr [example_workload])),
      wlr_ListWorkloadsByField = (\<lambda>fs. ret (Inr [example_workload])),
      wlr_WorkloadTemplateReferenceField = ''spec.workloadTemplateRef'',
      wlr_TypedObjectRef = tor_Name,
      wlr_CreateOrPatch = store_create_or_patch u_key,
      wlr_NewHelper = (\<lambda>w. Inr ()),
      wlr_Patch = (\<lambda>h w. ret None),
      wlr_SetNestedMap = store_set_nested_map,
      wlr_Getwd = Inr ''/'',
      wlr_cue = example_cue,
      wlr_cond = example_condlib,
      wlr_errlib = store_errlib\<rparr>"

lemma find_condition_filter:
  "find_condition (filter (\<lambda>c. cond_Type c \<noteq> t) cs) t' = (if t' = t then None else find_condition cs t')"
  by (induction cs) (auto simp: find_condition_def)

lemma mark_changes:
  "only_condition_changed t w (mark s w t reason f a)"
  "condition_status (mark s w t reason f a) t = Some s"
  "condition_reason (mark s w t reason f a) t = Some reason"
proof -
  have "find_condition (c # cs) t' = (if cond_Type c = t' then Some c else find_condition cs t')" for c cs t'
    by (simp add: find_condition_def)
  then show "only_condition_changed t w (mark s w t reason f a)"
    "condition_status (mark s w t reason f a) t = Some s"
    "condition_reason (mark s w t reason f a) t = Some reason"
    by (auto simp: only_condition_changed_def condition_status_def condition_reason_def mark_def
        set_condition_def find_condition_filter)
qed

lemma example_condlib_ok: "condlib_ok example_condlib"
  by (simp add: condlib_ok_def example_condlib_def mark_changes)
    (simp add: only_condition_changed_def condition_status_def find_condition_filter)

lemma summary_well_no_issue: "summary_well w cs ns \<Longrightarrow> \<not> summary_issue w cs ns"
  by (auto simp: summary_well_def summary_issue_def split: if_splits)

lemma example_summary_ok: "summary_ok example_condlib"
  by (simp add: summary_ok_def example_condlib_def mark_changes summary_well_no_issue)

lemma example_workload_reconciler_ok:
  "create_or_patch_ok u_key (\<lambda>w. w) (wlr_CreateOrPatch (example_workload_reconciler got))"
  "set_nested_map_ok (wlr_SetNestedMap (example_workload_reconciler got))"
  "condlib_ok (wlr_cond (example_workload_reconciler got))"
  "errlib_ok (wlr_errlib (example_workload_reconciler got))"
  "cue_ok (wlr_cue (example_workload_reconciler got))"
  "summary_ok (wlr_cond (example_workload_reconciler got))"
  by (simp_all add: example_summary_ok example_workload_reconciler_def store_create_or_patch_ok store_set_nested_map_ok
      example_condlib_ok store_errlib_ok example_cue_ok)

section \<open>Applying a template\<close>

text \<open>The example template is rendered into one object, stored with its byte string as text.\<close>

definition example_stored :: Unstructured where
  "example_stored =
     example_object\<lparr>u_meta := (new_meta ''app'' ''ns'')\<lparr>
         om_OwnerReferences := [workload_owner example_workload],
         om_Labels := workload_labels example_workload example_cluster\<rparr>,
       u_Fields := [''spec'' \<mapsto> GMap [(''path'', GString ''./''), (''blob'', GString ''TWFu'')]]\<rparr>"

lemma b64_encode_Man: "b64_encode [77, 97, 110] = ''TWFu''"
  by code_simp

lemma example_mutate:
  "unstructured_mutate example_cue store_set_nested_map example_workload example_cluster 1 example_object
     = Returns (Inr example_stored)"
  by (simp add: unstructured_mutate_def example_cue_def store_set_nested_map_def example_stored_def
      example_lookup_def example_spec_def example_object_def b64_encode_Man del: b64_encode.simps)

lemma example_render:
  "render_template example_cue ''/'' ''ok'' example_cluster example_workload = Inr [1]"
  by (simp add: render_template_def load_template_def example_cue_def example_lookup_def)

lemma example_parts:
  "wlr_GetOwnerCluster (example_workload_reconciler got) = (\<lambda>w. ret (Inr (Some example_cluster)))"
  "wlr_GetTemplate (example_workload_reconciler got) = (\<lambda>k. ret got)"
  "wlr_Getwd (example_workload_reconciler got) = Inr ''/''"
  "wlr_cue (example_workload_reconciler got) = example_cue"
  "wlr_cond (example_workload_reconciler got) = example_condlib"
  "wlr_errlib (example_workload_reconciler got) = store_errlib"
  by (simp_all add: example_workload_reconciler_def)

lemma example_cluster_ready: "\<not> Cluster_IsFalse example_condlib example_cluster ReadyCondition"
  by (simp add: example_condlib_def example_cluster_def)

lemma example_apply_field:
  "run_state (apply_field (example_workload_reconciler got) example_workload example_cluster 1) Map.empty
     = (Completed, [u_key example_object \<mapsto> example_stored])"
  using example_mutate
  by (simp add: apply_field_def example_workload_reconciler_def store_create_or_patch_def current_object_def)
    (simp add: example_cue_def store_create_or_patch_def current_object_def)

lemma example_run:
  "run_state (reconcileWorkloadTemplate (example_workload_reconciler (Inr example_template))
      example_workload) Map.empty =
     ((mark ConditionTrue example_workload WorkloadTemplateReconciledCondition ReadyReason '''' [],
       Returns (Result0, None)), [u_key example_object \<mapsto> example_stored])"
proof -
  have "MarkTrue example_condlib = mark ConditionTrue" by (simp add: example_condlib_def)
  moreover have "not_deleted (wl_meta example_workload)"
    "wl_WorkloadTemplateRef example_workload \<noteq> None"
    "wlt_Type example_template = WorkloadTemplateTypeCue" "wlt_Source example_template = ''ok''"
    by (simp_all add: example_workload_def not_deleted_def new_meta_def example_template_def)
  ultimately show ?thesis
    using example_apply_field example_render example_cluster_ready
    by (auto simp: reconcileWorkloadTemplate_def check_template_def apply_template_def example_parts
        store_errlib_def)
qed

text \<open>
  C1. A workload is only reported as reconciled after its template was applied. When
  \<open>reconcileWorkloadTemplate\<close> turns the condition \<open>WorkloadTemplateReconciled\<close> to true, the workload
  was not being deleted, its owning cluster and its template were found, the template is a CUE
  template, the cluster was not known to be unready (or the workload is a component of the
  cluster), the template rendered, and every rendered field is stored: owned by the workload,
  labelled with workload and cluster, with the rendered spec.
\<close>

theorem workload_reconciled_means_applied:
  assumes ok: "create_or_patch_ok u_key view (wlr_CreateOrPatch r)"
    and snm: "set_nested_map_ok (wlr_SetNestedMap r)"
    and cond: "condlib_ok (wlr_cond r)"
    and before: "condition_status workload WorkloadTemplateReconciledCondition \<noteq> Some ConditionTrue"
    and run: "run_state (reconcileWorkloadTemplate r workload) w = ((workload', out), w')"
    and after: "condition_status workload' WorkloadTemplateReconciledCondition = Some ConditionTrue"
  shows "\<exists>ownerCluster ref w1 w2 t wd vals.
      not_deleted (wl_meta workload) \<and>
      run_state (wlr_GetOwnerCluster r workload) w = (Inr (Some ownerCluster), w1) \<and>
      wl_WorkloadTemplateRef workload = Some ref \<and>
      run_state (wlr_GetTemplate r (template_key workload ref)) w1 = (Inr t, w2) \<and>
      wlt_Type t = WorkloadTemplateTypeCue \<and>
      (wl_ClusterComponent workload \<or> \<not> Cluster_IsFalse (wlr_cond r) ownerCluster ReadyCondition) \<and>
      wlr_Getwd r = Inr wd \<and>
      render_template (wlr_cue r) wd (wlt_Source t) ownerCluster workload = Inr vals \<and>
      fields_applied (wlr_cue r) workload ownerCluster vals (view w') \<and>
      out = Returns (Result0, None)"
  using run
proof (cases rule: reconcileWorkloadTemplate_cases)
  case (stopped err)
  with before after show ?thesis by simp
next
  case outer: (checked ownerCluster ref w1 w2 got)
  from outer(5) show ?thesis
  proof (cases rule: check_template_cases)
    case (error err)
    with before after show ?thesis by simp
  next
    case (failed f)
    with mark_failed_status [OF cond] after show ?thesis by simp
  next
    case usable: (usable t)
    with WorkloadTemplate0_not_cue have got: "got = Inr t" by auto
    from usable(4) show ?thesis
    proof (cases rule: apply_template_cases)
      case (applied wd vals)
      with outer usable got apply_fields_applied [OF ok snm] show ?thesis by blast
    next
      case (failed f)
      with mark_failed_status [OF cond] after show ?thesis by simp
    qed (use before after in simp_all)
  qed
qed

theorem workload_reconciled_means_applied_witness:
  "fields_applied example_cue example_workload example_cluster [1]
     [u_key example_object \<mapsto> example_stored]"
proof -
  have "condition_status example_workload WorkloadTemplateReconciledCondition \<noteq> Some ConditionTrue"
    by (simp add: example_workload_def condition_status_def find_condition_def)
  from workload_reconciled_means_applied [OF example_workload_reconciler_ok(1-3) this example_run]
  show ?thesis
    by (auto simp: mark_changes example_parts example_render example_template_def)
qed

section \<open>Refusals\<close>

text \<open>
  Why a template is not applied at all, as a table over what the API answered: the reason the
  condition gets, or none when the fields are applied or an error is returned.
\<close>

definition template_refusal ::
  "('w, 'e, 'h, 'i, 'v, 'p) DockyardsWorkloadReconciler \<Rightarrow> Workload \<Rightarrow> Cluster \<Rightarrow>
     'e + WorkloadTemplate \<Rightarrow> string option" where
  "template_refusal r workload ownerCluster got =
     (case got of
        Inl e \<Rightarrow>
          if IsNotFound (wlr_errlib r) (Some e) then Some WaitingForWorkloadTemplateReason else None
      | Inr t \<Rightarrow>
          if wlt_Type t \<noteq> WorkloadTemplateTypeCue then Some IncorrectWorkloadTemplateTypeReason
          else if \<not> wl_ClusterComponent workload \<and> Cluster_IsFalse (wlr_cond r) ownerCluster ReadyCondition
          then Some WaitingForClusterReadyReason
          else (case wlr_Getwd r of
                  Inl _ \<Rightarrow> None
                | Inr wd \<Rightarrow>
                    (case render_template (wlr_cue r) wd (wlt_Source t) ownerCluster workload of
                       Inl f \<Rightarrow> Some (fail_Reason f)
                     | Inr _ \<Rightarrow> None)))"

lemma mark_failed_only:
  "condlib_ok C \<Longrightarrow> only_condition_changed WorkloadTemplateReconciledCondition w (mark_failed C w f)"
  by (simp add: condlib_ok_def mark_failed_def)

lemma fail_Reason_fails [simp]: "fail_Reason (fails reason format args) = reason"
  by (simp add: fails_def)

lemma check_template_refusal:
  assumes "errlib_ok (wlr_errlib r)"
    and "template_refusal r workload ownerCluster got = Some reason"
  shows "\<exists>f. check_template r workload ownerCluster got = give_up r workload f \<and> fail_Reason f = reason"
proof -
  have L: "IgnoreNotFound (wlr_errlib r) e = (if IsNotFound (wlr_errlib r) e then None else e)"
    "\<not> IsNotFound (wlr_errlib r) None" for e
    using assms(1) by (simp_all add: errlib_ok_def)
  show ?thesis
  proof (cases got)
    case (Inl e)
    with assms(2) L have "check_template r workload ownerCluster got =
        give_up r workload (fails WaitingForWorkloadTemplateReason '''' [])"
      "reason = WaitingForWorkloadTemplateReason"
      by (simp_all add: template_refusal_def check_template_def split: if_splits)
    then show ?thesis using fail_Reason_fails by blast
  next
    case (Inr t)
    note defs = template_refusal_def check_template_def apply_template_def
    consider (type) "wlt_Type t \<noteq> WorkloadTemplateTypeCue"
      | (cluster) "wlt_Type t = WorkloadTemplateTypeCue" "\<not> wl_ClusterComponent workload"
          "Cluster_IsFalse (wlr_cond r) ownerCluster ReadyCondition"
      | (render) wd f where "wlt_Type t = WorkloadTemplateTypeCue"
          "wl_ClusterComponent workload \<or> \<not> Cluster_IsFalse (wlr_cond r) ownerCluster ReadyCondition"
          "wlr_Getwd r = Inr wd"
          "render_template (wlr_cue r) wd (wlt_Source t) ownerCluster workload = Inl f"
      using Inr assms(2) by (auto simp: template_refusal_def split: if_splits sum.splits)
    then show ?thesis
    proof cases
      case type
      with Inr assms(2) L show ?thesis
        by (intro exI [of _ "fails IncorrectWorkloadTemplateTypeReason '''' []"]) (simp add: defs)
    next
      case cluster
      with Inr assms(2) L show ?thesis
        by (intro exI [of _ "fails WaitingForClusterReadyReason '''' []"]) (simp add: defs)
    next
      case render
      with Inr assms(2) L show ?thesis by (intro exI [of _ f] conjI) (auto simp: defs)
    qed
  qed
qed

text \<open>
  C13. A workload whose template cannot be applied waits without side effects. When the template
  is missing, is not a CUE template, the cluster is unready, or the template does not load,
  build, unify or validate, nothing is written: the world is the one after the two reads. The
  condition \<open>WorkloadTemplateReconciled\<close> is false with the reason of the table, no other
  condition and no other part of the workload changes, and no error is returned, so the
  request is not retried.
\<close>

theorem workload_refused_writes_nothing:
  assumes cond: "condlib_ok (wlr_cond r)" and L: "errlib_ok (wlr_errlib r)"
    and alive: "not_deleted (wl_meta workload)"
    and owner: "run_state (wlr_GetOwnerCluster r workload) w = (Inr (Some ownerCluster), w1)"
    and ref: "wl_WorkloadTemplateRef workload = Some ref"
    and got: "run_state (wlr_GetTemplate r (template_key workload ref)) w1 = (got, w2)"
    and refusal: "template_refusal r workload ownerCluster got = Some reason"
    and run: "run_state (reconcileWorkloadTemplate r workload) w = ((workload', out), w')"
  shows "w' = w2 \<and> out = Returns (Result0, None) \<and> \<not> retried Result0 None \<and>
    condition_status workload' WorkloadTemplateReconciledCondition = Some ConditionFalse \<and>
    condition_reason workload' WorkloadTemplateReconciledCondition = Some reason \<and>
    only_condition_changed WorkloadTemplateReconciledCondition workload workload'"
proof -
  from check_template_refusal [OF L refusal] obtain f where f: "fail_Reason f = reason"
    and check: "check_template r workload ownerCluster got = give_up r workload f" by blast
  from run alive owner ref got check have
    "workload' = mark_failed (wlr_cond r) workload f" "out = Returns (Result0, None)" "w' = w2"
    by (simp_all add: reconcileWorkloadTemplate_def give_up_def)
  with f mark_failed_status [OF cond, of workload f] mark_failed_only [OF cond, of workload f]
  show ?thesis by (simp add: retried_def Result0_def)
qed

theorem workload_refused_writes_nothing_witness:
  "case run_state (reconcileWorkloadTemplate (example_workload_reconciler (Inl ''NotFound''))
       example_workload) Map.empty of
     ((workload', out), w') \<Rightarrow>
       w' = Map.empty \<and> out = Returns (Result0, None) \<and>
       condition_reason workload' WorkloadTemplateReconciledCondition = Some ''WaitingForWorkloadTemplate''"
proof -
  have facts: "not_deleted (wl_meta example_workload)" "wl_WorkloadTemplateRef example_workload =
      Some \<lparr>tor_APIGroup = None, tor_Kind = WorkloadTemplateKind, tor_Name = ''t1'', tor_Namespace = None\<rparr>"
    by (simp_all add: example_workload_def not_deleted_def new_meta_def)
  have refusal: "template_refusal (example_workload_reconciler (Inl ''NotFound'')) example_workload
      example_cluster (Inl ''NotFound'') = Some WaitingForWorkloadTemplateReason"
    by (simp add: template_refusal_def example_parts store_errlib_def)
  obtain workload' out w' where run: "run_state (reconcileWorkloadTemplate
      (example_workload_reconciler (Inl ''NotFound'')) example_workload) Map.empty = ((workload', out), w')"
    by (metis prod.collapse)
  have "run_state (wlr_GetOwnerCluster (example_workload_reconciler (Inl ''NotFound'')) example_workload)
      Map.empty = (Inr (Some example_cluster), Map.empty)"
    "run_state (wlr_GetTemplate (example_workload_reconciler (Inl ''NotFound'')) k) Map.empty =
      (Inl ''NotFound'', Map.empty)" for k
    by (simp_all add: example_parts)
  from workload_refused_writes_nothing [OF example_workload_reconciler_ok(3,4) facts(1) this(1)
      facts(2) this(2) refusal run] run
  show ?thesis by (auto simp: WaitingForWorkloadTemplateReason_def)
qed

section \<open>Failing halfway\<close>

definition field_key :: "('i, 'v, 'p, 'e) cue \<Rightarrow> 'v \<Rightarrow> UnstructuredKey option" where
  "field_key c v = (case DecodeUnstructured c v of Inl _ \<Rightarrow> None | Inr u \<Rightarrow> Some (u_key u))"

lemma apply_field_stopped_reason:
  assumes "run_state (apply_field r workload ownerCluster v) w = (Stopped f, w')"
  shows "fail_Reason f \<in> {ValidateFailedReason, DecodeFailedReason, ReconcileFailedReason}"
  using assms
  by (auto simp: apply_field_def fails_def split: option.splits sum.splits prod.splits go.splits)

text \<open>
  C14. When a field cannot be applied, the fields before it stay applied and the fields after it
  are not touched: every object that is none of the objects of the fields up to the failing
  one is as it was, and between the last applied field and the failing one only the failing
  field's own object may differ. The reason is one of validation, decoding or reconciling.
\<close>

theorem workload_partial_failure:
  assumes ok: "create_or_patch_ok u_key view (wlr_CreateOrPatch r)"
    and snm: "set_nested_map_ok (wlr_SetNestedMap r)"
    and run: "run_state (apply_fields r workload ownerCluster vals) w = (Stopped f, w')"
  shows "\<exists>pre v post w1. vals = pre @ v # post \<and>
    fields_applied (wlr_cue r) workload ownerCluster pre (view w1) \<and>
    (\<forall>k. field_key (wlr_cue r) v \<noteq> Some k \<longrightarrow> view w' k = view w1 k) \<and>
    (\<forall>k. Some k \<notin> field_key (wlr_cue r) ` set (pre @ [v]) \<longrightarrow> view w' k = view w k) \<and>
    fail_Reason f \<in> {ValidateFailedReason, DecodeFailedReason, ReconcileFailedReason}"
proof -
  from apply_fields_stopped [OF run] obtain pre v post w1 where split: "vals = pre @ v # post"
    and pre: "run_state (apply_fields r workload ownerCluster pre) w = (Completed, w1)"
    and v: "run_state (apply_field r workload ownerCluster v) w1 = (Stopped f, w')" by blast
  have last: "view w' k = view w1 k" if "field_key (wlr_cue r) v \<noteq> Some k" for k
    using that by (intro apply_field_frame [OF ok v]) (auto simp: field_key_def)
  moreover have "view w' k = view w k" if "Some k \<notin> field_key (wlr_cue r) ` set (pre @ [v])" for k
  proof -
    have "view w1 k = view w k"
      using that by (intro apply_fields_frame [OF ok pre]) (force simp: field_key_def image_iff)
    with last [of k] that show ?thesis by auto
  qed
  ultimately show ?thesis
    using split apply_fields_applied [OF ok snm pre] apply_field_stopped_reason [OF v] by blast
qed

theorem workload_partial_failure_witness:
  "\<exists>f. run_state (apply_fields (example_workload_reconciler (Inr example_template))
        example_workload example_cluster [1, 7]) Map.empty
      = (Stopped f, [u_key example_object \<mapsto> example_stored]) \<and>
     fail_Reason f \<in> {ValidateFailedReason, DecodeFailedReason, ReconcileFailedReason}"
proof -
  let ?r = "example_workload_reconciler (Inr example_template)"
  have "run_state (apply_field ?r example_workload example_cluster 7) w =
      (Stopped (fails DecodeFailedReason ''%s'' [FmtErr (Some ''cannot decode'')]), w)" for w
    by (simp add: apply_field_def example_parts example_cue_def)
  with example_apply_field have run: "run_state (apply_fields ?r example_workload example_cluster [1, 7])
      Map.empty = (Stopped (fails DecodeFailedReason ''%s'' [FmtErr (Some ''cannot decode'')]),
        [u_key example_object \<mapsto> example_stored])"
    by simp
  from workload_partial_failure [OF example_workload_reconciler_ok(1,2) run] run
  show ?thesis by blast
qed

section \<open>Applying twice\<close>

lemma fields_applied_distinct:
  assumes applied: "fields_applied c workload ownerCluster vals stored"
    and distinct: "distinct (map (field_key c) vals)"
    and v: "v \<in> set vals"
  shows "\<exists>u x. DecodeUnstructured c v = Inr u \<and> stored (u_key u) = Some x \<and>
    unstructured_desired c workload ownerCluster v x"
proof -
  from v obtain pre post where split: "vals = pre @ v # post" by (meson split_list)
  with applied obtain u where u: "DecodeUnstructured c v = Inr u"
    and stored: "(\<forall>v' u'. v' \<in> set post \<and> DecodeUnstructured c v' = Inr u' \<longrightarrow> u_key u' \<noteq> u_key u) \<longrightarrow>
      (\<exists>x. stored (u_key u) = Some x \<and> unstructured_desired c workload ownerCluster v x)"
    unfolding fields_applied_def by blast
  have "u_key u' \<noteq> u_key u" if "v' \<in> set post" "DecodeUnstructured c v' = Inr u'" for v' u'
    using distinct split u that by (force simp: field_key_def image_iff)
  with u stored show ?thesis by blast
qed

text \<open>
  C15. Applying is idempotent. When the rendered fields name different objects, applying them a
  second time leaves every stored object as the first time left it, byte for byte.
\<close>

theorem workload_apply_idempotent:
  assumes ok: "create_or_patch_ok u_key view (wlr_CreateOrPatch r)"
    and snm: "set_nested_map_ok (wlr_SetNestedMap r)"
    and distinct: "distinct (map (field_key (wlr_cue r)) vals)"
    and first: "run_state (apply_fields r workload ownerCluster vals) w = (Completed, w1)"
    and second: "run_state (apply_fields r workload ownerCluster vals) w1 = (Completed, w2)"
  shows "view w2 = view w1"
  using fields_applied_distinct [OF apply_fields_applied [OF ok snm first] distinct]
  by (rule apply_fields_settled [OF ok snm second])

theorem workload_apply_idempotent_witness:
  "snd (run_state (apply_fields (example_workload_reconciler (Inr example_template))
        example_workload example_cluster [1]) [u_key example_object \<mapsto> example_stored])
      = [u_key example_object \<mapsto> example_stored]"
proof -
  let ?r = "example_workload_reconciler (Inr example_template)"
    and ?w = "[u_key example_object \<mapsto> example_stored]"
  have first: "run_state (apply_fields ?r example_workload example_cluster [1]) Map.empty = (Completed, ?w)"
    using example_apply_field by simp
  obtain w2 where second: "run_state (apply_fields ?r example_workload example_cluster [1]) ?w = (Completed, w2)"
    by (simp add: apply_field_def example_workload_reconciler_def)
      (simp add: example_cue_def store_create_or_patch_def unstructured_mutate_def
        store_set_nested_map_def example_lookup_def)
  from workload_apply_idempotent [OF example_workload_reconciler_ok(1,2) _ first second] second
  show ?thesis by simp
qed

section \<open>What is never written\<close>

text \<open>What a run of the loop may change of an object that exists: owners, labels and spec.\<close>

definition kept_outside_spec :: "Unstructured \<Rightarrow> Unstructured \<Rightarrow> bool" where
  "kept_outside_spec x y \<longleftrightarrow>
     u_APIVersion y = u_APIVersion x \<and> u_Kind y = u_Kind x \<and>
     (u_meta y)\<lparr>om_OwnerReferences := [], om_Labels := None\<rparr> =
       (u_meta x)\<lparr>om_OwnerReferences := [], om_Labels := None\<rparr> \<and>
     (\<forall>f. f \<noteq> ''spec'' \<longrightarrow> u_Fields y f = u_Fields x f)"

lemma kept_outside_spec_refl [simp]: "kept_outside_spec x x"
  by (simp add: kept_outside_spec_def)

lemma kept_outside_spec_trans:
  "kept_outside_spec x y \<Longrightarrow> kept_outside_spec y z \<Longrightarrow> kept_outside_spec x z"
  by (simp add: kept_outside_spec_def)

lemma unstructured_mutate_kept:
  assumes "unstructured_mutate c snm workload ownerCluster value x = Returns (Inr y)"
    and "set_nested_map_ok snm"
  shows "kept_outside_spec x y"
  using assms
proof (cases rule: unstructured_mutate_cases)
  case (1 fs)
  then show ?thesis
    by (cases "Exists c (LookupPath c value (ParsePath c ''spec''))")
      (auto simp: kept_outside_spec_def)
qed

section \<open>Conditions and errors\<close>

lemma condition_names_distinct [simp]:
  "WorkloadTemplateReconciledCondition \<noteq> ReconcilingCondition" "ReconcilingCondition \<noteq> ReadyCondition"
  "WorkloadTemplateReconciledCondition \<noteq> ReadyCondition"
  by (simp_all add: WorkloadTemplateReconciledCondition_def ReconcilingCondition_def ReadyCondition_def)

lemma only_condition_changed_other:
  assumes "only_condition_changed t v v'" and "t' \<noteq> t"
  shows "condition_status v' t' = condition_status v t'" "condition_reason v' t' = condition_reason v t'"
  using assms by (auto simp: only_condition_changed_def condition_status_def condition_reason_def)

lemma reconcileWorkloadTemplate_zero:
  assumes "run_state (reconcileWorkloadTemplate r workload) w = ((workload', Returns (res, err)), w')"
  shows "res = Result0"
  using assms
proof (cases rule: reconcileWorkloadTemplate_cases)
  case (checked ownerCluster ref w1 w2 got)
  from checked(5) show ?thesis
  proof (cases rule: check_template_cases)
    case (usable t)
    from usable(4) show ?thesis by (cases rule: apply_template_cases) simp_all
  qed simp_all
qed simp

lemma reconcileReconcilingCondition_zero:
  assumes "run_state (reconcileReconcilingCondition r workload) w = ((workload', res, err), w')"
  shows "res = Result0"
  using assms
  by (auto simp: reconcileReconcilingCondition_def Let_def split: prod.splits sum.splits if_splits)

lemma Workload_Reconcile_stages:
  assumes "run_state (wlr_Get r (NamespacedName req)) w = (Inr workload, w1)"
    and "wlr_NewHelper r workload = Inr h"
    and "run_state (workload_stages r workload) w1 = ((workload', outcome), w2)"
    and "run_state (wlr_Patch r h (summarize (wlr_cond r) workload')) w2 = (patchErr, w3)"
  shows "run_state (Workload_Reconcile r req) w = (deferred_result (wlr_errlib r) outcome patchErr, w3)"
  using assms
  by (simp add: Workload_Reconcile_def)

lemma workload_stages_zero:
  assumes "run_state (workload_stages r workload) w = ((workload', Returns (res, err)), w')"
  shows "res = Result0"
proof -
  obtain workload1 out1 w1 where run: "run_state (reconcileWorkloadTemplate r workload) w = ((workload1, out1), w1)"
    by (metis prod.collapse)
  with assms reconcileWorkloadTemplate_zero [of r workload w workload1]
    reconcileReconcilingCondition_zero [of r workload1 w1]
  show ?thesis
    by (cases out1) (auto simp: workload_stages_def split: prod.splits if_splits)
qed

interpretation wlr: reconciler "Workload_Reconcile r" for r
proof unfold_locales
  fix req :: ctrl_Request and w w' :: 'a and res and err :: "'b option"
  assume "run_state (Workload_Reconcile r req) w = (Returns (res, err), w')"
  then show "res = Result0"
    by (auto simp: Workload_Reconcile_def deferred_result_def dest: workload_stages_zero
        split: prod.splits sum.splits option.splits go.splits)
qed

text \<open>
  C16. A reconcile that found its workload always ends by writing the status summary back, on
  success, on error and on a panic, with the workload as the stages left it; a panic goes on
  unwinding after that. No error is lost: the error returned is nil exactly when neither the
  stages nor the patch failed.
\<close>

theorem workload_reconcile_patches_always:
  assumes L: "errlib_ok (wlr_errlib r)"
    and get: "run_state (wlr_Get r (NamespacedName req)) w = (Inr workload, w1)"
    and helper: "wlr_NewHelper r workload = Inr h"
    and run: "run_state (Workload_Reconcile r req) w = (out, w')"
  shows "\<exists>workload' outcome w2 patchErr.
    run_state (workload_stages r workload) w1 = ((workload', outcome), w2) \<and>
    run_state (wlr_Patch r h (summarize (wlr_cond r) workload')) w2 = (patchErr, w') \<and>
    (case outcome of
       Panics p \<Rightarrow> out = Panics p
     | Returns (res, err) \<Rightarrow>
         (\<exists>err'. out = Returns (Result0, err') \<and> (err' = None \<longleftrightarrow> err = None \<and> patchErr = None)))"
proof -
  obtain workload' outcome w2 where stages: "run_state (workload_stages r workload) w1 = ((workload', outcome), w2)"
    by (metis prod.collapse)
  obtain patchErr w3 where patch: "run_state (wlr_Patch r h (summarize (wlr_cond r) workload')) w2 = (patchErr, w3)"
    by (metis prod.collapse)
  from Workload_Reconcile_stages [OF get helper stages patch] run
  have out: "out = deferred_result (wlr_errlib r) outcome patchErr" "w3 = w'" by simp_all
  have agg: "NewAggregate (wlr_errlib r) [a, Some b] \<noteq> None" for a b
    using L by (auto simp: errlib_ok_def)
  have "case outcome of
       Panics p \<Rightarrow> out = Panics p
     | Returns (res, err) \<Rightarrow>
         (\<exists>err'. out = Returns (Result0, err') \<and> (err' = None \<longleftrightarrow> err = None \<and> patchErr = None))"
    using stages agg
    by (auto simp: out(1) deferred_result_def dest: workload_stages_zero split: go.splits option.splits)
  with stages patch out(2) show ?thesis by blast
qed

theorem workload_reconcile_patches_always_witness:
  "\<exists>err w'. run_state (Workload_Reconcile (example_workload_reconciler (Inr example_template))
      \<lparr>NamespacedName = \<lparr>key_Namespace = ''ns'', key_Name = ''w1''\<rparr>\<rparr>) Map.empty = (Returns (Result0, err), w')"
proof -
  let ?r = "example_workload_reconciler (Inr example_template)"
  let ?req = "\<lparr>NamespacedName = \<lparr>key_Namespace = ''ns'', key_Name = ''w1''\<rparr>\<rparr>"
  obtain out w' where run: "run_state (Workload_Reconcile ?r ?req) Map.empty = (out, w')"
    by (metis prod.collapse)
  have get: "run_state (wlr_Get ?r (NamespacedName ?req)) Map.empty = (Inr example_workload, Map.empty)"
    and helper: "wlr_NewHelper ?r example_workload = Inr ()"
    by (simp_all add: example_workload_reconciler_def)
  from workload_reconcile_patches_always [OF example_workload_reconciler_ok(4) get helper run]
  obtain workload' outcome w2 where "run_state (workload_stages ?r example_workload) Map.empty =
      ((workload', outcome), w2)" and "case outcome of Panics p \<Rightarrow> out = Panics p
        | Returns (res, err) \<Rightarrow> \<exists>err'. out = Returns (Result0, err')" by (fastforce split: go.splits)
  then show ?thesis
    using example_run run by (auto simp: workload_stages_def split: prod.splits if_splits)
qed

text \<open>The workload but for its three conditions.\<close>

definition own_conditions :: "string set" where
  "own_conditions = {WorkloadTemplateReconciledCondition, ReconcilingCondition, ReadyCondition}"

definition only_conditions_changed :: "Workload \<Rightarrow> Workload \<Rightarrow> bool" where
  "only_conditions_changed w w' \<longleftrightarrow>
     w'\<lparr>wl_Conditions := []\<rparr> = w\<lparr>wl_Conditions := []\<rparr> \<and>
     (\<forall>t. t \<notin> own_conditions \<longrightarrow> find_condition (wl_Conditions w') t = find_condition (wl_Conditions w) t)"

lemma only_conditions_changed_refl [simp]: "only_conditions_changed w w"
  by (simp add: only_conditions_changed_def)

lemma only_conditions_changed_keeps:
  assumes "only_conditions_changed v v'"
  shows "wl_meta v' = wl_meta v" "wl_WorkloadTemplateRef v' = wl_WorkloadTemplateRef v"
    "wl_ClusterComponent v' = wl_ClusterComponent v"
proof -
  from assms have eq: "v'\<lparr>wl_Conditions := []\<rparr> = v\<lparr>wl_Conditions := []\<rparr>"
    by (simp add: only_conditions_changed_def)
  from arg_cong [OF eq, of wl_meta] arg_cong [OF eq, of wl_WorkloadTemplateRef]
    arg_cong [OF eq, of wl_ClusterComponent]
  show "wl_meta v' = wl_meta v" "wl_WorkloadTemplateRef v' = wl_WorkloadTemplateRef v"
    "wl_ClusterComponent v' = wl_ClusterComponent v" by simp_all
qed

lemma only_conditions_changed_trans:
  "only_conditions_changed u v \<Longrightarrow> only_conditions_changed v w \<Longrightarrow> only_conditions_changed u w"
  unfolding only_conditions_changed_def by simp

lemma only_conditions_changed_step:
  "only_conditions_changed w w' \<Longrightarrow> only_condition_changed t w' w'' \<Longrightarrow> t \<in> own_conditions \<Longrightarrow>
    only_conditions_changed w w''"
  unfolding only_conditions_changed_def only_condition_changed_def by metis

lemma own_conditions_mem [simp]:
  "WorkloadTemplateReconciledCondition \<in> own_conditions" "ReconcilingCondition \<in> own_conditions"
  "ReadyCondition \<in> own_conditions"
  by (simp_all add: own_conditions_def)

lemma condlib_changes:
  assumes "condlib_ok C"
  shows "only_condition_changed t w (MarkFalse C w t reason f a)"
    "only_condition_changed t w (MarkTrue C w t reason f a)"
    "only_condition_changed t w (DeleteCondition C w t)"
    "only_condition_changed t w (SetSummary C w t cs ns)"
  using assms by (simp_all add: condlib_ok_def)

lemma reconcileWorkloadTemplate_changes:
  assumes cond: "condlib_ok (wlr_cond r)"
    and "run_state (reconcileWorkloadTemplate r workload) w = ((workload', out), w')"
  shows "only_conditions_changed workload workload'"
proof -
  have failed: "only_conditions_changed workload (mark_failed (wlr_cond r) workload f)" for f
    unfolding mark_failed_def
    by (rule only_conditions_changed_step [OF _ condlib_changes(1) [OF cond]]) simp_all
  have done': "only_conditions_changed workload
      (MarkTrue (wlr_cond r) workload WorkloadTemplateReconciledCondition reason f a)" for reason f a
    by (rule only_conditions_changed_step [OF _ condlib_changes(2) [OF cond]]) simp_all
  from assms(2) show ?thesis
  proof (cases rule: reconcileWorkloadTemplate_cases)
    case (checked ownerCluster ref w1 w2 got)
    from checked(5) show ?thesis
    proof (cases rule: check_template_cases)
      case (usable t)
      from usable(4) show ?thesis
        by (cases rule: apply_template_cases) (simp_all add: failed done')
    qed (simp_all add: failed)
  qed simp
qed

lemma reconcileReconcilingCondition_changes:
  assumes cond: "condlib_ok (wlr_cond r)"
    and "run_state (reconcileReconcilingCondition r workload) w = ((workload', res, err), w')"
  shows "workload' = workload \<or> only_condition_changed ReconcilingCondition workload workload'"
  using assms(2) condlib_changes [OF cond]
  by (auto simp: reconcileReconcilingCondition_def Let_def split: prod.splits sum.splits if_splits)

lemma workload_stages_changes:
  assumes cond: "condlib_ok (wlr_cond r)"
    and run: "run_state (workload_stages r workload) w = ((workload', outcome), w')"
  shows "only_conditions_changed workload (summarize (wlr_cond r) workload')"
proof -
  obtain workload1 out1 w1 where t: "run_state (reconcileWorkloadTemplate r workload) w = ((workload1, out1), w1)"
    by (metis prod.collapse)
  note c1 = reconcileWorkloadTemplate_changes [OF cond t]
  obtain workload2 res err w2 where rc: "run_state (reconcileReconcilingCondition r workload1) w1 =
      ((workload2, res, err), w2)"
    by (metis prod.collapse)
  from c1 reconcileReconcilingCondition_changes [OF cond rc]
  have c2: "only_conditions_changed workload workload2"
    using only_conditions_changed_step own_conditions_mem(2) by blast
  from run t rc have "workload' = workload1 \<or> workload' = workload2"
    by (cases out1) (auto simp: workload_stages_def split: prod.splits if_splits)
  with c1 c2 have "only_conditions_changed workload workload'" by blast
  then show ?thesis
    unfolding summarize_def
    by (rule only_conditions_changed_step [OF _ condlib_changes(4) [OF cond]]) simp
qed

context world_preorder
begin

lemma Workload_Reconcile_within:
  assumes cond: "condlib_ok (wlr_cond r)"
    and get: "within Q (wlr_Get r (NamespacedName req))"
    and stages: "\<And>w v w'. run_state (wlr_Get r (NamespacedName req)) w = (Inr v, w') \<Longrightarrow>
      within Q (workload_stages r v)"
    and patch: "\<And>v h v'. wlr_NewHelper r v = Inr h \<Longrightarrow> only_conditions_changed v v' \<Longrightarrow>
      within Q (wlr_Patch r h v')"
  shows "within Q (Workload_Reconcile r req)"
proof -
  have "within Q (do {
      (v', outcome) \<leftarrow> workload_stages r v;
      patchErr \<leftarrow> wlr_Patch r h (summarize (wlr_cond r) v');
      ret (deferred_result (wlr_errlib r) outcome patchErr)
    })" if got: "run_state (wlr_Get r (NamespacedName req)) w0 = (Inr v, w1)"
      and helper: "wlr_NewHelper r v = Inr h" for v h w0 w1
  proof (rule within_bind_results [OF stages [OF got]])
    fix w x w'
    assume "run_state (workload_stages r v) w = (x, w')"
    then have "only_conditions_changed v (summarize (wlr_cond r) (fst x))"
      using workload_stages_changes [OF cond] by (cases x) auto
    from patch [OF helper this]
    show "within Q (case x of (v', outcome) \<Rightarrow> do {
        patchErr \<leftarrow> wlr_Patch r h (summarize (wlr_cond r) v');
        ret (deferred_result (wlr_errlib r) outcome patchErr)
      })"
      by (cases x) (auto intro!: within_bind within_ret)
  qed
  then show ?thesis
    unfolding Workload_Reconcile_def
    by (auto intro!: within_bind_results [OF get] within_ret split: sum.splits)
qed

end

section \<open>What is written to objects that exist\<close>

text \<open>
  What a run leaves of the objects that exist: they stay, with everything but owners, labels and
  spec as it was. Runs compose under this relation.
\<close>

definition keeps_outside_spec :: "('w \<Rightarrow> UnstructuredKey \<rightharpoonup> Unstructured) \<Rightarrow> 'w \<Rightarrow> 'w \<Rightarrow> bool" where
  "keeps_outside_spec view w w' \<longleftrightarrow>
     (\<forall>k x. view w k = Some x \<longrightarrow> (\<exists>y. view w' k = Some y \<and> kept_outside_spec x y))"

interpretation outside_spec: world_preorder "keeps_outside_spec view" for view
proof unfold_locales
  show "keeps_outside_spec view w w" for w by (simp add: keeps_outside_spec_def)
  show "keeps_outside_spec view w w2" if "keeps_outside_spec view w w1" "keeps_outside_spec view w1 w2" for w w1 w2
    using that kept_outside_spec_trans unfolding keeps_outside_spec_def by meson
qed

lemma keeps_view_outside_spec: "keeps_view view m \<Longrightarrow> within (keeps_outside_spec view) m"
  by (simp add: keeps_view_def within_def keeps_outside_spec_def)

lemma rendered_keeps_outside_spec:
  assumes ok: "create_or_patch_ok u_key view cop" and writes: "create_or_patch_writes_ok u_key view cop"
    and snm: "set_nested_map_ok snm"
  shows "within (keeps_outside_spec view) (cop u (unstructured_mutate c snm workload ownerCluster v))"
  unfolding within_def keeps_outside_spec_def
proof (intro allI impI)
  fix w res w' k x
  assume run: "run_state (cop u (unstructured_mutate c snm workload ownerCluster v)) w = (res, w')"
    and x: "view w k = Some x"
  show "\<exists>y. view w' k = Some y \<and> kept_outside_spec x y"
  proof (cases "k = u_key u")
    case True
    with create_or_patch_writesD [OF writes run] x consider "view w' k = Some x"
      | y where "unstructured_mutate c snm workload ownerCluster v x = Returns (Inr y)" "view w' k = Some y"
      by (auto simp: current_object_def)
    then show ?thesis by cases (use unstructured_mutate_kept [OF _ snm] in auto)
  qed (use create_or_patch_frame [OF ok run] x in simp)
qed

text \<open>
  C31. Once an object exists, a reconcile of a workload only ever writes its owner references, its
  labels and its \<open>spec\<close>, however the run ends: with success, with an error, giving up or
  panicking between two fields, or with a call that reports an error after its patch has got
  through. Every other top-level field (\<open>data\<close>, \<open>stringData\<close>, \<open>rules\<close>, \<open>status\<close>, \<dots>), annotations,
  finalizers, UID and deletion mark stay as they are, whatever the template now says. No object
  is deleted.
\<close>

theorem workload_writes_only_spec:
  assumes ok: "create_or_patch_ok u_key view (wlr_CreateOrPatch r)"
    and writes: "create_or_patch_writes_ok u_key view (wlr_CreateOrPatch r)"
    and snm: "set_nested_map_ok (wlr_SetNestedMap r)" and cond: "condlib_ok (wlr_cond r)"
    and gets: "\<And>k. keeps_view view (wlr_Get r k)" "\<And>k. keeps_view view (wlr_GetTemplate r k)"
      "\<And>v. keeps_view view (wlr_GetOwnerCluster r v)"
    and lists: "\<And>ls ns. keeps_view view (wlr_ListKustomizations r ls ns)"
      "\<And>ls ns. keeps_view view (wlr_ListHelmReleases r ls ns)"
    and patch: "\<And>h v. keeps_view view (wlr_Patch r h v)"
    and run: "run_state (Workload_Reconcile r req) w = (out, w')"
    and x: "view w k = Some x"
  shows "\<exists>y. view w' k = Some y \<and> kept_outside_spec x y"
proof -
  note keep = keeps_view_outside_spec
  have "within (keeps_outside_spec view) (Workload_Reconcile r req)"
    by (intro outside_spec.Workload_Reconcile_within outside_spec.workload_stages_within cond keep gets lists patch
        rendered_keeps_outside_spec ok writes snm)
  from withinD [OF this run] x show ?thesis by (simp add: keeps_outside_spec_def)
qed

text \<open>The second field cannot be decoded; the first has been applied to an object that existed.\<close>

theorem workload_writes_only_spec_witness:
  "let r = (example_workload_reconciler (Inr example_template))
         \<lparr>wlr_cue := example_cue\<lparr>Fields := (\<lambda>v. Inr [1, 7])\<rparr>\<rparr>;
       w' = snd (run_state (Workload_Reconcile r \<lparr>NamespacedName = wl_key example_workload\<rparr>)
         [u_key example_object \<mapsto> example_object\<lparr>u_Fields := [''data'' \<mapsto> GString ''old'']\<rparr>])
   in \<exists>y. w' (u_key example_object) = Some y \<and> u_Fields y ''data'' = Some (GString ''old'') \<and>
     om_OwnerReferences (u_meta y) = [workload_owner example_workload]"
proof -
  let ?c = "example_cue\<lparr>Fields := (\<lambda>v. Inr [1, 7])\<rparr>"
  define r where "r = (example_workload_reconciler (Inr example_template))\<lparr>wlr_cue := ?c\<rparr>"
  let ?x = "example_object\<lparr>u_Fields := [''data'' \<mapsto> GString ''old'']\<rparr>"
  let ?w = "[u_key example_object \<mapsto> ?x]" and ?req = "\<lparr>NamespacedName = wl_key example_workload\<rparr>"
  obtain out w' where run: "run_state (Workload_Reconcile r ?req) ?w = (out, w')"
    by (metis prod.collapse)
  have kept: "\<exists>y. w' (u_key example_object) = Some y \<and> kept_outside_spec ?x y"
    by (rule workload_writes_only_spec [where view = "\<lambda>w. w", OF _ _ _ _ _ _ _ _ _ _ run])
      (simp_all add: r_def example_workload_reconciler_def store_create_or_patch_ok store_create_or_patch_writes
        store_set_nested_map_ok example_condlib_ok)
  obtain y f where fields: "run_state (apply_fields r example_workload example_cluster [1, 7]) ?w =
      (Stopped f, ?w(u_key example_object \<mapsto> y))"
    and y: "om_OwnerReferences (u_meta y) = [workload_owner example_workload]"
    by (simp add: r_def apply_field_def example_workload_reconciler_def)
      (simp add: example_cue_def store_create_or_patch_def unstructured_mutate_def
        store_set_nested_map_def example_lookup_def)
  have parts: "wlr_Get r = (\<lambda>k. ret (Inr example_workload))" "wlr_GetOwnerCluster r = (\<lambda>w. ret (Inr (Some example_cluster)))"
    "wlr_GetTemplate r = (\<lambda>k. ret (Inr example_template))" "wlr_Getwd r = Inr ''/''" "wlr_cue r = ?c"
    "wlr_cond r = example_condlib" "wlr_errlib r = store_errlib" "wlr_NewHelper r = (\<lambda>w. Inr ())"
    "wlr_Patch r = (\<lambda>h w. ret None)" "wlr_ListKustomizations r = (\<lambda>ls ns. ret (Inr []))"
    "wlr_ListHelmReleases r = (\<lambda>ls ns. ret (Inr []))"
    by (simp_all add: r_def example_workload_reconciler_def)
  have workload: "not_deleted (wl_meta example_workload)" "\<exists>ref. wl_WorkloadTemplateRef example_workload = Some ref"
    "wlt_Type example_template = WorkloadTemplateTypeCue" "wlt_Source example_template = ''ok''"
    by (simp_all add: example_workload_def not_deleted_def new_meta_def example_template_def)
  have "render_template ?c ''/'' ''ok'' example_cluster example_workload = Inr [1, 7]"
    by (simp add: render_template_def load_template_def example_cue_def example_lookup_def)
  with fields workload have "run_state (apply_template r example_workload example_cluster example_template) ?w =
      ((mark_failed example_condlib example_workload f, Returns (Result0, None)), ?w(u_key example_object \<mapsto> y))"
    by (simp add: apply_template_def parts give_up_def del: apply_fields.simps One_nat_def)
  with workload example_cluster_ready have "run_state (reconcileWorkloadTemplate r example_workload) ?w =
      ((mark_failed example_condlib example_workload f, Returns (Result0, None)), ?w(u_key example_object \<mapsto> y))"
    by (auto simp: reconcileWorkloadTemplate_def check_template_def parts store_errlib_def)
  with run have "w' (u_key example_object) = Some y"
    by (auto simp: Workload_Reconcile_def workload_stages_def reconcileReconcilingCondition_def parts Let_def)
  with kept y have "\<exists>y. w' (u_key example_object) = Some y \<and> u_Fields y ''data'' = Some (GString ''old'') \<and>
      om_OwnerReferences (u_meta y) = [workload_owner example_workload]"
    by (auto simp: kept_outside_spec_def)
  then show ?thesis unfolding Let_def r_def [symmetric] run snd_conv .
qed

section \<open>Watches\<close>

text \<open>
  A change of a cluster reaches its workloads: when the list call answers with the stored
  workloads of the cluster's namespace that carry its label, the requests are exactly the keys
  of these workloads. An error of the list call is a panic, not a lost event.
\<close>

lemma cluster_change_reaches_workloads:
  assumes call: "run_state (wlr_ListWorkloads r [(LabelClusterName, om_Name (cl_meta cluster))]
        (om_Namespace (cl_meta cluster))) w = (answer, w1)"
    and selected: "\<And>items. answer = Inr items \<Longrightarrow> set items = {x \<in> stored.
        om_Namespace (wl_meta x) = om_Namespace (cl_meta cluster) \<and>
        gomap_lookup (om_Labels (wl_meta x)) LabelClusterName = Some (om_Name (cl_meta cluster))}"
    and run: "run_state (clusterToWorkloads r (OCluster cluster)) w = (out, w')"
  shows "w' = w1 \<and>
    (case answer of
       Inl e \<Rightarrow> \<exists>p. out = Panics p
     | Inr items \<Rightarrow> \<exists>reqs. out = Returns reqs \<and>
         NamespacedName ` set reqs = wl_key ` {x \<in> stored.
           om_Namespace (wl_meta x) = om_Namespace (cl_meta cluster) \<and>
           gomap_lookup (om_Labels (wl_meta x)) LabelClusterName = Some (om_Name (cl_meta cluster))})"
proof -
  have reqs: "NamespacedName ` set (workload_requests xs) = wl_key ` set xs" for xs
    by (auto simp: workload_requests_def meta_key_def image_image)
  show ?thesis
  proof (cases answer)
    case (Inl e)
    with call run show ?thesis by (simp add: clusterToWorkloads_def) blast
  next
    case (Inr items)
    with call run have "out = Returns (workload_requests items)" "w' = w1"
      by (simp_all add: clusterToWorkloads_def)
    with Inr selected [OF Inr] reqs [of items] show ?thesis by simp
  qed
qed

section \<open>The reported status\<close>

text \<open>The template was found usable, was rendered, and all its fields were applied, from the world \<open>w\<close> on.\<close>

definition template_applied ::
  "('w, 'e, 'h, 'i, 'v, 'p) DockyardsWorkloadReconciler \<Rightarrow> Workload \<Rightarrow> Cluster \<Rightarrow> 'e + WorkloadTemplate \<Rightarrow> 'w \<Rightarrow> bool" where
  "template_applied r workload ownerCluster got w \<longleftrightarrow>
     (\<exists>t wd vals w'. got = Inr t \<and> wlt_Type t = WorkloadTemplateTypeCue \<and>
        (wl_ClusterComponent workload \<or> \<not> Cluster_IsFalse (wlr_cond r) ownerCluster ReadyCondition) \<and>
        wlr_Getwd r = Inr wd \<and>
        render_template (wlr_cue r) wd (wlt_Source t) ownerCluster workload = Inr vals \<and>
        run_state (apply_fields r workload ownerCluster vals) w = (Completed, w'))"

text \<open>What Flux is still working on in the world \<open>w\<close>, as a reason: kustomizations come first.\<close>

definition flux_working ::
  "('w, 'e, 'h, 'i, 'v, 'p) DockyardsWorkloadReconciler \<Rightarrow> Workload \<Rightarrow> 'w \<Rightarrow> string option" where
  "flux_working r workload w =
     (let labels = [(LabelWorkloadName, om_Name (wl_meta workload))]; ns = om_Namespace (wl_meta workload)
      in case run_state (wlr_ListKustomizations r labels ns) w of
           (Inl _, _) \<Rightarrow> None
         | (Inr ks, w1) \<Rightarrow>
             if \<exists>k \<in> set ks. Kustomization_IsReconciling (wlr_cond r) k then Some KustomizationReconcilingReason
             else (case run_state (wlr_ListHelmReleases r labels ns) w1 of
                     (Inl _, _) \<Rightarrow> None
                   | (Inr hs, _) \<Rightarrow>
                       if \<exists>h \<in> set hs. HelmRelease_IsReconciling (wlr_cond r) h
                       then Some HelmReleaseReconcilingReason else None))"

lemma check_template_status:
  assumes cond: "condlib_ok (wlr_cond r)" and L: "errlib_ok (wlr_errlib r)"
    and run: "run_state (check_template r workload ownerCluster got) w = ((v, Returns (res, None)), w')"
  shows "condition_status v WorkloadTemplateReconciledCondition =
    Some (if template_applied r workload ownerCluster got w then ConditionTrue else ConditionFalse)"
proof (cases "template_refusal r workload ownerCluster got")
  case (Some reason)
  from check_template_refusal [OF L Some] run obtain f where "v = mark_failed (wlr_cond r) workload f"
    by (auto simp: give_up_def)
  moreover from Some have "\<not> template_applied r workload ownerCluster got w"
    by (auto simp: template_refusal_def template_applied_def split: if_splits sum.splits)
  ultimately show ?thesis using mark_failed_status(1) [OF cond] by simp
next
  case None
  have L': "IgnoreNotFound (wlr_errlib r) e = (if IsNotFound (wlr_errlib r) e then None else e)"
    "\<not> IsNotFound (wlr_errlib r) None" for e
    using L by (simp_all add: errlib_ok_def)
  show ?thesis
  proof (cases got)
    case (Inl e)
    with None run L' show ?thesis by (simp add: template_refusal_def check_template_def split: if_splits)
  next
    case (Inr t)
    with None have t: "wlt_Type t = WorkloadTemplateTypeCue"
      "wl_ClusterComponent workload \<or> \<not> Cluster_IsFalse (wlr_cond r) ownerCluster ReadyCondition"
      by (auto simp: template_refusal_def split: if_splits)
    with Inr run L' have run': "run_state (apply_template r workload ownerCluster t) w = ((v, Returns (res, None)), w')"
      by (auto simp: check_template_def)
    then obtain wd where wd: "wlr_Getwd r = Inr wd" by (auto simp: apply_template_def split: sum.splits)
    with None Inr t obtain vals where vals: "render_template (wlr_cue r) wd (wlt_Source t) ownerCluster workload = Inr vals"
      by (auto simp: template_refusal_def split: sum.splits if_splits)
    obtain x w3 where fields: "run_state (apply_fields r workload ownerCluster vals) w = (x, w3)"
      by (metis prod.collapse)
    have "template_applied r workload ownerCluster got w \<longleftrightarrow> x = Completed"
      using Inr t wd vals fields by (auto simp: template_applied_def)
    moreover from run' wd vals fields mark_failed_status(1) [OF cond] cond
    have "condition_status v WorkloadTemplateReconciledCondition =
        Some (if x = Completed then ConditionTrue else ConditionFalse)"
      by (cases x) (auto simp: apply_template_def give_up_def condlib_ok_def)
    ultimately show ?thesis by simp
  qed
qed

lemma reconciling_status:
  assumes cond: "condlib_ok (wlr_cond r)"
    and run: "run_state (reconcileReconcilingCondition r workload) w = ((v, res, None), w')"
  shows "only_condition_changed ReconcilingCondition workload v \<and>
    condition_status v ReconcilingCondition = map_option (\<lambda>_. ConditionTrue) (flux_working r workload w) \<and>
    condition_reason v ReconcilingCondition = flux_working r workload w"
proof -
  have "only_condition_changed t w (MarkTrue (wlr_cond r) w t reason f a)"
    "condition_status (MarkTrue (wlr_cond r) w t reason f a) t = Some ConditionTrue"
    "condition_reason (MarkTrue (wlr_cond r) w t reason f a) t = Some reason"
    "only_condition_changed t w (DeleteCondition (wlr_cond r) w t)"
    "condition_status (DeleteCondition (wlr_cond r) w t) t = None"
    "condition_reason (DeleteCondition (wlr_cond r) w t) t = None" for t w reason f a
    using cond by (auto simp: condlib_ok_def condition_status_def condition_reason_def)
  with run show ?thesis
    by (auto simp: reconcileReconcilingCondition_def flux_working_def Let_def split: prod.splits sum.splits if_splits)
qed

lemma summarize_status:
  assumes "condlib_ok C" and "summary_ok C"
    and tpl: "condition_status v WorkloadTemplateReconciledCondition =
      Some (if applied then ConditionTrue else ConditionFalse)"
    and rec: "condition_status v ReconcilingCondition = map_option (\<lambda>_. ConditionTrue) working"
  shows "condition_status (summarize C v) ReadyCondition =
    Some (if applied \<and> working = None then ConditionTrue else ConditionFalse)"
proof -
  let ?cs = "[WorkloadTemplateReconciledCondition, ReconcilingCondition]" and ?ns = "[ReconcilingCondition]"
  have "applied \<and> working = None \<Longrightarrow> summary_well v ?cs ?ns"
    "\<not> (applied \<and> working = None) \<Longrightarrow> summary_issue v ?cs ?ns"
    using tpl rec by (auto simp: summary_well_def summary_issue_def split: if_splits)
  with assms(2) show ?thesis by (auto simp: summarize_def summary_ok_def)
qed

lemma flux_working_meta: "wl_meta v = wl_meta v' \<Longrightarrow> flux_working r v w = flux_working r v' w"
  by (simp add: flux_working_def)

text \<open>
  C9. What the status of a workload says. After the stages of a reconcile went through for a
  workload that is not being deleted and has an owning cluster and a template reference, the
  status that is patched back tells exactly what happened: \<open>WorkloadTemplateReconciled\<close> is true
  when the template was found usable, rendered and applied to the last field, and false
  otherwise; \<open>Reconciling\<close> is true, with the reason of the kustomizations first and of the helm
  releases second, when Flux is still working on an object of the workload, and is absent
  otherwise; \<open>Ready\<close> is true when the template was applied and Flux is done, and false otherwise.
\<close>

theorem workload_status_table:
  assumes cond: "condlib_ok (wlr_cond r)" and summary: "summary_ok (wlr_cond r)"
    and L: "errlib_ok (wlr_errlib r)" and alive: "not_deleted (wl_meta workload)"
    and owner: "run_state (wlr_GetOwnerCluster r workload) w = (Inr (Some ownerCluster), w1)"
    and ref: "wl_WorkloadTemplateRef workload = Some ref"
    and got: "run_state (wlr_GetTemplate r (template_key workload ref)) w1 = (got, w2)"
    and run: "run_state (workload_stages r workload) w = ((v, Returns (res, None)), w')"
    and applied: "applied = template_applied r workload ownerCluster got w2"
    and working: "working = flux_working r workload (snd (run_state (reconcileWorkloadTemplate r workload) w))"
    and status: "status = summarize (wlr_cond r) v"
  shows "condition_status status WorkloadTemplateReconciledCondition =
      Some (if applied then ConditionTrue else ConditionFalse) \<and>
    condition_status status ReconcilingCondition = map_option (\<lambda>_. ConditionTrue) working \<and>
    condition_reason status ReconcilingCondition = working \<and>
    condition_status status ReadyCondition =
      Some (if applied \<and> working = None then ConditionTrue else ConditionFalse)"
proof -
  obtain v1 res1 w3 res2 where
    tpl: "run_state (reconcileWorkloadTemplate r workload) w = ((v1, Returns (res1, None)), w3)"
    and rec: "run_state (reconcileReconcilingCondition r v1) w3 = ((v, res2, None), w')"
    using run by (auto simp: workload_stages_def split: prod.splits go.splits if_splits)
  from tpl alive owner ref got
  have "run_state (check_template r workload ownerCluster got) w2 = ((v1, Returns (res1, None)), w3)"
    by (simp add: reconcileWorkloadTemplate_def)
  from check_template_status [OF cond L this]
  have v1: "condition_status v1 WorkloadTemplateReconciledCondition =
      Some (if applied then ConditionTrue else ConditionFalse)" by (simp add: applied)
  have "wl_meta v1 = wl_meta workload"
    using reconcileWorkloadTemplate_changes [OF cond tpl] by (rule only_conditions_changed_keeps(1))
  then have "flux_working r v1 w3 = working" using tpl by (simp add: working flux_working_meta [of v1 workload])
  with reconciling_status [OF cond rec] have v: "only_condition_changed ReconcilingCondition v1 v"
    "condition_status v ReconcilingCondition = map_option (\<lambda>_. ConditionTrue) working"
    "condition_reason v ReconcilingCondition = working" by simp_all
  have tpl_v: "condition_status v WorkloadTemplateReconciledCondition =
      Some (if applied then ConditionTrue else ConditionFalse)"
    using only_condition_changed_other [OF v(1)] v1 by simp
  have "only_condition_changed ReadyCondition v status"
    unfolding status summarize_def by (rule condlib_changes(4) [OF cond])
  from only_condition_changed_other [OF this] summarize_status [OF cond summary tpl_v v(2)] v tpl_v
  show ?thesis by (simp add: status)
qed

theorem workload_status_table_witness:
  "case run_state (workload_stages (example_workload_reconciler (Inr example_template)) example_workload) Map.empty of
     ((v, out), w') \<Rightarrow> out = Returns (Result0, None) \<and>
       condition_status (summarize example_condlib v) ReadyCondition = Some ConditionTrue"
proof -
  let ?r = "example_workload_reconciler (Inr example_template)"
  obtain v out w' where run: "run_state (workload_stages ?r example_workload) Map.empty = ((v, out), w')"
    by (metis prod.collapse)
  have ref: "wl_WorkloadTemplateRef example_workload = Some \<lparr>tor_APIGroup = None, tor_Kind = WorkloadTemplateKind,
      tor_Name = ''t1'', tor_Namespace = None\<rparr>" and alive: "not_deleted (wl_meta example_workload)"
    by (simp_all add: example_workload_def not_deleted_def new_meta_def)
  have reads: "run_state (wlr_GetOwnerCluster ?r example_workload) Map.empty = (Inr (Some example_cluster), Map.empty)"
    "run_state (wlr_GetTemplate ?r k) Map.empty = (Inr example_template, Map.empty)" for k
    by (simp_all add: example_parts)
  have lists: "run_state (wlr_ListKustomizations ?r ls ns) u = (Inr [], u)"
    "run_state (wlr_ListHelmReleases ?r ls ns) u = (Inr [], u)" for ls ns u
    by (simp_all add: example_workload_reconciler_def)
  have out: "out = Returns (Result0, None)"
    using run example_run lists by (auto simp: workload_stages_def reconcileReconcilingCondition_def Let_def)
  have "template_applied ?r example_workload example_cluster (Inr example_template) Map.empty"
    using example_apply_field example_render example_cluster_ready
    by (auto simp: template_applied_def example_parts example_template_def)
  moreover have "flux_working ?r example_workload u = None" for u by (simp add: flux_working_def lists)
  moreover note workload_status_table [OF example_workload_reconciler_ok(3,6,4) alive reads(1) ref reads(2)
      run [unfolded out] refl refl refl]
  ultimately show ?thesis using run out by (simp add: example_parts)
qed

end
