(* ===== verification/Admission.thy ===== *)
theory Admission
  imports Cue_Lang
begin

text \<open>
  What the two admission webhooks share: the errors they answer with, and the contract of
  \<open>webhook.CustomValidator\<close> as the program uses it, with the histories of an object it admits.
\<close>

section \<open>Answers\<close>

text \<open>\<open>field.Error\<close>; a path is the list of its elements.\<close>

type_synonym field_path = "string list"

datatype 'e field_error =
    FieldInvalid field_path string string
  | FieldRequired field_path string
  | FieldForbidden field_path string
  | FieldNotFound field_path string
  | FieldInternal field_path "'e option"

text \<open>
  The errors a webhook returns: \<open>apierrors.NewBadRequest\<close>, \<open>apierrors.NewInvalid\<close> (kind, name,
  errors), a failing \<open>Seek\<close>, or an error of another call.
\<close>

datatype 'e admission_error =
    BadRequest string
  | InvalidObject string string "'e field_error list"
  | SeekFailed string
  | PlainError 'e

type_synonym 'e admission = "(string list \<times> 'e admission_error option) go"

definition admitted :: "'e admission \<Rightarrow> bool" where
  "admitted a \<longleftrightarrow> (\<exists>warnings. a = Returns (warnings, None))"

lemma admitted_simps [simp]:
  "admitted (Returns (ws, err)) \<longleftrightarrow> err = None"
  "\<not> admitted (Panics p)"
  by (simp_all add: admitted_def)

section \<open>Histories\<close>

text \<open>
  The versions of an object that a sequence of admitted updates reaches; \<open>update h p q\<close> says
  that the webhook in the state \<open>h\<close> of the API admits the update from \<open>p\<close> to \<open>q\<close>. Every update
  may see another state of the API.
\<close>

inductive history :: "('h \<Rightarrow> 'o \<Rightarrow> 'o \<Rightarrow> bool) \<Rightarrow> 'o \<Rightarrow> 'o \<Rightarrow> bool" for update where
  unchanged: "history update p p"
| updated: "history update p q" if "history update p r" and "update h r q"

inductive_cases history_cases: "history update p q"

lemma history_invariant:
  assumes "history update p q" and "P p" and "\<And>h r q. P r \<Longrightarrow> update h r q \<Longrightarrow> P q"
  shows "P q"
  using assms(1,2) by (induction rule: history.induct) (auto intro: assms(3))

section \<open>The contract of a validator\<close>

locale admission_validator =
  fixes ValidateCreate :: "'h \<Rightarrow> api_object \<Rightarrow> 'e admission"
    and ValidateUpdate :: "'h \<Rightarrow> api_object \<Rightarrow> api_object \<Rightarrow> 'e admission"
    and ValidateDelete :: "'h \<Rightarrow> api_object \<Rightarrow> 'e admission"
    and is_kind :: "api_object \<Rightarrow> bool"
  assumes delete_free: "ValidateDelete h p = Returns ([], None)"
    and create_kind: "\<not> is_kind p \<Longrightarrow> ValidateCreate h p = Returns ([], Some (BadRequest ''unexpected type''))"
    and update_create: "admitted (ValidateUpdate h p q) \<Longrightarrow> admitted (ValidateCreate h q)"
begin

lemma update_kind: "admitted (ValidateUpdate h p q) \<Longrightarrow> is_kind q"
  using update_create create_kind by fastforce

text \<open>Every version of an object was admissible when it was written, not only the first.\<close>

lemma history_admissible:
  assumes "admitted (ValidateCreate h p)"
    and "history (\<lambda>h r q. admitted (ValidateUpdate h r q)) p q"
  shows "\<exists>h. admitted (ValidateCreate h q)"
  using assms(2,1)
  by (rule history_invariant [where P = "\<lambda>q. \<exists>h. admitted (ValidateCreate h q)", OF _ exI])
    (blast dest: update_create)

lemma history_kind:
  assumes "admitted (ValidateCreate h p)"
    and "history (\<lambda>h r q. admitted (ValidateUpdate h r q)) p q"
  shows "is_kind q"
  using history_admissible [OF assms] create_kind by fastforce

end

end
