(* ===== verification/Workload_Webhook.thy ===== *)
theory Workload_Webhook
  imports Admission
begin

text \<open>
  \<open>webhooks/workload_webhook.go\<close>: defaults a workload (the API group of its template reference,
  an owner reference to its cluster) and validates it (mandatory labels, a consistent cluster
  reference, an existing template, input that fits the template; immutable references on
  update).
\<close>

section \<open>Data\<close>

text \<open>
  The webhook: its reader, and the parsing and CUE libraries. One call of the webhook reads each
  object at most once, so that a read is a function of the object's key.
\<close>

record ('i, 'v, 'p, 'e) DockyardsWorkload =
  wh_GetCluster :: "ObjectKey \<Rightarrow> 'e + Cluster"
  wh_GetTemplate :: "ObjectKey \<Rightarrow> 'e + WorkloadTemplate"
  wh_ParseGroupVersion :: "string \<Rightarrow> 'e + string"
  wh_Getwd :: "'e + string"
  wh_cue :: "('i, 'v, 'p, 'e) cue"
  wh_errlib :: "'e errlib"

abbreviation workload_label :: "Workload \<Rightarrow> string \<Rightarrow> string" where
  "workload_label w k \<equiv> gomap_index (om_Labels (wl_meta w)) k"

text \<open>\<open>metav1.OwnerReference{}\<close>\<close>

definition OwnerReference0 :: OwnerReference where
  "OwnerReference0 =
     \<lparr>or_APIVersion = '''', or_Kind = '''', or_Name = '''', or_UID = '''',
      or_Controller = None, or_BlockOwnerDeletion = None\<rparr>"

definition err_of :: "'e + 'a \<Rightarrow> 'e option" where
  "err_of x = (case x of Inl e \<Rightarrow> Some e | Inr _ \<Rightarrow> None)"

section \<open>Operations\<close>

text \<open>The loop over the owner references; \<open>parse\<close> is the group of \<open>schema.ParseGroupVersion\<close>.\<close>

fun find_cluster_owner ::
  "(string \<Rightarrow> 'e + string) \<Rightarrow> OwnerReference list \<Rightarrow> OwnerReference \<times> bool" where
  "find_cluster_owner parse [] = (OwnerReference0, False)"
| "find_cluster_owner parse (ownerReference # refs) =
     (if or_Kind ownerReference \<noteq> ClusterKind then find_cluster_owner parse refs
      else
        (case parse (or_APIVersion ownerReference) of
           Inl err \<Rightarrow> find_cluster_owner parse refs
         | Inr grp \<Rightarrow>
             if grp \<noteq> dockyards_Group then find_cluster_owner parse refs
             else (ownerReference, True)))"

definition findClusterOwnerReference ::
  "('i, 'v, 'p, 'e) DockyardsWorkload \<Rightarrow> Workload \<Rightarrow> OwnerReference \<times> bool" where
  [handler_defs]: "findClusterOwnerReference h workload =
     find_cluster_owner (wh_ParseGroupVersion h) (om_OwnerReferences (wl_meta workload))"

definition hasClusterOwnerReference :: "('i, 'v, 'p, 'e) DockyardsWorkload \<Rightarrow> Workload \<Rightarrow> bool" where
  [handler_defs]: "hasClusterOwnerReference h workload = snd (findClusterOwnerReference h workload)"

definition getCluster :: "('i, 'v, 'p, 'e) DockyardsWorkload \<Rightarrow> string \<Rightarrow> string \<Rightarrow> 'e + Cluster" where
  [handler_defs]: "getCluster h namespace name =
     wh_GetCluster h \<lparr>key_Namespace = namespace, key_Name = name\<rparr>"

text \<open>\<open>Default\<close>: the object as it is when the method returns, and its error.\<close>

definition default_api_group :: "Workload \<Rightarrow> Workload" where
  "default_api_group workload =
     (case wl_WorkloadTemplateRef workload of
        None \<Rightarrow> workload
      | Some ref \<Rightarrow>
          if tor_APIGroup ref = None
          then workload\<lparr>wl_WorkloadTemplateRef := Some (ref\<lparr>tor_APIGroup := Some dockyards_Group\<rparr>)\<rparr>
          else workload)"

definition cluster_owner :: "Cluster \<Rightarrow> OwnerReference" where
  "cluster_owner cluster =
     \<lparr>or_APIVersion = dockyards_GroupVersion, or_Kind = ClusterKind,
      or_Name = om_Name (cl_meta cluster), or_UID = om_UID (cl_meta cluster),
      or_Controller = None, or_BlockOwnerDeletion = None\<rparr>"

definition append_owner :: "Workload \<Rightarrow> OwnerReference \<Rightarrow> Workload" where
  "append_owner workload ref =
     workload\<lparr>wl_meta := (wl_meta workload)
       \<lparr>om_OwnerReferences := om_OwnerReferences (wl_meta workload) @ [ref]\<rparr>\<rparr>"

definition Default_workload ::
  "('i, 'v, 'p, 'e) DockyardsWorkload \<Rightarrow> Workload \<Rightarrow> Workload \<times> 'e admission_error option" where
  [handler_defs]: "Default_workload h obj =
     (let workload = default_api_group obj in
      if hasClusterOwnerReference h workload then (workload, None)
      else
        let clusterName = workload_label workload LabelClusterName in
        if clusterName = '''' then (workload, None)
        else
          (let got = getCluster h (om_Namespace (wl_meta workload)) clusterName in
           if IsNotFound (wh_errlib h) (err_of got) then (workload, None)
           else
             (case got of
                Inl err \<Rightarrow> (workload, Some (PlainError err))
              | Inr cluster \<Rightarrow> (append_owner workload (cluster_owner cluster), None))))"

definition Default ::
  "('i, 'v, 'p, 'e) DockyardsWorkload \<Rightarrow> api_object \<Rightarrow> api_object \<times> 'e admission_error option" where
  [handler_defs]: "Default h obj =
     (case obj of
        OWorkload workload \<Rightarrow> apfst OWorkload (Default_workload h workload)
      | _ \<Rightarrow> (obj, Some (BadRequest ''unexpected type'')))"

definition validClusterReferenceUpdate :: "Workload \<Rightarrow> Workload \<Rightarrow> bool" where
  [handler_defs]: "validClusterReferenceUpdate oldWorkload newWorkload \<longleftrightarrow>
     workload_label oldWorkload LabelClusterName = workload_label newWorkload LabelClusterName"

definition validOrganizationReferenceUpdate :: "Workload \<Rightarrow> Workload \<Rightarrow> bool" where
  [handler_defs]: "validOrganizationReferenceUpdate oldWorkload newWorkload \<longleftrightarrow>
     workload_label oldWorkload LabelOrganizationName = workload_label newWorkload LabelOrganizationName"

definition validTemplateReferenceUpdate :: "Workload \<Rightarrow> Workload \<Rightarrow> bool" where
  [handler_defs]: "validTemplateReferenceUpdate oldWorkload newWorkload \<longleftrightarrow>
     (case wl_WorkloadTemplateRef oldWorkload of
        None \<Rightarrow> True
      | Some oldRef \<Rightarrow>
          (case wl_WorkloadTemplateRef newWorkload of
             None \<Rightarrow> False
           | Some newRef \<Rightarrow> if tor_Name newRef \<noteq> tor_Name oldRef then False else True))"

abbreviation label_path :: "string \<Rightarrow> field_path" where
  "label_path k \<equiv> [''metadata'', ''labels'', k]"

abbreviation owners_path :: field_path where
  "owners_path \<equiv> [''metadata'', ''ownerReferences'']"

text \<open>\<open>validateClusterReference\<close> returns the error list it was given, extended.\<close>

definition validateClusterReference ::
  "('i, 'v, 'p, 'e) DockyardsWorkload \<Rightarrow> Workload \<Rightarrow> 'e field_error list \<Rightarrow> 'e field_error list" where
  [handler_defs]: "validateClusterReference h workload allErrors =
     (let clusterName = workload_label workload LabelClusterName;
          (ref, hasRef) = findClusterOwnerReference h workload
      in if hasRef \<and> or_Name ref \<noteq> clusterName
         then allErrors @ [FieldInvalid owners_path (or_Name ref) ''cluster owner reference must match cluster label'']
         else
           let got = getCluster h (om_Namespace (wl_meta workload)) clusterName in
           if IsNotFound (wh_errlib h) (err_of got)
           then allErrors @ [FieldNotFound (label_path LabelClusterName) clusterName]
           else
             (case got of
                Inl err \<Rightarrow> allErrors @ [FieldInternal (label_path LabelClusterName) (Some err)]
              | Inr cluster \<Rightarrow>
                  if hasRef \<and> or_UID ref \<noteq> om_UID (cl_meta cluster)
                  then allErrors @ [FieldInvalid owners_path (or_UID ref)
                         ''cluster owner reference UID does not match cluster'']
                  else
                    let clusterOrganizationName = gomap_index (om_Labels (cl_meta cluster)) LabelOrganizationName;
                        workloadOrganizationName = workload_label workload LabelOrganizationName
                    in if clusterOrganizationName \<noteq> '''' \<and> workloadOrganizationName \<noteq> clusterOrganizationName
                       then allErrors @ [FieldInvalid (label_path LabelOrganizationName) workloadOrganizationName
                              ''organization label must match cluster owner organization'']
                       else allErrors))"

definition invalid_workload :: "Workload \<Rightarrow> 'e field_error list \<Rightarrow> 'e admission_error" where
  "invalid_workload workload allErrors = InvalidObject WorkloadKind (om_Name (wl_meta workload)) allErrors"

text \<open>\<open>if len(allErrors) > 0 { return NewInvalid(\<dots>) }; return nil\<close>\<close>

definition invalid_if_any :: "Workload \<Rightarrow> 'e field_error list \<Rightarrow> 'e admission_error option" where
  "invalid_if_any workload allErrors =
     (if length allErrors > 0 then Some (invalid_workload workload allErrors) else None)"

text \<open>Lines 144 to 162: the errors and warnings before the template is looked at.\<close>

definition label_errors ::
  "('i, 'v, 'p, 'e) DockyardsWorkload \<Rightarrow> Workload \<Rightarrow> 'e field_error list" where
  [handler_defs]: "label_errors h workload =
     (let e1 = (if workload_label workload LabelOrganizationName = ''''
                then [FieldRequired (label_path LabelOrganizationName) ''mandatory label''] else []);
          e2 = (if workload_label workload LabelClusterName = ''''
                then e1 @ [FieldRequired (label_path LabelClusterName) ''mandatory label''] else e1)
      in if length e2 = 0 then validateClusterReference h workload e2 else e2)"

definition input_warnings :: "Workload \<Rightarrow> string list" where
  [handler_defs]: "input_warnings workload =
     (if wl_WorkloadTemplateInput workload \<noteq> None
      then [''ignoring deprecated field workloadTemplateInput''] else [])"

text \<open>Lines 201 to 265: the input is checked against the \<open>#Input\<close> definition of the template.\<close>

definition validate_input ::
  "('i, 'v, 'p, 'e) DockyardsWorkload \<Rightarrow> Workload \<Rightarrow> 'e field_error list \<Rightarrow> WorkloadTemplate \<Rightarrow>
     'e admission_error option go" where
  [handler_defs]: "validate_input h workload allErrors workloadTemplate =
     (case wh_Getwd h of
        Inl err \<Rightarrow> Returns (Some (PlainError err))
      | Inr wd \<Rightarrow>
          (case load_template (wh_cue h) wd (wlt_Source workloadTemplate) of
             [] \<Rightarrow> Panics ''index out of range [0] with length 0''
           | inst # _ \<Rightarrow>
               let value = BuildInstance (wh_cue h) inst in
               if Value_Err (wh_cue h) value \<noteq> None then Returns None
               else
                 let input = LookupPath (wh_cue h) value (Def (wh_cue h) ''#Input'') in
                 if \<not> Exists (wh_cue h) input \<and> wl_Input workload \<noteq> None
                 then Returns (Some (invalid_workload workload
                        (allErrors @ [FieldForbidden [''spec'', ''input''] ''input not supported on template''])))
                 else if \<not> Exists (wh_cue h) input then Returns (invalid_if_any workload allErrors)
                 else
                   let raw = (case wl_Input workload of None \<Rightarrow> ''{}'' | Some r \<Rightarrow> r) in
                   (case json_Validate (wh_cue h) raw input of
                      Some err \<Rightarrow>
                        Returns (Some (invalid_workload workload
                          (allErrors @ map (\<lambda>cueerr. FieldForbidden [''spec'', ''input''] (Error_String (wh_cue h) cueerr))
                            (Errors (wh_cue h) err))))
                    | None \<Rightarrow> Returns (invalid_if_any workload allErrors))))"

text \<open>Lines 174 to 199: the template of the reference is read.\<close>

definition validate_template ::
  "('i, 'v, 'p, 'e) DockyardsWorkload \<Rightarrow> Workload \<Rightarrow> 'e field_error list \<Rightarrow> TypedObjectReference \<Rightarrow>
     'e admission_error option go" where
  [handler_defs]: "validate_template h workload allErrors ref =
     (let got = wh_GetTemplate h (template_key workload ref);
          err = err_of got
      in if IgnoreNotFound (wh_errlib h) err \<noteq> None
         then Returns (Some (invalid_workload workload
                (allErrors @ [FieldInternal [''spec'', ''workloadTemplateRef''] err])))
         else if IsNotFound (wh_errlib h) err
         then Returns (Some (invalid_workload workload
                (allErrors @ [FieldNotFound [''spec'', ''workloadTemplateRef''] (tor_Name ref)])))
         else validate_input h workload allErrors
                (case got of Inl _ \<Rightarrow> WorkloadTemplate0 | Inr t \<Rightarrow> t))"

definition Workload_validate ::
  "('i, 'v, 'p, 'e) DockyardsWorkload \<Rightarrow> Workload \<Rightarrow> 'e admission" where
  [handler_defs]: "Workload_validate h workload =
     (let allErrors = label_errors h workload;
          allWarnings = input_warnings workload
      in case wl_WorkloadTemplateRef workload of
           None \<Rightarrow> Returns (allWarnings, invalid_if_any workload allErrors)
         | Some ref \<Rightarrow>
             (case validate_template h workload allErrors ref of
                Panics p \<Rightarrow> Panics p
              | Returns err \<Rightarrow> Returns (allWarnings, err)))"

definition Workload_ValidateCreate ::
  "('i, 'v, 'p, 'e) DockyardsWorkload \<Rightarrow> api_object \<Rightarrow> 'e admission" where
  [handler_defs]: "Workload_ValidateCreate h obj =
     (case obj of
        OWorkload workload \<Rightarrow> Workload_validate h workload
      | _ \<Rightarrow> Returns ([], Some (BadRequest ''unexpected type'')))"

definition Workload_ValidateDelete ::
  "('i, 'v, 'p, 'e) DockyardsWorkload \<Rightarrow> api_object \<Rightarrow> 'e admission" where
  [handler_defs]: "Workload_ValidateDelete h obj = Returns ([], None)"

definition immutable :: "Workload \<Rightarrow> field_path \<Rightarrow> 'e admission" where
  "immutable oldWorkload path =
     Returns ([], Some (invalid_workload oldWorkload [FieldForbidden path ''reference is immutable'']))"

definition Workload_ValidateUpdate ::
  "('i, 'v, 'p, 'e) DockyardsWorkload \<Rightarrow> api_object \<Rightarrow> api_object \<Rightarrow> 'e admission" where
  [handler_defs]: "Workload_ValidateUpdate h oldObj newObj =
     (case oldObj of
        OWorkload oldWorkload \<Rightarrow>
          (case newObj of
             OWorkload newWorkload \<Rightarrow>
               if \<not> validTemplateReferenceUpdate oldWorkload newWorkload
               then immutable oldWorkload [''spec'', ''workloadTemplateRef'']
               else if \<not> validClusterReferenceUpdate oldWorkload newWorkload
               then immutable oldWorkload (label_path LabelClusterName)
               else if \<not> validOrganizationReferenceUpdate oldWorkload newWorkload
               then immutable oldWorkload (label_path LabelOrganizationName)
               else Workload_validate h newWorkload
           | _ \<Rightarrow> Returns ([], Some (BadRequest ''unexpected type'')))
      | _ \<Rightarrow> Returns ([], Some (BadRequest ''unexpected type'')))"

section \<open>Specification\<close>

text \<open>
  The cluster a workload names exists in its namespace; a cluster owner reference, if there is
  one, is that cluster's; and the organizations agree when the cluster has one.
\<close>

definition cluster_reference_ok :: "('i, 'v, 'p, 'e) DockyardsWorkload \<Rightarrow> Workload \<Rightarrow> bool" where
  "cluster_reference_ok h w \<longleftrightarrow>
     (\<exists>cluster. getCluster h (om_Namespace (wl_meta w)) (workload_label w LabelClusterName) = Inr cluster \<and>
       (hasClusterOwnerReference h w \<longrightarrow>
          or_Name (fst (findClusterOwnerReference h w)) = workload_label w LabelClusterName \<and>
          or_UID (fst (findClusterOwnerReference h w)) = om_UID (cl_meta cluster)) \<and>
       gomap_index (om_Labels (cl_meta cluster)) LabelOrganizationName \<in>
         {'''', workload_label w LabelOrganizationName})"

definition workload_labels_ok :: "('i, 'v, 'p, 'e) DockyardsWorkload \<Rightarrow> Workload \<Rightarrow> bool" where
  "workload_labels_ok h w \<longleftrightarrow>
     workload_label w LabelOrganizationName \<noteq> '''' \<and> workload_label w LabelClusterName \<noteq> '''' \<and>
     cluster_reference_ok h w"

text \<open>The first instance of the template's source, as far as it loads.\<close>

definition first_instance :: "('i, 'v, 'p, 'e) DockyardsWorkload \<Rightarrow> WorkloadTemplate \<Rightarrow> 'i option" where
  "first_instance h t =
     (case wh_Getwd h of
        Inl _ \<Rightarrow> None
      | Inr wd \<Rightarrow> (case load_template (wh_cue h) wd (wlt_Source t) of [] \<Rightarrow> None | inst # _ \<Rightarrow> Some inst))"

definition template_unbuildable :: "('i, 'v, 'p, 'e) DockyardsWorkload \<Rightarrow> WorkloadTemplate \<Rightarrow> bool" where
  "template_unbuildable h t \<longleftrightarrow>
     (case first_instance h t of
        None \<Rightarrow> False
      | Some inst \<Rightarrow> Value_Err (wh_cue h) (BuildInstance (wh_cue h) inst) \<noteq> None)"

text \<open>The template builds and its \<open>#Input\<close>, if it has one, fits the workload's input.\<close>

definition template_input_ok ::
  "('i, 'v, 'p, 'e) DockyardsWorkload \<Rightarrow> Workload \<Rightarrow> WorkloadTemplate \<Rightarrow> bool" where
  "template_input_ok h w t \<longleftrightarrow>
     (case first_instance h t of
        None \<Rightarrow> False
      | Some inst \<Rightarrow>
          (let value = BuildInstance (wh_cue h) inst;
               input = LookupPath (wh_cue h) value (Def (wh_cue h) ''#Input'')
           in Value_Err (wh_cue h) value = None \<and>
              (if Exists (wh_cue h) input
               then json_Validate (wh_cue h) (case wl_Input w of None \<Rightarrow> ''{}'' | Some r \<Rightarrow> r) input = None
               else wl_Input w = None)))"

definition is_workload :: "api_object \<Rightarrow> bool" where
  "is_workload obj \<longleftrightarrow> (\<exists>w. obj = OWorkload w)"

section \<open>Lemmas\<close>

lemma err_of_simps [simp]: "err_of (Inl e) = Some e" "err_of (Inr x) = None"
  by (simp_all add: err_of_def)

lemma invalid_if_any_None [simp]: "invalid_if_any w es = None \<longleftrightarrow> es = []"
  by (simp add: invalid_if_any_def)

lemma validateClusterReference_nil:
  assumes "errlib_ok (wh_errlib h)"
  shows "validateClusterReference h w [] = [] \<longleftrightarrow> cluster_reference_ok h w"
proof -
  obtain ref hasRef where ref: "findClusterOwnerReference h w = (ref, hasRef)"
    by (cases "findClusterOwnerReference h w")
  have "\<not> IsNotFound (wh_errlib h) None" using assms by (simp add: errlib_ok_def)
  with ref show ?thesis
    by (cases "getCluster h (om_Namespace (wl_meta w)) (workload_label w LabelClusterName)")
      (auto simp: validateClusterReference_def cluster_reference_ok_def hasClusterOwnerReference_def Let_def)
qed

lemma label_errors_nil:
  assumes "errlib_ok (wh_errlib h)"
  shows "label_errors h w = [] \<longleftrightarrow> workload_labels_ok h w"
  using validateClusterReference_nil [OF assms]
  by (simp add: label_errors_def workload_labels_ok_def Let_def)

lemma template_input_ok_cong:
  "wl_Input v = wl_Input w \<Longrightarrow> template_input_ok h v t = template_input_ok h w t"
  unfolding template_input_ok_def by (simp only:)

lemma validate_input_None:
  "validate_input h w es t = Returns None \<longleftrightarrow>
     template_unbuildable h t \<or> (es = [] \<and> template_input_ok h w t)"
proof (cases "wh_Getwd h")
  case (Inl e)
  then show ?thesis
    by (simp add: validate_input_def template_unbuildable_def template_input_ok_def first_instance_def)
next
  case wd: (Inr wd)
  show ?thesis
  proof (cases "load_template (wh_cue h) wd (wlt_Source t)")
    case Nil
    with wd show ?thesis
      by (simp add: validate_input_def template_unbuildable_def template_input_ok_def first_instance_def)
  next
    case (Cons inst insts)
    with wd have "first_instance h t = Some inst" by (simp add: first_instance_def)
    with wd Cons show ?thesis
      by (auto simp: validate_input_def template_unbuildable_def template_input_ok_def Let_def
          split: option.splits)
  qed
qed

lemma validate_template_None:
  assumes "errlib_ok (wh_errlib h)"
  shows "validate_template h w es ref = Returns None \<longleftrightarrow>
    (\<exists>t. wh_GetTemplate h (template_key w ref) = Inr t \<and>
      (template_unbuildable h t \<or> (es = [] \<and> template_input_ok h w t)))"
  using assms
  by (cases "wh_GetTemplate h (template_key w ref)")
    (auto simp: validate_template_def Let_def validate_input_None errlib_ok_def split: if_splits)

lemma Workload_validate_admitted:
  assumes "errlib_ok (wh_errlib h)"
  shows "admitted (Workload_validate h w) \<longleftrightarrow>
    (case wl_WorkloadTemplateRef w of
       None \<Rightarrow> workload_labels_ok h w
     | Some ref \<Rightarrow>
         (\<exists>t. wh_GetTemplate h (template_key w ref) = Inr t \<and>
           (template_unbuildable h t \<or> (workload_labels_ok h w \<and> template_input_ok h w t))))"
proof (cases "wl_WorkloadTemplateRef w")
  case None
  then show ?thesis using label_errors_nil [OF assms] by (simp add: Workload_validate_def)
next
  case (Some ref)
  then have "admitted (Workload_validate h w) \<longleftrightarrow>
      validate_template h w (label_errors h w) ref = Returns None"
    by (auto simp: Workload_validate_def split: go.splits)
  with Some show ?thesis
    by (simp add: validate_template_None [OF assms] label_errors_nil [OF assms])
qed

lemma immutable_rejects [simp]: "\<not> admitted (immutable w path)"
  by (simp add: immutable_def)

lemma Workload_ValidateUpdate_admitted:
  assumes "admitted (Workload_ValidateUpdate h p q)"
  obtains v w where "p = OWorkload v" and "q = OWorkload w"
    and "validTemplateReferenceUpdate v w" and "validClusterReferenceUpdate v w"
    and "validOrganizationReferenceUpdate v w" and "admitted (Workload_validate h w)"
  using assms by (auto simp: Workload_ValidateUpdate_def split: api_object.splits if_splits)

interpretation wl_webhook: admission_validator
  Workload_ValidateCreate Workload_ValidateUpdate Workload_ValidateDelete is_workload
proof unfold_locales
  fix h :: "('a, 'b, 'c, 'd) DockyardsWorkload" and p q :: api_object
  show "Workload_ValidateDelete h p = Returns ([], None)" by (simp add: Workload_ValidateDelete_def)
  show "Workload_ValidateCreate h p = Returns ([], Some (BadRequest ''unexpected type''))" if "\<not> is_workload p"
    using that by (simp add: Workload_ValidateCreate_def is_workload_def split: api_object.splits)
  show "admitted (Workload_ValidateCreate h q)" if "admitted (Workload_ValidateUpdate h p q)"
    using that by (rule Workload_ValidateUpdate_admitted) (simp add: Workload_ValidateCreate_def)
qed

lemma find_cluster_owner_append:
  "find_cluster_owner parse (refs @ [ref]) =
     (if snd (find_cluster_owner parse refs) then find_cluster_owner parse refs
      else find_cluster_owner parse [ref])"
  by (induction refs) (auto split: sum.splits)

lemma default_api_group_simps [simp]:
  "wl_meta (default_api_group w) = wl_meta w"
  "default_api_group (default_api_group w) = default_api_group w"
  "default_api_group (append_owner w ref) = append_owner (default_api_group w) ref"
  by (auto simp: default_api_group_def append_owner_def split: option.splits)

section \<open>Properties\<close>

text \<open>An example webhook and workload; the template's source decides how it builds.\<close>

definition example_owner_cluster :: Cluster where
  "example_owner_cluster =
     \<lparr>cl_meta = (new_meta ''c1'' ''ns'')\<lparr>om_UID := ''uid-c1'',
        om_Labels := gomap_literal [(LabelOrganizationName, ''org'')]\<rparr>, cl_Conditions = []\<rparr>"

definition example_workload_webhook :: "string \<Rightarrow> (string, nat, string, string) DockyardsWorkload" where
  "example_workload_webhook source =
     \<lparr>wh_GetCluster = (\<lambda>k. if k = \<lparr>key_Namespace = ''ns'', key_Name = ''c1''\<rparr> then Inr example_owner_cluster
         else Inl ''NotFound''),
      wh_GetTemplate = (\<lambda>k. Inr \<lparr>wlt_meta = new_meta (key_Name k) (key_Namespace k), wlt_Source = source,
         wlt_Type = WorkloadTemplateTypeCue\<rparr>),
      wh_ParseGroupVersion = (\<lambda>v. if v = dockyards_GroupVersion then Inr dockyards_Group else Inl ''unexpected''),
      wh_Getwd = Inr ''/'', wh_cue = example_cue, wh_errlib = store_errlib\<rparr>"

definition example_admitted_workload :: Workload where
  "example_admitted_workload =
     \<lparr>wl_meta = (new_meta ''w1'' ''ns'')\<lparr>
        om_Labels := gomap_literal [(LabelClusterName, ''c1''), (LabelOrganizationName, ''org'')]\<rparr>,
      wl_ClusterComponent = False, wl_TargetNamespace = ''app'', wl_WorkloadTemplateInput = None,
      wl_Input = None,
      wl_WorkloadTemplateRef = Some \<lparr>tor_APIGroup = None, tor_Kind = WorkloadTemplateKind,
        tor_Name = ''t1'', tor_Namespace = None\<rparr>,
      wl_Provenience = '''', wl_Conditions = []\<rparr>"

lemmas example_webhook_defs =
  example_workload_webhook_def example_admitted_workload_def example_owner_cluster_def new_meta_def

lemma example_webhook_errlib: "errlib_ok (wh_errlib (example_workload_webhook source))"
  by (simp add: example_workload_webhook_def store_errlib_ok)

lemma example_webhook_parts:
  "wh_Getwd (example_workload_webhook source) = Inr ''/''"
  "wh_cue (example_workload_webhook source) = example_cue"
  by (simp_all add: example_workload_webhook_def)

lemma example_first_instance: "first_instance (example_workload_webhook source) t = Some (wlt_Source t)"
  by (simp add: first_instance_def example_webhook_parts load_template_def example_cue_def)

lemma example_admitted_labels: "workload_labels_ok (example_workload_webhook source) example_admitted_workload"
  by (simp add: workload_labels_ok_def cluster_reference_ok_def hasClusterOwnerReference_def
      findClusterOwnerReference_def getCluster_def example_webhook_defs)

lemma example_admitted_input:
  "wlt_Source t = ''ok'' \<Longrightarrow> template_input_ok (example_workload_webhook source) example_admitted_workload t"
  by (simp add: template_input_ok_def example_first_instance example_webhook_parts)
    (simp add: example_cue_def example_lookup_def example_admitted_workload_def)

text \<open>
  C17. What the workload webhook admits. A workload without a template reference is admitted exactly
  when it has an organization and a cluster label and a consistent cluster reference: the
  cluster exists in the workload's namespace, its owner reference, if any, carries the name
  and UID of that cluster, and the organizations agree. With a template reference, the template
  must also exist and accept the workload's input; the exception is a template that does not
  build, with which every workload is admitted.
\<close>

theorem workload_admitted_iff:
  assumes "errlib_ok (wh_errlib h)"
  shows "admitted (Workload_ValidateCreate h (OWorkload w)) \<longleftrightarrow>
    (case wl_WorkloadTemplateRef w of
       None \<Rightarrow> workload_labels_ok h w
     | Some ref \<Rightarrow>
         (\<exists>t. wh_GetTemplate h (template_key w ref) = Inr t \<and>
           (template_unbuildable h t \<or> (workload_labels_ok h w \<and> template_input_ok h w t))))"
  using Workload_validate_admitted [OF assms] by (simp add: Workload_ValidateCreate_def)

theorem workload_admitted_iff_witness:
  "admitted (Workload_ValidateCreate (example_workload_webhook ''ok'') (OWorkload example_admitted_workload))"
proof -
  let ?h = "example_workload_webhook ''ok''"
  obtain ref where ref: "wl_WorkloadTemplateRef example_admitted_workload = Some ref"
    by (simp add: example_admitted_workload_def)
  obtain t where t: "wh_GetTemplate ?h (template_key example_admitted_workload ref) = Inr t" "wlt_Source t = ''ok''"
    by (simp add: example_workload_webhook_def)
  with workload_admitted_iff [OF example_webhook_errlib, of "''ok''" example_admitted_workload] ref
    example_admitted_labels [of "''ok''"] example_admitted_input [OF t(2), of "''ok''"]
  show ?thesis by simp
qed

text \<open>
  A template that does not build disables the validation: whatever its labels, owner and input,
  a workload that refers to such a template is admitted, and the errors already found are
  dropped.
\<close>

lemma workload_unbuildable_admits:
  assumes L: "errlib_ok (wh_errlib h)"
    and ref: "wl_WorkloadTemplateRef w = Some ref"
    and t: "wh_GetTemplate h (template_key w ref) = Inr t"
    and broken: "template_unbuildable h t"
  shows "admitted (Workload_ValidateCreate h (OWorkload w))"
  using Workload_validate_admitted [OF L, of w] ref t broken by (simp add: Workload_ValidateCreate_def)

lemma workload_unbuildable_admits_witness:
  "let w = example_admitted_workload\<lparr>wl_meta := new_meta ''w1'' ''ns''\<rparr> in
   label_errors (example_workload_webhook ''broken'') w \<noteq> [] \<and>
   admitted (Workload_ValidateCreate (example_workload_webhook ''broken'') (OWorkload w))"
proof -
  let ?w = "example_admitted_workload\<lparr>wl_meta := new_meta ''w1'' ''ns''\<rparr>"
  let ?h = "example_workload_webhook ''broken''"
  obtain ref where ref: "wl_WorkloadTemplateRef ?w = Some ref" by (simp add: example_admitted_workload_def)
  obtain t where t: "wh_GetTemplate ?h (template_key ?w ref) = Inr t" "wlt_Source t = ''broken''"
    by (simp add: example_workload_webhook_def)
  have "template_unbuildable ?h t"
    by (simp add: template_unbuildable_def example_first_instance example_webhook_parts t)
      (simp add: example_cue_def)
  from workload_unbuildable_admits [OF example_webhook_errlib ref t(1) this]
  show ?thesis by (simp add: label_errors_def new_meta_def)
qed

text \<open>What may never change of a workload: cluster, organization, and a template once it is set.\<close>

definition same_references :: "Workload \<Rightarrow> Workload \<Rightarrow> bool" where
  "same_references v w \<longleftrightarrow>
     workload_label w LabelClusterName = workload_label v LabelClusterName \<and>
     workload_label w LabelOrganizationName = workload_label v LabelOrganizationName \<and>
     (\<forall>ref. wl_WorkloadTemplateRef v = Some ref \<longrightarrow>
       (\<exists>ref'. wl_WorkloadTemplateRef w = Some ref' \<and> tor_Name ref' = tor_Name ref))"

lemma admitted_update_same_references:
  assumes "admitted (Workload_ValidateUpdate h (OWorkload v) q)"
  obtains w where "q = OWorkload w" and "same_references v w"
  using assms
  by (rule Workload_ValidateUpdate_admitted)
    (auto simp: same_references_def validTemplateReferenceUpdate_def validClusterReferenceUpdate_def
      validOrganizationReferenceUpdate_def split: option.splits if_splits)

lemma same_references_trans: "same_references u v \<Longrightarrow> same_references v w \<Longrightarrow> same_references u w"
  unfolding same_references_def by metis

text \<open>
  C10. References are immutable for life. Along any sequence of updates that the webhook admits,
  each in whatever state the API is in at that moment, the object stays a workload, its cluster
  and organization labels stay what they were, and a template name, once set, is neither
  changed nor removed; and every version passed the validation of a creation when it was
  written.
\<close>

theorem workload_history_immutable:
  fixes h :: "('i, 'v, 'p, 'e) DockyardsWorkload"
  assumes hist: "history (\<lambda>(h :: ('i, 'v, 'p, 'e) DockyardsWorkload) p q. admitted (Workload_ValidateUpdate h p q)) (OWorkload v) q"
    and created: "admitted (Workload_ValidateCreate h (OWorkload v))"
  shows "\<exists>w. q = OWorkload w \<and> same_references v w \<and>
    (\<exists>h' :: ('i, 'v, 'p, 'e) DockyardsWorkload. admitted (Workload_ValidateCreate h' (OWorkload w)))"
proof -
  have "\<exists>w. q = OWorkload w \<and> same_references v w"
  proof (rule history_invariant [OF hist])
    show "\<exists>w. OWorkload v = OWorkload w \<and> same_references v w" by (simp add: same_references_def)
    fix h r q
    assume "\<exists>w. r = OWorkload w \<and> same_references v w" and "admitted (Workload_ValidateUpdate h r q)"
    then show "\<exists>w. q = OWorkload w \<and> same_references v w"
      by (blast elim: admitted_update_same_references intro: same_references_trans)
  qed
  moreover have "\<exists>h' :: ('i, 'v, 'p, 'e) DockyardsWorkload. admitted (Workload_ValidateCreate h' q)"
    by (rule wl_webhook.history_admissible [OF created hist])
  ultimately show ?thesis by blast
qed

lemma example_update_admitted:
  assumes "wl_meta w = wl_meta example_admitted_workload"
    and "wl_WorkloadTemplateRef w = Some ref" and "tor_Name ref = ''t1''"
    and "wl_Input w = None"
  shows "admitted (Workload_ValidateUpdate (example_workload_webhook ''ok'') (OWorkload example_admitted_workload)
    (OWorkload w))"
proof -
  have "workload_labels_ok (example_workload_webhook ''ok'') w"
    using example_admitted_labels assms(1)
    by (simp add: workload_labels_ok_def cluster_reference_ok_def hasClusterOwnerReference_def
        findClusterOwnerReference_def)
  moreover have "template_input_ok (example_workload_webhook ''ok'') w t" if "wlt_Source t = ''ok''" for t
  proof -
    have "wl_Input w = wl_Input example_admitted_workload"
      using assms(4) by (simp add: example_admitted_workload_def)
    from template_input_ok_cong [OF this] example_admitted_input [OF that] show ?thesis by blast
  qed
  moreover obtain t where "wh_GetTemplate (example_workload_webhook ''ok'') (template_key w ref) = Inr t"
    "wlt_Source t = ''ok''"
    by (simp add: example_workload_webhook_def)
  ultimately have "admitted (Workload_validate (example_workload_webhook ''ok'') w)"
    using Workload_validate_admitted [OF example_webhook_errlib, of "''ok''" w] assms(2) by simp
  then show ?thesis
    using assms
    by (simp add: Workload_ValidateUpdate_def validTemplateReferenceUpdate_def validClusterReferenceUpdate_def
        validOrganizationReferenceUpdate_def)
      (simp add: example_admitted_workload_def)
qed

theorem workload_history_immutable_witness:
  "same_references example_admitted_workload (example_admitted_workload\<lparr>wl_TargetNamespace := ''other''\<rparr>)"
proof -
  let ?v = "example_admitted_workload" and ?w = "example_admitted_workload\<lparr>wl_TargetNamespace := ''other''\<rparr>"
  let ?h = "example_workload_webhook ''ok''"
  have up: "admitted (Workload_ValidateUpdate ?h (OWorkload ?v) (OWorkload x))" if "x = ?v \<or> x = ?w" for x
    using that by (intro example_update_admitted [where ref = "\<lparr>tor_APIGroup = None, tor_Kind = WorkloadTemplateKind,
        tor_Name = ''t1'', tor_Namespace = None\<rparr>"]) (auto simp: example_admitted_workload_def)
  have hist: "history (\<lambda>(h :: (string, nat, string, string) DockyardsWorkload) p q. admitted (Workload_ValidateUpdate h p q)) (OWorkload ?v) (OWorkload ?w)"
    by (rule history.updated [OF history.unchanged, where h = ?h]) (rule up, simp)
  have "admitted (Workload_ValidateCreate ?h (OWorkload ?v))"
    by (rule wl_webhook.update_create [OF up]) simp
  from workload_history_immutable [OF hist this] show ?thesis by simp
qed

text \<open>
  C39. What the webhook admits of an update. An update is admitted exactly when both versions are
  workloads, the new one keeps the cluster label, the organization label and a template name once
  set, and the new version alone would be admitted as a creation; when these references are
  kept, the answer is the very answer to that creation, warnings and errors included. The
  namespace of the template is not compared: an update that moves the reference to any other
  namespace, and so to another template, is admitted whenever the new version alone is.
\<close>

theorem workload_update_admitted_iff:
  shows "(admitted (Workload_ValidateUpdate h p q) \<longleftrightarrow>
      (\<exists>v w. p = OWorkload v \<and> q = OWorkload w \<and> same_references v w \<and>
        admitted (Workload_ValidateCreate h (OWorkload w)))) \<and>
    (same_references v w \<longrightarrow>
      Workload_ValidateUpdate h (OWorkload v) (OWorkload w) = Workload_ValidateCreate h (OWorkload w)) \<and>
    (wl_WorkloadTemplateRef v = Some ref \<and> w = v\<lparr>wl_WorkloadTemplateRef := Some (ref\<lparr>tor_Namespace := ns\<rparr>)\<rparr> \<longrightarrow>
      (admitted (Workload_ValidateUpdate h (OWorkload v) (OWorkload w)) \<longleftrightarrow>
       admitted (Workload_ValidateCreate h (OWorkload w))))"
proof -
  have same: "Workload_ValidateUpdate h (OWorkload v) (OWorkload w) = Workload_ValidateCreate h (OWorkload w)"
    if "same_references v w" for v w
    using that
    by (auto simp: same_references_def Workload_ValidateUpdate_def Workload_ValidateCreate_def
        validTemplateReferenceUpdate_def validClusterReferenceUpdate_def validOrganizationReferenceUpdate_def
        split: option.splits)
  have moved: "same_references v (v\<lparr>wl_WorkloadTemplateRef := Some (ref\<lparr>tor_Namespace := ns\<rparr>)\<rparr>)"
    if "wl_WorkloadTemplateRef v = Some ref" for v ref ns
    using that by (simp add: same_references_def)
  have "admitted (Workload_ValidateUpdate h p q) \<longleftrightarrow>
      (\<exists>v w. p = OWorkload v \<and> q = OWorkload w \<and> same_references v w \<and> admitted (Workload_ValidateCreate h (OWorkload w)))"
  proof
    assume up: "admitted (Workload_ValidateUpdate h p q)"
    then obtain v where p: "p = OWorkload v"
      by (cases p) (auto simp: Workload_ValidateUpdate_def admitted_def)
    from up [unfolded p] obtain w where "q = OWorkload w" "same_references v w"
      by (rule admitted_update_same_references)
    with up p same show "\<exists>v w. p = OWorkload v \<and> q = OWorkload w \<and> same_references v w \<and>
        admitted (Workload_ValidateCreate h (OWorkload w))" by metis
  qed (use same in auto)
  with same moved show ?thesis by metis
qed

theorem workload_update_admitted_iff_witness:
  "let w = example_admitted_workload\<lparr>wl_WorkloadTemplateRef :=
       Some \<lparr>tor_APIGroup = None, tor_Kind = WorkloadTemplateKind, tor_Name = ''t1'', tor_Namespace = Some ''elsewhere''\<rparr>\<rparr>
   in admitted (Workload_ValidateUpdate (example_workload_webhook ''ok'')
        (OWorkload example_admitted_workload) (OWorkload w)) \<and>
      template_key w (the (wl_WorkloadTemplateRef w)) \<noteq>
        template_key example_admitted_workload (the (wl_WorkloadTemplateRef example_admitted_workload))"
proof -
  let ?h = "example_workload_webhook ''ok''"
  let ?ref = "\<lparr>tor_APIGroup = None, tor_Kind = WorkloadTemplateKind, tor_Name = ''t1'', tor_Namespace = None\<rparr>"
  let ?w = "example_admitted_workload\<lparr>wl_WorkloadTemplateRef := Some (?ref\<lparr>tor_Namespace := Some ''elsewhere''\<rparr>)\<rparr>"
  have ref: "wl_WorkloadTemplateRef example_admitted_workload = Some ?ref"
    by (simp add: example_admitted_workload_def)
  have "admitted (Workload_ValidateUpdate ?h (OWorkload example_admitted_workload) (OWorkload ?w))"
    by (rule example_update_admitted [where ref = "?ref\<lparr>tor_Namespace := Some ''elsewhere''\<rparr>"])
      (simp_all add: example_admitted_workload_def)
  then have create: "admitted (Workload_ValidateCreate ?h (OWorkload ?w))"
    by (rule wl_webhook.update_create)
  from workload_update_admitted_iff [THEN conjunct2, THEN conjunct2, THEN mp, OF conjI [OF ref refl], THEN iffD2, OF create]
  show ?thesis
    using ref by (simp add: template_key_def) (simp add: example_admitted_workload_def new_meta_def)
qed

section \<open>Defaulting\<close>

lemma Default_workload_cases:
  obtains (same) err where "Default_workload h w = (default_api_group w, err)"
  | (owned) cluster where "Default_workload h w =
        (append_owner (default_api_group w) (cluster_owner cluster), None)"
      and "\<not> hasClusterOwnerReference h w"
      and "workload_label w LabelClusterName \<noteq> ''''"
      and "getCluster h (om_Namespace (wl_meta w)) (workload_label w LabelClusterName) = Inr cluster"
proof (cases "getCluster h (om_Namespace (wl_meta w)) (workload_label w LabelClusterName)")
  case (Inl e)
  then show ?thesis
    by (intro same [of "snd (Default_workload h w)"]) (simp add: Default_workload_def Let_def)
next
  case (Inr cluster)
  show ?thesis
  proof (cases "hasClusterOwnerReference h w \<or> workload_label w LabelClusterName = '''' \<or>
      IsNotFound (wh_errlib h) None")
    case True
    with Inr show ?thesis
      by (intro same [of "snd (Default_workload h w)"])
        (auto simp: Default_workload_def Let_def hasClusterOwnerReference_def findClusterOwnerReference_def)
  next
    case False
    with Inr show ?thesis
      by (intro owned [of cluster]) (auto simp: Default_workload_def Let_def hasClusterOwnerReference_def
          findClusterOwnerReference_def)
  qed
qed

lemma Default_workload_default_api_group [simp]:
  "Default_workload h (default_api_group w) = Default_workload h w"
  by (simp add: Default_workload_def)

lemma find_appended_cluster_owner:
  assumes "wh_ParseGroupVersion h dockyards_GroupVersion = Inr dockyards_Group"
    and "\<not> hasClusterOwnerReference h w"
  shows "findClusterOwnerReference h (append_owner (default_api_group w) (cluster_owner cluster)) =
    (cluster_owner cluster, True)"
  using assms
  by (simp add: findClusterOwnerReference_def hasClusterOwnerReference_def append_owner_def
      find_cluster_owner_append cluster_owner_def)

text \<open>
  C27. Defaulting is idempotent and only adds: running it on its own outcome changes nothing and
  gives the same answer; it keeps every owner reference in place and appends at most one; and
  apart from the owner references and the API group of the template reference, the workload is
  untouched.
\<close>

theorem default_idempotent:
  assumes parse: "wh_ParseGroupVersion h dockyards_GroupVersion = Inr dockyards_Group"
    and run: "Default_workload h w = (w', err)"
  shows "Default_workload h w' = (w', err) \<and>
    (\<exists>refs. length refs \<le> 1 \<and>
      om_OwnerReferences (wl_meta w') = om_OwnerReferences (wl_meta w) @ refs \<and>
      w' = w\<lparr>wl_meta := (wl_meta w)\<lparr>om_OwnerReferences := om_OwnerReferences (wl_meta w) @ refs\<rparr>,
             wl_WorkloadTemplateRef := map_option
               (\<lambda>ref. ref\<lparr>tor_APIGroup := Some (case tor_APIGroup ref of None \<Rightarrow> dockyards_Group | Some g \<Rightarrow> g)\<rparr>)
               (wl_WorkloadTemplateRef w)\<rparr>)"
proof -
  have group: "default_api_group w = w\<lparr>wl_WorkloadTemplateRef := map_option
      (\<lambda>ref. ref\<lparr>tor_APIGroup := Some (case tor_APIGroup ref of None \<Rightarrow> dockyards_Group | Some g \<Rightarrow> g)\<rparr>)
      (wl_WorkloadTemplateRef w)\<rparr>"
    by (auto simp: default_api_group_def split: option.splits)
  show ?thesis
  proof (cases rule: Default_workload_cases [of h w])
    case (same e)
    with run have w': "w' = default_api_group w" by simp
    then have "Default_workload h w' = (w', err)" using run by simp
    with w' group show ?thesis by (intro conjI exI [of _ "[]"]) simp_all
  next
    case (owned cluster)
    let ?u = "append_owner (default_api_group w) (cluster_owner cluster)"
    from owned run have w': "w' = ?u" "err = None" by simp_all
    have "hasClusterOwnerReference h ?u"
      using find_appended_cluster_owner [OF parse owned(2)] by (simp add: hasClusterOwnerReference_def)
    then have "Default_workload h ?u = (?u, None)" by (simp add: Default_workload_def)
    moreover have "?u = w\<lparr>wl_meta := (wl_meta w)\<lparr>om_OwnerReferences :=
          om_OwnerReferences (wl_meta w) @ [cluster_owner cluster]\<rparr>,
        wl_WorkloadTemplateRef := wl_WorkloadTemplateRef (default_api_group w)\<rparr>"
      by (simp add: append_owner_def default_api_group_def split: option.splits)
    ultimately show ?thesis
      using w' group by (auto intro: exI [of _ "[cluster_owner cluster]"])
  qed
qed

theorem default_idempotent_witness:
  "let d = Default_workload (example_workload_webhook ''ok'') example_admitted_workload in
   map or_Name (om_OwnerReferences (wl_meta (fst d))) = [''c1''] \<and>
   Default_workload (example_workload_webhook ''ok'') (fst d) = d"
proof -
  let ?h = "example_workload_webhook ''ok''"
  obtain w' err where run: "Default_workload ?h example_admitted_workload = (w', err)"
    by (cases "Default_workload ?h example_admitted_workload")
  have "wh_ParseGroupVersion ?h dockyards_GroupVersion = Inr dockyards_Group"
    by (simp add: example_workload_webhook_def)
  moreover have "map or_Name (om_OwnerReferences (wl_meta (fst (Default_workload ?h example_admitted_workload)))) = [''c1'']"
    by (simp add: Default_workload_def hasClusterOwnerReference_def findClusterOwnerReference_def
        getCluster_def append_owner_def cluster_owner_def example_webhook_defs Let_def store_errlib_def)
  ultimately show ?thesis
    using default_idempotent [OF _ run] run by simp
qed

text \<open>
  C26. Defaulting and validation fit together. For a workload with both labels and no cluster owner
  yet, whose cluster exists under the name it was asked for and has the workload's
  organization or none, the defaulted workload is owned by that cluster, by name and UID, and
  passes the validation of labels and cluster reference.
\<close>

theorem default_then_valid:
  assumes L: "errlib_ok (wh_errlib h)"
    and parse: "wh_ParseGroupVersion h dockyards_GroupVersion = Inr dockyards_Group"
    and labels: "workload_label w LabelOrganizationName \<noteq> ''''" "workload_label w LabelClusterName \<noteq> ''''"
    and none: "\<not> hasClusterOwnerReference h w"
    and cluster: "wh_GetCluster h \<lparr>key_Namespace = om_Namespace (wl_meta w),
        key_Name = workload_label w LabelClusterName\<rparr> = Inr cluster"
    and named: "om_Name (cl_meta cluster) = workload_label w LabelClusterName"
    and org: "gomap_index (om_Labels (cl_meta cluster)) LabelOrganizationName \<in>
        {'''', workload_label w LabelOrganizationName}"
  shows "\<exists>w'. Default_workload h w = (w', None) \<and> hasClusterOwnerReference h w' \<and>
    or_UID (fst (findClusterOwnerReference h w')) = om_UID (cl_meta cluster) \<and>
    workload_labels_ok h w' \<and> label_errors h w' = []"
proof -
  let ?w = "append_owner (default_api_group w) (cluster_owner cluster)"
  have get: "getCluster h (om_Namespace (wl_meta w)) (workload_label w LabelClusterName) = Inr cluster"
    using cluster by (simp add: getCluster_def)
  have "\<not> IsNotFound (wh_errlib h) None" using L by (simp add: errlib_ok_def)
  with labels none get have run: "Default_workload h w = (?w, None)"
    by (simp add: Default_workload_def Let_def hasClusterOwnerReference_def findClusterOwnerReference_def)
  note found = find_appended_cluster_owner [OF parse none, of cluster]
  have meta: "workload_label ?w k = workload_label w k" "om_Namespace (wl_meta ?w) = om_Namespace (wl_meta w)" for k
    by (simp_all add: append_owner_def)
  have owner: "or_Name (cluster_owner cluster) = om_Name (cl_meta cluster)"
    "or_UID (cluster_owner cluster) = om_UID (cl_meta cluster)"
    by (simp_all add: cluster_owner_def)
  have ok: "workload_labels_ok h ?w"
    unfolding workload_labels_ok_def cluster_reference_ok_def meta found fst_conv owner
    using labels get named org by simp
  with run found owner label_errors_nil [OF L, of ?w] show ?thesis
    by (simp add: hasClusterOwnerReference_def)
qed

theorem default_then_valid_witness:
  "\<exists>w'. Default_workload (example_workload_webhook ''ok'') example_admitted_workload = (w', None) \<and>
     label_errors (example_workload_webhook ''ok'') w' = []"
proof -
  have "wh_ParseGroupVersion (example_workload_webhook ''ok'') dockyards_GroupVersion = Inr dockyards_Group"
    "workload_label example_admitted_workload LabelOrganizationName \<noteq> ''''"
    "workload_label example_admitted_workload LabelClusterName \<noteq> ''''"
    "\<not> hasClusterOwnerReference (example_workload_webhook ''ok'') example_admitted_workload"
    "wh_GetCluster (example_workload_webhook ''ok'') \<lparr>key_Namespace = om_Namespace (wl_meta example_admitted_workload),
        key_Name = workload_label example_admitted_workload LabelClusterName\<rparr> = Inr example_owner_cluster"
    "om_Name (cl_meta example_owner_cluster) = workload_label example_admitted_workload LabelClusterName"
    "gomap_index (om_Labels (cl_meta example_owner_cluster)) LabelOrganizationName \<in>
        {'''', workload_label example_admitted_workload LabelOrganizationName}"
    by (simp_all add: example_webhook_defs hasClusterOwnerReference_def findClusterOwnerReference_def)
  from default_then_valid [OF example_webhook_errlib this] show ?thesis by blast
qed

end
