(* ===== verification/Interleaving.thy ===== *)
theory Interleaving
  imports Kube_Api
begin

text \<open>
  Runs that interfere with each other. All changes to a shared part of the world are kept in a
  log, newest first, each with the number of the run that made it. A run appends its changes to
  the log as it goes, and between any two of them the other runs append theirs. The theory
  shows how a promise of every single run, made under the condition that everything before went
  well, gives the same promise for the whole log.
\<close>

section \<open>Logs\<close>

type_synonym 'm log = "(nat \<times> 'm) list"

text \<open>The state after the changes of a log, from the state \<open>m0\<close>.\<close>

definition current :: "'m \<Rightarrow> 'm log \<Rightarrow> 'm" where
  "current m0 L = (case L of [] \<Rightarrow> m0 | e # es \<Rightarrow> snd e)"

text \<open>No change of the log was made by the run \<open>a\<close>.\<close>

definition others :: "nat \<Rightarrow> 'm log \<Rightarrow> bool" where
  "others a es \<longleftrightarrow> a \<notin> fst ` set es"

text \<open>Every change is a step of the specification.\<close>

primrec conforms :: "('m \<Rightarrow> 'm \<Rightarrow> bool) \<Rightarrow> 'm \<Rightarrow> 'm log \<Rightarrow> bool" where
  "conforms step m0 [] \<longleftrightarrow> True"
| "conforms step m0 (e # es) \<longleftrightarrow> step (current m0 es) (snd e) \<and> conforms step m0 es"

text \<open>Every change of the run \<open>a\<close> is as \<open>G\<close> says, which sees all changes before it.\<close>

primrec upheld :: "('m log \<Rightarrow> 'm \<Rightarrow> bool) \<Rightarrow> nat \<Rightarrow> 'm log \<Rightarrow> bool" where
  "upheld G a [] \<longleftrightarrow> True"
| "upheld G a (e # es) \<longleftrightarrow> (fst e = a \<longrightarrow> G es (snd e)) \<and> upheld G a es"

text \<open>The promise of a run: its change is a step of the specification if all changes before it are.\<close>

definition lawful :: "('m \<Rightarrow> 'm \<Rightarrow> bool) \<Rightarrow> 'm \<Rightarrow> 'm log \<Rightarrow> 'm \<Rightarrow> bool" where
  "lawful step m0 es m \<longleftrightarrow> (conforms step m0 es \<longrightarrow> step (current m0 es) m)"

text \<open>A change that keeps a part of the state.\<close>

definition unchanged :: "('m \<Rightarrow> 'b) \<Rightarrow> 'm \<Rightarrow> 'm log \<Rightarrow> 'm \<Rightarrow> bool" where
  "unchanged part m0 es m \<longleftrightarrow> part m = part (current m0 es)"

section \<open>Computations that write to a log\<close>

text \<open>\<open>lg w\<close> is the log of the world \<open>w\<close>. During a call that writes nothing itself, only other runs write.\<close>

definition leaves :: "nat \<Rightarrow> ('w \<Rightarrow> 'm log) \<Rightarrow> ('w, 'r) state \<Rightarrow> bool" where
  "leaves a lg act \<longleftrightarrow> within (\<lambda>w w'. \<exists>es. others a es \<and> lg w' = es @ lg w) act"

text \<open>A computation that appends to the log, its own changes being as \<open>G\<close> says.\<close>

definition appended :: "('m log \<Rightarrow> 'm \<Rightarrow> bool) \<Rightarrow> nat \<Rightarrow> ('w \<Rightarrow> 'm log) \<Rightarrow> 'w \<Rightarrow> 'w \<Rightarrow> bool" where
  "appended G a lg w w' \<longleftrightarrow> (\<exists>es. lg w' = es @ lg w \<and> upheld (\<lambda>hs. G (hs @ lg w)) a es)"

definition upholds :: "('m log \<Rightarrow> 'm \<Rightarrow> bool) \<Rightarrow> nat \<Rightarrow> ('w \<Rightarrow> 'm log) \<Rightarrow> ('w, 'r) state \<Rightarrow> bool" where
  "upholds G a lg act \<longleftrightarrow> within (appended G a lg) act"

text \<open>
  The documentation of \<open>CreateOrPatch\<close> once more, for every outcome and with other runs in
  between. The call writes nothing; or it reads the object after some changes of others
  (\<open>before\<close>), the mutate function succeeds on what was read, and after some more changes of
  others (\<open>between\<close>) the outcome is stored under the object's key. A patch of an object that is
  gone and a creation of one that exists are refused by the API server; that nobody else alters
  this object between the read and the patch is the condition under which a patch stores the outcome of
  the mutate function (\<open>controller-runtime\<close> runs no two reconciles of a key at once).
\<close>

definition cop_logged ::
  "nat \<Rightarrow> 'm \<Rightarrow> ('w \<Rightarrow> 'm log) \<Rightarrow> ('o \<Rightarrow> 'k) \<Rightarrow> ('m \<Rightarrow> 'k \<rightharpoonup> 'o) \<Rightarrow> ('k \<Rightarrow> 'o \<Rightarrow> 'm \<Rightarrow> 'm) \<Rightarrow>
     ('w, 'e, 'o) create_or_patch \<Rightarrow> bool" where
  "cop_logged a m0 lg key stored put cop \<longleftrightarrow>
     (\<forall>obj f w r w'. run_state (cop obj f) w = (r, w') \<longrightarrow>
        (\<exists>es. others a es \<and> lg w' = es @ lg w) \<or>
        (\<exists>before between after y.
           others a before \<and> others a between \<and> others a after \<and>
           f (current_object key stored (current m0 (before @ lg w)) obj) = Returns (Inr y) \<and>
           stored (current m0 (between @ before @ lg w)) (key obj) =
             stored (current m0 (before @ lg w)) (key obj) \<and>
           lg w' = after @ (a, put (key obj) y (current m0 (between @ before @ lg w))) #
             between @ before @ lg w))"

text \<open>
  What the call's success means: at some moment of the call the stored object is the outcome of
  the mutate function, whether it had to be written for that or not, and after that moment only
  others write.
\<close>

definition cop_confirmed ::
  "nat \<Rightarrow> 'm \<Rightarrow> ('w \<Rightarrow> 'm log) \<Rightarrow> ('o \<Rightarrow> 'k) \<Rightarrow> ('m \<Rightarrow> 'k \<rightharpoonup> 'o) \<Rightarrow> ('w, 'e, 'o) create_or_patch \<Rightarrow> bool" where
  "cop_confirmed a m0 lg key stored cop \<longleftrightarrow>
     (\<forall>obj f w op w'. run_state (cop obj f) w = (Returns (Inr op), w') \<longrightarrow>
        (\<exists>before rest after y.
           others a before \<and> others a after \<and>
           f (current_object key stored (current m0 (before @ lg w)) obj) = Returns (Inr y) \<and>
           stored (current m0 (rest @ before @ lg w)) (key obj) = Some y \<and>
           lg w' = after @ rest @ before @ lg w))"

text \<open>
  At some moment between the worlds \<open>w\<close> and \<open>w'\<close> a part of the state is as desired, and after that
  moment the run \<open>a\<close> leaves it alone.
\<close>

definition attained ::
  "nat \<Rightarrow> 'm \<Rightarrow> ('w \<Rightarrow> 'm log) \<Rightarrow> ('m \<Rightarrow> 'o option) \<Rightarrow> ('o \<Rightarrow> bool) \<Rightarrow> 'w \<Rightarrow> 'w \<Rightarrow> bool" where
  "attained a m0 lg part goal w w' \<longleftrightarrow>
     (\<exists>fs es x. lg w' = fs @ es @ lg w \<and> part (current m0 (es @ lg w)) = Some x \<and> goal x \<and>
        upheld (\<lambda>hs. unchanged part m0 (hs @ es @ lg w)) a fs)"

section \<open>Lemmas\<close>

lemma current_simps [simp]: "current m0 [] = m0" "current m0 (e # es) = snd e"
  by (simp_all add: current_def)

lemma others_simps [simp]:
  "others a []"
  "others a (e # es) \<longleftrightarrow> fst e \<noteq> a \<and> others a es"
  "others a (es @ fs) \<longleftrightarrow> others a es \<and> others a fs"
  by (auto simp: others_def)

lemma conforms_append: "conforms step m0 (es @ fs) \<Longrightarrow> conforms step m0 fs"
  by (induction es) simp_all

lemma upheld_append:
  "upheld G a (es @ fs) \<longleftrightarrow> upheld (\<lambda>hs. G (hs @ fs)) a es \<and> upheld G a fs"
  by (induction es) auto

lemma upheld_others: "others a es \<Longrightarrow> upheld G a es"
  by (induction es) simp_all

lemma upheld_mono: "upheld G a es \<Longrightarrow> (\<And>hs m. G hs m \<Longrightarrow> H hs m) \<Longrightarrow> upheld H a es"
  by (induction es) auto

lemma upheldI: "(\<And>fs m es. L = fs @ (a, m) # es \<Longrightarrow> G es m) \<Longrightarrow> upheld G a L"
proof (induction L)
  case (Cons e L)
  from Cons.prems [of "[]" "snd e" L] have "fst e = a \<Longrightarrow> G L (snd e)" by (cases e) simp
  moreover have "upheld G a L" by (rule Cons.IH) (rule Cons.prems [of "e # _"], simp)
  ultimately show ?case by simp
qed simp

text \<open>When every run keeps its promise, all changes are steps of the specification.\<close>

lemma lawful_conforms:
  assumes "\<And>a. upheld (lawful step m0) a L"
  shows "conforms step m0 L"
  using assms
proof (induction L)
  case (Cons e es)
  from Cons.prems have "upheld (lawful step m0) a es" for a by simp
  then have "conforms step m0 es" by (rule Cons.IH)
  moreover from Cons.prems [of "fst e"] have "lawful step m0 es (snd e)" by simp
  ultimately show ?case by (simp add: lawful_def)
qed simp

interpretation leaving: world_preorder "\<lambda>w w'. \<exists>es. others a es \<and> lg w' = es @ lg w" for a lg
  by unfold_locales (simp, metis append_assoc others_simps(3))

interpretation appending: world_preorder "appended G a lg" for G a lg
proof unfold_locales
  show "appended G a lg w w" for w by (simp add: appended_def)
next
  fix w w1 w2
  assume "appended G a lg w w1" and "appended G a lg w1 w2"
  then obtain es fs where "lg w1 = es @ lg w" "upheld (\<lambda>hs. G (hs @ lg w)) a es"
    "lg w2 = fs @ lg w1" "upheld (\<lambda>hs. G (hs @ lg w1)) a fs" by (auto simp: appended_def)
  then show "appended G a lg w w2"
    unfolding appended_def by (intro exI [of _ "fs @ es"]) (simp add: upheld_append)
qed

lemma leavesD:
  assumes "leaves a lg act" and "run_state act w = (r, w')"
  obtains es where "others a es" "lg w' = es @ lg w"
  using withinD [OF assms(1) [unfolded leaves_def] assms(2)] by blast

lemma leaves_ret [simp]: "leaves a lg (ret x)"
  unfolding leaves_def by (rule leaving.within_ret)

lemma appended_upheld: "appended G a lg w w' \<Longrightarrow> upheld G a (lg w) \<Longrightarrow> upheld G a (lg w')"
  by (auto simp: appended_def upheld_append)

lemma appended_mono: "appended G a lg w w' \<Longrightarrow> (\<And>hs m. G hs m \<Longrightarrow> H hs m) \<Longrightarrow> appended H a lg w w'"
  by (auto simp: appended_def elim!: upheld_mono)

lemma upholds_leaves: "leaves a lg act \<Longrightarrow> upholds G a lg act"
  unfolding upholds_def within_def appended_def by (metis leavesD upheld_others)

lemma upholds_ret [simp]: "upholds G a lg (ret x)"
  unfolding upholds_def by (rule appending.within_ret)

text \<open>A call that makes at most one change of its own.\<close>

lemma upholdsI:
  assumes "\<And>w r w'. run_state act w = (r, w') \<Longrightarrow>
      (\<exists>es. others a es \<and> lg w' = es @ lg w) \<or>
      (\<exists>es m fs. others a es \<and> others a fs \<and> lg w' = fs @ (a, m) # es @ lg w \<and> G (es @ lg w) m)"
  shows "upholds G a lg act"
  unfolding upholds_def within_def
proof (intro allI impI)
  fix w r w'
  assume "run_state act w = (r, w')"
  from assms [OF this] consider es where "others a es" "lg w' = es @ lg w"
    | es m fs where "others a es" "others a fs" "lg w' = fs @ (a, m) # es @ lg w" "G (es @ lg w) m"
    by blast
  then show "appended G a lg w w'"
  proof cases
    case (2 es m fs)
    then show ?thesis
      unfolding appended_def
      by (intro exI [of _ "fs @ (a, m) # es"]) (simp add: upheld_append upheld_others)
  qed (auto simp: appended_def upheld_others)
qed

lemma cop_loggedD:
  assumes "cop_logged a m0 lg key stored put cop" and "run_state (cop obj f) w = (r, w')"
  shows "(\<exists>es. others a es \<and> lg w' = es @ lg w) \<or>
    (\<exists>before between after y.
       others a before \<and> others a between \<and> others a after \<and>
       f (current_object key stored (current m0 (before @ lg w)) obj) = Returns (Inr y) \<and>
       stored (current m0 (between @ before @ lg w)) (key obj) =
         stored (current m0 (before @ lg w)) (key obj) \<and>
       lg w' = after @ (a, put (key obj) y (current m0 (between @ before @ lg w))) #
         between @ before @ lg w)"
  using assms unfolding cop_logged_def by blast

lemma cop_confirmedE:
  assumes "cop_confirmed a m0 lg key stored cop" and "run_state (cop obj f) w = (Returns (Inr op), w')"
  obtains before rest "after" y where "others a before" "others a after"
    "f (current_object key stored (current m0 (before @ lg w)) obj) = Returns (Inr y)"
    "stored (current m0 (rest @ before @ lg w)) (key obj) = Some y"
    "lg w' = after @ rest @ before @ lg w"
proof -
  from assms(1) [unfolded cop_confirmed_def, rule_format, OF assms(2)] that show ?thesis by auto
qed

text \<open>A change by \<open>CreateOrPatch\<close> is a put of the outcome of the mutate function.\<close>

lemma cop_upholds:
  assumes logged: "cop_logged a m0 lg key stored put cop"
    and put: "\<And>before between y L. f (current_object key stored (current m0 (before @ L)) obj) = Returns (Inr y) \<Longrightarrow>
      G (between @ before @ L) (put (key obj) y (current m0 (between @ before @ L)))"
  shows "upholds G a lg (cop obj f)"
proof (rule upholdsI)
  fix w r w'
  assume "run_state (cop obj f) w = (r, w')"
  from cop_loggedD [OF logged this] consider
      es where "others a es" "lg w' = es @ lg w"
    | before between after y where "others a before" "others a between" "others a after"
      "f (current_object key stored (current m0 (before @ lg w)) obj) = Returns (Inr y)"
      "lg w' = after @ (a, put (key obj) y (current m0 (between @ before @ lg w))) #
         between @ before @ lg w" by blast
  then show "(\<exists>es. others a es \<and> lg w' = es @ lg w) \<or>
      (\<exists>es m fs. others a es \<and> others a fs \<and> lg w' = fs @ (a, m) # es @ lg w \<and> G (es @ lg w) m)"
  proof cases
    case 2
    with put [OF 2(4), of between] show ?thesis
      by (intro disjI2 exI [of _ "between @ before"]
          exI [of _ "put (key obj) y (current m0 (between @ before @ lg w))"] exI [of _ after]) simp
  qed blast
qed

lemma cop_attained:
  assumes sure: "cop_confirmed a m0 lg key stored cop" and mut: "mutator key mutate desired"
    and run: "run_state (cop obj mutate) w = (Returns (Inr op), w')"
  shows "attained a m0 lg (\<lambda>m. stored m (key obj)) desired w w'"
  using run
proof (rule cop_confirmedE [OF sure])
  fix before rest "after" y
  assume "others a after" "lg w' = after @ rest @ before @ lg w"
    and f: "mutate (current_object key stored (current m0 (before @ lg w)) obj) = Returns (Inr y)"
    and "stored (current m0 (rest @ before @ lg w)) (key obj) = Some y"
  with mutator.mutate_desired [OF mut f] show ?thesis
    unfolding attained_def
    by (intro exI [of _ "after"] exI [of _ "rest @ before"] exI [of _ y]) (simp add: upheld_others)
qed

lemma attained_before:
  assumes "appended G a lg w w1" and "attained a m0 lg part goal w1 w2"
  shows "attained a m0 lg part goal w w2"
proof -
  from assms(1) obtain es where "lg w1 = es @ lg w" by (auto simp: appended_def)
  moreover from assms(2) obtain fs gs x where "lg w2 = fs @ gs @ lg w1"
    "part (current m0 (gs @ lg w1)) = Some x" "goal x"
    "upheld (\<lambda>hs. unchanged part m0 (hs @ gs @ lg w1)) a fs"
    by (auto simp: attained_def)
  ultimately show ?thesis
    unfolding attained_def by (intro exI [of _ fs] exI [of _ "gs @ es"] exI [of _ x]) simp
qed

lemma attained_after:
  assumes "attained a m0 lg part goal w w1" and "appended (unchanged part m0) a lg w1 w2"
  shows "attained a m0 lg part goal w w2"
proof -
  from assms(2) obtain es where es: "lg w2 = es @ lg w1"
    "upheld (\<lambda>hs. unchanged part m0 (hs @ lg w1)) a es" by (auto simp: appended_def)
  from assms(1) obtain fs gs x where gs: "lg w1 = fs @ gs @ lg w"
    "part (current m0 (gs @ lg w)) = Some x" "goal x"
    "upheld (\<lambda>hs. unchanged part m0 (hs @ gs @ lg w)) a fs"
    by (auto simp: attained_def)
  from es(2) gs(1,4) have "upheld (\<lambda>hs. unchanged part m0 (hs @ gs @ lg w)) a (es @ fs)"
    by (simp add: upheld_append)
  with es(1) gs(1-3) show ?thesis
    unfolding attained_def by (intro exI [of _ "es @ fs"] exI [of _ gs] exI [of _ x]) simp
qed

lemma upheldD: "upheld G a (fs @ (a, m) # es) \<Longrightarrow> G es m"
  by (simp add: upheld_append)

text \<open>What everybody leaves alone or removes (\<open>who\<close> may), stays as it is or is gone.\<close>

lemma part_stays:
  assumes "part (current m0 L) = Some x" and "goal x"
    and "\<And>gs b m hs. xs = gs @ (b, m) # hs \<Longrightarrow>
      unchanged part m0 (hs @ L) m \<or> remover b \<and> part m = None"
  shows "case part (current m0 (xs @ L)) of None \<Rightarrow> \<exists>b \<in> fst ` set xs. remover b | Some x \<Rightarrow> goal x"
  using assms(3)
proof (induction xs)
  case Nil
  with assms(1,2) show ?case by simp
next
  case (Cons e xs)
  obtain b m where e: "e = (b, m)" by (cases e)
  have "case part (current m0 (xs @ L)) of None \<Rightarrow> \<exists>b \<in> fst ` set xs. remover b | Some x \<Rightarrow> goal x"
    by (rule Cons.IH, rule Cons.prems [of "e # _"]) simp
  moreover have "unchanged part m0 (xs @ L) m \<or> remover b \<and> part m = None"
    by (rule Cons.prems [of "[]"]) (simp add: e)
  ultimately show ?case by (auto simp: e unchanged_def split: option.splits)
qed

text \<open>What a run has attained lasts until somebody else than the run changes it.\<close>

lemma attained_lasts:
  assumes att: "attained a m0 lg part goal w w'" and over: "others a post"
    and since: "post @ lg w' = new @ lg w"
    and each: "\<And>gs b m es. post @ lg w' = gs @ (b, m) # es \<Longrightarrow> b \<in> fst ` set new \<Longrightarrow> b \<noteq> a \<Longrightarrow>
      unchanged part m0 es m \<or> remover b \<and> part m = None"
  shows "case part (current m0 (post @ lg w')) of None \<Rightarrow> \<exists>b \<in> fst ` set new. remover b | Some x \<Rightarrow> goal x"
proof -
  from att obtain fs es x where
    log: "lg w' = fs @ es @ lg w" and goal: "part (current m0 (es @ lg w)) = Some x" "goal x"
    and own: "upheld (\<lambda>hs. unchanged part m0 (hs @ es @ lg w)) a fs"
    unfolding attained_def by blast
  from own over have own: "upheld (\<lambda>hs. unchanged part m0 (hs @ es @ lg w)) a (post @ fs)"
    by (simp add: upheld_append upheld_others)
  from log since have new: "new = (post @ fs) @ es" by simp
  have "unchanged part m0 (hs @ es @ lg w) m \<or> remover b \<and> part m = None"
    if split: "post @ fs = gs @ (b, m) # hs" for gs b m hs
  proof (cases "b = a")
    case True
    with own split have "upheld (\<lambda>hs. unchanged part m0 (hs @ es @ lg w)) a (gs @ (a, m) # hs)" by simp
    from upheldD [OF this] show ?thesis ..
  next
    case False
    from split new have "b \<in> fst ` set new" by (auto simp: image_iff)
    moreover from split log have "post @ lg w' = gs @ (b, m) # hs @ es @ lg w"
      by (metis append.assoc append_Cons)
    ultimately show ?thesis using each False by blast
  qed
  then have "case part (current m0 ((post @ fs) @ es @ lg w)) of
      None \<Rightarrow> \<exists>b \<in> fst ` set (post @ fs). remover b | Some x \<Rightarrow> goal x"
    by (rule part_stays [where part = part and goal = goal, OF goal])
  then show ?thesis using new log by (auto split: option.splits)
qed

section \<open>Specifications\<close>

text \<open>A specification: its steps keep its invariant. Whatever conforms to it, keeps the invariant at every moment.\<close>

locale abstract_spec =
  fixes step :: "'m \<Rightarrow> 'm \<Rightarrow> bool" and ok :: "'m \<Rightarrow> bool"
  assumes step_ok: "step m m' \<Longrightarrow> ok m \<Longrightarrow> ok m'"
begin

lemma conforms_ok:
  assumes "ok m0" and "conforms step m0 L"
  shows "ok (current m0 L)"
  using assms(2) by (induction L) (auto simp: assms(1) intro: step_ok)

lemma conforms_always_ok:
  assumes "ok m0" and "conforms step m0 (fs @ es)"
  shows "ok (current m0 es)"
  using conforms_ok [OF assms(1) conforms_append [OF assms(2)]] .

text \<open>\<open>CreateOrPatch\<close> with a mutate function whose desired objects may be written.\<close>

lemma cop_lawful:
  assumes init: "ok m0" and logged: "cop_logged a m0 lg key stored put cop"
    and mut: "mutator key mutate desired"
    and keyed: "\<And>m k x. ok m \<Longrightarrow> stored m k = Some x \<Longrightarrow> key x = k"
    and writable: "\<And>m y. desired y \<Longrightarrow> key y = key obj \<Longrightarrow> step m (put (key obj) y m)"
  shows "upholds (lawful step m0) a lg (cop obj mutate)"
proof (rule cop_upholds [OF logged])
  fix before between y L
  assume f: "mutate (current_object key stored (current m0 (before @ L)) obj) = Returns (Inr y)"
  show "lawful step m0 (between @ before @ L) (put (key obj) y (current m0 (between @ before @ L)))"
    unfolding lawful_def
  proof (intro impI writable)
    show "desired y" by (rule mutator.mutate_desired [OF mut f])
    assume "conforms step m0 (between @ before @ L)"
    then have "ok (current m0 (before @ L))" by (metis conforms_append conforms_ok init)
    then have "key (current_object key stored (current m0 (before @ L)) obj) = key obj"
      by (auto simp: current_object_def keyed split: option.splits)
    then show "key y = key obj" by (simp add: mutator.mutate_key [OF mut f])
  qed
qed

end

end
