(* ===== verification/Managed_Objects.thy ===== *)
theory Managed_Objects
  imports Worktree_Controller SourceRepository_Controller Workload_Properties Workload_Webhook
    Interleaving
begin

text \<open>
  The abstract specification of the whole program: the objects it is responsible for
  (inventories, git repositories, workloads) as three maps, the changes it may make to them,
  and the invariant these changes keep. The theory \<open>System\<close> shows that the reconcilers and the
  webhook, in any order, make no other change.
\<close>

section \<open>The objects\<close>

record managed =
  m_Inventories :: "ObjectKey \<rightharpoonup> WorkloadInventory"
  m_GitRepositories :: "ObjectKey \<rightharpoonup> GitRepository"
  m_Workloads :: "ObjectKey \<rightharpoonup> Workload"

definition put_inventory :: "ObjectKey \<Rightarrow> WorkloadInventory \<Rightarrow> managed \<Rightarrow> managed" where
  "put_inventory k x m = m\<lparr>m_Inventories := (m_Inventories m)(k \<mapsto> x)\<rparr>"

definition put_gitRepository :: "ObjectKey \<Rightarrow> GitRepository \<Rightarrow> managed \<Rightarrow> managed" where
  "put_gitRepository k x m = m\<lparr>m_GitRepositories := (m_GitRepositories m)(k \<mapsto> x)\<rparr>"

definition put_workload :: "ObjectKey \<Rightarrow> Workload \<Rightarrow> managed \<Rightarrow> managed" where
  "put_workload k x m = m\<lparr>m_Workloads := (m_Workloads m)(k \<mapsto> x)\<rparr>"

lemmas put_defs = put_inventory_def put_gitRepository_def put_workload_def

section \<open>Well-formed objects\<close>

text \<open>The suffix of an inventory's name is given by the type of its owner.\<close>

definition owner_suffixes :: "(string \<times> string \<times> string) list" where
  "owner_suffixes =
     [(kustomize_GroupVersion, KustomizationKind, KustomizationSuffix),
      (helm_GroupVersion, HelmReleaseKind, HelmReleaseSuffix),
      (source_GroupVersion, HelmRepositoryKind, HelmRepositorySuffix),
      (source_GroupVersion, OCIRepositoryKind, OCIRepositorySuffix)]"

text \<open>
  An inventory has exactly one owner, a Flux object, is named after it, carries the labels of a
  workload and a cluster, and selects something.
\<close>

definition inventory_wf :: "ObjectKey \<Rightarrow> WorkloadInventory \<Rightarrow> bool" where
  "inventory_wf k wi \<longleftrightarrow>
     inv_key wi = k \<and>
     (\<exists>owner suffix. om_OwnerReferences (inv_meta wi) = [owner] \<and>
        (or_APIVersion owner, or_Kind owner, suffix) \<in> set owner_suffixes \<and>
        key_Name k = or_Name owner @ suffix) \<and>
     has_inventory_labels (inv_meta wi) \<and> inv_Selector wi \<noteq> None"

text \<open>
  A git repository belongs to the worktree of its name, is polled every five minutes, and
  follows one commit or one reference.
\<close>

definition gitRepository_wf :: "ObjectKey \<Rightarrow> GitRepository \<Rightarrow> bool" where
  "gitRepository_wf k g \<longleftrightarrow>
     gr_key g = k \<and>
     (\<exists>owner. om_OwnerReferences (gr_meta g) = [owner] \<and> or_APIVersion owner = dockyards_GroupVersion \<and>
        or_Kind owner = WorktreeKind \<and> or_Name owner = key_Name k) \<and>
     gr_Interval g = 300000000000 \<and>
     (\<exists>s. gr_Reference g = Some (GitRepositoryRef0\<lparr>ref_Commit := s\<rparr>) \<or>
          gr_Reference g = Some (GitRepositoryRef0\<lparr>ref_Name := s\<rparr>))"

text \<open>
  A template may render inventories and git repositories, too. Their names and their spec are up
  to the template, but their owner is the workload that rendered them, and they carry its label
  and that of its cluster.
\<close>

definition rendered_wf :: "ObjectKey \<Rightarrow> ObjectMeta \<Rightarrow> bool" where
  "rendered_wf k md \<longleftrightarrow>
     meta_key md = k \<and>
     (\<exists>owner. om_OwnerReferences md = [owner] \<and> or_APIVersion owner = dockyards_GroupVersion \<and>
        or_Kind owner = WorkloadKind \<and> gomap_lookup (om_Labels md) LabelWorkloadName = Some (or_Name owner)) \<and>
     gomap_lookup (om_Labels md) LabelClusterName \<noteq> None"

text \<open>The API group of a template reference has been filled in.\<close>

definition defaulted :: "Workload \<Rightarrow> bool" where
  "defaulted v \<longleftrightarrow> (\<forall>ref. wl_WorkloadTemplateRef v = Some ref \<longrightarrow> tor_APIGroup ref \<noteq> None)"

definition managed_ok :: "managed \<Rightarrow> bool" where
  "managed_ok m \<longleftrightarrow>
     (\<forall>k wi. m_Inventories m k = Some wi \<longrightarrow> inventory_wf k wi \<or> rendered_wf k (inv_meta wi)) \<and>
     (\<forall>k g. m_GitRepositories m k = Some g \<longrightarrow> gitRepository_wf k g \<or> rendered_wf k (gr_meta g)) \<and>
     (\<forall>k v. m_Workloads m k = Some v \<longrightarrow> wl_key v = k \<and> defaulted v)"

section \<open>The changes\<close>

text \<open>
  A well-formed mirror or a rendered object is written; the conditions of a workload are patched;
  a user creates, updates or deletes a workload, whose references stay what they were; the API
  server removes objects.
\<close>

inductive managed_step :: "managed \<Rightarrow> managed \<Rightarrow> bool" where
  inventory_synced: "managed_step m (put_inventory k wi m)" if "inventory_wf k wi"
| gitRepository_synced: "managed_step m (put_gitRepository k g m)" if "gitRepository_wf k g"
| inventory_rendered: "managed_step m (put_inventory k wi m)" if "rendered_wf k (inv_meta wi)"
| gitRepository_rendered: "managed_step m (put_gitRepository k g m)" if "rendered_wf k (gr_meta g)"
| status_patched: "managed_step m (put_workload k v' m)"
    if "m_Workloads m k = Some v" and "only_conditions_changed v v'"
| workload_created: "managed_step m (put_workload k v m)"
    if "m_Workloads m k = None" and "wl_key v = k" and "defaulted v"
| workload_updated: "managed_step m (put_workload k v' m)"
    if "m_Workloads m k = Some v" and "wl_key v' = k" and "same_references v v'" and "defaulted v'"
| deletion_requested: "managed_step m (put_workload k (v\<lparr>wl_meta := (wl_meta v)\<lparr>om_DeletionTimestamp := t\<rparr>\<rparr>) m)"
    if "m_Workloads m k = Some v"
| removed: "managed_step m m'"
    if "m_Inventories m' \<subseteq>\<^sub>m m_Inventories m" and "m_GitRepositories m' \<subseteq>\<^sub>m m_GitRepositories m"
      and "m_Workloads m' \<subseteq>\<^sub>m m_Workloads m"

section \<open>Lemmas\<close>

lemma same_references_refl [simp]: "same_references v v"
  by (simp add: same_references_def)

lemma only_conditions_changed_references:
  "only_conditions_changed v v' \<Longrightarrow> same_references v v'"
  by (simp add: same_references_def only_conditions_changed_keeps)

lemma managed_step_ok:
  assumes "managed_step m m'" and "managed_ok m"
  shows "managed_ok m'"
  using assms
proof (cases rule: managed_step.cases)
  case (status_patched k v v')
  with assms(2) show ?thesis
    by (auto simp: managed_ok_def put_defs defaulted_def only_conditions_changed_keeps)
next
  case (deletion_requested k v t)
  with assms(2) show ?thesis
    by (auto simp: managed_ok_def put_defs defaulted_def meta_key_def)
next
  case removed
  have sub: "f k = Some x" if "g \<subseteq>\<^sub>m f" "g k = Some x" for f g :: "ObjectKey \<rightharpoonup> 'x" and k x
    using that by (metis domI map_le_def)
  from assms(2) show ?thesis
    unfolding managed_ok_def using sub [OF removed(1)] sub [OF removed(2)] sub [OF removed(3)] by blast
qed (auto simp: managed_ok_def put_defs)

interpretation managed_spec: abstract_spec managed_step managed_ok
  by unfold_locales (rule managed_step_ok)

lemma managed_ok_keys:
  "managed_ok m \<Longrightarrow> m_Inventories m k = Some wi \<Longrightarrow> inv_key wi = k"
  "managed_ok m \<Longrightarrow> m_GitRepositories m k = Some g \<Longrightarrow> gr_key g = k"
  "managed_ok m \<Longrightarrow> m_Workloads m k = Some v \<Longrightarrow> wl_key v = k"
  by (auto simp: managed_ok_def inventory_wf_def gitRepository_wf_def rendered_wf_def)

text \<open>A workload that is not removed keeps its references.\<close>

lemma managed_step_references:
  assumes "managed_step m m'" and "m_Workloads m k = Some v" and "m_Workloads m' k = Some v'"
  shows "same_references v v'"
  using assms
proof (cases rule: managed_step.cases)
  case (status_patched k' u u')
  with assms(2,3) only_conditions_changed_references show ?thesis
    by (auto simp: put_defs split: if_splits)
next
  case (deletion_requested k' u t)
  with assms(2,3) show ?thesis by (auto simp: put_defs same_references_def split: if_splits)
next
  case removed
  with assms(2,3) show ?thesis by (metis domI map_le_def option.inject same_references_refl)
qed (auto simp: put_defs split: if_splits)

end
