(* ===== verification/Inventory_Events.thy ===== *)
theory Inventory_Events
  imports Kustomization_Controller HelmRelease_Controller SourceRepository_Controller
begin

text \<open>
  The four inventory handlers side by side: their inventories never share a name, they may run
  in any order, and running the ones that are due ends with every inventory in place.
\<close>

section \<open>Inventories side by side\<close>

definition inventory_suffixes :: "string list" where
  "inventory_suffixes = [KustomizationSuffix, HelmReleaseSuffix, HelmRepositorySuffix, OCIRepositorySuffix]"

lemma inventory_suffix_length: "s \<in> set inventory_suffixes \<Longrightarrow> length s = 6"
  by (auto simp: inventory_suffixes_def KustomizationSuffix_def HelmReleaseSuffix_def
      HelmRepositorySuffix_def OCIRepositorySuffix_def)

text \<open>
  The inventories of different Flux objects never share a name: the four suffixes are distinct
  and equally long, so that an inventory's key determines the namespace, the name and the kind
  of the object it belongs to, also for objects whose own names end like a suffix.
\<close>

lemma inventory_names_distinct:
  assumes "s \<in> set inventory_suffixes" and "t \<in> set inventory_suffixes"
  shows "distinct inventory_suffixes \<and>
    (inventory_key m s = inventory_key n t \<longleftrightarrow>
      om_Namespace m = om_Namespace n \<and> om_Name m = om_Name n \<and> s = t)"
proof -
  have "distinct inventory_suffixes"
    by (simp add: inventory_suffixes_def KustomizationSuffix_def HelmReleaseSuffix_def
        HelmRepositorySuffix_def OCIRepositorySuffix_def)
  with assms inventory_suffix_length inventory_key_inject [of s t m n] show ?thesis by simp
qed

text \<open>
  The four inventory handlers as steps of one system: an event names the object that is
  reconciled, and the controllers' work queues run the events in some order.
\<close>

datatype inventory_event =
    EKustomization Kustomization
  | EHelmRelease HelmRelease
  | EHelmRepository HelmRepository
  | EOCIRepository OCIRepository

fun event_key :: "inventory_event \<Rightarrow> ObjectKey" where
  "event_key (EKustomization k) = inventory_key (k_meta k) KustomizationSuffix"
| "event_key (EHelmRelease h) = inventory_key (hr_meta h) HelmReleaseSuffix"
| "event_key (EHelmRepository h) = inventory_key (hrepo_meta h) HelmRepositorySuffix"
| "event_key (EOCIRepository c) = inventory_key (ocirepo_meta c) OCIRepositorySuffix"

fun event_goal :: "inventory_event \<Rightarrow> WorkloadInventory \<Rightarrow> bool" where
  "event_goal (EKustomization k) = kustomization_goal k"
| "event_goal (EHelmRelease h) = helmrelease_goal h"
| "event_goal (EHelmRepository h) = helmRepository_goal h"
| "event_goal (EOCIRepository c) = ociRepository_goal c"

fun event_meta :: "inventory_event \<Rightarrow> ObjectMeta" where
  "event_meta (EKustomization k) = k_meta k"
| "event_meta (EHelmRelease h) = hr_meta h"
| "event_meta (EHelmRepository h) = hrepo_meta h"
| "event_meta (EOCIRepository c) = ocirepo_meta c"

fun handle_event ::
  "('w, 'e, WorkloadInventory) create_or_patch \<Rightarrow> inventory_event \<Rightarrow> ('w, 'e reconciled) state" where
  "handle_event cop (EKustomization k) = Kustomization_reconcileWorkloadInventory cop k"
| "handle_event cop (EHelmRelease h) = HelmRelease_reconcileWorkloadInventory cop h"
| "handle_event cop (EHelmRepository h) = reconcileHelmRepositoryWorkloadInventory cop h"
| "handle_event cop (EOCIRepository c) = reconcileOCIRepositoryWorkloadInventory cop c"

text \<open>Runs of the system, with the outcome of every event.\<close>

inductive runs ::
  "('w, 'e, WorkloadInventory) create_or_patch \<Rightarrow> 'w \<Rightarrow> (inventory_event \<times> 'e reconciled) list \<Rightarrow> 'w \<Rightarrow> bool"
  for cop where
  idle: "runs cop w [] w"
| handled: "runs cop w (tr @ [(ev, out)]) w2" if "runs cop w tr w1" and "run_state (handle_event cop ev) w1 = (out, w2)"

inductive_cases runs_snocE: "runs cop w (tr @ [(ev, out)]) w2"

lemma handle_event_frame:
  assumes "create_or_patch_ok (\<lambda>i. inv_key i) view cop"
    and "run_state (handle_event cop ev) w = (out, w')" and "k \<noteq> event_key ev"
  shows "view w' k = view w k"
  using assms
  by (cases ev)
    (auto dest: kustomization_inv.other_inventories_kept helmrelease_inv.other_inventories_kept
      helmRepository_inv.other_inventories_kept ociRepository_inv.other_inventories_kept)

text \<open>The helm release handler does not report its errors, so its success says nothing.\<close>

definition reports_errors :: "inventory_event \<Rightarrow> bool" where
  "reports_errors ev \<longleftrightarrow> (\<nexists>h. ev = EHelmRelease h)"

lemma handle_event_reaches_goal:
  assumes "create_or_patch_ok (\<lambda>i. inv_key i) view cop" and "has_inventory_labels (event_meta ev)"
    and "run_state (handle_event cop ev) w = (Returns (res, None), w')" and "reports_errors ev"
  shows "\<exists>wi. view w' (event_key ev) = Some wi \<and> event_goal ev wi"
  using assms
  by (cases ev)
    (auto simp: reports_errors_def dest: kustomization_inv.inventory_written
      helmRepository_inv.inventory_written ociRepository_inv.inventory_written)

text \<open>Two events on the example objects.\<close>

abbreviation inventory_store :: "(ObjectKey \<rightharpoonup> WorkloadInventory, string, WorkloadInventory) create_or_patch" where
  "inventory_store \<equiv> store_create_or_patch (\<lambda>i. inv_key i)"

lemma example_kustomization_event:
  "\<exists>w1. run_state (handle_event inventory_store (EKustomization example_kustomization)) Map.empty =
     (Returns (Result0, None), w1)"
  by (simp add: Kustomization_reconcileWorkloadInventory_def example_kustomization_def new_meta_def
      store_create_or_patch_def kustomization_inventory_mutate_def write_inventory_def
      current_object_def new_inventory_def gomap_made_def inventory_outcome_def)

lemma example_helmrelease_event:
  "\<exists>w2. run_state (handle_event inventory_store (EHelmRelease example_helmrelease)) w1 =
     (Returns (Result0, None), w2)"
proof -
  have labels: "has_inventory_labels (hr_meta example_helmrelease)"
    by (simp add: example_helmrelease_def has_inventory_labels_def new_meta_def)
  have "\<exists>y. (helmrelease_inventory_mutate example_helmrelease cn wn x :: (string + WorkloadInventory) go) =
      Returns (Inr y)" for cn wn x
    using total_mutator.mutate_total [OF write_inventory_mutator [of
        "[(LabelClusterName, cn), (LabelWorkloadName, wn)]" wn cn]]
    by (simp add: helmrelease_inventory_mutate_def example_helmrelease_def)
  then obtain y where "\<And>cn wn x. (helmrelease_inventory_mutate example_helmrelease cn wn x ::
      (string + WorkloadInventory) go) = Returns (Inr (y cn wn x))" by metis
  then show ?thesis
    using helmrelease_inv.labelled [OF labels, of inventory_store w1]
    by (simp add: store_create_or_patch_def inventory_outcome_def)
qed

text \<open>
  C40. The order in which the inventory handlers run does not matter, over any world. In any sequence of the
  handlers of the four kinds, a labelled kustomization, helm repository or OCI repository whose
  handler returned no error has its inventory in the desired state at the end, unless a later
  event of the run is about the very same object's inventory; what the other events did, and
  whether they failed or panicked, is irrelevant.
\<close>

theorem inventories_interleave:
  assumes ok: "create_or_patch_ok (\<lambda>i. inv_key i) view cop"
    and run: "runs cop w (pre @ (ev, Returns (res, None)) # post) w'"
    and labels: "has_inventory_labels (event_meta ev)" and rep: "reports_errors ev"
    and last: "event_key ev \<notin> event_key ` fst ` set post"
  shows "\<exists>wi. view w' (event_key ev) = Some wi \<and> event_goal ev wi"
  using run last
proof (induction post arbitrary: w' rule: rev_induct)
  case Nil
  then have "runs cop w (pre @ [(ev, Returns (res, None))]) w'" by simp
  then obtain w1 where "run_state (handle_event cop ev) w1 = (Returns (res, None), w')"
    by (rule runs_snocE) auto
  with handle_event_reaches_goal [OF ok labels _ rep] show ?case by blast
next
  case (snoc x post)
  obtain ev' out where x: "x = (ev', out)" by (cases x)
  with snoc.prems(1) have "runs cop w ((pre @ (ev, Returns (res, None)) # post) @ [(ev', out)]) w'" by simp
  then obtain w1 where prev: "runs cop w (pre @ (ev, Returns (res, None)) # post) w1"
    and step: "run_state (handle_event cop ev') w1 = (out, w')"
    by (rule runs_snocE) auto
  from snoc.prems(2) x have other: "event_key ev \<noteq> event_key ev'" "event_key ev \<notin> event_key ` fst ` set post"
    by auto
  from handle_event_frame [OF ok step other(1)] snoc.IH [OF prev other(2)] show ?case by simp
qed

theorem inventories_interleave_witness:
  "\<exists>w' wi. runs inventory_store Map.empty
       [(EKustomization example_kustomization, Returns (Result0, None)),
        (EHelmRelease example_helmrelease, Returns (Result0, None))] w' \<and>
     w' \<lparr>key_Namespace = ''ns'', key_Name = ''app-4l8sj''\<rparr> = Some wi \<and>
     kustomization_goal example_kustomization wi"
proof -
  let ?k = "EKustomization example_kustomization" and ?h = "EHelmRelease example_helmrelease"
  from example_kustomization_event obtain w1 where
    w1: "run_state (handle_event inventory_store ?k) Map.empty = (Returns (Result0, None), w1)" ..
  from example_helmrelease_event obtain w2 where
    w2: "run_state (handle_event inventory_store ?h) w1 = (Returns (Result0, None), w2)" ..
  have "runs inventory_store Map.empty [(?k, Returns (Result0, None))] w1"
    using runs.handled [OF runs.idle w1] by simp
  from runs.handled [OF this w2]
  have run: "runs inventory_store Map.empty
      ([] @ (?k, Returns (Result0, None)) # [(?h, Returns (Result0, None))]) w2" by simp
  have "has_inventory_labels (event_meta ?k)" "reports_errors ?k"
    by (simp_all add: example_kustomization_def has_inventory_labels_def new_meta_def reports_errors_def)
  moreover have "event_key ?k \<notin> event_key ` fst ` set [(?h, Returns (Result0, None :: string option))]"
    using inventory_key_inject [of KustomizationSuffix HelmReleaseSuffix]
    by (simp add: KustomizationSuffix_def HelmReleaseSuffix_def)
  ultimately obtain wi where "w2 (event_key ?k) = Some wi" "kustomization_goal example_kustomization wi"
    using inventories_interleave [OF store_create_or_patch_ok run] by auto
  moreover have "event_key ?k = \<lparr>key_Namespace = ''ns'', key_Name = ''app-4l8sj''\<rparr>"
    by (simp add: inventory_key_def KustomizationSuffix_def example_kustomization_def new_meta_def)
  ultimately show ?thesis using run by auto
qed

section \<open>Convergence\<close>

text \<open>The object an event is about: its kind, as the suffix it stands for, and its key.\<close>

fun event_suffix :: "inventory_event \<Rightarrow> string" where
  "event_suffix (EKustomization k) = KustomizationSuffix"
| "event_suffix (EHelmRelease h) = HelmReleaseSuffix"
| "event_suffix (EHelmRepository h) = HelmRepositorySuffix"
| "event_suffix (EOCIRepository c) = OCIRepositorySuffix"

definition event_object :: "inventory_event \<Rightarrow> string \<times> ObjectKey" where
  "event_object ev = (event_suffix ev, meta_key (event_meta ev))"

text \<open>An object that is to have an inventory: it is labelled, and a helm release has a chart.\<close>

fun has_chart :: "inventory_event \<Rightarrow> bool" where
  "has_chart (EHelmRelease h) \<longleftrightarrow> hr_Chart h \<noteq> None"
| "has_chart ev \<longleftrightarrow> True"

definition mirrorable :: "inventory_event \<Rightarrow> bool" where
  "mirrorable ev \<longleftrightarrow> has_inventory_labels (event_meta ev) \<and> has_chart ev"

definition at_goal :: "('w \<Rightarrow> ObjectKey \<rightharpoonup> WorkloadInventory) \<Rightarrow> 'w \<Rightarrow> inventory_event \<Rightarrow> bool" where
  "at_goal view w ev \<longleftrightarrow> (case view w (event_key ev) of None \<Rightarrow> False | Some wi \<Rightarrow> event_goal ev wi)"

text \<open>The objects whose inventories are missing or out of date.\<close>

definition stale ::
  "('w \<Rightarrow> ObjectKey \<rightharpoonup> WorkloadInventory) \<Rightarrow> inventory_event list \<Rightarrow> 'w \<Rightarrow> inventory_event list" where
  "stale view evs w = filter (\<lambda>ev. \<not> at_goal view w ev) evs"

lemma at_goal_iff: "at_goal view w ev \<longleftrightarrow> (\<exists>wi. view w (event_key ev) = Some wi \<and> event_goal ev wi)"
  by (auto simp: at_goal_def split: option.splits)

lemma event_key_suffix: "event_key ev = inventory_key (event_meta ev) (event_suffix ev)"
  by (cases ev) simp_all

lemma event_key_object: "event_key ev = event_key ev' \<longleftrightarrow> event_object ev = event_object ev'"
proof -
  have "event_suffix ev \<in> set inventory_suffixes" for ev
    by (cases ev) (simp_all add: inventory_suffixes_def)
  with inventory_names_distinct show ?thesis
    unfolding event_key_suffix by (auto simp: event_object_def meta_key_def)
qed

text \<open>Every handler does nothing, or makes one call of \<open>CreateOrPatch\<close> for the inventory of its object.\<close>

fun event_mutate :: "inventory_event \<Rightarrow> ('e, WorkloadInventory) mutate_fn" where
  "event_mutate (EKustomization k) = kustomization_inventory_mutate k
     (gomap_index (om_Labels (k_meta k)) LabelWorkloadName) (gomap_index (om_Labels (k_meta k)) LabelClusterName)"
| "event_mutate (EHelmRelease h) = helmrelease_inventory_mutate h
     (gomap_index (om_Labels (hr_meta h)) LabelClusterName) (gomap_index (om_Labels (hr_meta h)) LabelWorkloadName)"
| "event_mutate (EHelmRepository h) = helmRepository_inventory_mutate h
     (gomap_index (om_Labels (hrepo_meta h)) LabelClusterName) (gomap_index (om_Labels (hrepo_meta h)) LabelWorkloadName)"
| "event_mutate (EOCIRepository c) = ociRepository_inventory_mutate c
     (gomap_index (om_Labels (ocirepo_meta c)) LabelClusterName) (gomap_index (om_Labels (ocirepo_meta c)) LabelWorkloadName)"

abbreviation event_inventory :: "inventory_event \<Rightarrow> WorkloadInventory" where
  "event_inventory ev \<equiv> new_inventory (event_meta ev) (event_suffix ev)"

lemma event_mutator: "mutator (\<lambda>i. inv_key i) (event_mutate ev) (event_goal ev)"
  by (cases ev)
    (simp_all add: kustomization_inv.goal_mutator helmrelease_inv.goal_mutator
      helmRepository_inv.goal_mutator ociRepository_inv.goal_mutator)

lemma handle_event_call:
  assumes "run_state (handle_event cop ev) w = (r, w')"
  shows "w' = w \<or> (\<exists>c. run_state (cop (event_inventory ev) (event_mutate ev)) w = (c, w'))"
  using assms
  by (cases ev)
    (auto dest: kustomization_inv.handler_call helmrelease_inv.handler_call
      helmRepository_inv.handler_call ociRepository_inv.handler_call)

lemma handle_event_written:
  assumes "has_inventory_labels (event_meta ev)" and "reports_errors ev"
    and "run_state (handle_event cop ev) w = (Returns (res, None), w')"
  shows "\<exists>op. run_state (cop (event_inventory ev) (event_mutate ev)) w = (Returns (Inr op), w')"
  using assms
  by (cases ev)
    (auto simp: reports_errors_def dest: kustomization_inv.written_call helmRepository_inv.written_call
      ociRepository_inv.written_call)

lemma handler_mutates:
  "\<exists>y. (kustomization_inventory_mutate k wn cn x :: ('e + WorkloadInventory) go) = Returns (Inr y)"
  "hr_Chart h \<noteq> None \<Longrightarrow> \<exists>y. (helmrelease_inventory_mutate h cn wn x :: ('e + WorkloadInventory) go) = Returns (Inr y)"
  "\<exists>y. (helmRepository_inventory_mutate hr cn wn x :: ('e + WorkloadInventory) go) = Returns (Inr y)"
  "\<exists>y. (ociRepository_inventory_mutate c cn wn x :: ('e + WorkloadInventory) go) = Returns (Inr y)"
  unfolding kustomization_inventory_mutate_def helmRepository_inventory_mutate_def
    ociRepository_inventory_mutate_def helmrelease_inventory_mutate_def
  using total_mutator.mutate_total [OF write_inventory_mutator] by (fastforce split: option.splits)+

lemma handle_event_mirrors:
  assumes "create_or_patch_ok (\<lambda>i. inv_key i) view cop" and "reliable (\<lambda>i. inv_key i) view cop"
    and "mirrorable ev" and "run_state (handle_event cop ev) w = (out, w')"
  shows "at_goal view w' ev"
  unfolding at_goal_iff using assms
  by (cases ev)
    (simp_all add: mirrorable_def handler_mutates kustomization_inv.reliable_written
      helmrelease_inv.reliable_written helmRepository_inv.reliable_written ociRepository_inv.reliable_written)

lemma handle_event_settled:
  assumes "create_or_patch_ok (\<lambda>i. inv_key i) view cop" and "reliable (\<lambda>i. inv_key i) view cop"
    and "mirrorable ev" and "run_state (handle_event cop ev) w = (out, w')" and "at_goal view w ev"
  shows "view w' = view w"
proof -
  from assms(5) obtain wi where "view w (event_key ev) = Some wi" "event_goal ev wi"
    by (auto simp: at_goal_iff)
  note stored = this and laws = assms(1,2)
  show ?thesis
  proof (cases ev)
    case (EKustomization k)
    with stored assms(3,4) kustomization_inv.reliable_settled [OF laws _ handler_mutates(1)]
    show ?thesis by (simp add: mirrorable_def)
  next
    case (EHelmRelease h)
    with assms(3) have chart: "hr_Chart h \<noteq> None" by (simp add: mirrorable_def)
    from EHelmRelease stored assms(3,4) helmrelease_inv.reliable_settled [OF laws _ handler_mutates(2) [OF chart]]
    show ?thesis by (simp add: mirrorable_def)
  next
    case (EHelmRepository h)
    with stored assms(3,4) helmRepository_inv.reliable_settled [OF laws _ handler_mutates(3)]
    show ?thesis by (simp add: mirrorable_def)
  next
    case (EOCIRepository c)
    with stored assms(3,4) ociRepository_inv.reliable_settled [OF laws _ handler_mutates(4)]
    show ?thesis by (simp add: mirrorable_def)
  qed
qed

text \<open>Handling a stale object makes it current and no other object stale.\<close>

lemma handle_event_progress:
  assumes ok: "create_or_patch_ok (\<lambda>i. inv_key i) view cop" and rel: "reliable (\<lambda>i. inv_key i) view cop"
    and objects: "distinct (map event_object evs)" and mir: "\<And>ev. ev \<in> set evs \<Longrightarrow> mirrorable ev"
    and ev: "ev \<in> set (stale view evs w)" and run: "run_state (handle_event cop ev) w = (out, w')"
  shows "length (stale view evs w') < length (stale view evs w)"
proof -
  from ev have mem: "ev \<in> set evs" and "\<not> at_goal view w ev" by (simp_all add: stale_def)
  have same: "at_goal view w' e \<longleftrightarrow> at_goal view w e" if "e \<in> set evs" "e \<noteq> ev" for e
  proof -
    from objects that mem have "event_object e \<noteq> event_object ev" by (auto simp: distinct_map inj_on_def)
    with handle_event_frame [OF ok run] show ?thesis by (simp add: at_goal_def event_key_object)
  qed
  from handle_event_mirrors [OF ok rel mir [OF mem] run] have "at_goal view w' ev" .
  with same have "stale view evs w' = filter (\<lambda>e. e \<noteq> ev) (stale view evs w)"
    by (auto simp: stale_def intro!: filter_cong)
  with length_filter_less [OF ev, of "\<lambda>e. e \<noteq> ev"] show ?thesis by simp
qed

text \<open>
  C7. The inventory controllers converge. For finitely many labelled Flux objects (helm releases
  with a chart), an API server that answers, and a work queue that picks any object whose
  inventory is missing or out of date, the controllers come to rest after at most as many
  handler runs as there are objects; then every object has its inventory in the desired state,
  all other inventories are as they were, and handling any of the objects again changes
  nothing.
\<close>

theorem inventories_converge:
  assumes ok: "create_or_patch_ok (\<lambda>i. inv_key i) view cop" and rel: "reliable (\<lambda>i. inv_key i) view cop"
    and objects: "distinct (map event_object evs)" and mir: "\<And>ev. ev \<in> set evs \<Longrightarrow> mirrorable ev"
    and pick: "\<And>w. stale view evs w \<noteq> [] \<Longrightarrow> pick w \<in> set (stale view evs w)"
    and step: "step = (\<lambda>w. snd (run_state (handle_event cop (pick w)) w))"
  shows "\<exists>w' n. while_option (\<lambda>w. stale view evs w \<noteq> []) step w = Some w' \<and>
    w' = (step ^^ n) w \<and> n \<le> length evs \<and>
    (\<forall>ev \<in> set evs. at_goal view w' ev \<and> view (snd (run_state (handle_event cop ev) w')) = view w') \<and>
    (\<forall>k. k \<notin> event_key ` set evs \<longrightarrow> view w' k = view w k)"
proof -
  let ?P = "\<lambda>u. \<forall>k. k \<notin> event_key ` set evs \<longrightarrow> view u k = view w k"
  have "?P (step u) \<and> length (stale view evs (step u)) < length (stale view evs u)"
    if "?P u" "stale view evs u \<noteq> []" for u
  proof -
    obtain out where run: "run_state (handle_event cop (pick u)) u = (out, step u)"
      unfolding step by (metis prod.collapse)
    note p = pick [OF that(2)]
    from p have "event_key (pick u) \<in> event_key ` set evs" by (simp add: stale_def)
    with handle_event_frame [OF ok run] that(1) have "?P (step u)" by metis
    with handle_event_progress [OF ok rel objects mir p run] show ?thesis by blast
  qed
  from while_option_bounded [where b = "\<lambda>w. stale view evs w \<noteq> []" and P = ?P and f = "\<lambda>u. length (stale view evs u)" and s = w, OF this]
  obtain w' n where w': "while_option (\<lambda>w. stale view evs w \<noteq> []) step w = Some w'" "w' = (step ^^ n) w"
    "?P w'" "stale view evs w' = []" and n: "n \<le> length (stale view evs w)" by auto
  from n have "n \<le> length evs" by (metis length_filter_le order_trans stale_def)
  moreover from w'(4) have goal: "at_goal view w' ev" if "ev \<in> set evs" for ev
    using that by (auto simp: stale_def filter_empty_conv)
  moreover have "view (snd (run_state (handle_event cop ev) w')) = view w'" if "ev \<in> set evs" for ev
    using handle_event_settled [OF ok rel mir [OF that] _ goal [OF that]] by (metis prod.collapse)
  ultimately show ?thesis using w' by blast
qed

theorem inventories_converge_witness:
  "let evs = [EKustomization example_kustomization, EHelmRelease example_helmrelease];
       step = (\<lambda>w. snd (run_state (handle_event inventory_store (hd (stale (\<lambda>w. w) evs w))) w))
   in \<exists>w'. while_option (\<lambda>w. stale (\<lambda>w. w) evs w \<noteq> []) step Map.empty = Some w' \<and>
      (\<forall>ev \<in> set evs. at_goal (\<lambda>w. w) w' ev)"
proof -
  let ?evs = "[EKustomization example_kustomization, EHelmRelease example_helmrelease]"
  have objects: "distinct (map event_object ?evs)"
    by (simp add: event_object_def KustomizationSuffix_def HelmReleaseSuffix_def)
  have mir: "mirrorable ev" if "ev \<in> set ?evs" for ev
    using that by (auto simp: mirrorable_def has_inventory_labels_def example_kustomization_def
        example_helmrelease_def new_meta_def)
  have pick: "hd (stale (\<lambda>w. w) ?evs w) \<in> set (stale (\<lambda>w. w) ?evs w)"
    if "stale (\<lambda>w. w) ?evs w \<noteq> []" for w
    using that by (rule hd_in_set)
  from inventories_converge [OF store_create_or_patch_ok store_create_or_patch_reliable objects mir pick refl]
  show ?thesis unfolding Let_def by blast
qed

end
