(* ===== verification/System.thy ===== *)
theory System
  imports Managed_Objects Inventory_Events
begin

text \<open>
  The program as one system: any number of runs of the five reconcilers, the webhook in front
  of the workloads, users and the API server, all at the same time. The changes to the managed
  objects form one log; a run may be interrupted by the others before, within and after each of
  its calls, may read stale objects, and may be cut short. Every change to the managed objects
  is a step of the specification of \<open>Managed_Objects\<close>, and a run leaves the mirrors of all objects alone
  but those it is about.
\<close>

section \<open>The system\<close>

text \<open>
  The reconcilers and the webhook that \<open>main.go\<close> registers, over one world; the webhook reads
  clusters and templates, which may be different ones in every world.
\<close>

record ('w, 'e, 'hk, 'hw, 'i, 'v, 'p) system =
  sys_worktree :: "('w, 'e) DockyardsWorktreeReconciler"
  sys_kustomization :: "('w, 'e, 'hk) KustomizationReconciler"
  sys_helmrelease :: "('w, 'e) HelmReleaseReconciler"
  sys_source :: "('w, 'e) SourceRepositoryReconciler"
  sys_workload :: "('w, 'e, 'hw, 'i, 'v, 'p) DockyardsWorkloadReconciler"
  sys_webhook :: "'w \<Rightarrow> ('i, 'v, 'p, 'e) DockyardsWorkload"

text \<open>
  The admission of a workload: the API server calls the defaulting webhook and then, with its
  outcome, the validating one, which may see another state of the clusters and templates.
\<close>

definition admit_create ::
  "('i, 'v, 'p, 'e) DockyardsWorkload \<Rightarrow> ('i, 'v, 'p, 'e) DockyardsWorkload \<Rightarrow> Workload \<Rightarrow> Workload \<Rightarrow> bool" where
  "admit_create h h' v v' \<longleftrightarrow>
     Default h (OWorkload v) = (OWorkload v', None) \<and>
     admitted (Workload_ValidateCreate h' (OWorkload v'))"

definition admit_update ::
  "('i, 'v, 'p, 'e) DockyardsWorkload \<Rightarrow> ('i, 'v, 'p, 'e) DockyardsWorkload \<Rightarrow> Workload \<Rightarrow> Workload \<Rightarrow>
     Workload \<Rightarrow> bool" where
  "admit_update h h' old v v' \<longleftrightarrow>
     Default h (OWorkload v) = (OWorkload v', None) \<and>
     admitted (Workload_ValidateUpdate h' (OWorkload old) (OWorkload v'))"

text \<open>The work of one run: a request to one of the reconcilers.\<close>

datatype task =
    TWorktree ctrl_Request
  | TKustomization ctrl_Request
  | THelmRelease ctrl_Request
  | TSource ctrl_Request
  | TWorkload ctrl_Request

fun perform :: "('w, 'e, 'hk, 'hw, 'i, 'v, 'p) system \<Rightarrow> task \<Rightarrow> ('w, 'e reconciled) state" where
  "perform S (TWorktree req) = Worktree_Reconcile (sys_worktree S) req"
| "perform S (TKustomization req) = Kustomization_Reconcile (sys_kustomization S) req"
| "perform S (THelmRelease req) = HelmRelease_Reconcile (sys_helmrelease S) req"
| "perform S (TSource req) = SourceRepository_Reconcile (sys_source S) req"
| "perform S (TWorkload req) = Workload_Reconcile (sys_workload S) req"

text \<open>The Flux objects a task is about, and those its reads can return.\<close>

fun task_objects :: "task \<Rightarrow> (string \<times> ObjectKey) list" where
  "task_objects (TKustomization req) = [(KustomizationSuffix, NamespacedName req)]"
| "task_objects (THelmRelease req) = [(HelmReleaseSuffix, NamespacedName req)]"
| "task_objects (TSource req) = [(HelmRepositorySuffix, NamespacedName req), (OCIRepositorySuffix, NamespacedName req)]"
| "task_objects t = []"

fun fetched :: "('w, 'e, 'hk, 'hw, 'i, 'v, 'p) system \<Rightarrow> task \<Rightarrow> inventory_event \<Rightarrow> bool" where
  "fetched S (TKustomization req) (EKustomization k) \<longleftrightarrow>
     (\<exists>w w'. run_state (kr_Get (sys_kustomization S) (NamespacedName req)) w = (Inr k, w'))"
| "fetched S (THelmRelease req) (EHelmRelease h) \<longleftrightarrow>
     (\<exists>w w'. run_state (hrr_Get (sys_helmrelease S) (NamespacedName req)) w = (Inr h, w'))"
| "fetched S (TSource req) (EHelmRepository h) \<longleftrightarrow>
     (\<exists>w w'. run_state (srr_GetHelmRepository (sys_source S) (NamespacedName req)) w = (Inr h, w'))"
| "fetched S (TSource req) (EOCIRepository c) \<longleftrightarrow>
     (\<exists>w w'. run_state (srr_GetOCIRepository (sys_source S) (NamespacedName req)) w = (Inr c, w'))"
| "fetched S t ev \<longleftrightarrow> False"

text \<open>The same for worktrees.\<close>

fun task_worktrees :: "task \<Rightarrow> ObjectKey list" where
  "task_worktrees (TWorktree req) = [NamespacedName req]"
| "task_worktrees t = []"

fun fetched_worktree :: "('w, 'e, 'hk, 'hw, 'i, 'v, 'p) system \<Rightarrow> task \<Rightarrow> Worktree \<Rightarrow> bool" where
  "fetched_worktree S (TWorktree req) wt \<longleftrightarrow>
     (\<exists>w w'. run_state (wtr_Get (sys_worktree S) (NamespacedName req)) w = (Inr wt, w'))"
| "fetched_worktree S t wt \<longleftrightarrow> False"

text \<open>
  A change by anybody else: a user creates, updates or deletes a workload, the API server
  removes objects.
\<close>

inductive outside_change ::
  "('w, 'e, 'hk, 'hw, 'i, 'v, 'p) system \<Rightarrow> managed \<Rightarrow> managed \<Rightarrow> bool" for S where
  created: "outside_change S m (put_workload (wl_key v') v' m)"
    if "admit_create (sys_webhook S w) (sys_webhook S w') v v'" and "m_Workloads m (wl_key v') = None"
| updated: "outside_change S m (put_workload (wl_key v') v' m)"
    if "m_Workloads m (wl_key v') = Some old" and "admit_update (sys_webhook S w) (sys_webhook S w') old v v'"
| deletion: "outside_change S m (put_workload k (v\<lparr>wl_meta := (wl_meta v)\<lparr>om_DeletionTimestamp := t\<rparr>\<rparr>) m)"
    if "m_Workloads m k = Some v"
| removal: "outside_change S m m'"
    if "m_Inventories m' \<subseteq>\<^sub>m m_Inventories m" and "m_GitRepositories m' \<subseteq>\<^sub>m m_GitRepositories m"
      and "m_Workloads m' \<subseteq>\<^sub>m m_Workloads m"

text \<open>
  How the changes numbered \<open>a\<close> of the log \<open>L\<close> came about; \<open>who\<close> says what the number stands for.
  Either they are those of one run of a task, from a world \<open>w\<close> whose log they are not part of:
  the run gets as far as the log \<open>L'\<close> shows and is then finished, with any outcome, under way, or
  cut short, while the others go on. Or each of them is a change from outside. \<open>S a\<close> are the
  reconcilers with the client of the run \<open>a\<close>.
\<close>

definition explained ::
  "(nat \<Rightarrow> ('w, 'e, 'hk, 'hw, 'i, 'v, 'p) system) \<Rightarrow> (nat \<Rightarrow> task option) \<Rightarrow> managed \<Rightarrow>
     ('w \<Rightarrow> managed log) \<Rightarrow> managed log \<Rightarrow> nat \<Rightarrow> bool" where
  "explained S who m0 lg L a \<longleftrightarrow>
     (case who a of
        Some t \<Rightarrow> (\<exists>w out w' es fs L'. run_state (perform (S a) t) w = (out, w') \<and> others a (lg w) \<and>
          lg w' = fs @ L' \<and> L = es @ L' \<and> others a es)
      | None \<Rightarrow> (\<forall>fs m es. L = fs @ (a, m) # es \<longrightarrow> outside_change (S a) (current m0 es) m))"

section \<open>What the calls promise\<close>

text \<open>
  The patch helper writes back what differs between the object it was made for and the object
  it is given. When these are conditions, it changes nothing but conditions of the stored
  workload, whatever that is by then, or nothing at all.
\<close>

definition patch_logged ::
  "nat \<Rightarrow> managed \<Rightarrow> ('w \<Rightarrow> managed log) \<Rightarrow> (Workload \<Rightarrow> 'e + 'h) \<Rightarrow>
     ('h \<Rightarrow> Workload \<Rightarrow> ('w, 'e option) state) \<Rightarrow> bool" where
  "patch_logged a m0 lg newHelper patch \<longleftrightarrow>
     (\<forall>v h v' w e w'. newHelper v = Inr h \<longrightarrow> only_conditions_changed v v' \<longrightarrow>
        run_state (patch h v') w = (e, w') \<longrightarrow>
        (\<exists>es. others a es \<and> lg w' = es @ lg w) \<or>
        (\<exists>es fs u u'. others a es \<and> others a fs \<and>
           m_Workloads (current m0 (es @ lg w)) (wl_key v) = Some u \<and> only_conditions_changed u u' \<and>
           lg w' = fs @ (a, put_workload (wl_key v) u' (current m0 (es @ lg w))) # es @ lg w))"

text \<open>
  What \<open>CreateOrPatch\<close> does for a rendered object: nothing to the managed objects, or it stores
  the outcome of the mutate function on the object it was given or has read, an object of the
  same type and key. Only inventories and git repositories become managed objects, with the
  metadata of that outcome but for the UID, which the API server assigns, and whatever else the
  template says. Workloads are denied by the cluster role (\<open>enforced_rendered_logged\<close> in
  \<open>Access_Rules\<close>), and all other kinds are not managed objects. What the fields of a
  template decode to is not restricted.
\<close>

definition stored_as :: "Unstructured \<Rightarrow> managed \<Rightarrow> managed \<Rightarrow> bool" where
  "stored_as y m m' \<longleftrightarrow>
     u_Kind y = ''WorkloadInventory'' \<and>
       (\<exists>wi uid. inv_meta wi = (u_meta y)\<lparr>om_UID := uid\<rparr> \<and> m' = put_inventory (inv_key wi) wi m) \<or>
     u_Kind y = ''GitRepository'' \<and>
       (\<exists>g uid. gr_meta g = (u_meta y)\<lparr>om_UID := uid\<rparr> \<and> m' = put_gitRepository (gr_key g) g m)"

definition rendered_logged ::
  "nat \<Rightarrow> managed \<Rightarrow> ('w \<Rightarrow> managed log) \<Rightarrow> ('w, 'e, Unstructured) create_or_patch \<Rightarrow> bool" where
  "rendered_logged a m0 lg cop \<longleftrightarrow>
     (\<forall>u f w r w'. run_state (cop u f) w = (r, w') \<longrightarrow>
        (\<exists>es. others a es \<and> lg w' = es @ lg w) \<or>
        (\<exists>es fs x y m. others a es \<and> others a fs \<and> u_key x = u_key u \<and> f x = Returns (Inr y) \<and>
           stored_as y (current m0 (es @ lg w)) m \<and> lg w' = fs @ (a, m) # es @ lg w))"

text \<open>The managed objects a task may render: the kind and the key.\<close>

fun renders_object :: "('w, 'e, 'hk, 'hw, 'i, 'v, 'p) system \<Rightarrow> task \<Rightarrow> string \<Rightarrow> ObjectKey \<Rightarrow> bool" where
  "renders_object S (TWorkload req) kind k \<longleftrightarrow>
     (\<exists>w workload w' ownerCluster v u.
        run_state (wlr_Get (sys_workload S) (NamespacedName req)) w = (Inr workload, w') \<and>
        renders (sys_workload S) workload ownerCluster v u \<and> u_Kind u = kind \<and> meta_key (u_meta u) = k)"
| "renders_object S t kind k \<longleftrightarrow> False"

text \<open>
  The calls that only read, and the patch of a kustomization, leave the managed objects to the
  others. What they answer with is not restricted: the client reads from a cache.
\<close>

definition reads_only :: "nat \<Rightarrow> ('w \<Rightarrow> managed log) \<Rightarrow> ('w, 'e, 'hk, 'hw, 'i, 'v, 'p) system \<Rightarrow> bool" where
  "reads_only a lg S \<longleftrightarrow>
     (\<forall>k. leaves a lg (wtr_Get (sys_worktree S) k)) \<and>
     (\<forall>k. leaves a lg (kr_Get (sys_kustomization S) k)) \<and>
     (\<forall>k. leaves a lg (kr_GetSecret (sys_kustomization S) k)) \<and>
     (\<forall>h x. leaves a lg (kr_Patch (sys_kustomization S) h x)) \<and>
     (\<forall>k. leaves a lg (hrr_Get (sys_helmrelease S) k)) \<and>
     (\<forall>k. leaves a lg (srr_GetHelmRepository (sys_source S) k)) \<and>
     (\<forall>k. leaves a lg (srr_GetOCIRepository (sys_source S) k)) \<and>
     (\<forall>k. leaves a lg (wlr_Get (sys_workload S) k)) \<and>
     (\<forall>k. leaves a lg (wlr_GetTemplate (sys_workload S) k)) \<and>
     (\<forall>v. leaves a lg (wlr_GetOwnerCluster (sys_workload S) v)) \<and>
     (\<forall>ls ns. leaves a lg (wlr_ListKustomizations (sys_workload S) ls ns)) \<and>
     (\<forall>ls ns. leaves a lg (wlr_ListHelmReleases (sys_workload S) ls ns))"

definition wired :: "nat \<Rightarrow> managed \<Rightarrow> ('w \<Rightarrow> managed log) \<Rightarrow> ('w, 'e, 'hk, 'hw, 'i, 'v, 'p) system \<Rightarrow> bool" where
  "wired a m0 lg S \<longleftrightarrow>
     reads_only a lg S \<and>
     cop_logged a m0 lg (\<lambda>g. gr_key g) m_GitRepositories put_gitRepository (wtr_CreateOrPatch (sys_worktree S)) \<and>
     cop_logged a m0 lg (\<lambda>i. inv_key i) m_Inventories put_inventory (kr_CreateOrPatch (sys_kustomization S)) \<and>
     cop_logged a m0 lg (\<lambda>i. inv_key i) m_Inventories put_inventory (hrr_CreateOrPatch (sys_helmrelease S)) \<and>
     cop_logged a m0 lg (\<lambda>i. inv_key i) m_Inventories put_inventory (srr_CreateOrPatch (sys_source S)) \<and>
     patch_logged a m0 lg (wlr_NewHelper (sys_workload S)) (wlr_Patch (sys_workload S)) \<and>
     rendered_logged a m0 lg (wlr_CreateOrPatch (sys_workload S)) \<and>
     condlib_ok (wlr_cond (sys_workload S))"

section \<open>The mirrors\<close>

lemma inventory_desired_wf:
  assumes "inventory_desired owner wn cn (Some sel) wi" and "inv_key wi = inventory_key m suffix"
    and "(or_APIVersion owner, or_Kind owner, suffix) \<in> set owner_suffixes" and "or_Name owner = om_Name m"
  shows "inventory_wf (inventory_key m suffix) wi"
  using assms
  by (auto simp: inventory_wf_def inventory_desired_def has_inventory_labels_def inventory_key_def)

lemmas inventory_goal_defs = kustomization_goal_def helmrelease_goal_def helmRepository_goal_def
  ociRepository_goal_def kustomization_selector_def helmrelease_selector_def source_selector_def
  gomap_literal_def kustomization_owner_def helmrelease_owner_def helmRepository_owner_def
  ociRepository_owner_def owner_suffixes_def

lemma inventory_goal_wf:
  "kustomization_goal k wi \<Longrightarrow> inv_key wi = inventory_key (k_meta k) KustomizationSuffix \<Longrightarrow>
     inventory_wf (inventory_key (k_meta k) KustomizationSuffix) wi"
  "helmrelease_goal h wi \<Longrightarrow> inv_key wi = inventory_key (hr_meta h) HelmReleaseSuffix \<Longrightarrow>
     inventory_wf (inventory_key (hr_meta h) HelmReleaseSuffix) wi"
  "helmRepository_goal hr wi \<Longrightarrow> inv_key wi = inventory_key (hrepo_meta hr) HelmRepositorySuffix \<Longrightarrow>
     inventory_wf (inventory_key (hrepo_meta hr) HelmRepositorySuffix) wi"
  "ociRepository_goal c wi \<Longrightarrow> inv_key wi = inventory_key (ocirepo_meta c) OCIRepositorySuffix \<Longrightarrow>
     inventory_wf (inventory_key (ocirepo_meta c) OCIRepositorySuffix) wi"
  by (auto simp: inventory_goal_defs elim!: inventory_desired_wf split: option.splits)

lemma event_goal_wf:
  assumes "event_goal ev wi" and "inv_key wi = event_key ev"
  shows "inventory_wf (event_key ev) wi"
  using assms by (cases ev) (simp_all add: inventory_goal_wf)

text \<open>A handler's only change is a put of its inventory, in the desired state.\<close>

lemma handle_event_upholds:
  assumes "upholds G a lg (cop (event_inventory ev) (event_mutate ev))"
  shows "upholds G a lg (handle_event cop ev)"
  unfolding upholds_def within_def
proof (intro allI impI)
  fix w r w'
  assume "run_state (handle_event cop ev) w = (r, w')"
  from handle_event_call [OF this] show "appended G a lg w w'"
    by (auto simp: appending.effect_refl dest: withinD [OF assms [unfolded upholds_def]])
qed

lemma handle_event_lawful:
  assumes init: "managed_ok m0"
    and logged: "cop_logged a m0 lg (\<lambda>i. inv_key i) m_Inventories put_inventory cop"
  shows "upholds (lawful managed_step m0) a lg (handle_event cop ev)"
  by (rule handle_event_upholds, rule managed_spec.cop_lawful [OF init logged event_mutator managed_ok_keys(1)])
    (simp_all add: managed_step.inventory_synced event_goal_wf event_key_suffix [symmetric])

lemma handle_event_unchanged:
  assumes logged: "cop_logged a m0 lg (\<lambda>i. inv_key i) m_Inventories put_inventory cop" and "event_key ev \<noteq> k"
  shows "upholds (unchanged (\<lambda>m. m_Inventories m k) m0) a lg (handle_event cop ev)"
  by (rule handle_event_upholds, rule cop_upholds [OF logged])
    (use assms(2) in \<open>simp add: unchanged_def put_inventory_def event_key_suffix\<close>)

lemma gitRepository_lawful:
  assumes init: "managed_ok m0"
    and logged: "cop_logged a m0 lg (\<lambda>g. gr_key g) m_GitRepositories put_gitRepository cop"
    and ref: "wt_ReferenceName wt \<noteq> None \<or> wt_CommitHash wt \<noteq> None"
  shows "upholds (lawful managed_step m0) a lg (cop (new_GitRepository wt) (gitRepository_mutate wt))"
proof (rule managed_spec.cop_lawful [OF init logged git.mutator_axioms managed_ok_keys(2)])
  fix m y
  assume "worktree_desired wt y" "gr_key y = gr_key (new_GitRepository wt)"
  then have "gitRepository_wf (gr_key (new_GitRepository wt)) y"
    using ref
    by (auto simp: gitRepository_wf_def worktree_desired_def worktree_owner_def new_GitRepository_def
        worktree_reference_def split: option.splits)
  then show "managed_step m (put_gitRepository (gr_key (new_GitRepository wt)) y m)"
    by (rule managed_step.gitRepository_synced)
qed

section \<open>The reconcilers\<close>

lemma wired_writes:
  assumes "wired a m0 lg S"
  shows "cop_logged a m0 lg (\<lambda>g. gr_key g) m_GitRepositories put_gitRepository (wtr_CreateOrPatch (sys_worktree S))"
    "cop_logged a m0 lg (\<lambda>i. inv_key i) m_Inventories put_inventory (kr_CreateOrPatch (sys_kustomization S))"
    "cop_logged a m0 lg (\<lambda>i. inv_key i) m_Inventories put_inventory (hrr_CreateOrPatch (sys_helmrelease S))"
    "cop_logged a m0 lg (\<lambda>i. inv_key i) m_Inventories put_inventory (srr_CreateOrPatch (sys_source S))"
    "patch_logged a m0 lg (wlr_NewHelper (sys_workload S)) (wlr_Patch (sys_workload S))"
    "rendered_logged a m0 lg (wlr_CreateOrPatch (sys_workload S))"
    "condlib_ok (wlr_cond (sys_workload S))"
    "reads_only a lg S"
  using assms by (simp_all add: wired_def)

lemma wired_reads:
  assumes "wired a m0 lg S"
  shows "leaves a lg (wtr_Get (sys_worktree S) k)"
    "leaves a lg (kr_Get (sys_kustomization S) k)"
    "leaves a lg (kr_GetSecret (sys_kustomization S) k)"
    "leaves a lg (kr_Patch (sys_kustomization S) hk x)"
    "leaves a lg (hrr_Get (sys_helmrelease S) k)"
    "leaves a lg (srr_GetHelmRepository (sys_source S) k)"
    "leaves a lg (srr_GetOCIRepository (sys_source S) k)"
    "leaves a lg (wlr_Get (sys_workload S) k)"
    "leaves a lg (wlr_GetTemplate (sys_workload S) k)"
    "leaves a lg (wlr_GetOwnerCluster (sys_workload S) v)"
    "leaves a lg (wlr_ListKustomizations (sys_workload S) ls ns)"
    "leaves a lg (wlr_ListHelmReleases (sys_workload S) ls ns)"
  using wired_writes(8) [OF assms] by (simp_all add: reads_only_def)

text \<open>The meta data of what a task renders.\<close>

definition rendered_meta :: "ObjectMeta \<Rightarrow> bool" where
  "rendered_meta md \<longleftrightarrow>
     (\<exists>workload ownerCluster. om_OwnerReferences md = [workload_owner workload] \<and>
        om_Labels md = workload_labels workload ownerCluster)"

lemma rendered_meta_wf: "rendered_meta md \<Longrightarrow> rendered_wf (meta_key md) (md\<lparr>om_UID := uid\<rparr>)"
  by (auto simp: rendered_meta_def rendered_wf_def workload_owner_def workload_labels_def meta_key_def)

lemma stored_as_cases:
  assumes "stored_as y m m'"
  obtains wi uid where "u_Kind y = ''WorkloadInventory''" "inv_meta wi = (u_meta y)\<lparr>om_UID := uid\<rparr>"
      "m' = put_inventory (meta_key (u_meta y)) wi m"
  | g uid where "u_Kind y = ''GitRepository''" "gr_meta g = (u_meta y)\<lparr>om_UID := uid\<rparr>"
      "m' = put_gitRepository (meta_key (u_meta y)) g m"
  using assms by (auto simp: stored_as_def meta_key_def)

lemma stored_as_step:
  assumes "stored_as y m m'" and "rendered_meta (u_meta y)"
  shows "managed_step m m'"
  using assms(1)
proof (cases rule: stored_as_cases)
  case 1
  with rendered_meta_wf [OF assms(2)] show ?thesis by (auto intro: managed_step.inventory_rendered)
next
  case 2
  with rendered_meta_wf [OF assms(2)] show ?thesis by (auto intro: managed_step.gitRepository_rendered)
qed

lemma workload_stages_upholds:
  fixes S :: "('w, 'e, 'hk, 'hw, 'i, 'v, 'p) system"
  assumes wired: "wired a m0 lg S"
    and got: "run_state (wlr_Get (sys_workload S) (NamespacedName req)) w0 = (Inr workload, w1)"
    and rendered: "\<And>L y m. renders_object S (TWorkload req) (u_Kind y) (meta_key (u_meta y)) \<Longrightarrow>
      rendered_meta (u_meta y) \<Longrightarrow> stored_as y (current m0 L) m \<Longrightarrow> G L m"
  shows "upholds G a lg (workload_stages (sys_workload S) workload)"
proof -
  let ?r = "sys_workload S"
  have "upholds G a lg (wlr_CreateOrPatch ?r u
      (unstructured_mutate (wlr_cue ?r) (wlr_SetNestedMap ?r) workload cl v))"
    if renders: "renders ?r workload cl v u" for cl v u
  proof (rule upholdsI)
    fix w c w'
    assume "run_state (wlr_CreateOrPatch ?r u
        (unstructured_mutate (wlr_cue ?r) (wlr_SetNestedMap ?r) workload cl v)) w = (c, w')"
    with wired_writes(6) [OF wired] consider es where "others a es" "lg w' = es @ lg w"
      | es fs x y m where "others a es" "others a fs" "u_key x = u_key u"
        "unstructured_mutate (wlr_cue ?r) (wlr_SetNestedMap ?r) workload cl v x = Returns (Inr y)"
        "stored_as y (current m0 (es @ lg w)) m" "lg w' = fs @ (a, m) # es @ lg w"
      unfolding rendered_logged_def by blast
    then show "(\<exists>es. others a es \<and> lg w' = es @ lg w) \<or>
        (\<exists>es m fs. others a es \<and> others a fs \<and> lg w' = fs @ (a, m) # es @ lg w \<and> G (es @ lg w) m)"
    proof cases
      case (2 es fs x y m)
      from unstructured_mutate_result [OF 2(4)] 2(3) have "u_Kind y = u_Kind u" "meta_key (u_meta y) = meta_key (u_meta u)"
        and meta: "rendered_meta (u_meta y)"
        by (auto simp: u_key_def rendered_meta_def)
      with got renders have "renders_object S (TWorkload req) (u_Kind y) (meta_key (u_meta y))"
        unfolding renders_object.simps by metis
      from rendered [OF this meta 2(5)] 2 show ?thesis by blast
    qed blast
  qed
  then show ?thesis
    unfolding upholds_def
    by (intro world_preorder.workload_stages_within [OF appending.world_preorder_axioms]
        upholds_leaves [OF wired_reads(10) [OF wired], unfolded upholds_def]
        upholds_leaves [OF wired_reads(9) [OF wired], unfolded upholds_def]
        upholds_leaves [OF wired_reads(11) [OF wired], unfolded upholds_def]
        upholds_leaves [OF wired_reads(12) [OF wired], unfolded upholds_def])
qed

lemma workload_patch_upholds:
  assumes patch: "patch_logged a m0 lg newHelper patch"
    and helper: "newHelper v = Inr h" and changed: "only_conditions_changed v v'"
    and put: "\<And>L u u'. m_Workloads (current m0 L) (wl_key v) = Some u \<Longrightarrow> only_conditions_changed u u' \<Longrightarrow>
      G L (put_workload (wl_key v) u' (current m0 L))"
  shows "upholds G a lg (patch h v')"
proof (rule upholdsI)
  fix w e w'
  assume "run_state (patch h v') w = (e, w')"
  with patch helper changed consider es where "others a es" "lg w' = es @ lg w"
    | es fs u u' where "others a es" "others a fs"
      "m_Workloads (current m0 (es @ lg w)) (wl_key v) = Some u" "only_conditions_changed u u'"
      "lg w' = fs @ (a, put_workload (wl_key v) u' (current m0 (es @ lg w))) # es @ lg w"
    unfolding patch_logged_def by metis
  then show "(\<exists>es. others a es \<and> lg w' = es @ lg w) \<or>
      (\<exists>es m fs. others a es \<and> others a fs \<and> lg w' = fs @ (a, m) # es @ lg w \<and> G (es @ lg w) m)"
    by cases (use put in blast)+
qed

text \<open>What every run upholds, from what its handlers and its other writes uphold.\<close>

lemma perform_upholds:
  fixes S :: "('w, 'e, 'hk, 'hw, 'i, 'v, 'p) system"
  assumes wired: "wired a m0 lg S"
    and mirror: "\<And>(cop :: ('w, 'e, WorkloadInventory) create_or_patch) ev.
      cop_logged a m0 lg (\<lambda>i. inv_key i) m_Inventories put_inventory cop \<Longrightarrow>
      fetched S t ev \<Longrightarrow> upholds G a lg (handle_event cop ev)"
    and git: "\<And>wt. fetched_worktree S t wt \<Longrightarrow> wt_ReferenceName wt \<noteq> None \<or> wt_CommitHash wt \<noteq> None \<Longrightarrow>
      upholds G a lg (wtr_CreateOrPatch (sys_worktree S) (new_GitRepository wt) (gitRepository_mutate wt))"
    and patch: "\<And>v h v'. wlr_NewHelper (sys_workload S) v = Inr h \<Longrightarrow> only_conditions_changed v v' \<Longrightarrow>
      upholds G a lg (wlr_Patch (sys_workload S) h v')"
    and rendered: "\<And>L y m. renders_object S t (u_Kind y) (meta_key (u_meta y)) \<Longrightarrow>
      rendered_meta (u_meta y) \<Longrightarrow> stored_as y (current m0 L) m \<Longrightarrow> G L m"
  shows "upholds G a lg (perform S t)"
proof -
  note order = appending.world_preorder_axioms [of G a lg]
  note reads = upholds_leaves [OF wired_reads(1) [OF wired]] upholds_leaves [OF wired_reads(2) [OF wired]]
    upholds_leaves [OF wired_reads(3) [OF wired]] upholds_leaves [OF wired_reads(4) [OF wired]]
    upholds_leaves [OF wired_reads(5) [OF wired]] upholds_leaves [OF wired_reads(6) [OF wired]]
    upholds_leaves [OF wired_reads(7) [OF wired]] upholds_leaves [OF wired_reads(8) [OF wired]]
  note handler = mirror [of _ "EKustomization _", simplified handle_event.simps]
    mirror [of _ "EHelmRelease _", simplified handle_event.simps]
    mirror [of _ "EHelmRepository _", simplified handle_event.simps]
    mirror [of _ "EOCIRepository _", simplified handle_event.simps]
  note calls = reads [unfolded upholds_def] handler [unfolded upholds_def]
  show ?thesis
    unfolding upholds_def
  proof (cases t)
    case (TWorktree req)
    show "within (appended G a lg) (perform S t)"
      unfolding TWorktree perform.simps
      by (rule world_preorder.Worktree_Reconcile_within [OF order calls(1) git [unfolded upholds_def]])
        (auto simp: TWorktree)
  next
    case (TKustomization req)
    show "within (appended G a lg) (perform S t)"
      unfolding TKustomization perform.simps
      by (rule world_preorder.Kustomization_Reconcile_within [OF order calls(2,3,4)])
        (rule calls(9) [OF wired_writes(2) [OF wired]], auto simp: TKustomization)
  next
    case (THelmRelease req)
    show "within (appended G a lg) (perform S t)"
      unfolding THelmRelease perform.simps
      by (rule world_preorder.HelmRelease_Reconcile_within [OF order calls(5)])
        (rule calls(10) [OF wired_writes(3) [OF wired]], auto simp: THelmRelease)
  next
    case (TSource req)
    have oci: "within (appended G a lg) (SourceRepository_Reconcile_oci (sys_source S) req)"
      by (rule world_preorder.SourceRepository_Reconcile_oci_within [OF order calls(7)])
        (rule calls(12) [OF wired_writes(4) [OF wired]], auto simp: TSource)
    show "within (appended G a lg) (perform S t)"
      unfolding TSource perform.simps
      by (rule world_preorder.SourceRepository_Reconcile_within [OF order calls(6) _ oci])
        (rule calls(11) [OF wired_writes(4) [OF wired]], auto simp: TSource)
  next
    case (TWorkload req)
    show "within (appended G a lg) (perform S t)"
      unfolding TWorkload perform.simps
      by (rule world_preorder.Workload_Reconcile_within [OF order wired_writes(7) [OF wired] calls(8)
            workload_stages_upholds [OF wired _ rendered [unfolded TWorkload], unfolded upholds_def]
            patch [unfolded upholds_def]])
  qed
qed

lemma perform_lawful:
  assumes init: "managed_ok m0" and wired: "wired a m0 lg S"
  shows "upholds (lawful managed_step m0) a lg (perform S t)"
proof (rule perform_upholds [OF wired handle_event_lawful [OF init] gitRepository_lawful [OF init wired_writes(1) [OF wired]]])
  fix v h v'
  assume v: "wlr_NewHelper (sys_workload S) v = Inr h" "only_conditions_changed v v'"
  show "upholds (lawful managed_step m0) a lg (wlr_Patch (sys_workload S) h v')"
    by (rule workload_patch_upholds [OF wired_writes(5) [OF wired] v])
      (simp add: lawful_def managed_step.status_patched)
next
  fix L y m
  assume "rendered_meta (u_meta y)" and "stored_as y (current m0 L) m"
  from stored_as_step [OF this(2,1)] show "lawful managed_step m0 L m" by (simp add: lawful_def)
qed

text \<open>A run whose reads return the objects asked for leaves the mirrors of all other objects alone.\<close>

definition requested :: "('w, 'e, 'hk, 'hw, 'i, 'v, 'p) system \<Rightarrow> task \<Rightarrow> bool" where
  "requested S t \<longleftrightarrow>
     (\<forall>ev. fetched S t ev \<longrightarrow> event_object ev \<in> set (task_objects t)) \<and>
     (\<forall>wt. fetched_worktree S t wt \<longrightarrow> meta_key (wt_meta wt) \<in> set (task_worktrees t))"

lemma perform_unchanged:
  assumes wired: "wired a m0 lg S" and "requested S t" and "event_object ev \<notin> set (task_objects t)"
    and elsewhere: "\<not> renders_object S t ''WorkloadInventory'' (event_key ev)"
  shows "upholds (unchanged (\<lambda>m. m_Inventories m (event_key ev)) m0) a lg (perform S t)"
proof (rule perform_upholds [OF wired])
  fix cop and ev' :: inventory_event
  assume "cop_logged a m0 lg (\<lambda>i. inv_key i) m_Inventories put_inventory cop" and "fetched S t ev'"
  with assms(2,3) show "upholds (unchanged (\<lambda>m. m_Inventories m (event_key ev)) m0) a lg (handle_event cop ev')"
    by (intro handle_event_unchanged) (auto simp: requested_def event_key_object)
next
  fix wt :: Worktree
  show "upholds (unchanged (\<lambda>m. m_Inventories m (event_key ev)) m0) a lg
      (wtr_CreateOrPatch (sys_worktree S) (new_GitRepository wt) (gitRepository_mutate wt))"
    by (rule cop_upholds [OF wired_writes(1) [OF wired]]) (simp add: unchanged_def put_gitRepository_def)
next
  fix v h v'
  assume v: "wlr_NewHelper (sys_workload S) v = Inr h" "only_conditions_changed v v'"
  show "upholds (unchanged (\<lambda>m. m_Inventories m (event_key ev)) m0) a lg (wlr_Patch (sys_workload S) h v')"
    by (rule workload_patch_upholds [OF wired_writes(5) [OF wired] v])
      (simp add: unchanged_def put_workload_def)
next
  fix L y m
  assume r: "renders_object S t (u_Kind y) (meta_key (u_meta y))" and "stored_as y (current m0 L) m"
  from this(2) show "unchanged (\<lambda>m. m_Inventories m (event_key ev)) m0 L m"
    by (cases rule: stored_as_cases)
      (use r elsewhere in \<open>auto simp: unchanged_def put_inventory_def put_gitRepository_def\<close>)
qed

lemma perform_unchanged_git:
  fixes S :: "('w, 'e, 'hk, 'hw, 'i, 'v, 'p) system"
  assumes wired: "wired a m0 lg S" and "requested S t" and "k \<notin> set (task_worktrees t)"
    and elsewhere: "\<not> renders_object S t ''GitRepository'' k"
  shows "upholds (unchanged (\<lambda>m. m_GitRepositories m k) m0) a lg (perform S t)"
proof (rule perform_upholds [OF wired])
  fix cop :: "('w, 'e, WorkloadInventory) create_or_patch" and ev :: inventory_event
  assume logged: "cop_logged a m0 lg (\<lambda>i. inv_key i) m_Inventories put_inventory cop"
  show "upholds (unchanged (\<lambda>m. m_GitRepositories m k) m0) a lg (handle_event cop ev)"
    by (rule handle_event_upholds, rule cop_upholds [OF logged]) (simp add: unchanged_def put_inventory_def)
next
  fix wt
  assume "fetched_worktree S t wt"
  with assms(2,3) have "gr_key (new_GitRepository wt) \<noteq> k"
    by (auto simp: requested_def new_GitRepository_def meta_key_def new_meta_def)
  then show "upholds (unchanged (\<lambda>m. m_GitRepositories m k) m0) a lg
      (wtr_CreateOrPatch (sys_worktree S) (new_GitRepository wt) (gitRepository_mutate wt))"
    by (intro cop_upholds [OF wired_writes(1) [OF wired]]) (simp add: unchanged_def put_gitRepository_def)
next
  fix v h v'
  assume v: "wlr_NewHelper (sys_workload S) v = Inr h" "only_conditions_changed v v'"
  show "upholds (unchanged (\<lambda>m. m_GitRepositories m k) m0) a lg (wlr_Patch (sys_workload S) h v')"
    by (rule workload_patch_upholds [OF wired_writes(5) [OF wired] v])
      (simp add: unchanged_def put_workload_def)
next
  fix L y m
  assume r: "renders_object S t (u_Kind y) (meta_key (u_meta y))" and "stored_as y (current m0 L) m"
  from this(2) show "unchanged (\<lambda>m. m_GitRepositories m k) m0 L m"
    by (cases rule: stored_as_cases)
      (use r elsewhere in \<open>auto simp: unchanged_def put_inventory_def put_gitRepository_def\<close>)
qed

lemma source_oci_unchanged:
  assumes "wired a m0 lg S"
  shows "upholds (unchanged (\<lambda>m. m_Inventories m (event_key (EHelmRepository h))) m0) a lg
      (SourceRepository_Reconcile_oci (sys_source S) req)"
  unfolding upholds_def
proof (rule world_preorder.SourceRepository_Reconcile_oci_within [OF appending.world_preorder_axioms
      upholds_leaves [OF wired_reads(7) [OF assms], unfolded upholds_def]])
  fix c
  have "event_key (EOCIRepository c) \<noteq> event_key (EHelmRepository h)"
    using source_keys_distinct [of h c] by simp
  from handle_event_unchanged [OF wired_writes(4) [OF assms] this]
  show "within (appended (unchanged (\<lambda>m. m_Inventories m (event_key (EHelmRepository h))) m0) a lg)
      (reconcileOCIRepositoryWorkloadInventory (srr_CreateOrPatch (sys_source S)) c)"
    by (simp add: upholds_def)
qed

section \<open>The webhook\<close>

lemma Default_workload_defaulted:
  assumes "Default h (OWorkload v) = (OWorkload v', err)"
  shows "defaulted v'" "wl_key v' = wl_key v"
proof -
  have group: "defaulted (default_api_group v)" "wl_meta (default_api_group v) = wl_meta v"
    by (simp_all add: defaulted_def default_api_group_def split: option.splits)
  from assms have "v' = fst (Default_workload h v)"
    by (cases "Default_workload h v") (simp add: Default_def)
  with group show "defaulted v'" "wl_key v' = wl_key v"
    by (cases rule: Default_workload_cases [of h v];
        simp add: defaulted_def append_owner_def meta_key_def)+
qed

lemma admit_create_step:
  assumes "admit_create h h' v v'" and "m_Workloads m (wl_key v') = None"
  shows "managed_step m (put_workload (wl_key v') v' m)"
  using assms Default_workload_defaulted(1)
  by (intro managed_step.workload_created) (auto simp: admit_create_def)

lemma admit_update_step:
  assumes "admit_update h h' old v v'" and "m_Workloads m (wl_key v') = Some old"
  shows "managed_step m (put_workload (wl_key v') v' m)"
proof -
  from assms(1) have "admitted (Workload_ValidateUpdate h' (OWorkload old) (OWorkload v'))"
    by (simp add: admit_update_def)
  then obtain x where "OWorkload v' = OWorkload x" "same_references old x"
    by (rule admitted_update_same_references)
  with assms Default_workload_defaulted(1) show ?thesis
    by (intro managed_step.workload_updated) (auto simp: admit_update_def)
qed

lemma outside_change_step:
  assumes "outside_change S m m'"
  shows "managed_step m m'"
  using assms
  by (cases rule: outside_change.cases)
    (auto intro: admit_create_step admit_update_step managed_step.deletion_requested managed_step.removed)

section \<open>The whole log\<close>

lemma explained_upheld:
  assumes "explained S who m0 lg L a" and "who a = Some t" and "upholds G a lg (perform (S a) t)"
  shows "upheld G a L"
proof -
  from assms(1,2) obtain w out w' es fs L' where run: "run_state (perform (S a) t) w = (out, w')"
    and "others a (lg w)" and "lg w' = fs @ L'" "L = es @ L'" and "others a es"
    by (auto simp: explained_def)
  moreover from withinD [OF assms(3) [unfolded upholds_def] run] have "appended G a lg w w'" .
  ultimately show ?thesis using appended_upheld upheld_others by (metis upheld_append)
qed

lemma explained_outside:
  assumes "explained S who m0 lg L a" and "who a = None"
    and "\<And>es m. outside_change (S a) (current m0 es) m \<Longrightarrow> G es m"
  shows "upheld G a L"
  using assms by (intro upheldI) (auto simp: explained_def)

lemma explained_lawful:
  assumes init: "managed_ok m0" and wired: "wired a m0 lg (S a)" and ex: "explained S who m0 lg L a"
  shows "upheld (lawful managed_step m0) a L"
proof (cases "who a")
  case (Some t)
  from explained_upheld [OF ex this perform_lawful [OF init wired]] show ?thesis .
next
  case None
  from explained_outside [OF ex this] show ?thesis by (simp add: lawful_def outside_change_step)
qed

text \<open>A log all of whose changes are accounted for.\<close>

definition accounted ::
  "(nat \<Rightarrow> ('w, 'e, 'hk, 'hw, 'i, 'v, 'p) system) \<Rightarrow> (nat \<Rightarrow> task option) \<Rightarrow> managed \<Rightarrow>
     ('w \<Rightarrow> managed log) \<Rightarrow> managed log \<Rightarrow> bool" where
  "accounted S who m0 lg L \<longleftrightarrow> (\<forall>a. wired a m0 lg (S a) \<and> explained S who m0 lg L a)"

lemma accounted_conforms:
  assumes "managed_ok m0" and "accounted S who m0 lg L"
  shows "conforms managed_step m0 L"
  using assms explained_lawful unfolding accounted_def by (metis lawful_conforms)

lemma conforms_references:
  assumes "conforms managed_step m0 (fs @ es)" and "m_Workloads (current m0 es) k = Some v"
    and "\<And>gs hs. fs = gs @ hs \<Longrightarrow> m_Workloads (current m0 (hs @ es)) k \<noteq> None"
  shows "\<exists>v'. m_Workloads (current m0 (fs @ es)) k = Some v' \<and> same_references v v'"
  using assms
proof (induction fs)
  case (Cons f fs)
  have "\<exists>u. m_Workloads (current m0 (fs @ es)) k = Some u \<and> same_references v u"
  proof (rule Cons.IH)
    show "m_Workloads (current m0 (hs @ es)) k \<noteq> None" if "fs = gs @ hs" for gs hs
      using that by (intro Cons.prems(3) [of "f # gs"]) simp
  qed (use Cons.prems in simp_all)
  then obtain u where u: "m_Workloads (current m0 (fs @ es)) k = Some u" "same_references v u" by blast
  from Cons.prems(3) [of "[]"] obtain u' where u': "m_Workloads (snd f) k = Some u'" by auto
  from Cons.prems(1) have "managed_step (current m0 (fs @ es)) (snd f)" by simp
  from managed_step_references [OF this u(1) u'] u(2) u' same_references_trans show ?case by auto
qed simp

end
