(* ===== verification/Example_System.thy ===== *)
theory Example_System
  imports System
begin

text \<open>
  Concrete systems on which the witnesses run: one whose world is the stored objects, and one
  whose world keeps a log and a list of interruptions, so that runs interleave.
\<close>

section \<open>Reconcilers over any world\<close>

text \<open>
  The Flux objects, the worktree, the template and the cluster are fixed, the CUE library is a
  parameter; before a read answers, the world may change by itself (\<open>pause\<close>).
\<close>

definition paused :: "('w \<Rightarrow> 'w) \<Rightarrow> 'a \<Rightarrow> ('w, 'a) state" where
  "paused pause x = State (\<lambda>w. (x, pause w))"

definition example_system_on ::
  "(string, nat, string, string) cue \<Rightarrow> ('w \<Rightarrow> 'w) \<Rightarrow> ('w, string, WorkloadInventory) create_or_patch \<Rightarrow> ('w, string, GitRepository) create_or_patch \<Rightarrow>
     ('w, string, Unstructured) create_or_patch \<Rightarrow> ('w, string, Workload) getter \<Rightarrow>
     (Workload \<Rightarrow> Workload \<Rightarrow> ('w, string option) state) \<Rightarrow>
     ('w, string, unit, Workload, string, nat, string) system" where
  "example_system_on c pause inventories gits rendered workloads patch =
     \<lparr>sys_worktree = \<lparr>wtr_Get = (\<lambda>k. paused pause (Inr example_worktree)),
        wtr_CreateOrPatch = gits,
        wtr_errlib = store_errlib\<rparr>,
      sys_kustomization = \<lparr>kr_Get = (\<lambda>k. paused pause (Inr example_kustomization)),
        kr_GetSecret = (\<lambda>k. paused pause (Inl ''NotFound'')), kr_NewHelper = (\<lambda>k. Inr ()),
        kr_Patch = (\<lambda>h k. paused pause None), kr_CreateOrPatch = inventories, kr_errlib = store_errlib\<rparr>,
      sys_helmrelease = \<lparr>hrr_Get = (\<lambda>k. paused pause (Inr example_helmrelease)),
        hrr_CreateOrPatch = inventories, hrr_errlib = store_errlib\<rparr>,
      sys_source = \<lparr>srr_GetHelmRepository = (\<lambda>k. paused pause (Inr \<lparr>hrepo_meta = example_source_meta\<rparr>)),
        srr_GetOCIRepository = (\<lambda>k. paused pause (Inr \<lparr>ocirepo_meta = example_source_meta\<rparr>)),
        srr_CreateOrPatch = inventories, srr_errlib = store_errlib\<rparr>,
      sys_workload = \<lparr>
        wlr_Get = workloads,
        wlr_GetTemplate = (\<lambda>k. paused pause (Inr example_template)),
        wlr_GetOwnerCluster = (\<lambda>w. paused pause (Inr (Some example_cluster))),
        wlr_ListKustomizations = (\<lambda>ls ns. paused pause (Inr [example_kustomization])),
        wlr_ListHelmReleases = (\<lambda>ls ns. paused pause (Inr [])),
        wlr_ListWorkloads = (\<lambda>ls ns. paused pause (Inr [])),
        wlr_ListWorkloadsByField = (\<lambda>fs. paused pause (Inr [])),
        wlr_WorkloadTemplateReferenceField = ''spec.workloadTemplateRef'',
        wlr_TypedObjectRef = tor_Name,
        wlr_CreateOrPatch = rendered,
        wlr_NewHelper = Inr,
        wlr_Patch = patch,
        wlr_SetNestedMap = store_set_nested_map,
        wlr_Getwd = Inr ''/'',
        wlr_cue = c,
        wlr_cond = example_condlib,
        wlr_errlib = store_errlib\<rparr>,
      sys_webhook = (\<lambda>w. example_workload_webhook ''ok'')\<rparr>"

section \<open>A store\<close>

text \<open>The world: the managed objects and the rendered ones.\<close>

type_synonym example_world = "managed \<times> (UnstructuredKey \<rightharpoonup> Unstructured)"

definition part_create_or_patch ::
  "('o \<Rightarrow> 'k) \<Rightarrow> ('w \<Rightarrow> 'k \<rightharpoonup> 'o) \<Rightarrow> ('k \<Rightarrow> 'o \<Rightarrow> 'w \<Rightarrow> 'w) \<Rightarrow> ('w, 'e, 'o) create_or_patch" where
  "part_create_or_patch key stored put obj f = State (\<lambda>w.
     case f (current_object key stored w obj) of
       Panics p \<Rightarrow> (Panics p, w)
     | Returns (Inl e) \<Rightarrow> (Returns (Inl e), w)
     | Returns (Inr y) \<Rightarrow> (Returns (Inr OperationResultUpdated), put (key obj) y w))"

definition example_system :: "(example_world, string, unit, Workload, string, nat, string) system" where
  "example_system = example_system_on example_cue (\<lambda>w. w)
     (part_create_or_patch (\<lambda>i. inv_key i) (\<lambda>w. m_Inventories (fst w)) (\<lambda>k y. apfst (put_inventory k y)))
     (part_create_or_patch (\<lambda>g. gr_key g) (\<lambda>w. m_GitRepositories (fst w)) (\<lambda>k y. apfst (put_gitRepository k y)))
     (part_create_or_patch u_key snd (\<lambda>k y. apsnd (\<lambda>m. m(k \<mapsto> y))))
     (\<lambda>k. State (\<lambda>w. (case m_Workloads (fst w) k of None \<Rightarrow> Inl ''NotFound'' | Some v \<Rightarrow> Inr v, w)))
     (\<lambda>h v. State (\<lambda>w. (None, apfst (put_workload (wl_key h) v) w)))"

lemma paused_run [simp]: "run_state (paused pause x) w = (x, pause w)"
  by (simp add: paused_def)

lemmas example_system_defs = example_system_def example_system_on_def

definition example_objects :: "(ObjectKey \<rightharpoonup> Workload) \<Rightarrow> managed" where
  "example_objects vs = \<lparr>m_Inventories = Map.empty, m_GitRepositories = Map.empty, m_Workloads = vs\<rparr>"

lemma example_objects_ok:
  "managed_ok (example_objects Map.empty)"
  "managed_ok (example_objects [wl_key (default_api_group example_workload) \<mapsto> default_api_group example_workload])"
  by (auto simp: managed_ok_def example_objects_def defaulted_def default_api_group_def split: option.splits if_splits)

section \<open>A log with interruptions\<close>

text \<open>
  The world: the log, the rendered objects, and the changes other runs will make, one list for
  each call to come.
\<close>

record traced =
  tr_log :: "managed log"
  tr_rendered :: "UnstructuredKey \<rightharpoonup> Unstructured"
  tr_pending :: "managed log list"

text \<open>Before a call of the run \<open>a\<close>, the next changes of the others happen.\<close>

definition interrupt :: "nat \<Rightarrow> traced \<Rightarrow> traced" where
  "interrupt a w =
     (case tr_pending w of
        [] \<Rightarrow> w
      | es # rest \<Rightarrow> w\<lparr>tr_log := filter (\<lambda>e. fst e \<noteq> a) es @ tr_log w, tr_pending := rest\<rparr>)"

definition traced_create_or_patch ::
  "nat \<Rightarrow> managed \<Rightarrow> ('o \<Rightarrow> 'k) \<Rightarrow> (managed \<Rightarrow> 'k \<rightharpoonup> 'o) \<Rightarrow> ('k \<Rightarrow> 'o \<Rightarrow> managed \<Rightarrow> managed) \<Rightarrow>
     (traced, 'e, 'o) create_or_patch" where
  "traced_create_or_patch a m0 key stored put obj f = State (\<lambda>w0.
     let w = interrupt a w0; m = current m0 (tr_log w)
     in case f (current_object key stored m obj) of
          Panics p \<Rightarrow> (Panics p, w)
        | Returns (Inl e) \<Rightarrow> (Returns (Inl e), w)
        | Returns (Inr y) \<Rightarrow> (Returns (Inr OperationResultUpdated), w\<lparr>tr_log := (a, put (key obj) y m) # tr_log w\<rparr>))"

text \<open>The patch writes the reconciler's own conditions of the given workload to the stored one.\<close>

definition merge_conditions :: "Condition list \<Rightarrow> Condition list \<Rightarrow> Condition list" where
  "merge_conditions us vs =
     filter (\<lambda>c. cond_Type c \<notin> own_conditions) us @ filter (\<lambda>c. cond_Type c \<in> own_conditions) vs"

definition traced_patch ::
  "nat \<Rightarrow> managed \<Rightarrow> Workload \<Rightarrow> Workload \<Rightarrow> (traced, string option) state" where
  "traced_patch a m0 h v = State (\<lambda>w0.
     let w = interrupt a w0; m = current m0 (tr_log w)
     in case m_Workloads m (wl_key h) of
          None \<Rightarrow> (Some ''NotFound'', w)
        | Some u \<Rightarrow> (None, w\<lparr>tr_log :=
            (a, put_workload (wl_key h) (u\<lparr>wl_Conditions := merge_conditions (wl_Conditions u) (wl_Conditions v)\<rparr>) m) # tr_log w\<rparr>))"

text \<open>
  A rendered git repository becomes a managed object, whose reference is the branch the template
  says; all other rendered objects are kept apart.
\<close>

definition read_rendered :: "managed \<Rightarrow> (UnstructuredKey \<rightharpoonup> Unstructured) \<Rightarrow> Unstructured \<Rightarrow> Unstructured" where
  "read_rendered m us u =
     (if u_Kind u = ''GitRepository'' then
        (case m_GitRepositories m (meta_key (u_meta u)) of
           None \<Rightarrow> u
         | Some g \<Rightarrow> u\<lparr>u_meta := (gr_meta g)\<lparr>om_Name := om_Name (u_meta u), om_Namespace := om_Namespace (u_meta u)\<rparr>\<rparr>)
      else current_object u_key (\<lambda>m. m) us u)"

definition rendered_gitRepository :: "Unstructured \<Rightarrow> GitRepository" where
  "rendered_gitRepository y =
     \<lparr>gr_meta = u_meta y, gr_URL = '''', gr_SecretRef = None, gr_Interval = 300000000000,
      gr_Reference =
        (case lookup_keys (the (u_Fields y ''spec'')) [''ref'', ''branch''] of
           Some (GString b) \<Rightarrow> Some (GitRepositoryRef0\<lparr>ref_Branch := b\<rparr>)
         | _ \<Rightarrow> None),
      gr_Suspend = False\<rparr>"

definition traced_rendered :: "nat \<Rightarrow> managed \<Rightarrow> (traced, 'e, Unstructured) create_or_patch" where
  "traced_rendered a m0 u f = State (\<lambda>w0.
     let w = interrupt a w0; m = current m0 (tr_log w)
     in case f (read_rendered m (tr_rendered w) u) of
          Panics p \<Rightarrow> (Panics p, w)
        | Returns (Inl e) \<Rightarrow> (Returns (Inl e), w)
        | Returns (Inr y) \<Rightarrow>
            (Returns (Inr OperationResultUpdated),
             if u_Kind u = ''GitRepository''
             then (if u_Kind y = ''GitRepository''
               then w\<lparr>tr_log := (a, put_gitRepository (meta_key (u_meta y)) (rendered_gitRepository y) m) # tr_log w\<rparr>
               else w)
             else w\<lparr>tr_rendered := (tr_rendered w)(u_key u \<mapsto> y)\<rparr>))"

definition traced_system_on ::
  "(string, nat, string, string) cue \<Rightarrow> managed \<Rightarrow> nat \<Rightarrow>
     (traced, string, unit, Workload, string, nat, string) system" where
  "traced_system_on c m0 a = example_system_on c (interrupt a)
     (traced_create_or_patch a m0 (\<lambda>i. inv_key i) m_Inventories put_inventory)
     (traced_create_or_patch a m0 (\<lambda>g. gr_key g) m_GitRepositories put_gitRepository)
     (traced_rendered a m0)
     (\<lambda>k. State (\<lambda>w. (case m_Workloads (current m0 (tr_log w)) k of None \<Rightarrow> Inl ''NotFound'' | Some v \<Rightarrow> Inr v,
        interrupt a w)))
     (traced_patch a m0)"

abbreviation traced_system ::
  "managed \<Rightarrow> nat \<Rightarrow> (traced, string, unit, Workload, string, nat, string) system" where
  "traced_system \<equiv> traced_system_on example_cue"

lemmas traced_system_defs = traced_system_on_def example_system_on_def

section \<open>The promises hold\<close>

lemma interrupt_log: "\<exists>es. others a es \<and> tr_log (interrupt a w) = es @ tr_log w"
proof -
  have "others a (filter (\<lambda>e. fst e \<noteq> a) es)" for es :: "managed log"
    by (auto simp: others_def)
  moreover have "others a ([] :: managed log)" by simp
  ultimately show ?thesis
    by (cases "tr_pending w") (auto simp: interrupt_def)
qed

lemma merge_conditions_changed:
  "only_conditions_changed u (u\<lparr>wl_Conditions := merge_conditions (wl_Conditions u) vs\<rparr>)"
proof -
  have own: "find_condition (filter (\<lambda>c. cond_Type c \<in> own_conditions) cs) t = None"
    if "t \<notin> own_conditions" for cs t
    using that by (induction cs) (auto simp: find_condition_def)
  have "find_condition (merge_conditions us vs) t = find_condition us t" if "t \<notin> own_conditions" for us t
    using that own by (induction us) (auto simp: merge_conditions_def find_condition_def)
  then show ?thesis by (simp add: only_conditions_changed_def)
qed

lemma traced_leaves:
  assumes "\<And>w. \<exists>r. run_state act w = (r, interrupt a w)"
  shows "leaves a tr_log act"
  unfolding leaves_def within_def using assms interrupt_log by (metis prod.inject)

lemma traced_create_or_patch_logged:
  "cop_logged a m0 tr_log key stored put (traced_create_or_patch a m0 key stored put)"
  unfolding cop_logged_def
proof (intro allI impI)
  fix obj f w r w'
  assume run: "run_state (traced_create_or_patch a m0 key stored put obj f) w = (r, w')"
  obtain es where es: "others a es" "tr_log (interrupt a w) = es @ tr_log w"
    using interrupt_log by blast
  let ?m = "current m0 (es @ tr_log w)"
  consider "w' = interrupt a w"
    | y where "f (current_object key stored ?m obj) = Returns (Inr y)"
      "tr_log w' = (a, put (key obj) y ?m) # es @ tr_log w"
    using run es(2)
    by (auto simp: traced_create_or_patch_def Let_def split: go.splits sum.splits)
  then show "(\<exists>es. others a es \<and> tr_log w' = es @ tr_log w) \<or>
      (\<exists>before between after y. others a before \<and> others a between \<and> others a after \<and>
         f (current_object key stored (current m0 (before @ tr_log w)) obj) = Returns (Inr y) \<and>
         stored (current m0 (between @ before @ tr_log w)) (key obj) =
           stored (current m0 (before @ tr_log w)) (key obj) \<and>
         tr_log w' = after @ (a, put (key obj) y (current m0 (between @ before @ tr_log w))) #
           between @ before @ tr_log w)"
  proof cases
    case (2 y)
    then show ?thesis
      by (intro disjI2 exI [of _ es] exI [of _ "[]"] exI [of _ y]) (simp add: es)
  qed (use es in auto)
qed

lemma traced_patch_logged: "patch_logged a m0 tr_log Inr (traced_patch a m0)"
  unfolding patch_logged_def
proof (intro allI impI)
  fix v h v' w e w'
  assume "Inr v = (Inr h :: string + Workload)" and run: "run_state (traced_patch a m0 h v') w = (e, w')"
  then have "h = v" by simp
  obtain es where es: "others a es" "tr_log (interrupt a w) = es @ tr_log w"
    using interrupt_log by blast
  consider "w' = interrupt a w"
    | u where "m_Workloads (current m0 (es @ tr_log w)) (wl_key v) = Some u"
      "tr_log w' = (a, put_workload (wl_key v) (u\<lparr>wl_Conditions := merge_conditions (wl_Conditions u) (wl_Conditions v')\<rparr>)
         (current m0 (es @ tr_log w))) # es @ tr_log w"
    using run es(2) \<open>h = v\<close> by (auto simp: traced_patch_def Let_def split: option.splits)
  then show "(\<exists>es. others a es \<and> tr_log w' = es @ tr_log w) \<or>
      (\<exists>es fs u u'. others a es \<and> others a fs \<and>
         m_Workloads (current m0 (es @ tr_log w)) (wl_key v) = Some u \<and> only_conditions_changed u u' \<and>
         tr_log w' = fs @ (a, put_workload (wl_key v) u' (current m0 (es @ tr_log w))) # es @ tr_log w)"
  proof cases
    case (2 u)
    then show ?thesis
      by (intro disjI2 exI [of _ es] exI [of _ "[]"] exI [of _ u] exI conjI) (auto simp: es merge_conditions_changed)
  qed (use es in auto)
qed

lemma read_rendered_key: "u_Kind u = ''GitRepository'' \<Longrightarrow> u_key (read_rendered m us u) = u_key u"
  by (simp add: read_rendered_def u_key_def meta_key_def split: option.splits)

lemma traced_rendered_logged: "rendered_logged a m0 tr_log (traced_rendered a m0)"
  unfolding rendered_logged_def
proof (intro allI impI)
  fix u f w r w'
  assume run: "run_state (traced_rendered a m0 u f) w = (r, w')"
  obtain es where es: "others a es" "tr_log (interrupt a w) = es @ tr_log w"
    using interrupt_log by blast
  let ?m = "current m0 (es @ tr_log w)"
  consider "tr_log w' = es @ tr_log w"
    | y where "u_Kind u = ''GitRepository''" "u_Kind y = ''GitRepository''"
      "f (read_rendered ?m (tr_rendered (interrupt a w)) u) = Returns (Inr y)"
      "tr_log w' = (a, put_gitRepository (meta_key (u_meta y)) (rendered_gitRepository y) ?m) # es @ tr_log w"
    using run es(2)
    by (auto simp: traced_rendered_def Let_def split: go.splits sum.splits if_splits)
  then show "(\<exists>es. others a es \<and> tr_log w' = es @ tr_log w) \<or>
      (\<exists>es fs x y m. others a es \<and> others a fs \<and> u_key x = u_key u \<and> f x = Returns (Inr y) \<and>
         stored_as y (current m0 (es @ tr_log w)) m \<and> tr_log w' = fs @ (a, m) # es @ tr_log w)"
  proof cases
    case (2 y)
    have "stored_as y ?m (put_gitRepository (meta_key (u_meta y)) (rendered_gitRepository y) ?m)"
      unfolding stored_as_def using 2(2)
      by (intro disjI2 conjI exI [of _ "rendered_gitRepository y"] exI [of _ "om_UID (u_meta y)"])
        (simp_all add: rendered_gitRepository_def)
    with 2(3,4) es(1) read_rendered_key [OF 2(1)] show ?thesis
      by (intro disjI2 exI [of _ es] exI [of _ "[]"] exI [of _ "read_rendered ?m (tr_rendered (interrupt a w)) u"]
          exI [of _ y]) auto
  qed (use es in auto)
qed

lemma traced_system_wired: "wired a m0 tr_log (traced_system_on c m0 a)"
proof -
  have "reads_only a tr_log (traced_system_on c m0 a)"
    unfolding reads_only_def traced_system_defs by (intro conjI allI; simp; rule traced_leaves) simp_all
  moreover have "condlib_ok (wlr_cond (sys_workload (traced_system_on c m0 a)))"
    by (simp add: traced_system_defs example_condlib_ok)
  ultimately show ?thesis
    unfolding wired_def
    by (simp add: traced_system_defs traced_create_or_patch_logged traced_patch_logged traced_rendered_logged)
qed

end
