(* ===== verification/System_Safety.thy ===== *)
theory System_Safety
  imports Example_System
begin

text \<open>
  The properties of the program as a whole, for any number of runs, users and removals at the
  same time: the log of all changes refines the specification, its invariant holds at every
  moment, and the cluster, the organization and the template name of a workload never change.
\<close>

section \<open>Two interleaved runs\<close>

text \<open>
  The run 1 reconciles a worktree; after it has read the worktree and before it writes the git
  repository, the run 2, which reconciles a helm release, writes its inventory.
\<close>

abbreviation example_req :: ctrl_Request where
  "example_req \<equiv> \<lparr>NamespacedName = \<lparr>key_Namespace = ''ns'', key_Name = ''app''\<rparr>\<rparr>"

definition example_start :: managed where
  "example_start = example_objects Map.empty"

definition example_traced :: "managed log list \<Rightarrow> traced" where
  "example_traced pending = \<lparr>tr_log = [], tr_rendered = Map.empty, tr_pending = pending\<rparr>"

lemma explained_run:
  assumes "who a = Some t" and "run_state (perform (S a) t) w = (out, w')" and "others a (lg w)"
    and "L = es @ lg w'" and "others a es"
  shows "explained S who m0 lg L a"
  unfolding explained_def assms(1) option.case
  by (intro exI [of _ w] exI [of _ out] exI [of _ w'] exI [of _ es] exI [of _ "[]"] exI [of _ "lg w'"])
    (simp add: assms)

lemma explained_none: "others a L \<Longrightarrow> who a = None \<Longrightarrow> explained S who m0 lg L a"
  unfolding explained_def by (auto simp: others_def)

lemmas example_run_defs = traced_system_defs example_traced_def interrupt_def traced_create_or_patch_def
  example_start_def example_objects_def put_defs Let_def not_deleted_def new_meta_def meta_key_def
  current_object_def

text \<open>Which run does what; the other numbers stand for nothing.\<close>

definition example_who :: "nat \<Rightarrow> task option" where
  "example_who = [1 \<mapsto> TWorktree example_req, 2 \<mapsto> THelmRelease example_req]"

lemma helmrelease_traced:
  obtains out w' m2 where
    "run_state (perform (traced_system example_start 2) (THelmRelease example_req)) (example_traced []) = (out, w')"
    "tr_log w' = [(2, m2)]"
    "m_Inventories m2 (inventory_key (hr_meta example_helmrelease) HelmReleaseSuffix) \<noteq> None"
proof -
  let ?run = "run_state (HelmRelease_Reconcile (sys_helmrelease (traced_system example_start 2)) example_req)
     (example_traced [])"
  have "\<exists>m2. tr_log (snd ?run) = [(2, m2)] \<and>
      m_Inventories m2 (inventory_key (hr_meta example_helmrelease) HelmReleaseSuffix) \<noteq> None"
    by (simp add: HelmRelease_Reconcile_def HelmRelease_reconcileWorkloadInventory_def example_run_defs
        example_helmrelease_def gomap_literal_def helmrelease_inventory_mutate_def write_inventory_def
        new_inventory_def inventory_key_def gomap_made_def split: go.splits sum.splits)
  with that show ?thesis by (metis prod.collapse perform.simps(3))
qed

lemma worktree_traced:
  obtains out w' m1 where
    "run_state (perform (traced_system example_start 1) (TWorktree example_req)) (example_traced [[], [(2, m2)]]) = (out, w')"
    "tr_log w' = [(1, m1), (2, m2)]" "m_Inventories m1 = m_Inventories m2"
    "m_GitRepositories m1 (meta_key (wt_meta example_worktree)) \<noteq> None"
proof -
  let ?run = "run_state (Worktree_Reconcile (sys_worktree (traced_system example_start 1)) example_req)
     (example_traced [[], [(2, m2)]])"
  have "\<exists>m1. tr_log (snd ?run) = [(1, m1), (2, m2)] \<and> m_Inventories m1 = m_Inventories m2 \<and>
      m_GitRepositories m1 (meta_key (wt_meta example_worktree)) \<noteq> None"
    by (auto simp: Worktree_Reconcile_def example_run_defs example_worktree_def gitRepository_mutate_def
        new_GitRepository_def split: option.splits)
  with that show ?thesis by (metis prod.collapse perform.simps(1))
qed

lemma example_accounted:
  obtains m1 m2 where "accounted (traced_system example_start) example_who example_start tr_log [(1, m1), (2, m2)]"
    and "m_Inventories m1 (inventory_key (hr_meta example_helmrelease) HelmReleaseSuffix) \<noteq> None"
    and "m_GitRepositories m1 (meta_key (wt_meta example_worktree)) \<noteq> None"
proof -
  obtain o2 w2 m2 where two:
    "run_state (perform (traced_system example_start 2) (THelmRelease example_req)) (example_traced []) = (o2, w2)"
    "tr_log w2 = [(2, m2)]"
    and inv2: "m_Inventories m2 (inventory_key (hr_meta example_helmrelease) HelmReleaseSuffix) \<noteq> None"
    by (rule helmrelease_traced)
  obtain o1 w1 m1 where one:
    "run_state (perform (traced_system example_start 1) (TWorktree example_req)) (example_traced [[], [(2, m2)]]) = (o1, w1)"
    "tr_log w1 = [(1, m1), (2, m2)]"
    and m1: "m_Inventories m1 = m_Inventories m2" "m_GitRepositories m1 (meta_key (wt_meta example_worktree)) \<noteq> None"
    by (rule worktree_traced)
  have "explained (traced_system example_start) example_who example_start tr_log [(1, m1), (2, m2)] a" for a
  proof -
    consider "a = 1" | "a = 2" | "others a [(1, m1), (2, m2)]" "example_who a = None" by (auto simp: example_who_def)
    then show ?thesis
    proof cases
      case 1
      show ?thesis unfolding 1
        by (rule explained_run [where S = "traced_system example_start", OF _ one(1), where es = "[]"])
          (simp_all add: example_who_def example_traced_def one)
    next
      case 2
      show ?thesis unfolding 2
        by (rule explained_run [where S = "traced_system example_start", OF _ two(1), where es = "[(1, m1)]"])
          (simp_all add: example_who_def example_traced_def two)
    qed (rule explained_none)
  qed
  then have "accounted (traced_system example_start) example_who example_start tr_log [(1, m1), (2, m2)]"
    by (simp add: accounted_def traced_system_wired)
  with that inv2 m1 show ?thesis by metis
qed

section \<open>A rendered git repository\<close>

text \<open>
  The template of a workload renders a git repository of the workload's name that follows a
  branch. The run 1 applies it and patches the workload.
\<close>

definition example_before :: managed where
  "example_before = example_objects [wl_key example_workload \<mapsto> default_api_group example_workload]"

definition example_one :: "nat \<Rightarrow> task option" where
  "example_one = [1 \<mapsto> TWorkload \<lparr>NamespacedName = wl_key example_workload\<rparr>]"

definition example_branch :: Unstructured where
  "example_branch =
     \<lparr>u_APIVersion = ''source.toolkit.fluxcd.io/v1'', u_Kind = ''GitRepository'',
      u_meta = new_meta ''w1'' ''ns'', u_Fields = Map.empty\<rparr>"

definition example_branch_cue :: "(string, nat, string, string) cue" where
  "example_branch_cue = example_cue
     \<lparr>DecodeUnstructured := (\<lambda>v. if v = 1 then Inr example_branch else Inl ''cannot decode''),
      DecodeMap := (\<lambda>v. if v = 2 then Inr [(''ref'', GMap [(''branch'', GString ''main'')])] else Inl ''cannot decode'')\<rparr>"

abbreviation branch_system ::
  "managed \<Rightarrow> nat \<Rightarrow> (traced, string, unit, Workload, string, nat, string) system" where
  "branch_system \<equiv> traced_system_on example_branch_cue"

definition branch_repository :: GitRepository where
  "branch_repository =
     \<lparr>gr_meta = (new_meta ''w1'' ''ns'')\<lparr>om_OwnerReferences := [workload_owner example_workload],
        om_Labels := workload_labels example_workload example_cluster\<rparr>,
      gr_URL = '''', gr_SecretRef = None, gr_Interval = 300000000000,
      gr_Reference = Some (GitRepositoryRef0\<lparr>ref_Branch := ''main''\<rparr>), gr_Suspend = False\<rparr>"

abbreviation branch_rendered :: "managed \<Rightarrow> managed" where
  "branch_rendered m \<equiv> put_gitRepository (wl_key example_workload) branch_repository m"

lemma branch_parts:
  "wlr_GetOwnerCluster (sys_workload (branch_system m0 a)) = (\<lambda>v. paused (interrupt a) (Inr (Some example_cluster)))"
  "wlr_GetTemplate (sys_workload (branch_system m0 a)) = (\<lambda>k. paused (interrupt a) (Inr example_template))"
  "wlr_ListKustomizations (sys_workload (branch_system m0 a)) = (\<lambda>ls ns. paused (interrupt a) (Inr [example_kustomization]))"
  "wlr_ListHelmReleases (sys_workload (branch_system m0 a)) = (\<lambda>ls ns. paused (interrupt a) (Inr []))"
  "wlr_CreateOrPatch (sys_workload (branch_system m0 a)) = traced_rendered a m0"
  "wlr_SetNestedMap (sys_workload (branch_system m0 a)) = store_set_nested_map"
  "wlr_Getwd (sys_workload (branch_system m0 a)) = Inr ''/''"
  "wlr_cue (sys_workload (branch_system m0 a)) = example_branch_cue"
  "wlr_cond (sys_workload (branch_system m0 a)) = example_condlib"
  "wlr_errlib (sys_workload (branch_system m0 a)) = store_errlib"
  by (simp_all add: traced_system_defs)

lemma branch_workload:
  "workload_owner (default_api_group example_workload) = workload_owner example_workload"
  "workload_labels (default_api_group example_workload) cl = workload_labels example_workload cl"
  "not_deleted (wl_meta (default_api_group example_workload))"
  "\<exists>ref. wl_WorkloadTemplateRef (default_api_group example_workload) = Some ref"
  by (simp_all add: workload_owner_def workload_labels_def default_api_group_def example_workload_def
      not_deleted_def new_meta_def)

lemma branch_cue:
  "ValidateConcrete example_branch_cue v = None" "DecodeUnstructured example_branch_cue 1 = Inr example_branch"
  by (simp_all add: example_branch_cue_def example_cue_def)

lemma quiet_interrupt: "tr_pending w = [] \<Longrightarrow> interrupt a w = w"
  by (simp add: interrupt_def)

lemma branch_fields:
  assumes quiet: "tr_pending w = []"
    and new: "m_GitRepositories (current m0 (tr_log w)) (wl_key example_workload) = None"
  shows "run_state (apply_fields (sys_workload (branch_system m0 a)) (default_api_group example_workload) example_cluster [1]) w =
   (Completed, w\<lparr>tr_log := (a, branch_rendered (current m0 (tr_log w))) # tr_log w\<rparr>)"
proof -
  let ?v = "default_api_group example_workload"
  have "unstructured_mutate example_branch_cue store_set_nested_map ?v example_cluster 1 example_branch =
      Returns (Inr (example_branch\<lparr>u_meta := gr_meta branch_repository,
        u_Fields := [''spec'' \<mapsto> GMap [(''ref'', GMap [(''branch'', GString ''main'')])]]\<rparr>))"
    by (simp add: unstructured_mutate_def example_branch_cue_def example_cue_def store_set_nested_map_def
        example_lookup_def example_branch_def branch_repository_def branch_workload)
  moreover have key: "wl_key example_workload = meta_key (gr_meta branch_repository)"
    by (simp add: example_workload_def branch_repository_def meta_key_def new_meta_def)
  moreover have "read_rendered (current m0 (tr_log w)) us example_branch = example_branch" for us
    using new [unfolded key]
    by (simp add: read_rendered_def example_branch_def branch_repository_def meta_key_def new_meta_def)
  ultimately show ?thesis
    using quiet
    by (simp add: apply_field_def branch_parts branch_cue traced_rendered_def Let_def quiet_interrupt del: One_nat_def)
      (simp add: example_branch_def branch_repository_def rendered_gitRepository_def)
qed

lemma branch_applied:
  assumes quiet: "tr_pending w = []"
    and new: "m_GitRepositories (current m0 (tr_log w)) (wl_key example_workload) = None"
  obtains v' where
    "run_state (workload_stages (sys_workload (branch_system m0 a)) (default_api_group example_workload)) w =
       ((v', Returns (Result0, None)), w\<lparr>tr_log := (a, branch_rendered (current m0 (tr_log w))) # tr_log w\<rparr>)"
proof -
  let ?r = "sys_workload (branch_system m0 a)" and ?v = "default_api_group example_workload"
  let ?w = "w\<lparr>tr_log := (a, branch_rendered (current m0 (tr_log w))) # tr_log w\<rparr>"
  have quiet': "tr_pending ?w = []" using quiet by simp
  have "render_template example_branch_cue ''/'' ''ok'' example_cluster ?v = Inr [1]"
    by (simp add: render_template_def load_template_def example_branch_cue_def example_cue_def example_lookup_def)
  then have tpl: "run_state (apply_template ?r ?v example_cluster example_template) w =
      ((MarkTrue example_condlib ?v WorkloadTemplateReconciledCondition ReadyReason [] [], Returns (Result0, None)), ?w)"
    by (simp add: apply_template_def branch_parts branch_fields [OF quiet new] example_template_def
        del: apply_fields.simps One_nat_def)
  have "check_template ?r ?v example_cluster (Inr example_template) = apply_template ?r ?v example_cluster example_template"
    by (simp add: check_template_def branch_parts store_errlib_def example_template_def
        example_condlib_def example_cluster_def)
  with tpl branch_workload(3,4) quiet
  have first: "run_state (reconcileWorkloadTemplate ?r ?v) w =
      ((MarkTrue example_condlib ?v WorkloadTemplateReconciledCondition ReadyReason [] [], Returns (Result0, None)), ?w)"
    by (auto simp: reconcileWorkloadTemplate_def branch_parts quiet_interrupt)
  have "\<exists>v'. run_state (reconcileReconcilingCondition ?r v) ?w = ((v', Result0, None), ?w)" for v
    using quiet' by (simp add: reconcileReconcilingCondition_def branch_parts quiet_interrupt)
  then obtain v' where "run_state (reconcileReconcilingCondition ?r
      (MarkTrue example_condlib ?v WorkloadTemplateReconciledCondition ReadyReason [] [])) ?w = ((v', Result0, None), ?w)" by blast
  with first have "run_state (workload_stages ?r ?v) w = ((v', Returns (Result0, None)), ?w)"
    by (simp add: workload_stages_def)
  with that show ?thesis .
qed

lemma branch_run:
  assumes quiet: "tr_pending w = []"
    and new: "m_GitRepositories (current m0 (tr_log w)) (wl_key example_workload) = None"
    and there: "m_Workloads (current m0 (tr_log w)) (wl_key example_workload) = Some (default_api_group example_workload)"
  obtains out w' v' where
    "run_state (perform (branch_system m0 a) (TWorkload \<lparr>NamespacedName = wl_key example_workload\<rparr>)) w = (out, w')"
    "tr_log w' = (a, put_workload (wl_key example_workload) v' (branch_rendered (current m0 (tr_log w)))) #
       (a, branch_rendered (current m0 (tr_log w))) # tr_log w"
proof -
  let ?r = "sys_workload (branch_system m0 a)" and ?v = "default_api_group example_workload"
  let ?k = "wl_key example_workload"
  let ?w = "w\<lparr>tr_log := (a, branch_rendered (current m0 (tr_log w))) # tr_log w\<rparr>"
  have get: "run_state (wlr_Get ?r (NamespacedName \<lparr>NamespacedName = ?k\<rparr>)) w = (Inr ?v, w)"
    using there quiet by (simp add: traced_system_defs interrupt_def)
  have helper: "wlr_NewHelper ?r ?v = Inr ?v" by (simp add: traced_system_defs)
  obtain v' where stages: "run_state (workload_stages ?r ?v) w = ((v', Returns (Result0, None)), ?w)"
    by (rule branch_applied [OF quiet new])
  obtain e w3 where patch: "run_state (wlr_Patch ?r ?v (summarize (wlr_cond ?r) v')) ?w = (e, w3)"
    by (metis prod.collapse)
  from patch quiet there obtain v'' where
    "tr_log w3 = (a, put_workload ?k v'' (branch_rendered (current m0 (tr_log w)))) #
       (a, branch_rendered (current m0 (tr_log w))) # tr_log w"
    by (auto simp: traced_system_defs traced_patch_def interrupt_def Let_def put_gitRepository_def)
  with that Workload_Reconcile_stages [OF get helper stages patch, folded perform.simps(5)] show ?thesis by blast
qed

lemma branch_accounted:
  obtains v' where "accounted (branch_system example_before) example_one example_before tr_log
    [(1, put_workload (wl_key example_workload) v' (branch_rendered example_before)), (1, branch_rendered example_before)]"
proof -
  let ?w = "example_traced []"
  have here: "tr_pending ?w = []" "m_GitRepositories (current example_before (tr_log ?w)) (wl_key example_workload) = None"
    "m_Workloads (current example_before (tr_log ?w)) (wl_key example_workload) = Some (default_api_group example_workload)"
    by (simp_all add: example_traced_def example_before_def example_objects_def)
  have empty: "tr_log ?w = []" by (simp add: example_traced_def)
  obtain out w3 v' where
    run: "run_state (perform (branch_system example_before 1) (TWorkload \<lparr>NamespacedName = wl_key example_workload\<rparr>)) ?w = (out, w3)"
    and log: "tr_log w3 = [(1, put_workload (wl_key example_workload) v' (branch_rendered example_before)),
      (1, branch_rendered example_before)]"
    using branch_run [OF here, where a = 1] unfolding empty current_simps by metis
  have "explained (branch_system example_before) example_one example_before tr_log (tr_log w3) a" for a
  proof -
    consider "a = 1" | "others a (tr_log w3)" "example_one a = None"
      by (auto simp: log example_one_def)
    then show ?thesis
    proof cases
      case 1
      show ?thesis unfolding 1
        by (rule explained_run [where S = "branch_system example_before", OF _ run, where es = "[]"])
          (simp_all add: example_one_def example_traced_def)
    qed (rule explained_none)
  qed
  then have "accounted (branch_system example_before) example_one example_before tr_log (tr_log w3)"
    by (simp add: accounted_def traced_system_wired)
  with that log show ?thesis by metis
qed

section \<open>The properties\<close>

text \<open>
  C2. The program as a whole does what its specification allows, whatever happens at the same time.
  Take any log of changes to the inventories, git repositories and workloads in which every
  change belongs to a run of a reconciler (\<open>perform\<close>, on any request, finished, failed, panicked, under way
  or cut short, and interrupted by the other runs within and between its calls) or is an
  admitted creation or update of a workload, a deletion or a removal. Then every change is a
  step of the specification: a well-formed mirror is written, or an inventory or git repository
  that a template renders, with the workload as its owner and the workload's labels; conditions
  of workloads are patched; and workloads are created or updated defaulted and with their
  references kept. Templates may render whatever they like; what is relied on is the client:
  \<open>CreateOrPatch\<close> stores the outcome of its mutate function on what it has read
  (\<open>cop_logged\<close>, \<open>rendered_logged\<close>: nobody else alters that object in between), and rendered
  workloads are denied, as the cluster role has it.
\<close>

theorem system_refines:
  assumes "managed_ok m0" and "accounted S who m0 lg L"
  shows "conforms managed_step m0 L"
  using assms by (rule accounted_conforms)

theorem system_refines_witness:
  "\<exists>m1 m2. accounted (traced_system example_start) example_who example_start tr_log [(1, m1), (2, m2)] \<and>
     managed_step example_start m2 \<and> managed_step m2 m1"
proof -
  obtain m1 m2 where acc: "accounted (traced_system example_start) example_who example_start tr_log [(1, m1), (2, m2)]"
    by (rule example_accounted)
  from system_refines [OF _ acc] example_objects_ok(1) have "managed_step example_start m2" "managed_step m2 m1"
    by (simp_all add: example_start_def)
  with acc show ?thesis by blast
qed

text \<open>
  C3. At every moment of any such log, that is after every prefix \<open>es\<close> of its changes, every
  inventory and every git repository is one of two things, and has exactly one owner in any case.
  Either it is a mirror: an inventory owned by a Flux object and named after it with the suffix
  of its kind, with a workload and a cluster label and a selector; a git repository owned by the
  worktree of its name that is polled every five minutes and follows one commit or reference name. Or a
  template has rendered it: then its owner is a workload, and it carries that workload's name and a
  cluster as labels. Every workload has the API group of its template filled in.
\<close>

theorem system_invariant:
  assumes "managed_ok m0" and "accounted S who m0 lg (fs @ es)"
  shows "managed_ok (current m0 es)"
  by (rule managed_spec.conforms_always_ok [OF assms(1) accounted_conforms [OF assms]])

text \<open>The rendered git repository follows a branch, as no mirror does.\<close>

theorem system_invariant_witness:
  "\<exists>m2 m1 g. accounted (branch_system example_before) example_one example_before tr_log [(1, m2), (1, m1)] \<and> managed_ok m2 \<and>
     m_GitRepositories m2 (wl_key example_workload) = Some g \<and>
     gr_Reference g = Some (GitRepositoryRef0\<lparr>ref_Branch := ''main''\<rparr>) \<and>
     rendered_wf (wl_key example_workload) (gr_meta g) \<and> \<not> gitRepository_wf (wl_key example_workload) g"
proof -
  obtain v' where acc: "accounted (branch_system example_before) example_one example_before tr_log
    [(1, put_workload (wl_key example_workload) v' (branch_rendered example_before)),
     (1, branch_rendered example_before)]" (is "accounted _ _ _ _ ?L")
    by (rule branch_accounted)
  have m0: "managed_ok example_before" using example_objects_ok(2) by (simp add: example_before_def)
  have ok: "managed_ok (current example_before ?L)"
    by (rule system_invariant [where fs = "[]" and S = "branch_system example_before" and who = example_one and lg = tr_log, OF m0])
      (use acc in simp)
  have stored: "m_GitRepositories (current example_before ?L) (wl_key example_workload) = Some branch_repository"
    by (simp add: put_defs)
  have other: "\<not> gitRepository_wf (wl_key example_workload) branch_repository"
    by (simp add: gitRepository_wf_def branch_repository_def GitRepositoryRef0_def)
  from ok stored other have "rendered_wf (wl_key example_workload) (gr_meta branch_repository)"
    unfolding managed_ok_def by blast
  moreover have "gr_Reference branch_repository = Some (GitRepositoryRef0\<lparr>ref_Branch := ''main''\<rparr>)"
    by (simp add: branch_repository_def)
  ultimately show ?thesis
    using acc ok stored other unfolding current_simps snd_conv by blast
qed

section \<open>A deletion during a reconcile\<close>

text \<open>
  The run 1 reconciles a workload; right after it has read it, a user (2) requests the deletion.
  The reconcile goes on with what it has read and patches the conditions of the stored workload.
\<close>

definition example_deleted :: Workload where
  "example_deleted = (default_api_group example_workload)
     \<lparr>wl_meta := (wl_meta (default_api_group example_workload))\<lparr>om_DeletionTimestamp := Some 1\<rparr>\<rparr>"

abbreviation example_gone :: managed where
  "example_gone \<equiv> put_workload (wl_key example_workload) example_deleted example_before"

interpretation quiet: world_preorder
  "\<lambda>w w'. tr_pending w = [] \<longrightarrow> tr_pending w' = [] \<and> tr_log w' = tr_log w"
  by unfold_locales simp_all

lemma workload_stages_quiet:
  "within (\<lambda>w w'. tr_pending w = [] \<longrightarrow> tr_pending w' = [] \<and> tr_log w' = tr_log w)
     (workload_stages (sys_workload (traced_system m0 a)) v)"
proof (rule quiet.workload_stages_within)
  fix cl x u
  assume "renders (sys_workload (traced_system m0 a)) v cl x u"
  then have "u_Kind u \<noteq> ''GitRepository''"
    by (auto simp: renders_def traced_system_defs example_cue_def example_object_def split: if_splits)
  then show "within (\<lambda>w w'. tr_pending w = [] \<longrightarrow> tr_pending w' = [] \<and> tr_log w' = tr_log w)
      (wlr_CreateOrPatch (sys_workload (traced_system m0 a)) u f)" for f
    by (auto simp: within_def traced_system_defs traced_rendered_def interrupt_def Let_def split: go.splits sum.splits)
qed (auto simp: within_def traced_system_defs interrupt_def)

lemma workload_traced:
  obtains out w' v' where
    "run_state (perform (traced_system example_before 1) (TWorkload \<lparr>NamespacedName = wl_key example_workload\<rparr>))
       (example_traced [[(2, example_gone)]]) = (out, w')"
    "tr_log w' = [(1, put_workload (wl_key example_workload) v' example_gone), (2, example_gone)]"
proof -
  let ?r = "sys_workload (traced_system example_before 1)" and ?v = "default_api_group example_workload"
  let ?w = "example_traced [[(2, example_gone)]]" and ?w1 = "(example_traced [])\<lparr>tr_log := [(2, example_gone)]\<rparr>"
  have get: "run_state (wlr_Get ?r (NamespacedName \<lparr>NamespacedName = wl_key example_workload\<rparr>)) ?w = (Inr ?v, ?w1)"
    by (simp add: traced_system_defs example_traced_def interrupt_def example_before_def example_objects_def)
  have helper: "wlr_NewHelper ?r ?v = Inr ?v" by (simp add: traced_system_defs)
  obtain v' outcome w2 where stages: "run_state (workload_stages ?r ?v) ?w1 = ((v', outcome), w2)"
    by (metis prod.collapse)
  obtain e w3 where patch: "run_state (wlr_Patch ?r ?v (summarize (wlr_cond ?r) v')) w2 = (e, w3)"
    by (metis prod.collapse)
  from withinD [OF workload_stages_quiet stages] have "tr_pending w2 = []" "tr_log w2 = [(2, example_gone)]"
    by (simp_all add: example_traced_def)
  with patch have "\<exists>v'. tr_log w3 = [(1, put_workload (wl_key example_workload) v' example_gone), (2, example_gone)]"
    by (auto simp: traced_system_defs traced_patch_def interrupt_def Let_def put_workload_def)
  with that Workload_Reconcile_stages [OF get helper stages patch, folded perform.simps(5)] show ?thesis
    by blast
qed

lemma deletion_accounted:
  obtains v' where "accounted (traced_system example_before) example_one example_before tr_log
    [(1, put_workload (wl_key example_workload) v' example_gone), (2, example_gone)]"
proof -
  obtain out w' v' where run:
    "run_state (perform (traced_system example_before 1) (TWorkload \<lparr>NamespacedName = wl_key example_workload\<rparr>))
       (example_traced [[(2, example_gone)]]) = (out, w')"
    and log: "tr_log w' = [(1, put_workload (wl_key example_workload) v' example_gone), (2, example_gone)]"
    by (rule workload_traced)
  have "m_Workloads example_before (wl_key example_workload) = Some (default_api_group example_workload)"
    by (simp add: example_before_def example_objects_def)
  from outside_change.deletion [OF this, of _ "Some 1"]
  have two: "outside_change (traced_system example_before 2) example_before example_gone"
    by (simp add: example_deleted_def)
  have "explained (traced_system example_before) example_one example_before tr_log (tr_log w') a" for a
  proof -
    consider "a = 1" | "a = 2" | "others a (tr_log w')" "example_one a = None"
      by (auto simp: log example_one_def)
    then show ?thesis
    proof cases
      case 1
      show ?thesis unfolding 1
        by (rule explained_run [where S = "traced_system example_before", OF _ run, where es = "[]"])
          (simp_all add: example_one_def example_traced_def)
    next
      case 2
      have "outside_change (traced_system example_before 2) (current example_before es) m"
        if "tr_log w' = fs @ (2, m) # es" for fs m es
        using that two by (auto simp: log Cons_eq_append_conv)
      with 2 show ?thesis by (simp add: explained_def example_one_def)
    qed (rule explained_none)
  qed
  then have "accounted (traced_system example_before) example_one example_before tr_log (tr_log w')"
    by (simp add: accounted_def traced_system_wired)
  with that log show ?thesis by metis
qed

text \<open>
  C4. For as long as a workload exists, three of its references stay what they were, whoever changes
  it and whatever happens at the same time: between two moments of such a log at which, and
  between which, the workload is never removed, its cluster label, its organization label and,
  once it refers to a template, the name of that template are kept. The webhook guards the
  updates of users, and the reconciler's own patches, which bypass the webhook, touch nothing
  but conditions. The namespace of the template is not among them: the webhook lets users change it.
\<close>

theorem system_references_fixed:
  assumes "managed_ok m0" and "accounted S who m0 lg (fs @ es)"
    and "m_Workloads (current m0 es) k = Some v"
    and "\<And>gs hs. fs = gs @ hs \<Longrightarrow> m_Workloads (current m0 (hs @ es)) k \<noteq> None"
  shows "\<exists>v'. m_Workloads (current m0 (fs @ es)) k = Some v' \<and> same_references v v'"
  using accounted_conforms [OF assms(1,2)] assms(3,4) by (rule conforms_references)

theorem system_references_fixed_witness:
  "\<exists>v'. accounted (traced_system example_before) example_one example_before tr_log
      [(1, put_workload (wl_key example_workload) v' example_gone), (2, example_gone)] \<and>
     same_references (default_api_group example_workload) v'"
proof -
  let ?k = "wl_key example_workload"
  obtain v' where acc: "accounted (traced_system example_before) example_one example_before tr_log
    [(1, put_workload ?k v' example_gone), (2, example_gone)]" by (rule deletion_accounted)
  let ?L = "[(1, put_workload ?k v' example_gone), (2, example_gone)]"
  have "\<exists>u. m_Workloads (current example_before (?L @ [])) ?k = Some u \<and>
      same_references (default_api_group example_workload) u"
  proof (rule system_references_fixed [of example_before _ _ tr_log ?L "[]"])
    show "managed_ok example_before" using example_objects_ok(2) by (simp add: example_before_def)
    show "accounted (traced_system example_before) example_one example_before tr_log (?L @ [])" using acc by simp
    show "m_Workloads (current example_before []) ?k = Some (default_api_group example_workload)"
      by (simp add: example_before_def example_objects_def)
    show "m_Workloads (current example_before (hs @ [])) ?k \<noteq> None" if "?L = gs @ hs" for gs hs
      using that
      by (auto simp: Cons_eq_append_conv put_workload_def example_before_def example_objects_def)
  qed
  with acc show ?thesis by (auto simp: put_workload_def)
qed

end
