(* ===== verification/Mirror_Stability.thy ===== *)
theory Mirror_Stability
  imports System_Safety
begin

text \<open>
  What a run has mirrored stays mirrored: after a run of an inventory reconciler ended without
  error, no run for another object, interleaved in whatever way, alters its inventory.
\<close>

section \<open>What the run relies on\<close>

text \<open>The object that the reads of a task answer with.\<close>

fun observed :: "('w, 'e, 'hk, 'hw, 'i, 'v, 'p) system \<Rightarrow> task \<Rightarrow> inventory_event \<Rightarrow> bool" where
  "observed S (TKustomization req) (EKustomization k) \<longleftrightarrow>
     (\<forall>w. fst (run_state (kr_Get (sys_kustomization S) (NamespacedName req)) w) = Inr k)"
| "observed S (THelmRelease req) (EHelmRelease h) \<longleftrightarrow>
     (\<forall>w. fst (run_state (hrr_Get (sys_helmrelease S) (NamespacedName req)) w) = Inr h)"
| "observed S (TSource req) (EHelmRepository h) \<longleftrightarrow>
     (\<forall>w. fst (run_state (srr_GetHelmRepository (sys_source S) (NamespacedName req)) w) = Inr h)"
| "observed S (TSource req) (EOCIRepository c) \<longleftrightarrow>
     (\<forall>w. fst (run_state (srr_GetOCIRepository (sys_source S) (NamespacedName req)) w) = Inr c) \<and>
     (\<exists>got. \<forall>w. fst (run_state (srr_GetHelmRepository (sys_source S) (NamespacedName req)) w) = got)"
| "observed S t ev \<longleftrightarrow> False"

text \<open>\<open>CreateOrPatch\<close> tells the truth about its success, and the error helpers are as documented.\<close>

definition confirming :: "nat \<Rightarrow> managed \<Rightarrow> ('w \<Rightarrow> managed log) \<Rightarrow> ('w, 'e, 'hk, 'hw, 'i, 'v, 'p) system \<Rightarrow> bool" where
  "confirming a m0 lg S \<longleftrightarrow>
     cop_confirmed a m0 lg (\<lambda>g. gr_key g) m_GitRepositories (wtr_CreateOrPatch (sys_worktree S)) \<and>
     cop_confirmed a m0 lg (\<lambda>i. inv_key i) m_Inventories (kr_CreateOrPatch (sys_kustomization S)) \<and>
     cop_confirmed a m0 lg (\<lambda>i. inv_key i) m_Inventories (srr_CreateOrPatch (sys_source S)) \<and>
     errlib_ok (kr_errlib (sys_kustomization S)) \<and> errlib_ok (srr_errlib (sys_source S))"

section \<open>What the run achieves\<close>

abbreviation inventory_of :: "inventory_event \<Rightarrow> managed \<Rightarrow> WorkloadInventory option" where
  "inventory_of ev m \<equiv> m_Inventories m (event_key ev)"

abbreviation mirrored :: "nat \<Rightarrow> managed \<Rightarrow> ('w \<Rightarrow> managed log) \<Rightarrow> inventory_event \<Rightarrow> 'w \<Rightarrow> 'w \<Rightarrow> bool" where
  "mirrored a m0 lg ev \<equiv> attained a m0 lg (inventory_of ev) (event_goal ev)"

lemma handle_event_mirrored:
  assumes sure: "cop_confirmed a m0 lg (\<lambda>i. inv_key i) m_Inventories cop"
    and ev: "has_inventory_labels (event_meta ev)" "reports_errors ev"
    and run: "run_state (handle_event cop ev) w = (Returns (res, None), w')"
  shows "mirrored a m0 lg ev w w'"
proof -
  from handle_event_written [OF ev run] obtain op where
    "run_state (cop (event_inventory ev) (event_mutate ev)) w = (Returns (Inr op), w')" ..
  from cop_attained [OF sure event_mutator this] show ?thesis by (simp add: event_key_suffix)
qed

lemma leaves_appended: "leaves a lg act \<Longrightarrow> run_state act w = (r, w') \<Longrightarrow> appended G a lg w w'"
  using withinD [OF upholds_leaves [unfolded upholds_def]] by fast

text \<open>The three reconcilers that report their errors.\<close>

lemma kustomization_mirrored:
  assumes wired: "wired a m0 lg S" and sure: "confirming a m0 lg S"
    and seen: "observed S (TKustomization req) (EKustomization k)" and live: "not_deleted (k_meta k)"
    and labels: "has_inventory_labels (k_meta k)"
    and run: "run_state (Kustomization_Reconcile (sys_kustomization S) req) w = (Returns (res, None), w')"
  shows "mirrored a m0 lg (EKustomization k) w w'"
proof -
  from sure have cop: "cop_confirmed a m0 lg (\<lambda>i. inv_key i) m_Inventories (kr_CreateOrPatch (sys_kustomization S))"
    and errlib: "errlib_ok (kr_errlib (sys_kustomization S))"
    by (simp_all add: confirming_def)
  note reads = wired_reads [OF wired, THEN leaves_appended]
  obtain w1 where get: "run_state (kr_Get (sys_kustomization S) (NamespacedName req)) w = (Inr k, w1)"
    using seen by (metis observed.simps(1) prod.collapse)
  show ?thesis
  proof (rule kustomization_live_no_error [OF errlib get live run])
    fix h w2
    assume inv: "run_state (Kustomization_reconcileWorkloadInventory (kr_CreateOrPatch (sys_kustomization S)) k) w1 =
        (Returns (Result0, None), w2)"
      and patch: "run_state (kr_Patch (sys_kustomization S) h k) w2 = (None, w')"
    have "mirrored a m0 lg (EKustomization k) w1 w2"
      by (rule handle_event_mirrored [OF cop _ _ inv [folded handle_event.simps]])
        (simp_all add: labels reports_errors_def)
    from attained_before [OF reads(2) [OF get] this] reads(4) [OF patch]
    show ?thesis by (rule attained_after)
  qed
qed

lemma helmRepository_mirrored:
  fixes S :: "('w, 'e, 'hk, 'hw, 'i, 'v, 'p) system"
  assumes wired: "wired a m0 lg S" and sure: "confirming a m0 lg S"
    and seen: "observed S (TSource req) (EHelmRepository h)" and live: "not_deleted (hrepo_meta h)"
    and labels: "has_inventory_labels (hrepo_meta h)"
    and run: "run_state (SourceRepository_Reconcile (sys_source S) req) w = (Returns (res, None), w')"
  shows "mirrored a m0 lg (EHelmRepository h) w w'"
proof -
  from sure have cop: "cop_confirmed a m0 lg (\<lambda>i. inv_key i) m_Inventories (srr_CreateOrPatch (sys_source S))"
    and errlib: "errlib_ok (srr_errlib (sys_source S))"
    by (simp_all add: confirming_def)
  note reads = wired_reads [OF wired, THEN leaves_appended]
  have get: "fst (run_state (srr_GetHelmRepository (sys_source S) (NamespacedName req)) w) = Inr h" for w
    using seen by simp
  show ?thesis
  proof (rule source_helm_no_error [OF errlib get run])
    fix h' w1 w2
    assume h': "Inr h = (Inr h' :: 'e + HelmRepository)"
      and g: "run_state (srr_GetHelmRepository (sys_source S) (NamespacedName req)) w = (Inr h, w1)"
      and inv: "run_state (reconcileHelmRepositoryWorkloadInventory (srr_CreateOrPatch (sys_source S)) h') w1 =
        (Returns (Result0, None), w2)"
      and rest: "run_state (SourceRepository_Reconcile_oci (sys_source S) req) w2 = (Returns (res, None), w')"
    from h' inv labels have "mirrored a m0 lg (EHelmRepository h) w1 w2"
      by (intro handle_event_mirrored [OF cop]) (simp_all add: reports_errors_def)
    from attained_before [OF reads(6) [OF g] this] withinD [OF source_oci_unchanged [OF wired, unfolded upholds_def] rest]
    show ?thesis by (rule attained_after)
  qed (use live in auto)
qed

lemma ociRepository_mirrored:
  fixes S :: "('w, 'e, 'hk, 'hw, 'i, 'v, 'p) system"
  assumes wired: "wired a m0 lg S" and sure: "confirming a m0 lg S"
    and seen: "observed S (TSource req) (EOCIRepository c)" and live: "not_deleted (ocirepo_meta c)"
    and labels: "has_inventory_labels (ocirepo_meta c)"
    and run: "run_state (SourceRepository_Reconcile (sys_source S) req) w = (Returns (res, None), w')"
  shows "mirrored a m0 lg (EOCIRepository c) w w'"
proof -
  from sure have cop: "cop_confirmed a m0 lg (\<lambda>i. inv_key i) m_Inventories (srr_CreateOrPatch (sys_source S))"
    and errlib: "errlib_ok (srr_errlib (sys_source S))"
    by (simp_all add: confirming_def)
  note reads = wired_reads [OF wired, THEN leaves_appended]
  from seen obtain got where get: "fst (run_state (srr_GetHelmRepository (sys_source S) (NamespacedName req)) w) = got"
    and second: "fst (run_state (srr_GetOCIRepository (sys_source S) (NamespacedName req)) w) = Inr c" for w
    by auto
  have half: "mirrored a m0 lg (EOCIRepository c) w1 w'"
    if oci: "run_state (SourceRepository_Reconcile_oci (sys_source S) req) w1 = (Returns (res, None), w')" for w1
  proof (rule source_oci_no_error [OF errlib second oci])
    fix c' w2
    assume c': "Inr c = (Inr c' :: 'e + OCIRepository)"
      and g: "run_state (srr_GetOCIRepository (sys_source S) (NamespacedName req)) w1 = (Inr c, w2)"
      and inv: "run_state (reconcileOCIRepositoryWorkloadInventory (srr_CreateOrPatch (sys_source S)) c') w2 =
        (Returns (Result0, None), w')"
    from c' inv labels have "mirrored a m0 lg (EOCIRepository c) w2 w'"
      by (intro handle_event_mirrored [OF cop]) (simp_all add: reports_errors_def)
    then show ?thesis by (rule attained_before [OF reads(7) [OF g]])
  qed (use live in auto)
  show ?thesis
  proof (rule source_helm_no_error [OF errlib get run])
    fix w1
    assume "run_state (srr_GetHelmRepository (sys_source S) (NamespacedName req)) w = (got, w1)"
      and rest: "run_state (SourceRepository_Reconcile_oci (sys_source S) req) w1 = (Returns (res, None), w')"
    from attained_before [OF reads(6) [OF this(1)] half [OF rest]] show ?thesis .
  next
    fix h w1 w2
    assume g: "run_state (srr_GetHelmRepository (sys_source S) (NamespacedName req)) w = (got, w1)"
      and first: "run_state (reconcileHelmRepositoryWorkloadInventory (srr_CreateOrPatch (sys_source S)) h) w1 =
        (Returns (Result0, None), w2)"
      and rest: "run_state (SourceRepository_Reconcile_oci (sys_source S) req) w2 = (Returns (res, None), w')"
    have "upholds (\<lambda>_ _. True) a lg (handle_event (srr_CreateOrPatch (sys_source S)) (EHelmRepository h))"
      by (rule handle_event_upholds, rule cop_upholds [OF wired_writes(4) [OF wired]]) simp
    from withinD [OF this [unfolded upholds_def handle_event.simps] first]
    show ?thesis by (rule attained_before [OF reads(6) [OF g] attained_before [OF _ half [OF rest]]])
  qed
qed

lemma worktree_attained:
  assumes wired: "wired a m0 lg S" and sure: "confirming a m0 lg S"
    and get: "run_state (wtr_Get (sys_worktree S) (NamespacedName req)) w = (Inr wt, w1)"
    and wt: "wt_URL wt \<noteq> None" "wt_ReferenceName wt \<noteq> None \<or> wt_CommitHash wt \<noteq> None"
    and run: "run_state (Worktree_Reconcile (sys_worktree S) req) w = (Returns (res, None), w')"
  shows "attained a m0 lg (\<lambda>m. m_GitRepositories m (meta_key (wt_meta wt))) (worktree_desired wt) w w'"
proof -
  from sure have cop: "cop_confirmed a m0 lg (\<lambda>g. gr_key g) m_GitRepositories (wtr_CreateOrPatch (sys_worktree S))"
    by (simp add: confirming_def)
  from run get wt obtain op where
    "run_state (wtr_CreateOrPatch (sys_worktree S) (new_GitRepository wt) (gitRepository_mutate wt)) w1 =
      (Returns (Inr op), w')"
    by (auto simp: Worktree_Reconcile_def split: prod.splits if_splits go.splits sum.splits)
  from cop_attained [OF cop git.mutator_axioms this]
  have "attained a m0 lg (\<lambda>m. m_GitRepositories m (meta_key (wt_meta wt))) (worktree_desired wt) w1 w'"
    by (simp add: new_GitRepository_def meta_key_def new_meta_def)
  then show ?thesis by (rule attained_before [OF leaves_appended [OF wired_reads(1) [OF wired] get]])
qed

lemma perform_mirrored:
  assumes wired: "wired a m0 lg S" and sure: "confirming a m0 lg S"
    and seen: "observed S t ev" and live: "not_deleted (event_meta ev)"
    and ev: "has_inventory_labels (event_meta ev)" "reports_errors ev"
    and run: "run_state (perform S t) w = (Returns (res, None), w')"
  shows "mirrored a m0 lg ev w w'"
  using seen live ev run kustomization_mirrored [OF wired sure] helmRepository_mirrored [OF wired sure]
    ociRepository_mirrored [OF wired sure]
  by (cases "(S, t, ev)" rule: observed.cases) (auto simp: reports_errors_def)

section \<open>What the others leave alone\<close>

lemma outside_change_mirrors:
  assumes "outside_change S m m'"
  shows "m_Inventories m' k = m_Inventories m k \<or> m_Inventories m' k = None"
    "m_GitRepositories m' k = m_GitRepositories m k \<or> m_GitRepositories m' k = None"
  using assms
  by (cases rule: outside_change.cases; auto simp: put_workload_def map_le_def dom_def)+

text \<open>A change in an accounted log: by a run that leaves the part alone, or by somebody outside who does or removes it.\<close>

lemma accounted_change:
  assumes acc: "accounted S who m0 lg (gs @ (b, m) # es)"
    and kept: "\<And>u. who b = Some u \<Longrightarrow> wired b m0 lg (S b) \<Longrightarrow> upholds (unchanged part m0) b lg (perform (S b) u)"
    and outside: "outside_change (S b) (current m0 es) m \<Longrightarrow> part m = part (current m0 es) \<or> part m = None"
  shows "unchanged part m0 es m \<or> who b = None \<and> part m = None"
proof (cases "who b")
  case (Some u)
  from acc have wired: "wired b m0 lg (S b)" and ex: "explained S who m0 lg (gs @ (b, m) # es) b"
    by (simp_all add: accounted_def)
  from explained_upheld [OF ex Some kept [OF Some wired]]
  have "upheld (unchanged part m0) b (gs @ (b, m) # es)" .
  from upheldD [OF this] show ?thesis ..
next
  case None
  from acc have "explained S who m0 lg (gs @ (b, m) # es) b" by (simp add: accounted_def)
  with None have "\<forall>fs m' es'. gs @ (b, m) # es = fs @ (b, m') # es' \<longrightarrow> outside_change (S b) (current m0 es') m'"
    by (simp add: explained_def)
  then have "outside_change (S b) (current m0 es) m" by blast
  from outside [OF this] None show ?thesis by (simp add: unchanged_def)
qed

section \<open>The property\<close>

text \<open>
  C5. What has been mirrored stays mirrored, whatever happens at the same time. Take a run of the
  kustomization or the source reconciler that ended without error, in an interleaved log as
  above, and a live labelled object it has read. If since the run began no other run for this
  very object has changed anything, nor a run of a workload whose template renders an
  inventory of this very name, then at the end of the log, however long after the run, the object's
  inventory is in the desired state; or it is gone, and then somebody outside the program made
  a change since. All other runs, of any reconciler, for any other objects and whatever else
  their templates render, may have written in between, before, within and after this run.
  Relied on is that reads answer with objects of the requested name (\<open>requested\<close>) and that the
  success of \<open>CreateOrPatch\<close> means what it says (\<open>confirming\<close>).
\<close>

theorem mirror_survives:
  assumes acc: "accounted S who m0 lg (post @ lg w')"
    and asked: "\<And>b u. who b = Some u \<Longrightarrow> requested (S b) u"
    and sure: "confirming a m0 lg (S a)"
    and seen: "observed (S a) t ev" and live: "not_deleted (event_meta ev)"
    and labels: "has_inventory_labels (event_meta ev)" and rep: "reports_errors ev"
    and run: "run_state (perform (S a) t) w = (Returns (res, None), w')" and over: "others a post"
    and since: "post @ lg w' = new @ lg w"
    and only: "\<And>b u. b \<in> fst ` set new \<Longrightarrow> b \<noteq> a \<Longrightarrow> who b = Some u \<Longrightarrow>
      event_object ev \<notin> set (task_objects u) \<and> \<not> renders_object (S b) u ''WorkloadInventory'' (event_key ev)"
  shows "case m_Inventories (current m0 (post @ lg w')) (event_key ev) of
      None \<Rightarrow> \<exists>b \<in> fst ` set new. who b = None
    | Some wi \<Rightarrow> event_goal ev wi"
proof -
  from acc have "wired a m0 lg (S a)" by (simp add: accounted_def)
  from perform_mirrored [OF this sure seen live labels rep run] over since show ?thesis
  proof (rule attained_lasts)
    fix gs b m es
    assume split: "post @ lg w' = gs @ (b, m) # es" and b: "b \<in> fst ` set new" "b \<noteq> a"
    show "unchanged (inventory_of ev) m0 es m \<or> who b = None \<and> inventory_of ev m = None"
    proof (rule accounted_change [where gs = gs and S = S])
      show "accounted S who m0 lg (gs @ (b, m) # es)" using acc split by simp
      show "upholds (unchanged (inventory_of ev) m0) b lg (perform (S b) u)"
        if "who b = Some u" "wired b m0 lg (S b)" for u
        by (rule perform_unchanged
            [OF that(2) asked [OF that(1)] only [OF b that(1), THEN conjunct1] only [OF b that(1), THEN conjunct2]])
    qed (rule outside_change_mirrors(1))
  qed
qed

text \<open>
  C6. A git repository that mirrors a worktree stays as it is in the same sense: after a run of
  the worktree reconciler that read a worktree with a URL and a reference or a commit and ended without error,
  the git repository follows that worktree until another run for the same worktree writes, a
  workload is reconciled whose template renders a git repository of the same name (the cluster
  role allows it, and it overwrites the mirror), or somebody outside removes it.
\<close>

theorem gitRepository_survives:
  assumes acc: "accounted S who m0 lg (post @ lg w')"
    and asked: "\<And>b u. who b = Some u \<Longrightarrow> requested (S b) u"
    and sure: "confirming a m0 lg (S a)"
    and get: "run_state (wtr_Get (sys_worktree (S a)) (NamespacedName req)) w = (Inr wt, w1)"
    and wt: "wt_URL wt \<noteq> None" "wt_ReferenceName wt \<noteq> None \<or> wt_CommitHash wt \<noteq> None"
    and run: "run_state (perform (S a) (TWorktree req)) w = (Returns (res, None), w')" and over: "others a post"
    and since: "post @ lg w' = new @ lg w"
    and only: "\<And>b u. b \<in> fst ` set new \<Longrightarrow> b \<noteq> a \<Longrightarrow> who b = Some u \<Longrightarrow>
      meta_key (wt_meta wt) \<notin> set (task_worktrees u) \<and>
      \<not> renders_object (S b) u ''GitRepository'' (meta_key (wt_meta wt))"
  shows "case m_GitRepositories (current m0 (post @ lg w')) (meta_key (wt_meta wt)) of
      None \<Rightarrow> \<exists>b \<in> fst ` set new. who b = None
    | Some g \<Rightarrow> worktree_desired wt g"
proof -
  let ?part = "\<lambda>m. m_GitRepositories m (meta_key (wt_meta wt))"
  from acc have "wired a m0 lg (S a)" by (simp add: accounted_def)
  from worktree_attained [OF this sure get wt run [unfolded perform.simps]] over since show ?thesis
  proof (rule attained_lasts)
    fix gs b m es
    assume split: "post @ lg w' = gs @ (b, m) # es" and b: "b \<in> fst ` set new" "b \<noteq> a"
    show "unchanged ?part m0 es m \<or> who b = None \<and> ?part m = None"
    proof (rule accounted_change [where gs = gs and S = S])
      show "accounted S who m0 lg (gs @ (b, m) # es)" using acc split by simp
      show "upholds (unchanged ?part m0) b lg (perform (S b) u)"
        if "who b = Some u" "wired b m0 lg (S b)" for u
        by (rule perform_unchanged_git
            [OF that(2) asked [OF that(1)] only [OF b that(1), THEN conjunct1] only [OF b that(1), THEN conjunct2]])
    qed (rule outside_change_mirrors(2))
  qed
qed

section \<open>Two runs after one another\<close>

text \<open>
  The run 1 mirrors its object; then the run 2, which has begun before, reads and mirrors a helm
  release.
\<close>

abbreviation worktree_req :: ctrl_Request where
  "worktree_req \<equiv> \<lparr>NamespacedName = \<lparr>key_Namespace = ''ns'', key_Name = ''wt''\<rparr>\<rparr>"

definition example_after :: "task \<Rightarrow> nat \<Rightarrow> task option" where
  "example_after t = [1 \<mapsto> t, 2 \<mapsto> THelmRelease example_req]"

lemma traced_create_or_patch_confirmed:
  assumes "\<And>k y m. stored (put k y m) k = Some y"
  shows "cop_confirmed a m0 tr_log key stored (traced_create_or_patch a m0 key stored put)"
  unfolding cop_confirmed_def
proof (intro allI impI)
  fix obj f w op w'
  assume run: "run_state (traced_create_or_patch a m0 key stored put obj f) w = (Returns (Inr op), w')"
  obtain es where es: "others a es" "tr_log (interrupt a w) = es @ tr_log w"
    using interrupt_log by blast
  let ?m = "current m0 (es @ tr_log w)"
  obtain y where y: "f (current_object key stored ?m obj) = Returns (Inr y)"
    "tr_log w' = (a, put (key obj) y ?m) # es @ tr_log w"
    using run es(2) by (auto simp: traced_create_or_patch_def Let_def split: go.splits sum.splits)
  show "\<exists>before rest after y. others a before \<and> others a after \<and>
      f (current_object key stored (current m0 (before @ tr_log w)) obj) = Returns (Inr y) \<and>
      stored (current m0 (rest @ before @ tr_log w)) (key obj) = Some y \<and>
      tr_log w' = after @ rest @ before @ tr_log w"
    by (intro exI [of _ es] exI [of _ "[(a, put (key obj) y ?m)]"] exI [of _ "[]"] exI [of _ y])
      (simp add: es y assms)
qed

lemma traced_system_confirming: "confirming a m0 tr_log (traced_system_on c m0 a)"
proof -
  have "m_Inventories (put_inventory k y m) k = Some y" for k y m by (simp add: put_inventory_def)
  moreover have "m_GitRepositories (put_gitRepository k y m) k = Some y" for k y m by (simp add: put_gitRepository_def)
  ultimately show ?thesis
    by (simp add: confirming_def traced_create_or_patch_confirmed traced_system_defs store_errlib_ok)
qed

lemma traced_system_requested:
  "requested (traced_system_on c m0 b) (TKustomization example_req)"
  "requested (traced_system_on c m0 b) (THelmRelease example_req)"
  "requested (traced_system_on c m0 b) (TWorktree worktree_req)"
  "requested (traced_system_on c m0 b) (TWorkload req)"
  unfolding requested_def
  by (auto simp: traced_system_defs event_object_def example_worktree_def example_kustomization_def
      example_helmrelease_def new_meta_def meta_key_def elim!: fetched.elims)

lemma kustomization_traced:
  obtains w' m1 where
    "run_state (perform (traced_system example_start 1) (TKustomization example_req)) (example_traced []) =
       (Returns (Result0, None), w')" "tr_log w' = [(1, m1)]"
proof -
  let ?run = "run_state (Kustomization_Reconcile (sys_kustomization (traced_system example_start 1)) example_req)
     (example_traced [])"
  have "fst ?run = Returns (Result0, None) \<and> (\<exists>m1. tr_log (snd ?run) = [(1, m1)])"
    by (simp add: Kustomization_Reconcile_def Kustomization_reconcileWorkloadInventory_def example_run_defs
        example_kustomization_def gomap_literal_def kustomization_inventory_mutate_def write_inventory_def
        new_inventory_def inventory_key_def gomap_made_def inventory_outcome_def deferred_result_def
        split: go.splits sum.splits)
  with that show ?thesis by (metis prod.collapse perform.simps(2))
qed

lemma helmrelease_traced_later:
  obtains out w' m2 where
    "run_state (perform (traced_system example_start 2) (THelmRelease example_req)) (example_traced [[(1, m1)]]) = (out, w')"
    "tr_log w' = [(2, m2), (1, m1)]"
    "m_Inventories m2 (inventory_key (hr_meta example_helmrelease) HelmReleaseSuffix) \<noteq> None"
proof -
  let ?run = "run_state (HelmRelease_Reconcile (sys_helmrelease (traced_system example_start 2)) example_req)
     (example_traced [[(1, m1)]])"
  have "\<exists>m2. tr_log (snd ?run) = [(2, m2), (1, m1)] \<and>
      m_Inventories m2 (inventory_key (hr_meta example_helmrelease) HelmReleaseSuffix) \<noteq> None"
    by (auto simp: HelmRelease_Reconcile_def HelmRelease_reconcileWorkloadInventory_def example_run_defs
        example_helmrelease_def gomap_literal_def helmrelease_inventory_mutate_def write_inventory_def
        new_inventory_def inventory_key_def gomap_made_def split: go.splits sum.splits option.splits)
  with that show ?thesis by (metis prod.collapse perform.simps(3))
qed

lemma example_after_accounted:
  assumes one: "run_state (perform (traced_system example_start 1) t) (example_traced []) = (out1, w1)"
    "tr_log w1 = [(1, m1)]"
  obtains m2 where "accounted (traced_system example_start) (example_after t) example_start tr_log [(2, m2), (1, m1)]"
    and "m_Inventories m2 (inventory_key (hr_meta example_helmrelease) HelmReleaseSuffix) \<noteq> None"
proof -
  obtain out w2 m2 where two:
    "run_state (perform (traced_system example_start 2) (THelmRelease example_req)) (example_traced [[(1, m1)]]) = (out, w2)"
    "tr_log w2 = [(2, m2), (1, m1)]"
    and mirror: "m_Inventories m2 (inventory_key (hr_meta example_helmrelease) HelmReleaseSuffix) \<noteq> None"
    by (rule helmrelease_traced_later)
  have "explained (traced_system example_start) (example_after t) example_start tr_log [(2, m2), (1, m1)] a" for a
  proof -
    consider "a = 1" | "a = 2" | "others a [(2, m2), (1, m1)]" "example_after t a = None"
      by (auto simp: example_after_def)
    then show ?thesis
    proof cases
      case 1
      show ?thesis unfolding 1
        by (rule explained_run [where S = "traced_system example_start", OF _ one(1), where es = "[(2, m2)]"])
          (simp_all add: example_after_def example_traced_def one)
    next
      case 2
      show ?thesis unfolding 2
        by (rule explained_run [where S = "traced_system example_start", OF _ two(1), where es = "[]"])
          (simp_all add: example_after_def example_traced_def two)
    qed (rule explained_none)
  qed
  then have "accounted (traced_system example_start) (example_after t) example_start tr_log [(2, m2), (1, m1)]"
    by (simp add: accounted_def traced_system_wired)
  with that mirror show ?thesis by blast
qed

lemma example_after_requested:
  assumes "requested (traced_system m0 b) t" and "example_after t b = Some u"
  shows "requested (traced_system m0 b) u"
  using assms traced_system_requested(2) by (auto simp: example_after_def split: if_splits)

theorem mirror_survives_witness:
  "\<exists>m1 m2 wi. accounted (traced_system example_start) (example_after (TKustomization example_req)) example_start tr_log
       [(2, m2), (1, m1)] \<and>
     m_Inventories m2 (inventory_key (hr_meta example_helmrelease) HelmReleaseSuffix) \<noteq> None \<and>
     m_Inventories m2 (inventory_key (k_meta example_kustomization) KustomizationSuffix) = Some wi \<and>
     kustomization_goal example_kustomization wi"
proof -
  let ?ev = "EKustomization example_kustomization" and ?t = "TKustomization example_req"
  obtain w1 m1 where run: "run_state (perform (traced_system example_start 1) ?t) (example_traced []) =
      (Returns (Result0, None), w1)" "tr_log w1 = [(1, m1)]"
    by (rule kustomization_traced)
  obtain m2 where acc: "accounted (traced_system example_start) (example_after ?t) example_start tr_log [(2, m2), (1, m1)]"
    and mirror: "m_Inventories m2 (inventory_key (hr_meta example_helmrelease) HelmReleaseSuffix) \<noteq> None"
    by (rule example_after_accounted [OF run])
  have "case m_Inventories (current example_start ([(2, m2)] @ tr_log w1)) (event_key ?ev) of
      None \<Rightarrow> \<exists>b \<in> fst ` set [(2, m2), (1, m1)]. example_after ?t b = None
    | Some wi \<Rightarrow> event_goal ?ev wi"
  proof (rule mirror_survives [where S = "traced_system example_start",
        OF _ example_after_requested [OF traced_system_requested(1)] traced_system_confirming _ _ _ _ run(1)])
    show "accounted (traced_system example_start) (example_after ?t) example_start tr_log ([(2, m2)] @ tr_log w1)"
      using acc run(2) by simp
    show "observed (traced_system example_start 1) ?t ?ev"
      by (simp add: traced_system_defs)
    show "not_deleted (event_meta ?ev)" "has_inventory_labels (event_meta ?ev)" "reports_errors ?ev"
      by (simp_all add: example_kustomization_def new_meta_def not_deleted_def has_inventory_labels_def reports_errors_def)
    show "others 1 [(2, m2)]" by simp
    show "[(2, m2)] @ tr_log w1 = [(2, m2), (1, m1)] @ tr_log (example_traced [])"
      by (simp add: run(2) example_traced_def)
    show "event_object ?ev \<notin> set (task_objects u) \<and>
        \<not> renders_object (traced_system example_start b) u ''WorkloadInventory'' (event_key ?ev)"
      if "b \<in> fst ` set [(2, m2), (1, m1)]" "b \<noteq> 1" "example_after ?t b = Some u" for b u
      using that by (auto simp: example_after_def event_object_def KustomizationSuffix_def HelmReleaseSuffix_def)
  qed
  then have "\<exists>wi. m_Inventories m2 (event_key ?ev) = Some wi \<and> kustomization_goal example_kustomization wi"
    by (auto simp: run(2) example_after_def split: option.splits)
  with acc mirror show ?thesis by auto
qed

section \<open>Next to a rendered git repository\<close>

text \<open>
  The run 1 mirrors a worktree; then the run 2 reconciles a workload whose template renders
  another git repository.
\<close>

definition example_beside :: "nat \<Rightarrow> task option" where
  "example_beside = [1 \<mapsto> TWorktree worktree_req, 2 \<mapsto> TWorkload \<lparr>NamespacedName = wl_key example_workload\<rparr>]"

lemma worktree_traced_alone:
  obtains w' m1 where
    "run_state (perform (branch_system example_before 1) (TWorktree worktree_req)) (example_traced []) =
       (Returns (Result0, None), w')" "tr_log w' = [(1, m1)]"
    "m_Workloads m1 = m_Workloads example_before" "m_GitRepositories m1 (wl_key example_workload) = None"
proof -
  let ?run = "run_state (Worktree_Reconcile (sys_worktree (branch_system example_before 1)) worktree_req)
     (example_traced [])"
  have "fst ?run = Returns (Result0, None) \<and> (\<exists>m1. tr_log (snd ?run) = [(1, m1)] \<and>
      m_Workloads m1 = m_Workloads example_before \<and> m_GitRepositories m1 (wl_key example_workload) = None)"
    by (simp add: Worktree_Reconcile_def example_run_defs example_worktree_def gitRepository_mutate_def
        example_before_def example_workload_def new_GitRepository_def)
  with that show ?thesis by (metis prod.collapse perform.simps(1))
qed

lemma example_beside_accounted:
  obtains w1 m1 m2 v' where
    "run_state (perform (branch_system example_before 1) (TWorktree worktree_req)) (example_traced []) =
       (Returns (Result0, None), w1)" "tr_log w1 = [(1, m1)]"
    "accounted (branch_system example_before) example_beside example_before tr_log
       [(2, put_workload (wl_key example_workload) v' (branch_rendered m1)), (2, branch_rendered m1), (1, m1)]"
proof -
  obtain w1 m1 where one: "run_state (perform (branch_system example_before 1) (TWorktree worktree_req)) (example_traced []) =
       (Returns (Result0, None), w1)" "tr_log w1 = [(1, m1)]"
    and m1: "m_Workloads m1 = m_Workloads example_before" "m_GitRepositories m1 (wl_key example_workload) = None"
    by (rule worktree_traced_alone)
  let ?w = "(example_traced [])\<lparr>tr_log := [(1, m1)]\<rparr>"
  have here: "tr_pending ?w = []" "m_GitRepositories (current example_before (tr_log ?w)) (wl_key example_workload) = None"
    "m_Workloads (current example_before (tr_log ?w)) (wl_key example_workload) = Some (default_api_group example_workload)"
    using m1 by (simp_all add: example_traced_def example_before_def example_objects_def)
  obtain out w2 v' where two: "run_state (perform (branch_system example_before 2)
        (TWorkload \<lparr>NamespacedName = wl_key example_workload\<rparr>)) ?w = (out, w2)"
    and log: "tr_log w2 = [(2, put_workload (wl_key example_workload) v' (branch_rendered m1)), (2, branch_rendered m1), (1, m1)]"
    using branch_run [OF here, where a = 2] by auto
  have "explained (branch_system example_before) example_beside example_before tr_log (tr_log w2) a" for a
  proof -
    consider "a = 1" | "a = 2" | "others a (tr_log w2)" "example_beside a = None"
      by (auto simp: log example_beside_def)
    then show ?thesis
    proof cases
      case 1
      show ?thesis unfolding 1
        by (rule explained_run [where S = "branch_system example_before", OF _ one(1),
              where es = "[(2, put_workload (wl_key example_workload) v' (branch_rendered m1)), (2, branch_rendered m1)]"])
          (simp_all add: example_beside_def example_traced_def one log)
    next
      case 2
      show ?thesis unfolding 2
        by (rule explained_run [where S = "branch_system example_before", OF _ two, where es = "[]"])
          (simp_all add: example_beside_def)
    qed (rule explained_none)
  qed
  then have "accounted (branch_system example_before) example_beside example_before tr_log (tr_log w2)"
    by (simp add: accounted_def traced_system_wired)
  with that one log show ?thesis by metis
qed

text \<open>The git repository of the workload is the only one its template renders.\<close>

lemma example_beside_renders:
  assumes "renders_object (branch_system example_before b) (TWorkload req) ''GitRepository'' k"
  shows "k = \<lparr>key_Namespace = ''ns'', key_Name = ''w1''\<rparr>"
  using assms
  by (auto simp: renders_def traced_system_defs example_branch_cue_def example_branch_def meta_key_def new_meta_def
      split: if_splits)

theorem gitRepository_survives_witness:
  "\<exists>m1 v' g. accounted (branch_system example_before) example_beside example_before tr_log
       [(2, put_workload (wl_key example_workload) v' (branch_rendered m1)), (2, branch_rendered m1), (1, m1)] \<and>
     m_GitRepositories (branch_rendered m1) (meta_key (wt_meta example_worktree)) = Some g \<and>
     worktree_desired example_worktree g"
proof -
  let ?t = "TWorktree worktree_req" and ?k = "meta_key (wt_meta example_worktree)" and ?S = "branch_system example_before"
  obtain w1 m1 v' where run: "run_state (perform (?S 1) ?t) (example_traced []) = (Returns (Result0, None), w1)"
      "tr_log w1 = [(1, m1)]"
    and acc: "accounted ?S example_beside example_before tr_log
      [(2, put_workload (wl_key example_workload) v' (branch_rendered m1)), (2, branch_rendered m1), (1, m1)]"
    by (rule example_beside_accounted)
  let ?post = "[(2, put_workload (wl_key example_workload) v' (branch_rendered m1)), (2, branch_rendered m1)]"
  have get: "run_state (wtr_Get (sys_worktree (?S 1)) (NamespacedName worktree_req)) (example_traced []) =
      (Inr example_worktree, interrupt 1 (example_traced []))"
    by (simp add: traced_system_defs)
  have k: "?k = \<lparr>key_Namespace = ''ns'', key_Name = ''wt''\<rparr>"
    by (simp add: example_worktree_def meta_key_def new_meta_def)
  have "case m_GitRepositories (current example_before (?post @ tr_log w1)) ?k of
      None \<Rightarrow> \<exists>b \<in> fst ` set (?post @ [(1, m1)]). example_beside b = None
    | Some g \<Rightarrow> worktree_desired example_worktree g"
  proof (rule gitRepository_survives [where S = ?S, OF _ _ traced_system_confirming get _ _ run(1)])
    show "accounted ?S example_beside example_before tr_log (?post @ tr_log w1)"
      using acc run(2) by simp
    show "requested (?S b) u" if "example_beside b = Some u" for b u
      using that traced_system_requested(3,4) by (auto simp: example_beside_def split: if_splits)
    show "wt_URL example_worktree \<noteq> None"
      "wt_ReferenceName example_worktree \<noteq> None \<or> wt_CommitHash example_worktree \<noteq> None"
      by (simp_all add: example_worktree_def)
    show "others 1 ?post" by simp
    show "?post @ tr_log w1 = (?post @ [(1, m1)]) @ tr_log (example_traced [])"
      by (simp add: run(2) example_traced_def)
    show "?k \<notin> set (task_worktrees u) \<and> \<not> renders_object (?S b) u ''GitRepository'' ?k"
      if "b \<in> fst ` set (?post @ [(1, m1)])" "b \<noteq> 1" "example_beside b = Some u" for b u
    proof -
      from that have "u = TWorkload \<lparr>NamespacedName = wl_key example_workload\<rparr>" by (auto simp: example_beside_def)
      with example_beside_renders [of b _ ?k] show ?thesis by (auto simp: k simp del: renders_object.simps)
    qed
  qed
  then have "\<exists>g. m_GitRepositories (branch_rendered m1) ?k = Some g \<and> worktree_desired example_worktree g"
    by (auto simp: run(2) example_beside_def put_workload_def split: option.splits)
  with acc show ?thesis by blast
qed

end
