(* ===== verification/Main_Setup.thy ===== *)
theory Main_Setup
  imports Worktree_Controller Kustomization_Controller HelmRelease_Controller SourceRepository_Controller
begin

text \<open>
  \<open>main.go\<close> and the \<open>SetupWithManager\<close> methods: the order in which the manager gets its scheme, its
  field index, its controllers and its webhooks, and what happens when one of these steps
  fails.
\<close>

section \<open>Data\<close>

definition core_Group :: string where
  "core_Group = ''''"

definition helm_Group :: string where
  "helm_Group = ''helm.toolkit.fluxcd.io''"

definition kustomize_Group :: string where
  "kustomize_Group = ''kustomize.toolkit.fluxcd.io''"

definition source_Group :: string where
  "source_Group = ''source.toolkit.fluxcd.io''"

record GroupKind =
  gk_Group :: string
  gk_Kind :: string

text \<open>What a builder registers: the kind it is for, the kinds it owns, the kinds it maps to requests.\<close>

datatype watch = For GroupKind | Owns GroupKind | Watches GroupKind

fun watched :: "watch \<Rightarrow> GroupKind" where
  "watched (For k) = k"
| "watched (Owns k) = k"
| "watched (Watches k) = k"

datatype registration =
    Controller string "watch list"
  | Webhook string GroupKind bool bool

text \<open>The manager, as the calls build it up; the scheme is the list of registered groups.\<close>

record Manager =
  mgr_BindAddress :: string
  mgr_Scheme :: "string list"
  mgr_Indexes :: "string list"
  mgr_Registered :: "registration list"

text \<open>
  The environment: each call may fail. \<open>env_Complete\<close> is the builder's \<open>Complete\<close>, \<open>env_Start\<close> the
  manager's \<open>Start\<close>, which returns when the process is told to stop.
\<close>

record 'e main_env =
  env_GetConfig :: "'e option"
  env_NewManager :: "string \<Rightarrow> string list \<Rightarrow> 'e option"
  env_IndexField :: "Manager \<Rightarrow> string \<Rightarrow> 'e option"
  env_WorkloadTemplateReferenceField :: string
  env_Complete :: "Manager \<Rightarrow> registration \<Rightarrow> 'e option"
  env_Start :: "Manager \<Rightarrow> 'e option"

section \<open>SetupWithManager\<close>

definition add_to_scheme :: "string \<Rightarrow> Manager \<Rightarrow> Manager" where
  "add_to_scheme g mgr = mgr\<lparr>mgr_Scheme := mgr_Scheme mgr @ [g]\<rparr>"

text \<open>The builder's \<open>Complete\<close>: the registration is part of the manager unless it fails.\<close>

definition complete :: "'e main_env \<Rightarrow> registration \<Rightarrow> Manager \<Rightarrow> 'e + Manager" where
  "complete env reg mgr =
     (case env_Complete env mgr reg of
        Some err \<Rightarrow> Inl err
      | None \<Rightarrow> Inr (mgr\<lparr>mgr_Registered := mgr_Registered mgr @ [reg]\<rparr>))"

definition workload_registration :: registration where
  "workload_registration = Controller ''workload''
     [For \<lparr>gk_Group = dockyards_Group, gk_Kind = WorkloadKind\<rparr>,
      Owns \<lparr>gk_Group = kustomize_Group, gk_Kind = KustomizationKind\<rparr>,
      Owns \<lparr>gk_Group = helm_Group, gk_Kind = HelmReleaseKind\<rparr>,
      Watches \<lparr>gk_Group = dockyards_Group, gk_Kind = WorkloadTemplateKind\<rparr>,
      Watches \<lparr>gk_Group = dockyards_Group, gk_Kind = ClusterKind\<rparr>]"

definition worktree_registration :: registration where
  "worktree_registration = Controller ''worktree''
     [For \<lparr>gk_Group = dockyards_Group, gk_Kind = WorktreeKind\<rparr>]"

definition kustomization_registration :: registration where
  "kustomization_registration = Controller ''kustomization''
     [For \<lparr>gk_Group = kustomize_Group, gk_Kind = KustomizationKind\<rparr>]"

definition helmrelease_registration :: registration where
  "helmrelease_registration = Controller ''helmrelease''
     [For \<lparr>gk_Group = helm_Group, gk_Kind = HelmReleaseKind\<rparr>]"

definition sourcerepository_registration :: registration where
  "sourcerepository_registration = Controller ''sourcerepository''
     [For \<lparr>gk_Group = source_Group, gk_Kind = HelmRepositoryKind\<rparr>,
      Watches \<lparr>gk_Group = source_Group, gk_Kind = OCIRepositoryKind\<rparr>]"

definition workloadtemplate_webhook :: registration where
  "workloadtemplate_webhook =
     Webhook ''workloadtemplate'' \<lparr>gk_Group = dockyards_Group, gk_Kind = WorkloadTemplateKind\<rparr> False True"

definition workload_webhook :: registration where
  "workload_webhook =
     Webhook ''workload'' \<lparr>gk_Group = dockyards_Group, gk_Kind = WorkloadKind\<rparr> True True"

definition Workload_SetupWithManager :: "'e main_env \<Rightarrow> Manager \<Rightarrow> 'e + Manager" where
  [handler_defs]: "Workload_SetupWithManager env mgr =
     complete env workload_registration
       (add_to_scheme kustomize_Group (add_to_scheme helm_Group (add_to_scheme dockyards_Group mgr)))"

definition Worktree_SetupWithManager :: "'e main_env \<Rightarrow> Manager \<Rightarrow> 'e + Manager" where
  [handler_defs]: "Worktree_SetupWithManager env mgr =
     complete env worktree_registration
       (add_to_scheme source_Group (add_to_scheme dockyards_Group mgr))"

definition Kustomization_SetupWithManager :: "'e main_env \<Rightarrow> Manager \<Rightarrow> 'e + Manager" where
  [handler_defs]: "Kustomization_SetupWithManager env mgr =
     complete env kustomization_registration
       (add_to_scheme kustomize_Group (add_to_scheme core_Group mgr))"

definition HelmRelease_SetupWithManager :: "'e main_env \<Rightarrow> Manager \<Rightarrow> 'e + Manager" where
  [handler_defs]: "HelmRelease_SetupWithManager env mgr =
     complete env helmrelease_registration
       (add_to_scheme helm_Group (add_to_scheme dockyards_Group mgr))"

definition SourceRepository_SetupWithManager :: "'e main_env \<Rightarrow> Manager \<Rightarrow> 'e + Manager" where
  [handler_defs]: "SourceRepository_SetupWithManager env mgr =
     complete env sourcerepository_registration
       (add_to_scheme source_Group (add_to_scheme dockyards_Group mgr))"

definition WorkloadTemplateWebhook_SetupWithManager :: "'e main_env \<Rightarrow> Manager \<Rightarrow> 'e + Manager" where
  [handler_defs]: "WorkloadTemplateWebhook_SetupWithManager env mgr =
     complete env workloadtemplate_webhook (add_to_scheme dockyards_Group mgr)"

definition WorkloadWebhook_SetupWithManager :: "'e main_env \<Rightarrow> Manager \<Rightarrow> 'e + Manager" where
  [handler_defs]: "WorkloadWebhook_SetupWithManager env mgr = complete env workload_webhook mgr"

section \<open>main\<close>

text \<open>How the process ends: by returning from \<open>main\<close>, or with status 1 and a logged message.\<close>

datatype 'e main_end = MainReturned | Exit1 string 'e

text \<open>\<open>if err != nil { logger.Error(msg, "err", err); os.Exit(1) }\<close>\<close>

definition or_exit :: "string \<Rightarrow> 'e + 'a \<Rightarrow> 'e main_end + 'a" where
  "or_exit msg x = (case x of Inl err \<Rightarrow> Inl (Exit1 msg err) | Inr a \<Rightarrow> Inr a)"

definition and_then :: "'x + 'a \<Rightarrow> ('a \<Rightarrow> 'x + 'b) \<Rightarrow> 'x + 'b" where
  "and_then x f = (case x of Inl e \<Rightarrow> Inl e | Inr a \<Rightarrow> f a)"

text \<open>Lines 59 to 95: the manager with its scheme and its index.\<close>

definition main_manager :: "'e main_env \<Rightarrow> string \<Rightarrow> 'e main_end + Manager" where
  [handler_defs]: "main_manager env metricsBindAddress =
     and_then (case env_GetConfig env of Some err \<Rightarrow> Inl (Exit1 ''error getting config'' err) | None \<Rightarrow> Inr ())
     (\<lambda>_. let scheme = [dockyards_Group] in
      and_then (case env_NewManager env metricsBindAddress scheme of
                  Some err \<Rightarrow> Inl (Exit1 ''error creating manager'' err)
                | None \<Rightarrow> Inr \<lparr>mgr_BindAddress = metricsBindAddress, mgr_Scheme = scheme,
                               mgr_Indexes = [], mgr_Registered = []\<rparr>)
     (\<lambda>mgr. case env_IndexField env mgr (env_WorkloadTemplateReferenceField env) of
               Some err \<Rightarrow> Inl (Exit1 ''error adding index for workload'' err)
             | None \<Rightarrow> Inr (mgr\<lparr>mgr_Indexes := mgr_Indexes mgr @ [env_WorkloadTemplateReferenceField env]\<rparr>)))"

text \<open>Lines 97 to 140: the controllers, in order.\<close>

definition main_controllers :: "'e main_env \<Rightarrow> Manager \<Rightarrow> 'e main_end + Manager" where
  [handler_defs]: "main_controllers env mgr =
     and_then (or_exit ''error creating workload reconciler'' (Workload_SetupWithManager env mgr))
     (\<lambda>mgr. and_then (or_exit ''error creating worktree reconciler'' (Worktree_SetupWithManager env mgr))
     (\<lambda>mgr. and_then (or_exit ''error creating kustomization reconciler'' (Kustomization_SetupWithManager env mgr))
     (\<lambda>mgr. and_then (or_exit ''error creating helm release reconciler'' (HelmRelease_SetupWithManager env mgr))
     (\<lambda>mgr. or_exit ''error creating source repository reconciler'' (SourceRepository_SetupWithManager env mgr)))))"

text \<open>Lines 142 to 158: the webhooks, when they are enabled.\<close>

definition main_webhooks :: "'e main_env \<Rightarrow> bool \<Rightarrow> Manager \<Rightarrow> 'e main_end + Manager" where
  [handler_defs]: "main_webhooks env enableWebhooks mgr =
     (if enableWebhooks
      then and_then (or_exit ''error creating workload template webhooks''
                       (WorkloadTemplateWebhook_SetupWithManager env mgr))
           (\<lambda>mgr. or_exit ''error creating workload template webhooks''
                     (WorkloadWebhook_SetupWithManager env mgr))
      else Inr mgr)"

text \<open>The whole of \<open>main\<close>: how it ends, and the manager that was started, if any.\<close>

definition main_setup :: "'e main_env \<Rightarrow> string \<Rightarrow> bool \<Rightarrow> 'e main_end + Manager" where
  [handler_defs]: "main_setup env metricsBindAddress enableWebhooks =
     and_then (main_manager env metricsBindAddress)
     (\<lambda>mgr. and_then (main_controllers env mgr)
     (\<lambda>mgr. main_webhooks env enableWebhooks mgr))"

definition main_go :: "'e main_env \<Rightarrow> string \<Rightarrow> bool \<Rightarrow> 'e main_end \<times> Manager option" where
  [handler_defs]: "main_go env metricsBindAddress enableWebhooks =
     (case main_setup env metricsBindAddress enableWebhooks of
        Inl e \<Rightarrow> (e, None)
      | Inr mgr \<Rightarrow>
          (case env_Start env mgr of
             Some err \<Rightarrow> (Exit1 ''error starting manager'' err, Some mgr)
           | None \<Rightarrow> (MainReturned, Some mgr)))"

text \<open>The flags and their defaults, and the whole program.\<close>

definition main_program :: "'e main_env \<Rightarrow> pflags \<Rightarrow> 'e main_end \<times> Manager option" where
  [handler_defs]: "main_program env args =
     (let metricsBindAddress = StringVar args ''metrics-bind-address'' ''0'';
          enableWebhooks = BoolVar args ''enable-webhooks'' False
      in main_go env metricsBindAddress enableWebhooks)"

section \<open>Specification\<close>

definition main_registrations :: "bool \<Rightarrow> registration list" where
  "main_registrations enableWebhooks =
     [workload_registration, worktree_registration, kustomization_registration,
      helmrelease_registration, sourcerepository_registration] @
     (if enableWebhooks then [workloadtemplate_webhook, workload_webhook] else [])"

fun registered_kinds :: "registration \<Rightarrow> GroupKind list" where
  "registered_kinds (Controller n ws) = map watched ws"
| "registered_kinds (Webhook n k d v) = [k]"

text \<open>Every kind of a registration has its group in the scheme.\<close>

definition scheme_covers :: "Manager \<Rightarrow> registration \<Rightarrow> bool" where
  "scheme_covers mgr reg \<longleftrightarrow> (\<forall>k \<in> set (registered_kinds reg). gk_Group k \<in> set (mgr_Scheme mgr))"

section \<open>Lemmas\<close>

lemmas registration_defs =
  workload_registration_def worktree_registration_def kustomization_registration_def
  helmrelease_registration_def sourcerepository_registration_def workloadtemplate_webhook_def
  workload_webhook_def

lemmas setup_defs =
  Workload_SetupWithManager_def Worktree_SetupWithManager_def Kustomization_SetupWithManager_def
  HelmRelease_SetupWithManager_def SourceRepository_SetupWithManager_def
  WorkloadTemplateWebhook_SetupWithManager_def WorkloadWebhook_SetupWithManager_def

lemma and_then_Inr: "and_then x f = Inr b \<longleftrightarrow> (\<exists>a. x = Inr a \<and> f a = Inr b)"
  by (simp add: and_then_def split: sum.splits)

lemma or_exit_Inr: "or_exit msg x = Inr a \<longleftrightarrow> x = Inr a"
  by (simp add: or_exit_def split: sum.splits)

lemma complete_Inr:
  "complete env reg mgr = Inr mgr' \<longleftrightarrow>
     env_Complete env mgr reg = None \<and> mgr' = mgr\<lparr>mgr_Registered := mgr_Registered mgr @ [reg]\<rparr>"
  by (auto simp: complete_def split: option.splits)

lemmas setup_Inr = and_then_Inr or_exit_Inr complete_Inr setup_defs add_to_scheme_def

lemma main_manager_Inr:
  "main_manager env addr = Inr mgr \<Longrightarrow>
     mgr = \<lparr>mgr_BindAddress = addr, mgr_Scheme = [dockyards_Group],
            mgr_Indexes = [env_WorkloadTemplateReferenceField env], mgr_Registered = []\<rparr>"
  by (auto simp: main_manager_def and_then_def Let_def split: option.splits)

lemma main_setup_Inr:
  assumes "main_setup env addr webhooks = Inr mgr"
  shows "mgr_BindAddress mgr = addr" and "mgr_Indexes mgr = [env_WorkloadTemplateReferenceField env]"
    and "mgr_Registered mgr = main_registrations webhooks"
    and "set (mgr_Scheme mgr) = {dockyards_Group, helm_Group, kustomize_Group, source_Group, core_Group}"
  using assms
  by (auto simp: main_setup_def main_controllers_def main_webhooks_def setup_Inr main_registrations_def
      dest!: main_manager_Inr split: if_splits)

lemma main_setup_Inl: "main_setup env addr webhooks = Inl e \<Longrightarrow> \<exists>msg err. e = Exit1 msg err"
  by (auto simp: main_setup_def main_manager_def main_controllers_def main_webhooks_def and_then_def
      or_exit_def Let_def split: sum.splits option.splits if_splits)

section \<open>Properties\<close>

lemma main_go_complete:
  "case main_go env addr webhooks of
     (e, None) \<Rightarrow> (\<exists>msg err. e = Exit1 msg err)
   | (e, Some mgr) \<Rightarrow>
       mgr_Registered mgr = main_registrations webhooks \<and>
       mgr_Indexes mgr = [env_WorkloadTemplateReferenceField env] \<and>
       mgr_BindAddress mgr = addr \<and>
       set (mgr_Scheme mgr) = {dockyards_Group, helm_Group, kustomize_Group, source_Group, core_Group} \<and>
       list_all (scheme_covers mgr) (mgr_Registered mgr) \<and>
       (e = MainReturned \<longleftrightarrow> env_Start env mgr = None)"
proof (cases "main_setup env addr webhooks")
  case (Inl e)
  with main_setup_Inl [OF Inl] show ?thesis by (auto simp: main_go_def)
next
  case (Inr mgr)
  from main_setup_Inr(4) [OF Inr] have "list_all (scheme_covers mgr) (main_registrations webhooks)"
    by (simp add: main_registrations_def scheme_covers_def registration_defs)
  with Inr main_setup_Inr [OF Inr] show ?thesis
    by (auto simp: main_go_def split: option.splits)
qed

text \<open>
  C32. The manager runs complete or not at all. If \<open>main\<close> starts the manager, all five controllers
  are registered, in order, followed by the two webhooks exactly when the command
  line enables them (without the flag they are off and metrics are not served), the workload index is in place and the scheme holds every API group the program uses. If it does
  not start the manager, it exits with status 1 and a logged error. It returns normally only
  after it started the manager.
\<close>

theorem main_starts_complete:
  "case main_program env args of
     (e, None) \<Rightarrow> (\<exists>msg err. e = Exit1 msg err)
   | (e, Some mgr) \<Rightarrow>
       mgr_Registered mgr = main_registrations (given_bools args ''enable-webhooks'' = Some True) \<and>
       mgr_Indexes mgr = [env_WorkloadTemplateReferenceField env] \<and>
       (mgr_BindAddress mgr = ''0'' \<longleftrightarrow> given_strings args ''metrics-bind-address'' \<in> {None, Some ''0''}) \<and>
       set (mgr_Scheme mgr) = {dockyards_Group, helm_Group, kustomize_Group, source_Group, core_Group} \<and>
       list_all (scheme_covers mgr) (mgr_Registered mgr) \<and>
       (e = MainReturned \<longleftrightarrow> env_Start env mgr = None)"
proof -
  have webhooks: "BoolVar args ''enable-webhooks'' False \<longleftrightarrow> given_bools args ''enable-webhooks'' = Some True"
    by (simp add: BoolVar_def split: option.splits)
  have addr: "StringVar args ''metrics-bind-address'' ''0'' = ''0'' \<longleftrightarrow>
      given_strings args ''metrics-bind-address'' \<in> {None, Some ''0''}"
    by (auto simp: StringVar_def split: option.splits)
  from main_go_complete [where env = env and addr = "StringVar args ''metrics-bind-address'' ''0''"
      and webhooks = "BoolVar args ''enable-webhooks'' False"]
  show ?thesis unfolding main_program_def Let_def webhooks [symmetric] addr [symmetric]
    by (auto split: prod.splits option.splits)
qed

text \<open>
  C33. Every group is registered before it is needed. If the cluster can be reached and a builder's
  \<open>Complete\<close> fails only when a kind it watches is not in the scheme at that moment, the setup
  goes through: each \<open>SetupWithManager\<close> adds the groups of the kinds it watches before it
  completes, or they were added before it.
\<close>

theorem main_schemes_suffice:
  assumes "env_GetConfig env = None" and "\<And>a s. env_NewManager env a s = None"
    and "\<And>m f. env_IndexField env m f = None"
    and complete: "\<And>m reg. scheme_covers m reg \<Longrightarrow> env_Complete env m reg = None"
  shows "\<exists>mgr. main_setup env addr webhooks = Inr mgr"
proof -
  have manager: "main_manager env addr = Inr \<lparr>mgr_BindAddress = addr, mgr_Scheme = [dockyards_Group],
      mgr_Indexes = [env_WorkloadTemplateReferenceField env], mgr_Registered = []\<rparr>"
    using assms(1-3) by (simp add: main_manager_def and_then_def)
  have done': "complete env reg m = Inr (m\<lparr>mgr_Registered := mgr_Registered m @ [reg]\<rparr>)" if "scheme_covers m reg" for m reg
    using complete [OF that] by (simp add: complete_def)
  show ?thesis
    by (auto simp: main_setup_def manager main_controllers_def main_webhooks_def and_then_def or_exit_def
        setup_defs add_to_scheme_def done' scheme_covers_def registration_defs)
qed

definition example_main_env :: "string main_env" where
  "example_main_env =
     \<lparr>env_GetConfig = None, env_NewManager = (\<lambda>a s. None), env_IndexField = (\<lambda>m f. None),
      env_WorkloadTemplateReferenceField = ''spec.workloadTemplateRef'',
      env_Complete = (\<lambda>m reg. if scheme_covers m reg then None else Some ''no kind is registered''),
      env_Start = (\<lambda>m. None)\<rparr>"

theorem main_schemes_suffice_witness:
  "\<exists>mgr. main_setup example_main_env ''0'' True = Inr mgr"
  by (rule main_schemes_suffice) (simp_all add: example_main_env_def)

end
