(* ===== verification/Access_Rules.thy ===== *)
theory Access_Rules
  imports System Main_Setup
begin

text \<open>
  The access rules of the program: the \<open>kubebuilder:rbac\<close> markers in the controllers and webhooks,
  the cluster role under \<open>config/rbac\<close> that is generated from them, and what an API server that
  enforces the role makes of the reconcilers' calls.
\<close>

section \<open>Rules\<close>

text \<open>\<open>rbacv1.PolicyRule\<close>\<close>

record PolicyRule =
  rule_APIGroups :: "string list"
  rule_Resources :: "string list"
  rule_Verbs :: "string list"

definition marker :: "string \<Rightarrow> string list \<Rightarrow> string list \<Rightarrow> PolicyRule" where
  "marker g resources verbs = \<lparr>rule_APIGroups = [g], rule_Resources = resources, rule_Verbs = verbs\<rparr>"

text \<open>The verbs of the markers.\<close>

abbreviation read_verbs :: "string list" where
  "read_verbs \<equiv> [''get'', ''list'', ''watch'']"

abbreviation write_verbs :: "string list" where
  "write_verbs \<equiv> [''create'', ''get'', ''list'', ''patch'', ''watch'']"

definition worktree_markers :: "PolicyRule list" where
  "worktree_markers =
     [marker ''dockyards.io'' [''worktrees''] read_verbs,
      marker ''source.toolkit.fluxcd.io'' [''gitrepositories''] write_verbs]"

definition sourcerepository_markers :: "PolicyRule list" where
  "sourcerepository_markers =
     [marker ''dockyards.io'' [''workloadinventories''] write_verbs,
      marker ''source.toolkit.fluxcd.io'' [''helmrepositories'', ''ocirepositories''] read_verbs]"

definition helmrelease_markers :: "PolicyRule list" where
  "helmrelease_markers =
     [marker ''dockyards.io'' [''workloadinventories''] write_verbs,
      marker ''helm.toolkit.fluxcd.io'' [''helmreleases''] read_verbs]"

definition kustomization_markers :: "PolicyRule list" where
  "kustomization_markers =
     [marker ''core'' [''secrets''] read_verbs,
      marker ''dockyards.io'' [''workloadinventories''] write_verbs,
      marker ''kustomize.toolkit.fluxcd.io'' [''kustomizations''] [''get'', ''list'', ''patch'', ''watch'']]"

definition workload_markers :: "PolicyRule list" where
  "workload_markers =
     [marker ''dockyards.io'' [''clusters''] read_verbs,
      marker ''dockyards.io'' [''workloads/status''] [''patch''],
      marker ''dockyards.io'' [''workloads''] read_verbs,
      marker ''dockyards.io'' [''workloadtemplates''] read_verbs,
      marker ''dockyards.io'' [''worktrees''] write_verbs,
      marker ''helm.toolkit.fluxcd.io'' [''*''] write_verbs,
      marker ''kustomize.toolkit.fluxcd.io'' [''*''] write_verbs,
      marker ''source.toolkit.fluxcd.io'' [''*''] write_verbs]"

definition workload_webhook_markers :: "PolicyRule list" where
  "workload_webhook_markers =
     [marker ''dockyards.io'' [''workloadtemplates''] read_verbs,
      marker ''dockyards.io'' [''clusters''] read_verbs]"

text \<open>The rules of the cluster role in \<open>config/rbac/role.yaml\<close>.\<close>

definition cluster_role :: "PolicyRule list" where
  "cluster_role =
     [marker '''' [''secrets''] read_verbs,
      marker ''dockyards.io'' [''clusters''] read_verbs,
      marker ''dockyards.io'' [''workloadinventories''] write_verbs,
      marker ''dockyards.io'' [''workloads''] read_verbs,
      marker ''dockyards.io'' [''workloads/status''] [''patch''],
      marker ''dockyards.io'' [''workloadtemplates''] read_verbs,
      marker ''dockyards.io'' [''worktrees''] write_verbs,
      marker ''helm.toolkit.fluxcd.io'' [''*''] write_verbs,
      marker ''helm.toolkit.fluxcd.io'' [''helmreleases''] read_verbs,
      marker ''kustomize.toolkit.fluxcd.io'' [''*''] write_verbs,
      marker ''kustomize.toolkit.fluxcd.io'' [''kustomizations''] [''get'', ''list'', ''patch'', ''watch''],
      marker ''source.toolkit.fluxcd.io'' [''*''] write_verbs,
      marker ''source.toolkit.fluxcd.io'' [''gitrepositories''] write_verbs,
      marker ''source.toolkit.fluxcd.io'' [''helmrepositories'', ''ocirepositories''] read_verbs]"

section \<open>Authorization\<close>

text \<open>What a request needs: a verb on a resource of a group.\<close>

type_synonym access = "string \<times> string \<times> string"

text \<open>The rules of RBAC only add up; \<open>*\<close> stands for every resource of its groups.\<close>

definition rule_allows :: "PolicyRule \<Rightarrow> access \<Rightarrow> bool" where
  "rule_allows rule a =
     (case a of (verb, g, resource) \<Rightarrow>
        g \<in> set (rule_APIGroups rule) \<and> verb \<in> set (rule_Verbs rule) \<and>
        (resource \<in> set (rule_Resources rule) \<or> ''*'' \<in> set (rule_Resources rule)))"

definition allows :: "PolicyRule list \<Rightarrow> access \<Rightarrow> bool" where
  "allows rules a \<longleftrightarrow> (\<exists>rule \<in> set rules. rule_allows rule a)"

definition permits :: "PolicyRule list \<Rightarrow> access list \<Rightarrow> bool" where
  "permits rules needs \<longleftrightarrow> (\<forall>a \<in> set needs. allows rules a)"

text \<open>
  A typed read goes through the cache of the manager, which lists and watches the kind;
  \<open>CreateOrPatch\<close> reads, and then creates or patches.
\<close>

definition reads :: "string \<Rightarrow> string \<Rightarrow> access list" where
  "reads g resource = map (\<lambda>verb. (verb, g, resource)) read_verbs"

definition writes :: "string \<Rightarrow> string \<Rightarrow> access list" where
  "writes g resource = map (\<lambda>verb. (verb, g, resource)) write_verbs"

section \<open>An API server that enforces rules\<close>

text \<open>A call that is not permitted fails with the error \<open>denied\<close> and does nothing.\<close>

definition checked_read ::
  "PolicyRule list \<Rightarrow> 'e \<Rightarrow> access list \<Rightarrow> ('w, 'e + 'a) state \<Rightarrow> ('w, 'e + 'a) state" where
  "checked_read rules denied needs act = (if permits rules needs then act else ret (Inl denied))"

definition checked_cop ::
  "PolicyRule list \<Rightarrow> 'e \<Rightarrow> ('o \<Rightarrow> access list) \<Rightarrow> ('w, 'e, 'o) create_or_patch \<Rightarrow> ('w, 'e, 'o) create_or_patch" where
  "checked_cop rules denied needs cop obj f =
     (if permits rules (needs obj) then cop obj f else ret (Returns (Inl denied)))"

definition checked_patch ::
  "PolicyRule list \<Rightarrow> 'e \<Rightarrow> access list \<Rightarrow> ('w, 'e option) state \<Rightarrow> ('w, 'e option) state" where
  "checked_patch rules denied needs act = (if permits rules needs then act else ret (Some denied))"

abbreviation inventory_access :: "WorkloadInventory \<Rightarrow> access list" where
  "inventory_access i \<equiv> writes dockyards_Group ''workloadinventories''"

definition enforce_worktree ::
  "PolicyRule list \<Rightarrow> 'e \<Rightarrow> ('w, 'e) DockyardsWorktreeReconciler \<Rightarrow> ('w, 'e) DockyardsWorktreeReconciler" where
  "enforce_worktree rules denied r =
     r\<lparr>wtr_Get := (\<lambda>k. checked_read rules denied (reads dockyards_Group ''worktrees'') (wtr_Get r k)),
       wtr_CreateOrPatch := checked_cop rules denied (\<lambda>_. writes source_Group ''gitrepositories'') (wtr_CreateOrPatch r)\<rparr>"

definition enforce_kustomization ::
  "PolicyRule list \<Rightarrow> 'e \<Rightarrow> ('w, 'e, 'h) KustomizationReconciler \<Rightarrow> ('w, 'e, 'h) KustomizationReconciler" where
  "enforce_kustomization rules denied r =
     r\<lparr>kr_Get := (\<lambda>k. checked_read rules denied (reads kustomize_Group ''kustomizations'') (kr_Get r k)),
       kr_GetSecret := (\<lambda>k. checked_read rules denied (reads core_Group ''secrets'') (kr_GetSecret r k)),
       kr_Patch := (\<lambda>h k. checked_patch rules denied
         [(''patch'', kustomize_Group, ''kustomizations''), (''patch'', kustomize_Group, ''kustomizations/status'')]
         (kr_Patch r h k)),
       kr_CreateOrPatch := checked_cop rules denied inventory_access (kr_CreateOrPatch r)\<rparr>"

definition enforce_helmrelease ::
  "PolicyRule list \<Rightarrow> 'e \<Rightarrow> ('w, 'e) HelmReleaseReconciler \<Rightarrow> ('w, 'e) HelmReleaseReconciler" where
  "enforce_helmrelease rules denied r =
     r\<lparr>hrr_Get := (\<lambda>k. checked_read rules denied (reads helm_Group ''helmreleases'') (hrr_Get r k)),
       hrr_CreateOrPatch := checked_cop rules denied inventory_access (hrr_CreateOrPatch r)\<rparr>"

definition enforce_source ::
  "PolicyRule list \<Rightarrow> 'e \<Rightarrow> ('w, 'e) SourceRepositoryReconciler \<Rightarrow> ('w, 'e) SourceRepositoryReconciler" where
  "enforce_source rules denied r =
     r\<lparr>srr_GetHelmRepository := (\<lambda>k. checked_read rules denied (reads source_Group ''helmrepositories'') (srr_GetHelmRepository r k)),
       srr_GetOCIRepository := (\<lambda>k. checked_read rules denied (reads source_Group ''ocirepositories'') (srr_GetOCIRepository r k)),
       srr_CreateOrPatch := checked_cop rules denied inventory_access (srr_CreateOrPatch r)\<rparr>"

text \<open>
  The patch helper sends a patch of the status when the status changed, and a patch of the
  object itself when anything else changed; so the helper carries the workload it was made for.
  Rendered objects are read from the API server, not from the cache; \<open>rest u\<close> is the group and
  the resource that \<open>client.RESTMapper\<close> finds for the object \<open>u\<close>.
\<close>

definition workload_patch_access :: "Workload \<Rightarrow> Workload \<Rightarrow> access list" where
  "workload_patch_access v v' =
     (''patch'', dockyards_Group, ''workloads/status'') #
     (if v'\<lparr>wl_Conditions := []\<rparr> = v\<lparr>wl_Conditions := []\<rparr> then [] else [(''patch'', dockyards_Group, ''workloads'')])"

definition rendered_access :: "(Unstructured \<Rightarrow> string \<times> string) \<Rightarrow> Unstructured \<Rightarrow> access list" where
  "rendered_access rest u = map (\<lambda>verb. (verb, rest u)) [''get'', ''create'', ''patch'']"

definition enforce_workload ::
  "PolicyRule list \<Rightarrow> 'e \<Rightarrow> (Unstructured \<Rightarrow> string \<times> string) \<Rightarrow>
     ('w, 'e, 'h, 'i, 'v, 'p) DockyardsWorkloadReconciler \<Rightarrow>
     ('w, 'e, Workload \<times> 'h, 'i, 'v, 'p) DockyardsWorkloadReconciler" where
  "enforce_workload rules denied rest r =
     \<lparr>wlr_Get = (\<lambda>k. checked_read rules denied (reads dockyards_Group ''workloads'') (wlr_Get r k)),
      wlr_GetTemplate = (\<lambda>k. checked_read rules denied (reads dockyards_Group ''workloadtemplates'') (wlr_GetTemplate r k)),
      wlr_GetOwnerCluster = (\<lambda>v. checked_read rules denied (reads dockyards_Group ''clusters'') (wlr_GetOwnerCluster r v)),
      wlr_ListKustomizations = (\<lambda>ls ns. checked_read rules denied (reads kustomize_Group ''kustomizations'')
        (wlr_ListKustomizations r ls ns)),
      wlr_ListHelmReleases = (\<lambda>ls ns. checked_read rules denied (reads helm_Group ''helmreleases'')
        (wlr_ListHelmReleases r ls ns)),
      wlr_ListWorkloads = (\<lambda>ls ns. checked_read rules denied (reads dockyards_Group ''workloads'') (wlr_ListWorkloads r ls ns)),
      wlr_ListWorkloadsByField = (\<lambda>fs. checked_read rules denied (reads dockyards_Group ''workloads'')
        (wlr_ListWorkloadsByField r fs)),
      wlr_WorkloadTemplateReferenceField = wlr_WorkloadTemplateReferenceField r,
      wlr_TypedObjectRef = wlr_TypedObjectRef r,
      wlr_CreateOrPatch = checked_cop rules denied (rendered_access rest) (wlr_CreateOrPatch r),
      wlr_NewHelper = (\<lambda>v. map_sum id (Pair v) (wlr_NewHelper r v)),
      wlr_Patch = (\<lambda>(v, h) v'. checked_patch rules denied (workload_patch_access v v') (wlr_Patch r h v')),
      wlr_SetNestedMap = wlr_SetNestedMap r, wlr_Getwd = wlr_Getwd r, wlr_cue = wlr_cue r,
      wlr_cond = wlr_cond r, wlr_errlib = wlr_errlib r\<rparr>"

text \<open>The kinds a template may render under the role.\<close>

definition renderable :: "string \<times> string \<Rightarrow> bool" where
  "renderable gr \<longleftrightarrow>
     fst gr \<in> {helm_Group, kustomize_Group, source_Group} \<or>
     gr \<in> {(dockyards_Group, ''worktrees''), (dockyards_Group, ''workloadinventories'')}"

section \<open>The role\<close>

text \<open>\<open>controller-gen\<close> writes the group \<open>core\<close> of a marker as the empty group.\<close>

definition generated_rule :: "PolicyRule \<Rightarrow> PolicyRule" where
  "generated_rule rule = rule\<lparr>rule_APIGroups := map (\<lambda>g. if g = ''core'' then '''' else g) (rule_APIGroups rule)\<rparr>"

definition all_markers :: "PolicyRule list" where
  "all_markers = worktree_markers @ sourcerepository_markers @ helmrelease_markers @ kustomization_markers @
     workload_markers @ workload_webhook_markers"

lemmas markers_defs = worktree_markers_def sourcerepository_markers_def helmrelease_markers_def
  kustomization_markers_def workload_markers_def workload_webhook_markers_def

lemmas group_defs = core_Group_def helm_Group_def kustomize_Group_def source_Group_def dockyards_Group_def

lemma allows_Cons: "allows (rule # rules) a \<longleftrightarrow> rule_allows rule a \<or> allows rules a" "\<not> allows [] a"
  by (auto simp: allows_def)

text \<open>The role grants what the markers ask for, and nothing else.\<close>

lemma role_generated: "allows cluster_role a \<longleftrightarrow> allows (map generated_rule all_markers) a"
proof -
  have gen: "generated_rule (marker g rs vs) = marker (if g = ''core'' then '''' else g) rs vs" for g rs vs
    by (simp add: generated_rule_def marker_def)
  have "rule_allows (marker g rs read_verbs) a \<Longrightarrow> rule_allows (marker g rs write_verbs) a" for g rs
    by (auto simp: rule_allows_def marker_def split: prod.splits)
  note sub = this [of "''dockyards.io''" "[''worktrees'']"]
  show ?thesis
    by (simp add: cluster_role_def all_markers_def markers_defs allows_Cons gen) (use sub in argo)
qed

lemma permits_Cons [simp]: "permits rules (a # needs) \<longleftrightarrow> allows rules a \<and> permits rules needs" "permits rules []"
  by (auto simp: permits_def)

lemmas role_simps = allows_Cons cluster_role_def marker_def rule_allows_def

text \<open>Nothing may be updated or deleted, and only mirrors, rendered kinds and statuses of workloads written.\<close>

lemma role_limits:
  assumes "allows cluster_role (verb, g, resource)"
  shows "verb \<in> set write_verbs"
    "verb \<in> {''create'', ''patch''} \<Longrightarrow> renderable (g, resource) \<or>
      (verb, g, resource) = (''patch'', dockyards_Group, ''workloads/status'')"
  using assms by (auto simp: role_simps renderable_def group_defs)

lemma role_renders: "permits cluster_role (rendered_access rest u) \<longleftrightarrow> renderable (rest u)"
  by (cases "rest u") (auto simp: rendered_access_def role_simps renderable_def group_defs)

lemma role_reads:
  "permits cluster_role (reads dockyards_Group ''worktrees'')"
  "permits cluster_role (reads dockyards_Group ''workloads'')"
  "permits cluster_role (reads dockyards_Group ''workloadtemplates'')"
  "permits cluster_role (reads dockyards_Group ''clusters'')"
  "permits cluster_role (reads kustomize_Group ''kustomizations'')"
  "permits cluster_role (reads helm_Group ''helmreleases'')"
  "permits cluster_role (reads source_Group ''helmrepositories'')"
  "permits cluster_role (reads source_Group ''ocirepositories'')"
  "permits cluster_role (reads core_Group ''secrets'')"
  by (simp_all add: reads_def role_simps group_defs)

lemma role_writes:
  "permits cluster_role (writes dockyards_Group ''workloadinventories'')"
  "permits cluster_role (writes source_Group ''gitrepositories'')"
  "allows cluster_role (''patch'', kustomize_Group, ''kustomizations'')"
  "allows cluster_role (''patch'', kustomize_Group, ''kustomizations/status'')"
  "allows cluster_role (''patch'', dockyards_Group, ''workloads/status'')"
  by (simp_all add: writes_def role_simps group_defs)

section \<open>The reconcilers under the role\<close>

lemma checked_permitted:
  "permits rules needs \<Longrightarrow> checked_read rules denied needs act = act"
  "permits rules needs \<Longrightarrow> checked_patch rules denied needs patch = patch"
  "permits rules (access obj) \<Longrightarrow> checked_cop rules denied access cop obj f = cop obj f"
  by (simp_all add: checked_read_def checked_patch_def checked_cop_def)

lemma checked_cop_always:
  "(\<And>obj. permits rules (access obj)) \<Longrightarrow> checked_cop rules denied access cop = cop"
  by (simp add: fun_eq_iff checked_cop_def)

lemma mirrors_enforced:
  "enforce_worktree cluster_role denied r1 = r1"
  "enforce_kustomization cluster_role denied r2 = r2"
  "enforce_helmrelease cluster_role denied r3 = r3"
  "enforce_source cluster_role denied r4 = r4"
  by (simp_all add: enforce_worktree_def enforce_kustomization_def enforce_helmrelease_def enforce_source_def
      checked_permitted(1,2) checked_cop_always role_reads role_writes)

lemma enforced_fields:
  assumes "\<And>v u. DecodeUnstructured (wlr_cue r) v = Inr u \<Longrightarrow> renderable (rest u)"
  shows "apply_fields (enforce_workload cluster_role denied rest r) workload ownerCluster vals =
    apply_fields r workload ownerCluster vals"
proof (induction vals)
  case (Cons v vs)
  have "apply_field (enforce_workload cluster_role denied rest r) workload ownerCluster v =
      apply_field r workload ownerCluster v"
    using assms
    by (auto simp: apply_field_def enforce_workload_def checked_permitted(3) role_renders split: option.splits sum.splits)
  with Cons show ?case by simp
qed simp

lemma enforced_parts:
  "wlr_Get (enforce_workload cluster_role denied rest r) = wlr_Get r"
  "wlr_GetTemplate (enforce_workload cluster_role denied rest r) = wlr_GetTemplate r"
  "wlr_GetOwnerCluster (enforce_workload cluster_role denied rest r) = wlr_GetOwnerCluster r"
  "wlr_ListKustomizations (enforce_workload cluster_role denied rest r) = wlr_ListKustomizations r"
  "wlr_ListHelmReleases (enforce_workload cluster_role denied rest r) = wlr_ListHelmReleases r"
  "wlr_ListWorkloads (enforce_workload cluster_role denied rest r) = wlr_ListWorkloads r"
  "wlr_ListWorkloadsByField (enforce_workload cluster_role denied rest r) = wlr_ListWorkloadsByField r"
  "wlr_Getwd (enforce_workload cluster_role denied rest r) = wlr_Getwd r"
  "wlr_cue (enforce_workload cluster_role denied rest r) = wlr_cue r"
  "wlr_cond (enforce_workload cluster_role denied rest r) = wlr_cond r"
  "wlr_errlib (enforce_workload cluster_role denied rest r) = wlr_errlib r"
  by (simp_all add: enforce_workload_def checked_permitted(1) role_reads)

lemma enforced_stages:
  assumes "\<And>v u. DecodeUnstructured (wlr_cue r) v = Inr u \<Longrightarrow> renderable (rest u)"
  shows "workload_stages (enforce_workload cluster_role denied rest r) workload = workload_stages r workload"
proof -
  let ?r = "enforce_workload cluster_role denied rest r"
  have give_up: "give_up ?r = give_up r" by (simp add: fun_eq_iff give_up_def enforced_parts)
  have "apply_template ?r v cl t = apply_template r v cl t" for v cl t
    by (simp add: apply_template_def enforced_parts enforced_fields [OF assms] give_up split: sum.splits)
  then have "check_template ?r v cl got = check_template r v cl got" for v cl got
    by (simp add: check_template_def enforced_parts give_up Let_def cong: if_cong)
  then have "reconcileWorkloadTemplate ?r v = reconcileWorkloadTemplate r v" for v
    by (simp add: reconcileWorkloadTemplate_def enforced_parts cong: if_cong sum.case_cong option.case_cong)
  moreover have "reconcileReconcilingCondition ?r v = reconcileReconcilingCondition r v" for v
    by (simp add: reconcileReconcilingCondition_def enforced_parts cong: if_cong sum.case_cong)
  ultimately have "reconcileWorkloadTemplate ?r = reconcileWorkloadTemplate r"
    "reconcileReconcilingCondition ?r = reconcileReconcilingCondition r" by (simp_all add: fun_eq_iff)
  then show ?thesis by (simp only: workload_stages_def)
qed

lemma workload_enforced:
  assumes cond: "condlib_ok (wlr_cond r)"
    and renders: "\<And>v u. DecodeUnstructured (wlr_cue r) v = Inr u \<Longrightarrow> renderable (rest u)"
  shows "run_state (Workload_Reconcile (enforce_workload cluster_role denied rest r) req) w =
    run_state (Workload_Reconcile r req) w"
proof -
  let ?r = "enforce_workload cluster_role denied rest r"
  obtain got w1 where get: "run_state (wlr_Get r (NamespacedName req)) w = (got, w1)"
    by (metis prod.collapse)
  consider (no) e where "got = Inl e \<or> (\<exists>v. got = Inr v \<and> wlr_NewHelper r v = Inl e)"
    | (yes) v h where "got = Inr v" "wlr_NewHelper r v = Inr h"
    by (metis sum.exhaust)
  then show ?thesis
  proof cases
    case no
    then show ?thesis
      using get by (auto simp: Workload_Reconcile_def enforced_parts) (simp_all add: enforce_workload_def)
  next
    case (yes v h)
    obtain v' outcome w2 where stages: "run_state (workload_stages r v) w1 = ((v', outcome), w2)"
      by (metis prod.collapse)
    let ?s = "summarize (wlr_cond r) v'"
    from workload_stages_changes [OF cond stages] have "?s\<lparr>wl_Conditions := []\<rparr> = v\<lparr>wl_Conditions := []\<rparr>"
      by (simp add: only_conditions_changed_def)
    then have "wlr_Patch ?r (v, h) ?s = wlr_Patch r h ?s"
      by (simp add: enforce_workload_def checked_permitted(2) workload_patch_access_def role_writes)
    moreover have "wlr_NewHelper ?r v = Inr (v, h)" using yes by (simp add: enforce_workload_def)
    moreover have "workload_stages ?r v = workload_stages r v" by (rule enforced_stages [OF renders])
    ultimately show ?thesis
      using get stages yes
      by (simp add: Workload_Reconcile_def enforced_parts)
  qed
qed

text \<open>
  Under the role, templates that render workloads do no harm: a client that is as documented for
  the kinds the role lets templates render is one for all of them.
\<close>

lemma enforced_rendered_logged:
  assumes "\<And>u f w r w'. renderable (rest u) \<Longrightarrow> run_state (cop u f) w = (r, w') \<Longrightarrow>
      (\<exists>es. others a es \<and> lg w' = es @ lg w) \<or>
      (\<exists>es fs x y m. others a es \<and> others a fs \<and> u_key x = u_key u \<and> f x = Returns (Inr y) \<and>
         stored_as y (current m0 (es @ lg w)) m \<and> lg w' = fs @ (a, m) # es @ lg w)"
    and "cop = wlr_CreateOrPatch r"
  shows "rendered_logged a m0 lg (wlr_CreateOrPatch (enforce_workload cluster_role denied rest r))"
  unfolding rendered_logged_def
proof (intro allI impI)
  fix u f w c w'
  assume run: "run_state (wlr_CreateOrPatch (enforce_workload cluster_role denied rest r) u f) w = (c, w')"
  have "wlr_CreateOrPatch (enforce_workload cluster_role denied rest r) u f =
      (if renderable (rest u) then cop u f else ret (Returns (Inl denied)))"
    by (simp add: enforce_workload_def checked_cop_def role_renders assms(2))
  with run consider "renderable (rest u)" "run_state (cop u f) w = (c, w')" | "w' = w"
    by (auto split: if_splits)
  then show "(\<exists>es. others a es \<and> lg w' = es @ lg w) \<or>
      (\<exists>es fs x y m. others a es \<and> others a fs \<and> u_key x = u_key u \<and> f x = Returns (Inr y) \<and>
         stored_as y (current m0 (es @ lg w)) m \<and> lg w' = fs @ (a, m) # es @ lg w)"
  proof cases
    case 1
    from assms(1) [OF this] show ?thesis .
  next
    case 2
    then show ?thesis by (intro disjI1 exI [of _ "[]"]) simp
  qed
qed

text \<open>
  C30. The access rules fit the program. The cluster role grants exactly what the markers in the
  code ask for. Under the role every reconciler does what it does without access control, so
  that no call of it is ever denied: this needs no right to patch workloads themselves, only
  their status, since the reconciler changes nothing but conditions. The one exception are
  rendered objects of other kinds than Flux objects, worktrees and inventories: such a field is
  denied, nothing is written for it, and the template is reported as failed. And the role is not
  too wide: nothing can be updated or deleted, and no workload, template, cluster or secret can
  be created or patched, whatever a template renders.
\<close>

theorem role_fits:
  assumes "condlib_ok (wlr_cond r)"
  shows "(allows cluster_role a \<longleftrightarrow> allows (map generated_rule all_markers) a) \<and>
    Worktree_Reconcile (enforce_worktree cluster_role denied r1) req = Worktree_Reconcile r1 req \<and>
    Kustomization_Reconcile (enforce_kustomization cluster_role denied r2) req = Kustomization_Reconcile r2 req \<and>
    HelmRelease_Reconcile (enforce_helmrelease cluster_role denied r3) req = HelmRelease_Reconcile r3 req \<and>
    SourceRepository_Reconcile (enforce_source cluster_role denied r4) req = SourceRepository_Reconcile r4 req \<and>
    ((\<forall>v u. DecodeUnstructured (wlr_cue r) v = Inr u \<longrightarrow> renderable (rest u)) \<longrightarrow>
      run_state (Workload_Reconcile (enforce_workload cluster_role denied rest r) req) w =
      run_state (Workload_Reconcile r req) w) \<and>
    (ValidateConcrete (wlr_cue r) x = None \<and> DecodeUnstructured (wlr_cue r) x = Inr u \<and> \<not> renderable (rest u) \<longrightarrow>
      run_state (apply_field (enforce_workload cluster_role denied rest r) workload ownerCluster x) w =
      (Stopped (fails ReconcileFailedReason ''%s'' [FmtErr (Some denied)]), w)) \<and>
    (allows cluster_role (verb, g, resource) \<longrightarrow>
      verb \<in> {''create'', ''get'', ''list'', ''patch'', ''watch''} \<and>
      (verb \<in> {''create'', ''patch''} \<longrightarrow> renderable (g, resource) \<or>
        (verb, g, resource) = (''patch'', dockyards_Group, ''workloads/status'')))"
proof (intro conjI impI)
  show "verb \<in> {''create'', ''get'', ''list'', ''patch'', ''watch''}" if "allows cluster_role (verb, g, resource)"
    using role_limits(1) [OF that] by simp
  show "run_state (apply_field (enforce_workload cluster_role denied rest r) workload ownerCluster x) w =
      (Stopped (fails ReconcileFailedReason ''%s'' [FmtErr (Some denied)]), w)"
    if "ValidateConcrete (wlr_cue r) x = None \<and> DecodeUnstructured (wlr_cue r) x = Inr u \<and> \<not> renderable (rest u)"
    using that by (simp add: apply_field_def enforced_parts)
      (simp add: enforce_workload_def checked_cop_def role_renders)
  show "run_state (Workload_Reconcile (enforce_workload cluster_role denied rest r) req) w =
      run_state (Workload_Reconcile r req) w"
    if "\<forall>v u. DecodeUnstructured (wlr_cue r) v = Inr u \<longrightarrow> renderable (rest u)"
    using that by (intro workload_enforced [OF assms]) blast
  show "allows cluster_role a \<longleftrightarrow> allows (map generated_rule all_markers) a" by (rule role_generated)
qed (simp_all only: mirrors_enforced role_limits(2))

text \<open>The example template renders a kustomization; the patched status is written under the role.\<close>

definition example_rest :: "Unstructured \<Rightarrow> string \<times> string" where
  "example_rest u = (kustomize_Group, ''kustomizations'')"

theorem role_fits_witness:
  "run_state (Workload_Reconcile
       (enforce_workload cluster_role ''forbidden'' example_rest (example_workload_reconciler (Inr example_template)))
       \<lparr>NamespacedName = wl_key example_workload\<rparr>) Map.empty =
     run_state (Workload_Reconcile (example_workload_reconciler (Inr example_template))
       \<lparr>NamespacedName = wl_key example_workload\<rparr>) Map.empty \<and>
   \<not> allows cluster_role (''create'', dockyards_Group, ''workloads'') \<and>
   \<not> allows cluster_role (''delete'', dockyards_Group, ''workloadinventories'')"
proof (intro conjI)
  have rest: "\<forall>v u. DecodeUnstructured (wlr_cue (example_workload_reconciler (Inr example_template))) v = Inr u \<longrightarrow>
      renderable (example_rest u)"
    by (simp add: example_rest_def renderable_def)
  note fits = role_fits [OF example_workload_reconciler_ok(3) [of "Inr example_template"]]
  show "run_state (Workload_Reconcile
       (enforce_workload cluster_role ''forbidden'' example_rest (example_workload_reconciler (Inr example_template)))
       \<lparr>NamespacedName = wl_key example_workload\<rparr>) Map.empty =
     run_state (Workload_Reconcile (example_workload_reconciler (Inr example_template))
       \<lparr>NamespacedName = wl_key example_workload\<rparr>) Map.empty"
    by (rule fits [THEN conjunct2, THEN conjunct2, THEN conjunct2, THEN conjunct2, THEN conjunct2,
          THEN conjunct1, rule_format]) (use rest in blast)
  show "\<not> allows cluster_role (''create'', dockyards_Group, ''workloads'')"
    by (simp add: role_simps group_defs)
  show "\<not> allows cluster_role (''delete'', dockyards_Group, ''workloadinventories'')"
    by (simp add: role_simps group_defs)
qed

section \<open>The webhook configuration\<close>

text \<open>A \<open>kubebuilder:webhook\<close> marker, and an entry of \<open>config/webhook/manifests.yaml\<close>.\<close>

record webhook_entry =
  whe_Group :: string
  whe_Resource :: string
  whe_Operations :: "string list"
  whe_Path :: string
  whe_Mutating :: bool
  whe_FailurePolicy :: string
  whe_Version :: string
  whe_Name :: string

definition workload_webhook_entries :: "webhook_entry list" where
  "workload_webhook_entries =
     [\<lparr>whe_Group = ''dockyards.io'', whe_Resource = ''workloads'', whe_Operations = [''create'', ''update''],
       whe_Path = ''/mutate-dockyards-io-v1alpha3-workload'', whe_Mutating = True, whe_FailurePolicy = ''fail'',
       whe_Version = ''v1alpha3'', whe_Name = ''mutation.workload.dockyards.io''\<rparr>,
      \<lparr>whe_Group = ''dockyards.io'', whe_Resource = ''workloads'', whe_Operations = [''create'', ''update''],
       whe_Path = ''/validate-dockyards-io-v1alpha3-workload'', whe_Mutating = False, whe_FailurePolicy = ''fail'',
       whe_Version = ''v1alpha3'', whe_Name = ''validation.workload.dockyards.io''\<rparr>]"

definition workloadtemplate_webhook_entries :: "webhook_entry list" where
  "workloadtemplate_webhook_entries =
     [\<lparr>whe_Group = ''dockyards.io'', whe_Resource = ''workloadtemplates'', whe_Operations = [''create'', ''update''],
       whe_Path = ''/validate-dockyards-io-v1alpha3-workloadtemplate'', whe_Mutating = False, whe_FailurePolicy = ''fail'',
       whe_Version = ''v1alpha3'', whe_Name = ''validation.workloadtemplate.dockyards.io''\<rparr>]"

text \<open>The entries a registered webhook answers: defaulting ones mutate, validating ones do not.\<close>

fun answers :: "registration \<Rightarrow> webhook_entry \<Rightarrow> bool" where
  "answers (Webhook n k defaulter validator) e \<longleftrightarrow>
     gk_Group k = whe_Group e \<and> whe_Resource e = n @ ''s'' \<and> (if whe_Mutating e then defaulter else validator)"
| "answers (Controller n ws) e \<longleftrightarrow> False"

text \<open>
  With the webhooks enabled, the manager answers every configured entry. Without them nobody
  does, while the failure policy rejects the requests: the configuration must then not be
  deployed.
\<close>

lemma webhooks_answered:
  assumes "e \<in> set (workload_webhook_entries @ workloadtemplate_webhook_entries)"
  shows "\<exists>reg \<in> set (main_registrations True). answers reg e"
    and "\<not> (\<exists>reg \<in> set (main_registrations False). answers reg e)"
    and "whe_FailurePolicy e = ''fail''" and "''delete'' \<notin> set (whe_Operations e)"
  using assms
  by (auto simp: workload_webhook_entries_def workloadtemplate_webhook_entries_def main_registrations_def
      workload_webhook_def workloadtemplate_webhook_def workload_registration_def worktree_registration_def
      kustomization_registration_def helmrelease_registration_def sourcerepository_registration_def group_defs)

end
