(* ===== verification/Workload_Liveness.thy ===== *)
theory Workload_Liveness
  imports Example_System
begin

text \<open>
  What becomes of a workload whose template can be applied: one reconcile makes it reconciled,
  and every later one finds nothing to do.
\<close>

section \<open>Hypotheses\<close>

text \<open>
  A world at rest: reads answer with what is stored, the owner, the template and the lists of
  Flux objects stay what they are, the patch helper stores conditions, and objects that
  templates render are not workloads. \<open>stored w\<close> are the workloads and \<open>view w\<close> the rendered
  objects of the world \<open>w\<close>; \<open>v0\<close> is the workload at the start.
\<close>

definition steady ::
  "('w \<Rightarrow> ObjectKey \<rightharpoonup> Workload) \<Rightarrow> ('w \<Rightarrow> UnstructuredKey \<rightharpoonup> Unstructured) \<Rightarrow>
     ('w, 'e, 'h, 'i, 'v, 'p) DockyardsWorkloadReconciler \<Rightarrow> Workload \<Rightarrow> Cluster \<Rightarrow> WorkloadTemplate \<Rightarrow>
     Kustomization list \<Rightarrow> HelmRelease list \<Rightarrow> bool" where
  "steady stored view r v0 ownerCluster t ks hs \<longleftrightarrow>
     (\<forall>w k v. stored w k = Some v \<longrightarrow> run_state (wlr_Get r k) w = (Inr v, w)) \<and>
     (\<forall>v w. only_conditions_changed v0 v \<longrightarrow>
        run_state (wlr_GetOwnerCluster r v) w = (Inr (Some ownerCluster), w)) \<and>
     (\<forall>w ref. wl_WorkloadTemplateRef v0 = Some ref \<longrightarrow>
        run_state (wlr_GetTemplate r (template_key v0 ref)) w = (Inr t, w)) \<and>
     (\<forall>w. run_state (wlr_ListKustomizations r [(LabelWorkloadName, om_Name (wl_meta v0))]
        (om_Namespace (wl_meta v0))) w = (Inr ks, w)) \<and>
     (\<forall>w. run_state (wlr_ListHelmReleases r [(LabelWorkloadName, om_Name (wl_meta v0))]
        (om_Namespace (wl_meta v0))) w = (Inr hs, w)) \<and>
     (\<forall>v. \<exists>h. wlr_NewHelper r v = Inr h) \<and>
     (\<forall>v h v' w. wlr_NewHelper r v = Inr h \<longrightarrow> stored w (wl_key v) = Some v \<longrightarrow>
        only_conditions_changed v v' \<longrightarrow>
        (\<exists>w'. run_state (wlr_Patch r h v') w = (None, w') \<and>
              stored w' = (stored w)(wl_key v \<mapsto> v') \<and> view w' = view w)) \<and>
     (\<forall>u f. keeps_view stored (wlr_CreateOrPatch r u f))"

text \<open>
  A template that can be applied: it is a CUE template, the cluster does not hold it back, it
  renders to the same fields whatever the conditions of the workload say, the fields name
  different objects, and each of them is concrete, decodes, and can be written.
\<close>

definition applicable ::
  "('w, 'e, 'h, 'i, 'v, 'p) DockyardsWorkloadReconciler \<Rightarrow> Workload \<Rightarrow> Cluster \<Rightarrow> WorkloadTemplate \<Rightarrow>
     'v list \<Rightarrow> bool" where
  "applicable r v0 ownerCluster t vals \<longleftrightarrow>
     not_deleted (wl_meta v0) \<and> wl_WorkloadTemplateRef v0 \<noteq> None \<and>
     wlt_Type t = WorkloadTemplateTypeCue \<and>
     (wl_ClusterComponent v0 \<or> \<not> Cluster_IsFalse (wlr_cond r) ownerCluster ReadyCondition) \<and>
     (\<exists>wd. wlr_Getwd r = Inr wd \<and>
       (\<forall>v. only_conditions_changed v0 v \<longrightarrow>
          render_template (wlr_cue r) wd (wlt_Source t) ownerCluster v = Inr vals)) \<and>
     distinct (map (field_key (wlr_cue r)) vals) \<and>
     (\<forall>v \<in> set vals. ValidateConcrete (wlr_cue r) v = None \<and>
        (\<exists>u. DecodeUnstructured (wlr_cue r) v = Inr u) \<and>
        (\<forall>x. \<exists>y. unstructured_mutate (wlr_cue r) (wlr_SetNestedMap r) v0 ownerCluster v x = Returns (Inr y)))"

section \<open>Lemmas\<close>

text \<open>The mutate function and the desired state look at the metadata of the workload only.\<close>

lemma same_meta:
  assumes "wl_meta v = wl_meta v0"
  shows "unstructured_mutate c snm v ownerCluster x = unstructured_mutate c snm v0 ownerCluster x"
    "unstructured_desired c v ownerCluster x = unstructured_desired c v0 ownerCluster x"
    "fields_applied c v ownerCluster vals = fields_applied c v0 ownerCluster vals"
proof -
  have "workload_owner v = workload_owner v0" "workload_labels v ownerCluster = workload_labels v0 ownerCluster"
    using assms by (simp_all add: workload_owner_def workload_labels_def)
  then show "unstructured_mutate c snm v ownerCluster x = unstructured_mutate c snm v0 ownerCluster x"
    and d: "unstructured_desired c v ownerCluster x = unstructured_desired c v0 ownerCluster x" for x
    by (simp_all add: fun_eq_iff unstructured_mutate_def unstructured_desired_def)
  then show "fields_applied c v ownerCluster vals = fields_applied c v0 ownerCluster vals"
    by (simp add: fun_eq_iff fields_applied_def)
qed

lemma apply_fields_completes:
  assumes rel: "reliable u_key view (wlr_CreateOrPatch r)"
    and "\<And>x. x \<in> set vals \<Longrightarrow> ValidateConcrete (wlr_cue r) x = None \<and>
        (\<exists>u. DecodeUnstructured (wlr_cue r) x = Inr u) \<and>
        (\<forall>z. \<exists>y. unstructured_mutate (wlr_cue r) (wlr_SetNestedMap r) v ownerCluster x z = Returns (Inr y))"
  shows "\<exists>w'. run_state (apply_fields r v ownerCluster vals) w = (Completed, w')"
  using assms(2)
proof (induction vals arbitrary: w)
  case (Cons x xs)
  from Cons.prems [of x] obtain u where x: "ValidateConcrete (wlr_cue r) x = None"
    "DecodeUnstructured (wlr_cue r) x = Inr u"
    "\<And>z. \<exists>y. unstructured_mutate (wlr_cue r) (wlr_SetNestedMap r) v ownerCluster x z = Returns (Inr y)"
    by auto
  from rel x(3) obtain op w1 where "run_state (wlr_CreateOrPatch r u
      (unstructured_mutate (wlr_cue r) (wlr_SetNestedMap r) v ownerCluster x)) w = (Returns (Inr op), w1)"
    unfolding reliable_def by (metis prod.collapse)
  with x(1,2) have "run_state (apply_field r v ownerCluster x) w = (Completed, w1)"
    by (simp add: apply_field_def)
  with Cons.IH [of w1] Cons.prems show ?case by auto
qed simp

lemma steadyD:
  assumes "steady stored view r v0 ownerCluster t ks hs"
  shows "stored w k = Some v \<Longrightarrow> run_state (wlr_Get r k) w = (Inr v, w)"
    "only_conditions_changed v0 v \<Longrightarrow> run_state (wlr_GetOwnerCluster r v) w = (Inr (Some ownerCluster), w)"
    "wl_WorkloadTemplateRef v0 = Some ref \<Longrightarrow> run_state (wlr_GetTemplate r (template_key v0 ref)) w = (Inr t, w)"
    "run_state (wlr_ListKustomizations r [(LabelWorkloadName, om_Name (wl_meta v0))]
        (om_Namespace (wl_meta v0))) w = (Inr ks, w)"
    "run_state (wlr_ListHelmReleases r [(LabelWorkloadName, om_Name (wl_meta v0))]
        (om_Namespace (wl_meta v0))) w = (Inr hs, w)"
    "\<exists>h. wlr_NewHelper r v = Inr h"
    "wlr_NewHelper r v = Inr h \<Longrightarrow> stored w (wl_key v) = Some v \<Longrightarrow> only_conditions_changed v v' \<Longrightarrow>
      \<exists>w'. run_state (wlr_Patch r h v') w = (None, w') \<and> stored w' = (stored w)(wl_key v \<mapsto> v') \<and> view w' = view w"
    "keeps_view stored (wlr_CreateOrPatch r u f)"
  using assms unfolding steady_def by blast+

text \<open>The template stage of a workload in a world at rest.\<close>

lemma steady_template:
  assumes st: "steady stored view r v0 ownerCluster t ks hs" and ap: "applicable r v0 ownerCluster t vals"
    and L: "errlib_ok (wlr_errlib r)" and rel: "reliable u_key view (wlr_CreateOrPatch r)"
    and v: "only_conditions_changed v0 v"
  obtains w' where "run_state (apply_fields r v ownerCluster vals) w = (Completed, w')"
    and "run_state (reconcileWorkloadTemplate r v) w =
      ((MarkTrue (wlr_cond r) v WorkloadTemplateReconciledCondition ReadyReason '''' [],
        Returns (Result0, None)), w')"
proof -
  note same = only_conditions_changed_keeps [OF v]
  from ap have facts: "not_deleted (wl_meta v)" "wlt_Type t = WorkloadTemplateTypeCue"
    "wl_ClusterComponent v \<or> \<not> Cluster_IsFalse (wlr_cond r) ownerCluster ReadyCondition"
    by (simp_all add: applicable_def same)
  from ap obtain ref where ref: "wl_WorkloadTemplateRef v0 = Some ref" by (auto simp: applicable_def)
  from ap v obtain wd where wd: "wlr_Getwd r = Inr wd"
    "render_template (wlr_cue r) wd (wlt_Source t) ownerCluster v = Inr vals"
    unfolding applicable_def by blast
  from ap have "\<And>x. x \<in> set vals \<Longrightarrow> ValidateConcrete (wlr_cue r) x = None \<and>
      (\<exists>u. DecodeUnstructured (wlr_cue r) x = Inr u) \<and>
      (\<forall>z. \<exists>y. unstructured_mutate (wlr_cue r) (wlr_SetNestedMap r) v ownerCluster x z = Returns (Inr y))"
    unfolding applicable_def same_meta(1) [OF same(1)] by blast
  from apply_fields_completes [OF rel this] obtain w' where
    run: "run_state (apply_fields r v ownerCluster vals) w = (Completed, w')" by blast
  have "template_key v ref = template_key v0 ref"
    using same(1) by (simp add: template_key_def split: option.splits)
  then have tpl: "run_state (wlr_GetTemplate r (template_key v ref)) w = (Inr t, w)"
    using steadyD(3) [OF st ref] by simp
  have "IgnoreNotFound (wlr_errlib r) None = None" "\<not> IsNotFound (wlr_errlib r) None"
    using L by (auto simp: errlib_ok_def)
  with facts ref wd run tpl steadyD(2) [OF st v] same(2)
  have "run_state (reconcileWorkloadTemplate r v) w =
      ((MarkTrue (wlr_cond r) v WorkloadTemplateReconciledCondition ReadyReason '''' [],
        Returns (Result0, None)), w')"
    by (auto simp: reconcileWorkloadTemplate_def check_template_def apply_template_def)
  with that run show ?thesis by blast
qed

text \<open>Whether Flux is still working on an object of the workload.\<close>

definition flux_reconciling :: "'e condlib \<Rightarrow> Kustomization list \<Rightarrow> HelmRelease list \<Rightarrow> bool" where
  "flux_reconciling C ks hs \<longleftrightarrow>
     (\<exists>k \<in> set ks. Kustomization_IsReconciling C k) \<or> (\<exists>h \<in> set hs. HelmRelease_IsReconciling C h)"

definition reported :: "Workload \<Rightarrow> bool \<Rightarrow> bool" where
  "reported v reconciling \<longleftrightarrow>
     condition_status v WorkloadTemplateReconciledCondition = Some ConditionTrue \<and>
     condition_reason v WorkloadTemplateReconciledCondition = Some ReadyReason \<and>
     condition_status v ReconcilingCondition = (if reconciling then Some ConditionTrue else None) \<and>
     condition_status v ReadyCondition = Some (if reconciling then ConditionFalse else ConditionTrue)"

lemma steady_reconciling:
  assumes st: "steady stored view r v0 ownerCluster t ks hs" and C: "condlib_ok (wlr_cond r)"
    and v: "wl_meta v = wl_meta v0"
  obtains v' and working :: "string option" where "run_state (reconcileReconcilingCondition r v) w = ((v', Result0, None), w)"
    and "only_condition_changed ReconcilingCondition v v'"
    and "condition_status v' ReconcilingCondition = map_option (\<lambda>_. ConditionTrue) working"
    and "working = None \<longleftrightarrow> \<not> flux_reconciling (wlr_cond r) ks hs"
proof -
  note reads = steadyD(4,5) [OF st, of w, folded v]
  obtain v' res err w' where run': "run_state (reconcileReconcilingCondition r v) w = ((v', res, err), w')"
    by (metis prod.collapse)
  with reads have run: "run_state (reconcileReconcilingCondition r v) w = ((v', Result0, None), w)"
    by (auto simp: reconcileReconcilingCondition_def Let_def split: if_splits)
  moreover have "flux_working r v w = None \<longleftrightarrow> \<not> flux_reconciling (wlr_cond r) ks hs"
    using reads by (auto simp: flux_working_def flux_reconciling_def)
  ultimately show ?thesis using reconciling_status [OF C run] that [of v' "flux_working r v w"] by simp
qed

text \<open>One reconcile of a workload in a world at rest.\<close>

lemma steady_reconcile:
  assumes st: "steady stored view r v0 ownerCluster t ks hs" and ap: "applicable r v0 ownerCluster t vals"
    and L: "errlib_ok (wlr_errlib r)" and C: "condlib_ok (wlr_cond r)" and sum: "summary_ok (wlr_cond r)"
    and rel: "reliable u_key view (wlr_CreateOrPatch r)"
    and v: "only_conditions_changed v0 v" and here: "stored w (wl_key v0) = Some v"
  obtains v' w1 w' where "run_state (Workload_Reconcile r \<lparr>NamespacedName = wl_key v0\<rparr>) w = (Returns (Result0, None), w')"
    and "run_state (apply_fields r v ownerCluster vals) w = (Completed, w1)" and "view w' = view w1"
    and "stored w' (wl_key v0) = Some v'" and "only_conditions_changed v0 v'"
    and "reported v' (flux_reconciling (wlr_cond r) ks hs)"
proof -
  let ?m = "MarkTrue (wlr_cond r) v WorkloadTemplateReconciledCondition ReadyReason '''' []"
  from steady_template [OF st ap L rel v] obtain w1 where
    fields: "run_state (apply_fields r v ownerCluster vals) w = (Completed, w1)"
    and tpl: "run_state (reconcileWorkloadTemplate r v) w = ((?m, Returns (Result0, None)), w1)" .
  have m: "only_condition_changed WorkloadTemplateReconciledCondition v ?m"
    "condition_status ?m WorkloadTemplateReconciledCondition = Some ConditionTrue"
    "condition_reason ?m WorkloadTemplateReconciledCondition = Some ReadyReason"
    using C by (simp_all add: condlib_ok_def)
  have m0: "only_conditions_changed v0 ?m" by (rule only_conditions_changed_step [OF v m(1)]) simp
  from steady_reconciling [OF st C only_conditions_changed_keeps(1) [OF m0], of w1] obtain v2 and working :: "string option" where
    rc: "run_state (reconcileReconcilingCondition r ?m) w1 = ((v2, Result0, None), w1)"
    and v2: "only_condition_changed ReconcilingCondition ?m v2"
      "condition_status v2 ReconcilingCondition = map_option (\<lambda>_. ConditionTrue) working"
      "working = None \<longleftrightarrow> \<not> flux_reconciling (wlr_cond r) ks hs" .
  have stages: "run_state (workload_stages r v) w = ((v2, Returns (Result0, None)), w1)"
    by (simp add: workload_stages_def tpl rc)
  let ?s = "summarize (wlr_cond r) v2"
  have s: "only_condition_changed ReadyCondition v2 ?s"
    unfolding summarize_def by (rule condlib_changes(4) [OF C])
  have vs: "only_conditions_changed v ?s" by (rule workload_stages_changes [OF C stages])
  from steadyD(6) [OF st] obtain h where h: "wlr_NewHelper r v = Inr h" by blast
  have key: "wl_key v = wl_key v0" using only_conditions_changed_keeps(1) [OF v] by simp
  have "stored w1 = stored w"
    by (rule withinD [OF keeping.apply_fields_within, OF steadyD(8) [OF st, unfolded keeps_view_def] fields])
  with here key have "stored w1 (wl_key v) = Some v" by simp
  from steadyD(7) [OF st h this vs] obtain w' where
    patch: "run_state (wlr_Patch r h ?s) w1 = (None, w')" "stored w' = (stored w1)(wl_key v \<mapsto> ?s)" "view w' = view w1"
    by blast
  have get: "run_state (wlr_Get r (NamespacedName \<lparr>NamespacedName = wl_key v0\<rparr>)) w = (Inr v, w)"
    using steadyD(1) [OF st here] by simp
  from Workload_Reconcile_stages [OF get h stages patch(1)]
  have run: "run_state (Workload_Reconcile r \<lparr>NamespacedName = wl_key v0\<rparr>) w = (Returns (Result0, None), w')"
    by (simp add: deferred_result_def)
  have "reported ?s (flux_reconciling (wlr_cond r) ks hs)"
    using m v2 only_condition_changed_other [OF v2(1)] only_condition_changed_other [OF s]
      summarize_status [OF C sum _ v2(2), of True]
    by (auto simp: reported_def)
  moreover have "stored w' (wl_key v0) = Some ?s" using patch(2) key by simp
  moreover have "only_conditions_changed v0 ?s" by (rule only_conditions_changed_trans [OF v vs])
  ultimately show ?thesis using that run fields patch(3) by blast
qed

section \<open>Properties\<close>

text \<open>
  C8. A workload whose template can be applied becomes reconciled at its first reconcile and
  stays so. In a world at rest, with an API server that answers and a template that does not
  depend on the workload's conditions, every reconcile from the first on returns no error, so
  that none is retried; after the first one every rendered object is stored as desired, the
  workload reports that its template is reconciled, whether Flux is still working on it, and that
  it is ready exactly when Flux is done, and no later reconcile changes a rendered object again.
\<close>

theorem workload_becomes_reconciled:
  assumes ok: "create_or_patch_ok u_key view (wlr_CreateOrPatch r)"
    and rel: "reliable u_key view (wlr_CreateOrPatch r)"
    and snm: "set_nested_map_ok (wlr_SetNestedMap r)"
    and L: "errlib_ok (wlr_errlib r)" and C: "condlib_ok (wlr_cond r)" and sum: "summary_ok (wlr_cond r)"
    and st: "steady stored view r v0 ownerCluster t ks hs" and ap: "applicable r v0 ownerCluster t vals"
    and start: "stored w (wl_key v0) = Some v0"
    and step: "step = (\<lambda>w. snd (run_state (Workload_Reconcile r \<lparr>NamespacedName = wl_key v0\<rparr>) w))"
  shows "fst (run_state (Workload_Reconcile r \<lparr>NamespacedName = wl_key v0\<rparr>) ((step ^^ n) w)) =
      Returns (Result0, None) \<and>
    (\<exists>v. stored ((step ^^ Suc n) w) (wl_key v0) = Some v \<and> only_conditions_changed v0 v \<and>
      reported v (flux_reconciling (wlr_cond r) ks hs)) \<and>
    fields_applied (wlr_cue r) v0 ownerCluster vals (view ((step ^^ Suc n) w)) \<and>
    view ((step ^^ Suc n) w) = view (step w)"
proof -
  let ?run = "\<lambda>w. run_state (Workload_Reconcile r \<lparr>NamespacedName = wl_key v0\<rparr>) w"
  have one: "fst (?run u) = Returns (Result0, None) \<and>
      (\<exists>v'. stored (step u) (wl_key v0) = Some v' \<and> only_conditions_changed v0 v' \<and>
        reported v' (flux_reconciling (wlr_cond r) ks hs)) \<and>
      fields_applied (wlr_cue r) v0 ownerCluster vals (view (step u)) \<and>
      (fields_applied (wlr_cue r) v0 ownerCluster vals (view u) \<longrightarrow> view (step u) = view u)"
    if v: "only_conditions_changed v0 v" and here: "stored u (wl_key v0) = Some v" for u v
  proof -
    from steady_reconcile [OF st ap L C sum rel v here] obtain v' w1 w' where
      run: "?run u = (Returns (Result0, None), w')"
      and fields: "run_state (apply_fields r v ownerCluster vals) u = (Completed, w1)" "view w' = view w1"
      and v': "stored w' (wl_key v0) = Some v'" "only_conditions_changed v0 v'"
        "reported v' (flux_reconciling (wlr_cond r) ks hs)" .
    note meta = same_meta [OF only_conditions_changed_keeps(1) [OF v]]
    from ap have distinct: "distinct (map (field_key (wlr_cue r)) vals)" by (simp add: applicable_def)
    have "view w1 = view u" if a: "fields_applied (wlr_cue r) v0 ownerCluster vals (view u)"
      using fields_applied_distinct [OF a distinct]
      by (intro apply_fields_settled [OF ok snm fields(1)]) (simp add: meta(2))
    with run fields v' apply_fields_applied [OF ok snm fields(1)] show ?thesis
      by (simp add: step meta(3))
  qed
  show ?thesis
  proof (induction n)
    case 0
    from one [OF only_conditions_changed_refl start] show ?case by simp
  next
    case (Suc n)
    then obtain v where v: "stored ((step ^^ Suc n) w) (wl_key v0) = Some v" "only_conditions_changed v0 v"
      by blast
    from one [OF v(2,1)] Suc show ?case unfolding funpow.simps(2) comp_apply by metis
  qed
qed

text \<open>The example system is at rest, and its template can be applied.\<close>

lemma example_steady:
  "steady (\<lambda>w. m_Workloads (fst w)) snd (sys_workload example_system) example_workload example_cluster
     example_template [example_kustomization] []"
proof -
  have "keeps_view (\<lambda>w. m_Workloads (fst w)) (wlr_CreateOrPatch (sys_workload example_system) u f)" for u f
    by (auto simp: keeps_view_def within_def example_system_defs part_create_or_patch_def split: go.splits sum.splits)
  then show ?thesis
    by (auto simp: steady_def example_system_defs put_workload_def)
qed

lemma example_applicable:
  "applicable (sys_workload example_system) example_workload example_cluster example_template [1]"
proof -
  let ?r = "sys_workload example_system"
  have parts: "wlr_cue ?r = example_cue" "wlr_Getwd ?r = Inr ''/''" "wlr_cond ?r = example_condlib"
    "wlr_SetNestedMap ?r = store_set_nested_map"
    by (simp_all add: example_system_defs)
  have "render_template example_cue ''/'' ''ok'' example_cluster v = Inr [1]" for v
    by (simp add: render_template_def load_template_def example_cue_def example_lookup_def)
  moreover have "\<exists>y. unstructured_mutate example_cue store_set_nested_map example_workload example_cluster 1 x =
      Returns (Inr y)" for x
    by (simp add: unstructured_mutate_def example_cue_def store_set_nested_map_def example_lookup_def)
  moreover have "ValidateConcrete example_cue 1 = None" "\<exists>u. DecodeUnstructured example_cue 1 = Inr u"
    by (simp_all add: example_cue_def)
  moreover have "not_deleted (wl_meta example_workload)" "wl_WorkloadTemplateRef example_workload \<noteq> None"
    "wlt_Type example_template = WorkloadTemplateTypeCue" "wlt_Source example_template = ''ok''"
    by (simp_all add: example_workload_def not_deleted_def new_meta_def example_template_def)
  ultimately show ?thesis
    using example_cluster_ready by (simp add: applicable_def parts)
qed

theorem workload_becomes_reconciled_witness:
  "\<exists>w' v. run_state (Workload_Reconcile (sys_workload example_system) \<lparr>NamespacedName = wl_key example_workload\<rparr>)
       (example_objects [wl_key example_workload \<mapsto> example_workload], Map.empty) = (Returns (Result0, None), w') \<and>
     m_Workloads (fst w') (wl_key example_workload) = Some v \<and> reported v False \<and>
     fields_applied example_cue example_workload example_cluster [1] (snd w')"
proof -
  let ?r = "sys_workload example_system" and ?req = "\<lparr>NamespacedName = wl_key example_workload\<rparr>"
  let ?w = "(example_objects [wl_key example_workload \<mapsto> example_workload], Map.empty)"
  have hyps: "create_or_patch_ok u_key snd (wlr_CreateOrPatch ?r)" "reliable u_key snd (wlr_CreateOrPatch ?r)"
    "set_nested_map_ok (wlr_SetNestedMap ?r)" "errlib_ok (wlr_errlib ?r)" "condlib_ok (wlr_cond ?r)"
    "summary_ok (wlr_cond ?r)"
    by (auto simp: example_summary_ok example_system_defs create_or_patch_ok_def reliable_def part_create_or_patch_def
        store_set_nested_map_ok store_errlib_ok example_condlib_ok split: go.splits sum.splits)
  have start: "m_Workloads (fst ?w) (wl_key example_workload) = Some example_workload"
    by (simp add: example_objects_def)
  have "\<not> flux_reconciling (wlr_cond ?r) [example_kustomization] []" "wlr_cue ?r = example_cue"
    by (simp_all add: flux_reconciling_def example_system_defs example_condlib_def example_kustomization_def)
  with workload_becomes_reconciled [OF hyps example_steady example_applicable start refl, of 0]
  show ?thesis
    by (cases "run_state (Workload_Reconcile ?r ?req) ?w") auto
qed

end
