(* ===== verification/Panic_Freedom.thy ===== *)
theory Panic_Freedom
  imports Inventory_Events Worktree_Controller Workload_Properties
begin

text \<open>
  Where the reconcilers may panic. A panic of a reconciler takes the whole manager down, so
  this theory traces every panic of the five \<open>Reconcile\<close> methods to its cause.
\<close>

section \<open>Specification\<close>

text \<open>
  The spec of a rendered field holds a byte string inside a list, or an integer beyond \<open>int64\<close>
  anywhere.
\<close>

definition uncopyable_spec :: "('i, 'v, 'p, 'e) cue \<Rightarrow> 'v \<Rightarrow> bool" where
  "uncopyable_spec c v \<longleftrightarrow>
     (case DecodeMap c (LookupPath c v (ParsePath c ''spec'')) of
        Inl err \<Rightarrow> False
      | Inr m \<Rightarrow> \<not> lists_valid (GMap m) \<or> \<not> int64_only (GMap m))"

section \<open>Lemmas\<close>

lemma handler_panic_free:
  assumes "create_or_patch_ok (\<lambda>i. inv_key i) view cop"
  shows "run_state (Kustomization_reconcileWorkloadInventory cop k) w \<noteq> (Panics p, w')"
    "run_state (reconcileHelmRepositoryWorkloadInventory cop hr) w \<noteq> (Panics p, w')"
    "run_state (reconcileOCIRepositoryWorkloadInventory cop c) w \<noteq> (Panics p, w')"
  using kustomization_inv.handler_panics [OF assms] helmRepository_inv.handler_panics [OF assms]
    ociRepository_inv.handler_panics [OF assms] handler_mutates(1,3,4)
  by (metis go.distinct(1))+

lemma helmrelease_handler_panics:
  assumes "create_or_patch_ok (\<lambda>i. inv_key i) view cop"
    and "run_state (HelmRelease_reconcileWorkloadInventory cop h) w = (Panics p, w')"
  shows "has_inventory_labels (hr_meta h) \<and> hr_Chart h = None"
  using helmrelease_inv.handler_panics [OF assms] handler_mutates(2) by (metis go.distinct(1))

lemma gitRepository_panic_free:
  assumes "create_or_patch_ok (\<lambda>g. gr_key g) view cop" and "wt_URL wt \<noteq> None"
  shows "run_state (cop (new_GitRepository wt) (gitRepository_mutate wt)) w \<noteq> (Panics p, w')"
proof
  assume "run_state (cop (new_GitRepository wt) (gitRepository_mutate wt)) w = (Panics p, w')"
  from create_or_patch_panics [OF assms(1) this] assms(2) show False
    by (auto simp: gitRepository_mutate_eq)
qed

lemma SourceRepository_panic_free:
  assumes "create_or_patch_ok (\<lambda>i. inv_key i) view (srr_CreateOrPatch r)"
  shows "run_state (SourceRepository_Reconcile r req) w \<noteq> (Panics p, w')"
proof -
  have "run_state (SourceRepository_Reconcile_oci r req) w \<noteq> (Panics p, w')" for w
    using handler_panic_free(3) [OF assms]
    by (auto simp: SourceRepository_Reconcile_oci_def split: prod.splits sum.splits if_splits go.splits)
  then show ?thesis
    using handler_panic_free(2) [OF assms]
    by (auto simp: SourceRepository_Reconcile_def split: prod.splits sum.splits if_splits go.splits)
qed

lemma unstructured_mutate_panics:
  assumes "set_nested_map_panics_ok snm" and "unstructured_mutate c snm workload ownerCluster v u = Panics p"
  shows "uncopyable_spec c v"
proof -
  from assms(2) obtain m where m: "DecodeMap c (LookupPath c v (ParsePath c ''spec'')) = Inr m"
    and "snm (u_Fields u) (ensureValidJSON m) ''spec'' = Panics p"
    by (auto simp: unstructured_mutate_def Let_def split: if_splits sum.splits go.splits)
  with assms(1) have "\<not> deep_copyable (GMap (ensureValidJSON m))"
    unfolding set_nested_map_panics_ok_def by blast
  with m deep_copyable_ensure [of m] show ?thesis by (simp add: uncopyable_spec_def)
qed

lemma apply_fields_panics:
  assumes ok: "create_or_patch_ok u_key view (wlr_CreateOrPatch r)"
    and "run_state (apply_fields r workload ownerCluster vals) w = (Panicked p, w')"
  shows "\<exists>v \<in> set vals. \<exists>u. unstructured_mutate (wlr_cue r) (wlr_SetNestedMap r) workload ownerCluster v u = Panics p"
  using assms(2)
proof (induction vals arbitrary: w)
  case (Cons v vs)
  show ?case
  proof (cases "fst (run_state (apply_field r workload ownerCluster v) w)")
    case (Panicked q)
    with Cons.prems have "run_state (apply_field r workload ownerCluster v) w = (Panicked p, w')"
      by (auto split: prod.splits loop.splits)
    then show ?thesis
      using create_or_patch_panics [OF ok]
      by (auto simp: apply_field_def split: option.splits sum.splits prod.splits go.splits)
  qed (use Cons in \<open>auto split: prod.splits\<close>)
qed simp

lemma Workload_panics:
  assumes ok: "create_or_patch_ok u_key view (wlr_CreateOrPatch r)"
    and snm: "set_nested_map_panics_ok (wlr_SetNestedMap r)"
    and run: "run_state (reconcileWorkloadTemplate r workload) w = ((workload', Panics p), w')"
  shows "\<exists>wd (t :: WorkloadTemplate) ownerCluster vals. wlr_Getwd r = Inr wd \<and>
    render_template (wlr_cue r) wd (wlt_Source t) ownerCluster workload = Inr vals \<and>
    (\<exists>v \<in> set vals. uncopyable_spec (wlr_cue r) v)"
  using run
proof (cases rule: reconcileWorkloadTemplate_cases)
  case (checked ownerCluster ref w1 w2 got)
  from checked(5) show ?thesis
  proof (cases rule: check_template_cases)
    case (usable t)
    then obtain wd vals where vals: "wlr_Getwd r = Inr wd"
        "render_template (wlr_cue r) wd (wlt_Source t) ownerCluster workload = Inr vals"
      and "run_state (apply_fields r workload ownerCluster vals) w2 = (Panicked p, w')"
      by (auto simp: apply_template_def give_up_def split: sum.splits prod.splits loop.splits)
    from apply_fields_panics [OF ok this(3)] obtain v u where "v \<in> set vals"
      "unstructured_mutate (wlr_cue r) (wlr_SetNestedMap r) workload ownerCluster v u = Panics p" by blast
    with unstructured_mutate_panics [OF snm] have "\<exists>v \<in> set vals. uncopyable_spec (wlr_cue r) v" by metis
    with vals show ?thesis by blast
  qed simp_all
qed simp

section \<open>Properties\<close>

text \<open>
  C18. The reconcilers panic in two situations only. With \<open>CreateOrPatch\<close> panicking only when its
  mutate function does, and \<open>SetNestedMap\<close> only on values its deep copy does not know, the worktree,
  kustomization and source repository reconcilers never panic; the helm release reconciler
  panics only for a labelled, live release without an inline chart; the workload reconciler
  only when a rendered spec holds a byte string inside a list or, at any place, an integer
  that is no \<open>int64\<close> (one beyond 64 bits is a \<open>*big.Int\<close>). In particular no reconciler
  ever writes to a nil map or dereferences a missing URL.
\<close>

theorem reconcilers_panic_only:
  assumes "create_or_patch_ok (\<lambda>g. gr_key g) view1 (wtr_CreateOrPatch r1)"
    and "create_or_patch_ok (\<lambda>i. inv_key i) view2 (kr_CreateOrPatch r2)"
    and "create_or_patch_ok (\<lambda>i. inv_key i) view3 (srr_CreateOrPatch r3)"
    and "create_or_patch_ok (\<lambda>i. inv_key i) view4 (hrr_CreateOrPatch r4)"
    and "create_or_patch_ok u_key view5 (wlr_CreateOrPatch r5)"
    and "set_nested_map_panics_ok (wlr_SetNestedMap r5)"
  shows "run_state (Worktree_Reconcile r1 req) w1 \<noteq> (Panics p, w1') \<and>
    run_state (Kustomization_Reconcile r2 req) w2 \<noteq> (Panics p, w2') \<and>
    run_state (SourceRepository_Reconcile r3 req) w3 \<noteq> (Panics p, w3') \<and>
    (run_state (HelmRelease_Reconcile r4 req) w4 = (Panics p, w4') \<longrightarrow>
      (\<exists>h w. run_state (hrr_Get r4 (NamespacedName req)) w4 = (Inr h, w) \<and>
        not_deleted (hr_meta h) \<and> has_inventory_labels (hr_meta h) \<and> hr_Chart h = None)) \<and>
    (run_state (Workload_Reconcile r5 req) w5 = (Panics p, w5') \<longrightarrow>
      (\<exists>workload w wd (t :: WorkloadTemplate) ownerCluster vals.
        run_state (wlr_Get r5 (NamespacedName req)) w5 = (Inr workload, w) \<and> wlr_Getwd r5 = Inr wd \<and>
        render_template (wlr_cue r5) wd (wlt_Source t) ownerCluster workload = Inr vals \<and>
        (\<exists>v \<in> set vals. uncopyable_spec (wlr_cue r5) v)))"
proof (intro conjI impI)
  show "run_state (Worktree_Reconcile r1 req) w1 \<noteq> (Panics p, w1')"
    using gitRepository_panic_free [OF assms(1)]
    by (auto simp: Worktree_Reconcile_def split: prod.splits sum.splits if_splits go.splits)
  show "run_state (Kustomization_Reconcile r2 req) w2 \<noteq> (Panics p, w2')"
    using handler_panic_free(1) [OF assms(2)]
    by (auto simp: Kustomization_Reconcile_def deferred_result_def
        split: prod.splits sum.splits if_splits go.splits option.splits)
  show "run_state (SourceRepository_Reconcile r3 req) w3 \<noteq> (Panics p, w3')"
    by (rule SourceRepository_panic_free [OF assms(3)])
next
  assume "run_state (HelmRelease_Reconcile r4 req) w4 = (Panics p, w4')"
  then show "\<exists>h w. run_state (hrr_Get r4 (NamespacedName req)) w4 = (Inr h, w) \<and>
      not_deleted (hr_meta h) \<and> has_inventory_labels (hr_meta h) \<and> hr_Chart h = None"
    by (auto simp: HelmRelease_Reconcile_def dest: helmrelease_handler_panics [OF assms(4)]
        split: prod.splits sum.splits if_splits go.splits)
next
  assume "run_state (Workload_Reconcile r5 req) w5 = (Panics p, w5')"
  then obtain v v' w w' where get: "run_state (wlr_Get r5 (NamespacedName req)) w5 = (Inr v, w)"
    and "run_state (workload_stages r5 v) w = ((v', Panics p), w')"
    by (auto simp: Workload_Reconcile_def deferred_result_def split: prod.splits sum.splits go.splits option.splits)
  then obtain u u' where "run_state (reconcileWorkloadTemplate r5 v) w = ((u, Panics p), u')"
    by (auto simp: workload_stages_def split: prod.splits go.splits if_splits)
  from Workload_panics [OF assms(5,6) this] get
  show "\<exists>workload w wd (t :: WorkloadTemplate) ownerCluster vals.
        run_state (wlr_Get r5 (NamespacedName req)) w5 = (Inr workload, w) \<and> wlr_Getwd r5 = Inr wd \<and>
        render_template (wlr_cue r5) wd (wlt_Source t) ownerCluster workload = Inr vals \<and>
        (\<exists>v \<in> set vals. uncopyable_spec (wlr_cue r5) v)" by blast
qed

theorem reconcilers_panic_only_witness:
  "\<forall>p w' w''. run_state (Worktree_Reconcile example_worktree_reconciler example_kustomization_request) Map.empty \<noteq> (Panics p, w') \<and>
    run_state (Kustomization_Reconcile (example_kustomization_reconciler example_kustomization (Inl ''NotFound''))
      example_kustomization_request) Map.empty \<noteq> (Panics p, w'')"
proof (intro allI)
  fix p w' w''
  have "create_or_patch_ok (\<lambda>g. gr_key g) (\<lambda>w. w) (wtr_CreateOrPatch example_worktree_reconciler)"
    "create_or_patch_ok (\<lambda>i. inv_key i) (\<lambda>w. w)
      (kr_CreateOrPatch (example_kustomization_reconciler example_kustomization (Inl ''NotFound'')))"
    "create_or_patch_ok (\<lambda>i. inv_key i) (\<lambda>w. w) (srr_CreateOrPatch example_source_reconciler)"
    "create_or_patch_ok (\<lambda>i. inv_key i) (\<lambda>w. w)
      (hrr_CreateOrPatch (example_helmrelease_reconciler example_helmrelease (store_create_or_patch (\<lambda>i. inv_key i))))"
    "create_or_patch_ok u_key (\<lambda>w. w) (wlr_CreateOrPatch (example_workload_reconciler (Inr example_template)))"
    "set_nested_map_panics_ok (wlr_SetNestedMap (example_workload_reconciler (Inr example_template)))"
    by (simp_all add: example_worktree_reconciler_def example_kustomization_reconciler_def
        example_source_reconciler_def example_helmrelease_reconciler_def example_workload_reconciler_def
        store_create_or_patch_ok set_nested_map_panics_ok_def store_set_nested_map_def)
  from reconcilers_panic_only [OF this]
  show "run_state (Worktree_Reconcile example_worktree_reconciler example_kustomization_request) Map.empty \<noteq> (Panics p, w') \<and>
    run_state (Kustomization_Reconcile (example_kustomization_reconciler example_kustomization (Inl ''NotFound''))
      example_kustomization_request) Map.empty \<noteq> (Panics p, w'')" by blast
qed

end
