(* ===== verification/WorkloadTemplate_Webhook.thy ===== *)
theory WorkloadTemplate_Webhook
  imports Admission
begin

text \<open>
  \<open>webhooks/workloadtemplate_webhook.go\<close>: a workload template is admitted when every instance of
  its source loads, builds, and defines \<open>#cluster\<close> and \<open>#workload\<close>.
\<close>

section \<open>Operations\<close>

text \<open>
  The struct has no fields; the record holds what its methods take from the environment: the
  working directory and the CUE libraries.
\<close>

record ('i, 'v, 'p, 'e) DockyardsWorkloadTemplate =
  twh_Getwd :: "'e + string"
  twh_cue :: "('i, 'v, 'p, 'e) cue"

abbreviation source_path :: field_path where
  "source_path \<equiv> [''spec'', ''source'']"

text \<open>The field error of one CUE error: the line of the source at its position, and its message.\<close>

definition cue_error_invalid :: "('i, 'v, 'p, 'e) cue \<Rightarrow> string \<Rightarrow> 'e \<Rightarrow> string + 'e field_error" where
  [handler_defs]: "cue_error_invalid c source cueerr =
     (case reader_Seek source (Position_Offset c cueerr) of
        Inl err \<Rightarrow> Inl err
      | Inr rest \<Rightarrow>
          Inr (FieldInvalid source_path (scanner_first_line rest) (Error_String c cueerr)))"

text \<open>The inner loop, over the individual errors of a value that did not build.\<close>

fun cue_errors_invalid ::
  "('i, 'v, 'p, 'e) cue \<Rightarrow> string \<Rightarrow> 'e field_error list \<Rightarrow> 'e list \<Rightarrow> string + 'e field_error list" where
  "cue_errors_invalid c source errorList [] = Inr errorList"
| "cue_errors_invalid c source errorList (cueerr # cueerrs) =
     (case cue_error_invalid c source cueerr of
        Inl err \<Rightarrow> Inl err
      | Inr invalid \<Rightarrow> cue_errors_invalid c source (errorList @ [invalid]) cueerrs)"

text \<open>The outer loop, over the instances; an instance with errors ends it.\<close>

fun validate_instances ::
  "('i, 'v, 'p, 'e) cue \<Rightarrow> string \<Rightarrow> 'e field_error list \<Rightarrow> 'i list \<Rightarrow> string + 'e field_error list" where
  "validate_instances c source errorList [] = Inr errorList"
| "validate_instances c source errorList (inst # instances) =
     (case Instance_Err c inst of
        Some err \<Rightarrow>
          (case cue_error_invalid c source err of
             Inl e \<Rightarrow> Inl e
           | Inr invalid \<Rightarrow> Inr (errorList @ [invalid]))
      | None \<Rightarrow>
          (let v = BuildInstance c inst in
           case Value_Err c v of
             Some err \<Rightarrow> cue_errors_invalid c source errorList (Errors c err)
           | None \<Rightarrow>
               (let x = LookupPath c v (Def c ''cluster'');
                    errorList1 =
                      (if \<not> Exists c x
                       then errorList @ [FieldRequired (source_path @ [''#cluster'']) ''must have cluster definition'']
                       else errorList);
                    x' = LookupPath c v (Def c ''workload'');
                    errorList2 =
                      (if \<not> Exists c x'
                       then errorList1 @ [FieldRequired (source_path @ [''#workload'']) ''must have workload definition'']
                       else errorList1)
                in validate_instances c source errorList2 instances)))"

definition WorkloadTemplate_validate ::
  "('i, 'v, 'p, 'e) DockyardsWorkloadTemplate \<Rightarrow> WorkloadTemplate \<Rightarrow> 'e admission_error option" where
  [handler_defs]: "WorkloadTemplate_validate h workloadTemplate =
     (case twh_Getwd h of
        Inl err \<Rightarrow> Some (PlainError err)
      | Inr wd \<Rightarrow>
          (case validate_instances (twh_cue h) (wlt_Source workloadTemplate) []
                  (load_template (twh_cue h) wd (wlt_Source workloadTemplate)) of
             Inl err \<Rightarrow> Some (SeekFailed err)
           | Inr errorList \<Rightarrow>
               if length errorList \<noteq> 0
               then Some (InvalidObject WorkloadTemplateKind (om_Name (wlt_meta workloadTemplate)) errorList)
               else None))"

definition WorkloadTemplate_ValidateCreate ::
  "('i, 'v, 'p, 'e) DockyardsWorkloadTemplate \<Rightarrow> api_object \<Rightarrow> 'e admission" where
  [handler_defs]: "WorkloadTemplate_ValidateCreate h obj =
     (case obj of
        OWorkloadTemplate workloadTemplate \<Rightarrow> Returns ([], WorkloadTemplate_validate h workloadTemplate)
      | _ \<Rightarrow> Returns ([], Some (BadRequest ''unexpected type'')))"

definition WorkloadTemplate_ValidateUpdate ::
  "('i, 'v, 'p, 'e) DockyardsWorkloadTemplate \<Rightarrow> api_object \<Rightarrow> api_object \<Rightarrow> 'e admission" where
  [handler_defs]: "WorkloadTemplate_ValidateUpdate h oldObj newObj =
     (case newObj of
        OWorkloadTemplate workloadTemplate \<Rightarrow> Returns ([], WorkloadTemplate_validate h workloadTemplate)
      | _ \<Rightarrow> Returns ([], Some (BadRequest ''unexpected type'')))"

definition WorkloadTemplate_ValidateDelete ::
  "('i, 'v, 'p, 'e) DockyardsWorkloadTemplate \<Rightarrow> api_object \<Rightarrow> 'e admission" where
  [handler_defs]: "WorkloadTemplate_ValidateDelete h obj = Returns ([], None)"

section \<open>Specification\<close>

definition instance_ok :: "('i, 'v, 'p, 'e) cue \<Rightarrow> 'i \<Rightarrow> bool" where
  "instance_ok c inst \<longleftrightarrow>
     Instance_Err c inst = None \<and>
     Value_Err c (BuildInstance c inst) = None \<and>
     Exists c (LookupPath c (BuildInstance c inst) (Def c ''cluster'')) \<and>
     Exists c (LookupPath c (BuildInstance c inst) (Def c ''workload''))"

definition template_ok :: "('i, 'v, 'p, 'e) DockyardsWorkloadTemplate \<Rightarrow> WorkloadTemplate \<Rightarrow> bool" where
  "template_ok h t \<longleftrightarrow>
     (\<exists>wd. twh_Getwd h = Inr wd \<and>
       (\<forall>inst \<in> set (load_template (twh_cue h) wd (wlt_Source t)). instance_ok (twh_cue h) inst))"

definition is_workload_template :: "api_object \<Rightarrow> bool" where
  "is_workload_template obj \<longleftrightarrow> (\<exists>t. obj = OWorkloadTemplate t)"

section \<open>Lemmas\<close>

lemma cue_errors_invalid_grows:
  "cue_errors_invalid c source es errs = Inr es' \<Longrightarrow> length es' = length es + length errs"
  by (induction c source es errs rule: cue_errors_invalid.induct) (auto split: sum.splits)

lemma validate_instances_empty:
  assumes "\<And>e. Errors c e \<noteq> []"
  shows "validate_instances c source es insts = Inr [] \<longleftrightarrow> es = [] \<and> (\<forall>i \<in> set insts. instance_ok c i)"
proof (induction insts arbitrary: es)
  case (Cons inst insts)
  have nonempty: "cue_errors_invalid c source es (Errors c e) \<noteq> Inr []" for e
    using cue_errors_invalid_grows [of c source es "Errors c e" "[]"] assms [of e] by auto
  show ?case
  proof (cases "Instance_Err c inst")
    case None
    show ?thesis
    proof (cases "Value_Err c (BuildInstance c inst)")
      case (Some e)
      with None nonempty show ?thesis by (simp add: instance_ok_def)
    next
      case built: None
      with None Cons.IH show ?thesis by (auto simp: instance_ok_def Let_def)
    qed
  qed (auto simp: instance_ok_def split: sum.splits)
qed simp

lemma WorkloadTemplate_validate_ok:
  assumes "cue_ok (twh_cue h)"
  shows "WorkloadTemplate_validate h t = None \<longleftrightarrow> template_ok h t"
proof -
  have "Errors (twh_cue h) e \<noteq> []" for e using assms by (simp add: cue_ok_def)
  note accepted = validate_instances_empty [OF this]
  have "WorkloadTemplate_validate h t = None \<longleftrightarrow>
      (\<exists>wd. twh_Getwd h = Inr wd \<and> validate_instances (twh_cue h) (wlt_Source t) []
        (load_template (twh_cue h) wd (wlt_Source t)) = Inr [])"
    by (auto simp: WorkloadTemplate_validate_def split: sum.splits)
  also have "\<dots> \<longleftrightarrow> template_ok h t" unfolding accepted template_ok_def by simp
  finally show ?thesis .
qed

interpretation wlt_webhook: admission_validator
  WorkloadTemplate_ValidateCreate WorkloadTemplate_ValidateUpdate WorkloadTemplate_ValidateDelete
  is_workload_template
  by unfold_locales
    (auto simp: WorkloadTemplate_ValidateCreate_def WorkloadTemplate_ValidateUpdate_def
      WorkloadTemplate_ValidateDelete_def is_workload_template_def split: api_object.splits)

section \<open>Properties\<close>

definition example_template_webhook :: "(string, nat, string, string) DockyardsWorkloadTemplate" where
  "example_template_webhook = \<lparr>twh_Getwd = Inr ''/'', twh_cue = example_cue\<rparr>"

definition example_template_with :: "string \<Rightarrow> WorkloadTemplate" where
  "example_template_with source =
     \<lparr>wlt_meta = new_meta ''t1'' ''ns'', wlt_Source = source, wlt_Type = WorkloadTemplateTypeCue\<rparr>"

text \<open>
  C12. The template webhook admits exactly the good templates, on creation and on update alike: a
  template is admitted if and only if the working directory is known and every instance of its
  source loads, builds, and defines \<open>#cluster\<close> and \<open>#workload\<close>. Every way to fail is reported
  as an error, also when the position of a CUE error lies outside of the source.
\<close>

theorem template_admitted_iff:
  assumes "cue_ok (twh_cue h)"
  shows "(admitted (WorkloadTemplate_ValidateCreate h (OWorkloadTemplate t)) \<longleftrightarrow> template_ok h t) \<and>
    (admitted (WorkloadTemplate_ValidateUpdate h old (OWorkloadTemplate t)) \<longleftrightarrow> template_ok h t)"
  using WorkloadTemplate_validate_ok [OF assms]
  by (simp add: WorkloadTemplate_ValidateCreate_def WorkloadTemplate_ValidateUpdate_def)

theorem template_admitted_iff_witness:
  "admitted (WorkloadTemplate_ValidateCreate example_template_webhook
      (OWorkloadTemplate (example_template_with ''ok''))) \<and>
   \<not> admitted (WorkloadTemplate_ValidateUpdate example_template_webhook
      (OWorkloadTemplate (example_template_with ''ok'')) (OWorkloadTemplate (example_template_with ''broken'')))"
proof -
  have "cue_ok (twh_cue example_template_webhook)"
    by (simp add: example_template_webhook_def example_cue_ok)
  moreover have "template_ok example_template_webhook (example_template_with ''ok'')"
    "\<not> template_ok example_template_webhook (example_template_with ''broken'')"
    by (simp_all add: template_ok_def example_template_webhook_def example_template_with_def load_template_def
        instance_ok_def example_cue_def example_lookup_def)
  ultimately show ?thesis
    using template_admitted_iff [of example_template_webhook] by blast
qed

text \<open>
  Missing definitions are named. When the source is one instance that loads and builds, the
  answer lists one required-field error for \<open>#cluster\<close> if it is missing, then one for \<open>#workload\<close>
  if it is missing, under the template's name, and nothing else.
\<close>

lemma template_missing_definitions:
  assumes wd: "twh_Getwd h = Inr wd"
    and one: "load_template (twh_cue h) wd (wlt_Source t) = [inst]"
    and built: "Instance_Err (twh_cue h) inst = None" "Value_Err (twh_cue h) (BuildInstance (twh_cue h) inst) = None"
    and missing: "\<And>d. missing d \<longleftrightarrow> \<not> Exists (twh_cue h) (LookupPath (twh_cue h) (BuildInstance (twh_cue h) inst)
        (Def (twh_cue h) d))"
  shows "WorkloadTemplate_validate h t =
    (let errs =
       (if missing ''cluster'' then [FieldRequired [''spec'', ''source'', ''#cluster''] ''must have cluster definition''] else []) @
       (if missing ''workload'' then [FieldRequired [''spec'', ''source'', ''#workload''] ''must have workload definition''] else [])
     in if errs = [] then None else Some (InvalidObject ''WorkloadTemplate'' (om_Name (wlt_meta t)) errs))"
  using assms by (simp add: WorkloadTemplate_validate_def WorkloadTemplateKind_def)



end
