(* ===== verification/Ingress_Util.thy ===== *)
theory Ingress_Util
  imports Go_Std
begin

text \<open>
  \<open>pkg/ingressutil/ingressutil.go\<close>: the URLs an ingress is reachable at.
\<close>

section \<open>Data\<close>

record LoadBalancerIngress =
  lbi_IP :: string
  lbi_Hostname :: string

record IngressTLS =
  tls_Hosts :: "string list"
  tls_SecretName :: string

record IngressRule =
  rule_Host :: string

record Ingress =
  ing_TLS :: "IngressTLS list"
  ing_Rules :: "IngressRule list"
  ing_LoadBalancer :: "LoadBalancerIngress list"

section \<open>Operations\<close>

definition GetURLsFromIngress :: "Ingress \<Rightarrow> string list" where
  "GetURLsFromIngress ingress =
     (let urls = []
      in if length (ing_LoadBalancer ingress) = 0 then urls
         else
           let urls =
             foldl (\<lambda>urls tls.
               foldl (\<lambda>urls host. urls @ [URL_String \<lparr>url_Scheme = ''https'', url_Host = host\<rparr>])
                 urls (tls_Hosts tls))
               urls (ing_TLS ingress)
           in if length urls > 0 then urls
              else
                foldl (\<lambda>urls rule. urls @ [URL_String \<lparr>url_Scheme = ''http'', url_Host = rule_Host rule\<rparr>])
                  urls (ing_Rules ingress))"

section \<open>Specification\<close>

text \<open>Where an ingress is exposed: the TLS hosts over https, or else the rules' hosts over http.\<close>

definition tls_hosts :: "Ingress \<Rightarrow> string list" where
  "tls_hosts ingress = concat (map tls_Hosts (ing_TLS ingress))"

definition exposure :: "Ingress \<Rightarrow> string \<times> string list" where
  "exposure ingress =
     (if tls_hosts ingress \<noteq> [] then (''https'', tls_hosts ingress)
      else (''http'', map rule_Host (ing_Rules ingress)))"

definition exposed_urls :: "string \<times> string list \<Rightarrow> string list" where
  "exposed_urls e = map (\<lambda>h. URL_String \<lparr>url_Scheme = fst e, url_Host = h\<rparr>) (snd e)"

section \<open>Lemmas\<close>

lemma foldl_snoc: "foldl (\<lambda>xs y. xs @ [f y]) acc ys = acc @ map f ys"
  by (induction ys arbitrary: acc) simp_all

lemma foldl_append: "foldl (\<lambda>xs y. xs @ g y) acc ys = acc @ concat (map g ys)"
  by (induction ys arbitrary: acc) simp_all

lemma URL_String_scheme:
  "URL_String \<lparr>url_Scheme = ''https'', url_Host = h\<rparr> \<noteq> URL_String \<lparr>url_Scheme = ''http'', url_Host = h'\<rparr>"
  by (simp add: URL_String_def)

lemma exposed_urls_inj:
  assumes "exposed_urls (s, hs) = exposed_urls (s, hs')"
  shows "hs = hs'"
  using assms URL_String_inj [of s]
  by (auto simp: exposed_urls_def intro: map_injective [of "\<lambda>h. URL_String \<lparr>url_Scheme = s, url_Host = h\<rparr>"]
      simp: inj_def)

section \<open>Properties\<close>

lemma GetURLsFromIngress_eq:
  "GetURLsFromIngress ingress =
     (if ing_LoadBalancer ingress = [] then [] else exposed_urls (exposure ingress))"
  by (simp add: GetURLsFromIngress_def exposure_def exposed_urls_def tls_hosts_def foldl_snoc foldl_append
      map_concat comp_def)

text \<open>
  C35. The URLs of an ingress are exactly its exposure, in order: none before a load balancer
  serves it, otherwise every TLS host over https, and only when there is no TLS host every
  rule's host over http; the two schemes are never mixed.
\<close>

theorem GetURLsFromIngress_exposure:
  "GetURLsFromIngress ingress =
     (if ing_LoadBalancer ingress = [] then [] else exposed_urls (exposure ingress))"
  by (rule GetURLsFromIngress_eq)

text \<open>
  No host is lost or confused with another: two served ingresses that give the same URLs,
  at least one, are exposed at the same hosts with the same scheme. Percent encoding of the
  host keeps different hosts apart.
\<close>

lemma GetURLsFromIngress_faithful:
  assumes "ing_LoadBalancer i \<noteq> []" and "ing_LoadBalancer j \<noteq> []"
    and "GetURLsFromIngress i = GetURLsFromIngress j" and "GetURLsFromIngress i \<noteq> []"
  shows "exposure i = exposure j"
proof -
  have eq: "exposed_urls (exposure i) = exposed_urls (exposure j)" "exposed_urls (exposure i) \<noteq> []"
    using assms by (simp_all add: GetURLsFromIngress_eq)
  obtain s hs where i: "exposure i = (s, hs)" by (cases "exposure i")
  obtain t gs where j: "exposure j = (t, gs)" by (cases "exposure j")
  have schemes: "s \<in> {''http'', ''https''}" "t \<in> {''http'', ''https''}"
    using i j by (auto simp: exposure_def split: if_splits)
  from eq i obtain h hs' where h: "hs = h # hs'" by (cases hs) (auto simp: exposed_urls_def)
  with eq i j obtain g gs' where g: "gs = g # gs'" by (cases gs) (auto simp: exposed_urls_def)
  from eq(1) i j h g have "URL_String \<lparr>url_Scheme = s, url_Host = h\<rparr> = URL_String \<lparr>url_Scheme = t, url_Host = g\<rparr>"
    by (simp add: exposed_urls_def)
  with schemes URL_String_scheme have "s = t" by (auto dest: sym)
  with eq(1) i j exposed_urls_inj show ?thesis by simp
qed

end
