(* ===== verification/Create_Workload_Template.thy ===== *)
theory Create_Workload_Template
  imports Cue_Lang
begin

text \<open>
  \<open>cmd/create-workload-template/main.go\<close>: the command that formats a CUE file and stores it as a
  \<open>WorkloadTemplate\<close> named after the file.
\<close>

section \<open>Operations\<close>

text \<open>
  The environment of the command: the client configuration, the client, the CUE parser (\<open>'f\<close> is a
  syntax tree) and formatter (called with spaces, width 2, simplified).
\<close>

record ('w, 'e, 'f) create_template_env =
  cte_GetConfig :: "'e option"
  cte_NewClient :: "'e option"
  cte_ParseFile :: "string \<Rightarrow> 'e + 'f"
  cte_FormatNode :: "'f \<Rightarrow> 'e + string"
  cte_CreateOrPatch :: "('w, 'e, WorkloadTemplate) create_or_patch"

text \<open>How the process ends: its status and the one line it prints.\<close>

datatype 'e printed = PrintedError 'e | PrintedResult OperationResult

record 'e process_end =
  exit_Status :: nat
  exit_Printed :: "'e printed"

definition exit_1 :: "'e \<Rightarrow> 'e process_end go" where
  "exit_1 err = Returns \<lparr>exit_Status = 1, exit_Printed = PrintedError err\<rparr>"

definition template_name :: "string \<Rightarrow> string" where
  "template_name filename = strings_TrimSuffix (filepath_Base filename) ''.cue''"

definition workloadTemplate_mutate :: "string \<Rightarrow> ('e, WorkloadTemplate) mutate_fn" where
  [mutate_defs]: "workloadTemplate_mutate b workloadTemplate =
     Returns (Inr (workloadTemplate\<lparr>wlt_Type := WorkloadTemplateTypeCue, wlt_Source := b\<rparr>))"

definition create_workload_template_main ::
  "('w, 'e, 'f) create_template_env \<Rightarrow> string \<Rightarrow> string \<Rightarrow> ('w, 'e process_end go) state" where
  [handler_defs]: "create_workload_template_main env filename namespace =
     (case cte_GetConfig env of
        Some err \<Rightarrow> ret (exit_1 err)
      | None \<Rightarrow>
     (case cte_NewClient env of
        Some err \<Rightarrow> ret (exit_1 err)
      | None \<Rightarrow>
     (let name = template_name filename in
      case cte_ParseFile env filename of
        Inl err \<Rightarrow> ret (exit_1 err)
      | Inr file \<Rightarrow>
     (case cte_FormatNode env file of
        Inl err \<Rightarrow> ret (exit_1 err)
      | Inr b \<Rightarrow> do {
          res \<leftarrow> cte_CreateOrPatch env
                   \<lparr>wlt_meta = new_meta name namespace, wlt_Source = '''', wlt_Type = ''''\<rparr>
                   (workloadTemplate_mutate b);
          ret (case res of
                 Panics p \<Rightarrow> Panics p
               | Returns (Inl err) \<Rightarrow> exit_1 err
               | Returns (Inr operationResult) \<Rightarrow>
                   Returns \<lparr>exit_Status = 0, exit_Printed = PrintedResult operationResult\<rparr>)
        }))))"

text \<open>The flags and their defaults, and the whole command.\<close>

definition create_workload_template ::
  "('w, 'e, 'f) create_template_env \<Rightarrow> pflags \<Rightarrow> ('w, 'e process_end go) state" where
  [handler_defs]: "create_workload_template env args =
     (let filename = StringVar args ''filename'' ''test.cue'';
          namespace = StringVar args ''namespace'' ''dockyards''
      in create_workload_template_main env filename namespace)"

section \<open>Lemmas\<close>

abbreviation wlt_key :: "WorkloadTemplate \<Rightarrow> ObjectKey" where
  "wlt_key t \<equiv> meta_key (wlt_meta t)"

interpretation template_mutator: total_mutator "\<lambda>t. wlt_key t" "workloadTemplate_mutate b"
  "\<lambda>t. wlt_Type t = WorkloadTemplateTypeCue \<and> wlt_Source t = b" for b
  by unfold_locales (auto simp: mutate_defs)

section \<open>Properties\<close>

text \<open>
  The template is named after its file: whatever the directory, the file \<open>b.cue\<close> gives the
  template \<open>b\<close>.
\<close>

lemma template_name_of_path:
  assumes "CHR ''/'' \<notin> set b" and "dir = '''' \<or> last dir = CHR ''/''"
  shows "template_name (dir @ b @ ''.cue'') = b"
proof -
  have "filepath_Base (dir @ b @ ''.cue'') = b @ ''.cue''"
    using assms by (intro filepath_Base_file) auto
  then show ?thesis by (simp add: template_name_def)
qed

lemma create_template_main_stored:
  assumes ok: "create_or_patch_ok (\<lambda>t. wlt_key t) view (cte_CreateOrPatch env)"
    and run: "run_state (create_workload_template_main env filename namespace) w = (out, w')"
  shows "\<exists>e. out = Returns e \<and>
    (exit_Status e = 0 \<longrightarrow>
      (\<exists>ast b t. cte_ParseFile env filename = Inr ast \<and> cte_FormatNode env ast = Inr b \<and>
        view w' \<lparr>key_Namespace = namespace, key_Name = template_name filename\<rparr> = Some t \<and>
        wlt_Type t = WorkloadTemplateTypeCue \<and> wlt_Source t = b)) \<and>
    (exit_Status e \<noteq> 0 \<longrightarrow> exit_Status e = 1 \<and> (\<exists>err. exit_Printed e = PrintedError err)) \<and>
    (\<forall>k. k \<noteq> \<lparr>key_Namespace = namespace, key_Name = template_name filename\<rparr> \<longrightarrow> view w' k = view w k) \<and>
    (\<forall>dir b. filename = dir @ b @ ''.cue'' \<and> CHR ''/'' \<notin> set b \<and> (dir = '''' \<or> last dir = CHR ''/'') \<longrightarrow>
      template_name filename = b)"
proof (cases "\<exists>ast b. cte_GetConfig env = None \<and> cte_NewClient env = None \<and>
    cte_ParseFile env filename = Inr ast \<and> cte_FormatNode env ast = Inr b")
  case False
  then obtain err where "out = exit_1 err" "w' = w"
    using run
    by (auto simp: handler_defs Let_def split: option.splits sum.splits)
  then show ?thesis using template_name_of_path by (auto simp: exit_1_def)
next
  case True
  then obtain ast b where pre: "cte_GetConfig env = None" "cte_NewClient env = None"
    "cte_ParseFile env filename = Inr ast" "cte_FormatNode env ast = Inr b" by blast
  let ?t = "\<lparr>wlt_meta = new_meta (template_name filename) namespace, wlt_Source = '''', wlt_Type = ''''\<rparr>"
  let ?key = "\<lparr>key_Namespace = namespace, key_Name = template_name filename\<rparr>"
  obtain c where cop: "run_state (cte_CreateOrPatch env ?t (workloadTemplate_mutate b)) w = (c, w')"
    and out: "out = (case c of Panics p \<Rightarrow> Panics p | Returns (Inl err) \<Rightarrow> exit_1 err
      | Returns (Inr op) \<Rightarrow> Returns \<lparr>exit_Status = 0, exit_Printed = PrintedResult op\<rparr>)"
    using run pre by (auto simp: handler_defs split: prod.splits)
  have key: "wlt_key ?t = ?key" by simp
  have frame: "\<forall>k. k \<noteq> ?key \<longrightarrow> view w' k = view w k"
    using create_or_patch_frame [OF ok cop] key by simp
  from template_mutator.cop_no_panic [OF ok cop] obtain v where v: "c = Returns v" ..
  show ?thesis
  proof (cases v)
    case (Inl err)
    with out v frame template_name_of_path show ?thesis by (auto simp: exit_1_def)
  next
    case (Inr op)
    with template_mutator.cop_reaches_desired [OF ok] cop v key
    obtain t where "view w' ?key = Some t" "wlt_Type t = WorkloadTemplateTypeCue" "wlt_Source t = b" by force
    with Inr out v frame pre template_name_of_path show ?thesis by auto
  qed
qed

text \<open>
  C36. The command stores what it read or fails loudly. When it exits with status 0, the stored
  template with the file's name, in the namespace of the
  command line (\<open>dockyards\<close> unless it says otherwise), is of the CUE type and its source is
  the formatted file; every failure of configuration, client, parser, formatter or API ends
  with status 1 and the error printed; before the API is called nothing is written, and no
  other template ever changes. The name is that of the file without its directory and the
  extension.
\<close>

theorem create_template_stored:
  assumes ok: "create_or_patch_ok (\<lambda>t. wlt_key t) view (cte_CreateOrPatch env)"
    and filename: "filename = StringVar args ''filename'' ''test.cue''"
    and namespace: "namespace = StringVar args ''namespace'' ''dockyards''"
    and main: "run_state (create_workload_template env args) w = (out, w')"
  shows "\<exists>e. out = Returns e \<and>
    (exit_Status e = 0 \<longrightarrow>
      (\<exists>ast b t. cte_ParseFile env filename = Inr ast \<and> cte_FormatNode env ast = Inr b \<and>
        view w' \<lparr>key_Namespace = namespace, key_Name = template_name filename\<rparr> = Some t \<and>
        wlt_Type t = WorkloadTemplateTypeCue \<and> wlt_Source t = b)) \<and>
    (exit_Status e \<noteq> 0 \<longrightarrow> exit_Status e = 1 \<and> (\<exists>err. exit_Printed e = PrintedError err)) \<and>
    (\<forall>k. k \<noteq> \<lparr>key_Namespace = namespace, key_Name = template_name filename\<rparr> \<longrightarrow> view w' k = view w k) \<and>
    (\<forall>dir b. filename = dir @ b @ ''.cue'' \<and> CHR ''/'' \<notin> set b \<and> (dir = '''' \<or> last dir = CHR ''/'') \<longrightarrow>
      template_name filename = b)"
proof (rule create_template_main_stored [OF ok])
  from main filename namespace
  show "run_state (create_workload_template_main env filename namespace) w = (out, w')"
    by (simp add: create_workload_template_def)
qed

definition example_create_env :: "(ObjectKey \<rightharpoonup> WorkloadTemplate, string, string) create_template_env" where
  "example_create_env =
     \<lparr>cte_GetConfig = None, cte_NewClient = None, cte_ParseFile = (\<lambda>f. Inr ''ast''),
      cte_FormatNode = (\<lambda>ast. Inr ''package template''),
      cte_CreateOrPatch = store_create_or_patch (\<lambda>t. wlt_key t)\<rparr>"

theorem create_template_stored_witness:
  "\<exists>t. snd (run_state (create_workload_template example_create_env
         \<lparr>given_strings = [''filename'' \<mapsto> ''podinfo.cue''], given_bools = Map.empty\<rparr>) Map.empty)
       \<lparr>key_Namespace = ''dockyards'', key_Name = ''podinfo''\<rparr> = Some t \<and>
     wlt_Source t = ''package template''"
proof -
  let ?args = "\<lparr>given_strings = [''filename'' \<mapsto> ''podinfo.cue''], given_bools = Map.empty\<rparr>"
  have ok: "create_or_patch_ok (\<lambda>t. wlt_key t) (\<lambda>w. w) (cte_CreateOrPatch example_create_env)"
    by (simp add: example_create_env_def store_create_or_patch_ok)
  have args: "''podinfo.cue'' = StringVar ?args ''filename'' ''test.cue''"
    "''dockyards'' = StringVar ?args ''namespace'' ''dockyards''" by (simp_all add: StringVar_def)
  obtain e w' where run: "run_state (create_workload_template example_create_env ?args)
      Map.empty = (Returns e, w')" "exit_Status e = 0"
    by (simp add: handler_defs example_create_env_def store_create_or_patch_def
        workloadTemplate_mutate_def Let_def)
  have "cte_FormatNode example_create_env ast = Inr ''package template''" for ast
    by (simp add: example_create_env_def)
  moreover from create_template_stored [OF ok args run(1)]
  have name: "\<forall>dir b. ''podinfo.cue'' = dir @ b @ ''.cue'' \<and> CHR ''/'' \<notin> set b \<and> (dir = '''' \<or> last dir = CHR ''/'') \<longrightarrow>
      template_name ''podinfo.cue'' = b" by blast
  from name [rule_format, of "''''" "''podinfo''"] have "template_name ''podinfo.cue'' = ''podinfo''" by simp
  ultimately show ?thesis using create_template_stored [OF ok args run(1)] run by auto
qed

end
