(* ===== verification/Mock_CRDs.thy ===== *)
theory Mock_CRDs
  imports Main_Setup
begin

text \<open>
  \<open>test/mockcrds/mockcrds.go\<close>: the custom resource definitions that the controllers' environment
  tests install instead of the real ones.
\<close>

section \<open>Data\<close>

definition GitRepositoryKind :: string where
  "GitRepositoryKind = ''GitRepository''"

definition typeObject :: string where
  "typeObject = ''object''"

record JSONSchemaProps =
  jsp_Type :: string
  jsp_XPreserveUnknownFields :: "bool option"

record CRDVersion =
  crdv_Name :: string
  crdv_Served :: bool
  crdv_Storage :: bool
  crdv_StatusSubresource :: bool
  crdv_SchemaType :: string
  crdv_Properties :: "(string \<times> JSONSchemaProps) list"

record CustomResourceDefinition =
  crd_APIVersion :: string
  crd_TypeKind :: string
  crd_Name :: string
  crd_Group :: string
  crd_Scope :: string
  crd_Plural :: string
  crd_Kind :: string
  crd_Versions :: "CRDVersion list"

section \<open>Operations\<close>

definition open_object :: JSONSchemaProps where
  "open_object = \<lparr>jsp_Type = typeObject, jsp_XPreserveUnknownFields = Some True\<rparr>"

definition mockCRD :: "string \<Rightarrow> string \<Rightarrow> string \<Rightarrow> string \<Rightarrow> CustomResourceDefinition" where
  "mockCRD kind plural group' version =
     \<lparr>crd_APIVersion = ''apiextensions.k8s.io/v1'', crd_TypeKind = ''CustomResourceDefinition'',
      crd_Name = plural @ ''.'' @ group', crd_Group = group', crd_Scope = ''Namespaced'',
      crd_Plural = plural, crd_Kind = kind,
      crd_Versions =
        [\<lparr>crdv_Name = version, crdv_Served = True, crdv_Storage = True, crdv_StatusSubresource = True,
          crdv_SchemaType = typeObject,
          crdv_Properties = [(''spec'', open_object), (''status'', open_object)]\<rparr>]\<rparr>"

definition DockyardsCluster :: CustomResourceDefinition where
  "DockyardsCluster = mockCRD ClusterKind ''clusters'' dockyards_Group ''v1alpha3''"

definition DockyardsWorkload_CRD :: CustomResourceDefinition where
  "DockyardsWorkload_CRD = mockCRD WorkloadKind ''workloads'' dockyards_Group ''v1alpha3''"

definition DockyardsWorkloadTemplate_CRD :: CustomResourceDefinition where
  "DockyardsWorkloadTemplate_CRD = mockCRD WorkloadTemplateKind ''workloadtemplates'' dockyards_Group ''v1alpha3''"

definition HelmHelmRelease :: CustomResourceDefinition where
  "HelmHelmRelease = mockCRD HelmReleaseKind ''helmreleases'' helm_Group ''v2''"

definition KustomizeKustomization :: CustomResourceDefinition where
  "KustomizeKustomization = mockCRD KustomizationKind ''kustomizations'' kustomize_Group ''v1''"

definition SourceGitRepository :: CustomResourceDefinition where
  "SourceGitRepository = mockCRD GitRepositoryKind ''gitrepositories'' source_Group ''v1''"

definition DockyardsWorktree :: CustomResourceDefinition where
  "DockyardsWorktree = mockCRD WorktreeKind ''worktrees'' dockyards_Group ''v1alpha3''"

definition CRDs :: "CustomResourceDefinition list" where
  "CRDs =
     [DockyardsCluster, DockyardsWorkload_CRD, DockyardsWorkloadTemplate_CRD, DockyardsWorktree,
      HelmHelmRelease, KustomizeKustomization, SourceGitRepository]"

section \<open>Properties\<close>

lemmas crd_defs =
  CRDs_def DockyardsCluster_def DockyardsWorkload_CRD_def DockyardsWorkloadTemplate_CRD_def
  DockyardsWorktree_def HelmHelmRelease_def KustomizeKustomization_def SourceGitRepository_def mockCRD_def

lemmas group_kind_defs =
  dockyards_Group_def helm_Group_def kustomize_Group_def source_Group_def ClusterKind_def WorkloadKind_def
  WorkloadTemplateKind_def WorktreeKind_def HelmReleaseKind_def KustomizationKind_def GitRepositoryKind_def

definition crd_well_formed :: "CustomResourceDefinition \<Rightarrow> bool" where
  "crd_well_formed crd \<longleftrightarrow>
     crd_Name crd = crd_Plural crd @ ''.'' @ crd_Group crd \<and>
     length (filter crdv_Storage (crd_Versions crd)) = 1 \<and>
     list_all (\<lambda>v. crdv_Served v \<and> crdv_StatusSubresource v) (crd_Versions crd)"

definition defines_kind :: "CustomResourceDefinition list \<Rightarrow> GroupKind \<Rightarrow> bool" where
  "defines_kind crds k \<longleftrightarrow> list_ex (\<lambda>crd. crd_Group crd = gk_Group k \<and> crd_Kind crd = gk_Kind k) crds"

text \<open>
  The mock definitions are installable and sufficient: each is named by plural and group as the
  API server demands, has one storage version that is served with a status subresource, no two
  share a name, and every kind that the workload, worktree, kustomization and helm release
  controllers watch is defined. The kinds of the source repository controller are not.
\<close>

lemma mock_crds_sufficient:
  "list_all crd_well_formed CRDs \<and> distinct (map crd_Name CRDs) \<and>
   list_all (defines_kind CRDs)
     (concat (map registered_kinds [workload_registration, worktree_registration,
        kustomization_registration, helmrelease_registration])) \<and>
   \<not> list_ex (defines_kind CRDs) (registered_kinds sourcerepository_registration)"
  by (simp add: crd_defs crd_well_formed_def defines_kind_def registration_defs group_kind_defs
      HelmRepositoryKind_def OCIRepositoryKind_def)

end
