(* ===== verification/Spec2Isabelle.thy ===== *)
theory Spec2Isabelle
  imports Mirror_Stability Access_Rules Workload_Liveness Inventory_Events Panic_Freedom WorkloadTemplate_Webhook Ingress_Util
    Create_Workload_Template Mock_CRDs
begin

text \<open>
  A verification library for dockyards-flux2, the controller stack that turns dockyards
  workloads into Flux objects.

  \<^bold>\<open>The program.\<close> \<open>main.go\<close> builds a manager and registers five reconcilers and, when enabled, two
  admission webhooks. The workload reconciler renders the CUE template a workload refers to
  and creates or patches the rendered objects (Flux kustomizations, helm releases and what
  they need). The worktree reconciler mirrors worktrees into git repositories. The
  kustomization, helm release and source repository reconcilers mirror the Flux objects, which
  carry the labels the workload reconciler gave them, into workload inventories. The template
  webhook rejects templates the workload reconciler could not render; the workload webhook
  defaults and validates workloads. The components never call each other: they meet in the
  objects of the API server.

  \<^bold>\<open>How it is modelled.\<close> The API server is a world of an arbitrary type; a handler is a computation
  of the state monad over it, composed in the order of the Go code with every early return,
  and returns a result and an error, or panics. What is not in the repository is a parameter,
  a field of the reconciler's record: the client's calls, \<open>CreateOrPatch\<close>, the patch helper, the
  conditions package, the error helpers, the CUE libraries. What the program relies on is
  stated as named predicates on these parameters after their documentation (\<open>create_or_patch_ok\<close>,
  \<open>create_or_patch_writes_ok\<close>, \<open>reliable\<close>, \<open>errlib_ok\<close>, \<open>condlib_ok\<close>, \<open>summary_ok\<close>, \<open>cue_ok\<close>, \<open>set_nested_map_ok\<close>, \<open>set_nested_map_panics_ok\<close>, \<open>keeps_view\<close>, and
  with other runs in between \<open>cop_logged\<close>, \<open>cop_confirmed\<close>, \<open>patch_logged\<close>, \<open>rendered_logged\<close>, \<open>wired\<close>, \<open>confirming\<close> and
  \<open>requested\<close>), and every one of them is
  shown to hold for a concrete instance on which the witnesses run. The parts of the Go library that decide something (maps and nil
  maps, base64, URL escaping, paths, the string reader and the line scanner, durations) are
  defined, not assumed. All loops of the code run over finite
  lists and are structural recursions, so no fuel is needed and every model is total; the loop that retries handlers until nothing is due is a \<open>while_option\<close>, shown to end.

  \<^bold>\<open>The theories.\<close>
  \<^item> \<open>Prelude\<close>: panics, worlds, Go maps, durations. \<open>Go_Std\<close>: the Go library functions.
  \<^item> \<open>Kube_Api\<close>: metadata, requests and results, the promise of \<open>CreateOrPatch\<close>, and four contracts
    as locales: \<open>mutator\<close> (a mutate function keeps the key, reaches its desired state and leaves
    an object in that state alone), \<open>total_mutator\<close>, \<open>reconciler\<close> (the zero result), \<open>world_preorder\<close>
    (effects on the world that compose along a handler).
  \<^item> \<open>Interleaving\<close>: logs of changes made by runs that interfere, what a run says about its own
    changes (\<open>upheld\<close>, \<open>upholds\<close>), that promises of all runs (\<open>lawful\<close>) together make the whole log
    conform to a specification, that what a run has attained lasts as long as the others leave it
    alone (\<open>attained\<close>, \<open>unchanged\<close>), and the locale \<open>abstract_spec\<close>, under which \<open>CreateOrPatch\<close> keeps
    the promise. Each controller's theory shows once which effects compose along its handler
    (\<open>Worktree_Reconcile_within\<close> and its like, in the locale \<open>world_preorder\<close>); all facts about
    interleaved runs are instances.
  \<^item> \<open>Dockyards_Api\<close>: the types and constants of \<open>dockyards-backend\<close>.
  \<^item> \<open>Worktree_Controller\<close>: \<open>controllers/dockyardsworktree_controller.go\<close>.
  \<^item> \<open>Workload_Inventory\<close>: what the four inventory handlers share, with the locales
    \<open>inventory_reconciler\<close> and \<open>reporting_inventory_reconciler\<close>; \<open>Kustomization_Controller\<close>,
    \<open>HelmRelease_Controller\<close> and \<open>SourceRepository_Controller\<close> model their files and interpret them.
  \<^item> \<open>Json_Values\<close>: \<open>ensureValidJSON\<close>. \<open>Cue_Lang\<close>: the CUE parameters. \<open>Workload_Controller\<close>: the
    definitions and lemmas of \<open>controllers/dockyardsworkload_controller.go\<close> (\<open>Workload_Reconcile\<close>,
    \<open>reconcileWorkloadTemplate\<close> split into \<open>check_template\<close>, \<open>apply_template\<close>, \<open>render_template\<close> and
    \<open>apply_fields\<close>, and \<open>reconcileReconcilingCondition\<close>); \<open>Workload_Properties\<close>: its properties.
  \<^item> \<open>Admission\<close>: answers of webhooks, histories of admitted updates, the locale
    \<open>admission_validator\<close>; \<open>WorkloadTemplate_Webhook\<close> and \<open>Workload_Webhook\<close> model \<open>webhooks/\<close> and
    interpret it.
  \<^item> \<open>Ingress_Util\<close>: \<open>pkg/ingressutil\<close>. \<open>Create_Workload_Template\<close>: \<open>cmd/create-workload-template\<close>.
    \<open>Main_Setup\<close>: \<open>main.go\<close> and the \<open>SetupWithManager\<close> methods. \<open>Mock_CRDs\<close>: \<open>test/mockcrds\<close>.
    \<open>Condition_Consts\<close>: \<open>controllers/condition_consts.go\<close>.
  \<^item> The program as a whole: \<open>Managed_Objects\<close> is its abstract specification (the inventories, git
    repositories and workloads as maps, the changes allowed to them, the invariant). \<open>System\<close> puts
    the reconcilers, the webhook, users and the API server together: a log of changes each of which
    belongs to a run of a reconciler on a request (\<open>task\<close>, \<open>perform\<close>) or comes from outside (\<open>outside_change\<close>), with
    any interleaving, stale reads, and runs that are cut short. \<open>Example_System\<close> holds the concrete
    systems of the witnesses, one of them with scheduled interruptions; \<open>System_Safety\<close> the
    refinement, the invariant and the fixed references; \<open>Mirror_Stability\<close> that what a run has
    mirrored stays mirrored. \<open>Inventory_Events\<close>: the four inventory
    handlers side by side and their convergence. \<open>Workload_Liveness\<close>: what repeated reconciles of a
    workload lead to. \<open>Panic_Freedom\<close>: where a reconciler can panic. \<open>Access_Rules\<close>: the
    \<open>kubebuilder\<close> markers, \<open>config/rbac/role.yaml\<close>, and the reconcilers under an API server that
    enforces the role.
  \<^item> This theory holds the remaining properties that span components.

  \<^bold>\<open>What is shown.\<close> Of the workload reconciler: a workload is reported as reconciled only when
  every rendered object is stored; a refused template has no side effects and the right reason;
  a failure halfway leaves a prefix applied; applying is idempotent; nothing but owners, labels
  and spec of an existing object is written, however a reconcile ends; only three conditions of the workload change, and
  they say exactly whether the template was applied, what Flux is still working on, and whether
  the workload is ready; the status is patched on every path and no error is lost. Of the
  mirroring reconcilers: no error means the mirror is in the desired state, nothing else is touched, pruning is turned off
  exactly when the kubeconfig secret is gone. Of the webhooks: exactly what they admit, that
  references stay what they were along every admitted history, that defaulting is idempotent
  and fits the validation. Of the system as a whole: every change that any number of concurrent runs
  and users make refines the specification, so that at every moment every inventory and git
  repository is a well-formed mirror or belongs to the workload whose template rendered it, and the
  cluster, the organization and the template name of a workload never change while it exists; what a run of the
  kustomization, source or worktree reconciler has mirrored without error stays mirrored, whatever
  runs for other objects do at the same time, unless a template renders an object of the same kind and name
  over it (\<open>renders_object\<close>), which neither the program nor the cluster role prevents; the access rules are
  just wide enough for the calls of the reconcilers; panics have two causes only, a release without a chart and a rendered spec that cannot be copied; a
  missing object ends a reconcile without error and any other read error is returned. Across
  components: inventories never collide, their handlers may run in any order and come to
  rest after one run per object; a workload whose template can be applied is reconciled by its
  first reconcile and stays so; the labels given by one reconciler are the ones the others look
  for; the template webhook rejects only what the reconciler could not have rendered, and what it
  admits fails in the later stages only, but for two named exceptions. Four properties and the lemma \<open>workload_unbuildable_admits\<close> show
  where the code falls short: a dropped error and a nil dereference in the helm release
  reconciler, byte strings in lists and integers beyond 64 bits that \<open>ensureValidJSON\<close> leaves in
  place, a reference that is immutable in name only, and a validation that a broken template
  switches off.

  \<^bold>\<open>What is not modelled.\<close> Logging and the warning handler, contexts and cancellation, the parsing
  of the command line (the flags and their defaults are modelled) and signals; the fields of API
  objects the program never reads or writes (those needed to say that they are preserved are
  kept); the order in which Go iterates over maps, which \<open>ensureValidJSON_perm\<close>
  shows to be irrelevant. Whoever else alters an inventory or a git repository between the read and
  the patch of \<open>CreateOrPatch\<close> is excluded (\<open>cop_logged\<close>, \<open>rendered_logged\<close>): the patch is a difference against what was
  read. The functional properties of single handlers speak of one run with a store that behaves
  as documented. Of the inventories and git repositories that templates render, \<open>System\<close> keeps the
  metadata (name, owner, labels); their spec is up to the template and not restricted. Rendered
  workloads are denied by the role (\<open>enforced_rendered_logged\<close>). The index by which
  a template's workloads are listed is code of \<open>dockyards-backend\<close> and stays a parameter. The
  generated schemas under \<open>cue.mod\<close> are data; \<open>generate.go\<close> and \<open>tools.go\<close> are build directives;
  the manifests under \<open>config\<close> other than the cluster role and \<open>webhook/manifests.yaml\<close> (both in
  \<open>Access_Rules\<close>) are deployment data. \<open>Mirror_Stability\<close>
  says nothing of helm releases: their reconciler drops the error, so that its return means nothing.
\<close>

section \<open>Retries\<close>

text \<open>
  All five reconcilers leave retrying to their error: whenever one returns, its result asks for
  nothing, so that the request runs again exactly when the returned error is not nil.
\<close>

lemma reconcilers_retry_on_error:
  "(run_state (Workload_Reconcile r1 req) w1 = (Returns (res, err), w1') \<longrightarrow> (retried res err \<longleftrightarrow> err \<noteq> None)) \<and>
   (run_state (Worktree_Reconcile r2 req) w2 = (Returns (res, err2), w2') \<longrightarrow> (retried res err2 \<longleftrightarrow> err2 \<noteq> None)) \<and>
   (run_state (Kustomization_Reconcile r3 req) w3 = (Returns (res, err3), w3') \<longrightarrow> (retried res err3 \<longleftrightarrow> err3 \<noteq> None)) \<and>
   (run_state (HelmRelease_Reconcile r4 req) w4 = (Returns (res, err4), w4') \<longrightarrow> (retried res err4 \<longleftrightarrow> err4 \<noteq> None)) \<and>
   (run_state (SourceRepository_Reconcile r5 req) w5 = (Returns (res, err5), w5') \<longrightarrow> (retried res err5 \<longleftrightarrow> err5 \<noteq> None))"
  by (intro conjI impI wlr.retried_iff_error wtr.retried_iff_error kr.retried_iff_error
      hrr.retried_iff_error srr.retried_iff_error)

text \<open>What a reconciler answers when reading its object failed with \<open>e\<close>.\<close>

definition read_failed :: "'e errlib \<Rightarrow> 'e \<Rightarrow> 'e reconciled" where
  "read_failed L e = Returns (Result0, if IsNotFound L (Some e) then None else Some e)"

text \<open>
  C19. An object that is gone is not an error, and nothing is written for it. When reading the
  requested object fails, every reconciler returns at once, with the world as the read left it:
  without an error, so that the request is dropped, when the object does not exist, and else
  with the very error of the read, so that the request is retried. The source repository
  reconciler reads two objects: when the helm repository does not exist it goes on with the OCI
  repository, and any other error of the first read ends it.
\<close>

theorem reconcilers_read_errors:
  assumes L: "errlib_ok (wlr_errlib r1)" "errlib_ok (wtr_errlib r2)" "errlib_ok (kr_errlib r3)"
      "errlib_ok (hrr_errlib r4)" "errlib_ok (srr_errlib r5)"
  shows "(run_state (wlr_Get r1 (NamespacedName req)) w = (Inl e, w') \<longrightarrow>
      run_state (Workload_Reconcile r1 req) w = (read_failed (wlr_errlib r1) e, w')) \<and>
    (run_state (wtr_Get r2 (NamespacedName req)) w = (Inl e, w') \<longrightarrow>
      run_state (Worktree_Reconcile r2 req) w = (read_failed (wtr_errlib r2) e, w')) \<and>
    (run_state (kr_Get r3 (NamespacedName req)) w = (Inl e, w') \<longrightarrow>
      run_state (Kustomization_Reconcile r3 req) w = (read_failed (kr_errlib r3) e, w')) \<and>
    (run_state (hrr_Get r4 (NamespacedName req)) w = (Inl e, w') \<longrightarrow>
      run_state (HelmRelease_Reconcile r4 req) w = (read_failed (hrr_errlib r4) e, w')) \<and>
    (run_state (srr_GetHelmRepository r5 (NamespacedName req)) w = (Inl e, w') \<longrightarrow>
      (if IsNotFound (srr_errlib r5) (Some e)
       then (\<forall>e2 w2. run_state (srr_GetOCIRepository r5 (NamespacedName req)) w' = (Inl e2, w2) \<longrightarrow>
         run_state (SourceRepository_Reconcile r5 req) w = (read_failed (srr_errlib r5) e2, w2))
       else run_state (SourceRepository_Reconcile r5 req) w = (read_failed (srr_errlib r5) e, w')))"
  by (intro conjI impI)
    (simp_all add: handler_defs IgnoreNotFound_cases L read_failed_def)

theorem reconcilers_read_errors_witness:
  "run_state (Workload_Reconcile (sys_workload example_system) \<lparr>NamespacedName = \<lparr>key_Namespace = ''ns'', key_Name = ''gone''\<rparr>\<rparr>)
       (example_objects Map.empty, Map.empty) = (Returns (Result0, None), (example_objects Map.empty, Map.empty))"
proof -
  let ?S = example_system and ?req = "\<lparr>NamespacedName = \<lparr>key_Namespace = ''ns'', key_Name = ''gone''\<rparr>\<rparr>"
  have get: "run_state (wlr_Get (sys_workload ?S) (NamespacedName ?req)) (example_objects Map.empty, Map.empty) =
      (Inl ''NotFound'', (example_objects Map.empty, Map.empty))"
    by (simp add: example_system_defs example_objects_def)
  have "errlib_ok (wlr_errlib (sys_workload ?S))" "errlib_ok (wtr_errlib (sys_worktree ?S))"
    "errlib_ok (kr_errlib (sys_kustomization ?S))" "errlib_ok (hrr_errlib (sys_helmrelease ?S))"
    "errlib_ok (srr_errlib (sys_source ?S))"
    by (simp_all add: example_system_defs store_errlib_ok)
  from reconcilers_read_errors [OF this, THEN conjunct1, THEN mp, OF get]
  show ?thesis by (simp add: read_failed_def example_system_defs store_errlib_def)
qed

section \<open>From workload to inventory\<close>

text \<open>
  C25. What the workload reconciler applies is what the inventory reconciler picks up: a stored
  object in the state the workload reconciler drives it to carries both inventory labels, and
  when the kustomization with its metadata is reconciled without error, the inventory carries
  the names of that workload and that cluster and is owned by the kustomization.
\<close>

theorem workload_objects_inventoried:
  assumes applied: "unstructured_desired c workload ownerCluster v x"
    and same: "k_meta k = u_meta x"
    and ok: "create_or_patch_ok (\<lambda>i. inv_key i) view cop"
    and run: "run_state (Kustomization_reconcileWorkloadInventory cop k) w = (Returns (res, None), w')"
  shows "has_inventory_labels (u_meta x) \<and>
    (\<exists>wi. view w' (inventory_key (u_meta x) KustomizationSuffix) = Some wi \<and>
      gomap_lookup (om_Labels (inv_meta wi)) LabelWorkloadName = Some (om_Name (wl_meta workload)) \<and>
      gomap_lookup (om_Labels (inv_meta wi)) LabelClusterName = Some (om_Name (cl_meta ownerCluster)) \<and>
      om_OwnerReferences (inv_meta wi) = [kustomization_owner k])"
proof -
  from applied have labels: "om_Labels (u_meta x) = workload_labels workload ownerCluster"
    by (simp add: unstructured_desired_def)
  then have has: "has_inventory_labels (u_meta x)"
    by (simp add: has_inventory_labels_def workload_labels_def)
  from kustomization_inv.inventory_written [OF ok _ run] has same obtain wi where
    "view w' (inventory_key (u_meta x) KustomizationSuffix) = Some wi" "kustomization_goal k wi" by auto
  with has labels same show ?thesis
    by (simp add: kustomization_goal_def inventory_desired_def workload_labels_def)
qed

theorem workload_objects_inventoried_witness:
  "\<exists>wi. snd (run_state (Kustomization_reconcileWorkloadInventory
        (store_create_or_patch (\<lambda>i. inv_key i) :: (_, string, _) create_or_patch)
        (example_kustomization\<lparr>k_meta := u_meta example_stored\<rparr>)) Map.empty)
      (inventory_key (u_meta example_stored) KustomizationSuffix) = Some wi \<and>
     gomap_lookup (om_Labels (inv_meta wi)) LabelWorkloadName = Some ''w1''"
proof -
  let ?k = "example_kustomization\<lparr>k_meta := u_meta example_stored\<rparr>"
  let ?cop = "store_create_or_patch (\<lambda>i. inv_key i) :: (_, string, _) create_or_patch"
  have desired: "unstructured_desired example_cue example_workload example_cluster 1 example_stored"
    using mutator.mutate_desired [OF unstructured_mutator [OF store_set_nested_map_ok] example_mutate] .
  obtain w' where run: "run_state (Kustomization_reconcileWorkloadInventory ?cop ?k) Map.empty =
      (Returns (Result0, None), w')"
    by (simp add: Kustomization_reconcileWorkloadInventory_def example_stored_def workload_labels_def
        store_create_or_patch_def kustomization_inventory_mutate_def write_inventory_def
        current_object_def new_inventory_def gomap_made_def inventory_outcome_def new_meta_def)
  have "om_Name (wl_meta example_workload) = ''w1''" by (simp add: example_workload_def new_meta_def)
  with workload_objects_inventoried [OF desired _ store_create_or_patch_ok run] run show ?thesis by auto
qed

section \<open>The webhook and the reconciler\<close>

lemma cue_ok_definitions:
  assumes "cue_ok c"
  shows "Def c ''cluster'' = Def c ''#cluster''" "Def c ''workload'' = Def c ''#workload''"
  using assms by (simp_all add: cue_ok_def)

text \<open>A template the webhook rejects fails to load, to build or to have a definition.\<close>

lemma rejected_template_fails:
  assumes cue: "cue_ok c" and inst: "inst \<in> set (load_template c wd source)" "\<not> instance_ok c inst"
  shows "\<exists>f. render_template c wd source ownerCluster workload = Inl f \<and>
    fail_Reason f \<in> {LoadInstanceFailedReason, BuildInstanceFailedReason, LookupPathFailedReason}"
proof -
  have laws: "\<not> Exists c v \<Longrightarrow> Value_Err c v \<noteq> None"
    "Instance_Err c i \<noteq> None \<Longrightarrow> Value_Err c (BuildInstance c i) \<noteq> None" for v i
    using cue unfolding cue_ok_def by blast+
  have broken: "Value_Err c (BuildInstance c inst) \<noteq> None \<or>
      Value_Err c (LookupPath c (BuildInstance c inst) (Def c ''#workload'')) \<noteq> None \<or>
      Value_Err c (LookupPath c (BuildInstance c inst) (Def c ''#cluster'')) \<noteq> None"
    using inst(2) laws(2) [of inst] laws(1) [of "LookupPath c (BuildInstance c inst) (Def c ''#cluster'')"]
      laws(1) [of "LookupPath c (BuildInstance c inst) (Def c ''#workload'')"]
    unfolding instance_ok_def cue_ok_definitions [OF cue] by argo
  show ?thesis
  proof (cases "load_template c wd source = [inst]")
    case True
    then show ?thesis using broken by (auto simp: render_template_def Let_def fails_def)
  next
    case False
    then obtain a b rest where "load_template c wd source = a # b # rest"
      using inst(1) by (cases "load_template c wd source" rule: remdups_adj.cases) auto
    then show ?thesis by (simp add: render_template_def fails_def)
  qed
qed

text \<open>A template the webhook admits gets past these stages, with two exceptions.\<close>

definition definition_in_error :: "('i, 'v, 'p, 'e) cue \<Rightarrow> 'i \<Rightarrow> bool" where
  "definition_in_error c inst \<longleftrightarrow>
     (\<exists>d \<in> {''#workload'', ''#cluster''}. let x = LookupPath c (BuildInstance c inst) (Def c d)
        in Exists c x \<and> Value_Err c x \<noteq> None)"

lemma admitted_template_fails_late:
  assumes cue: "cue_ok c" and good: "\<And>inst. inst \<in> set (load_template c wd source) \<Longrightarrow> instance_ok c inst"
    and failed: "render_template c wd source ownerCluster workload = Inl f"
  shows "fail_Reason f \<in> {FillPathFailedReason, ValidateFailedReason, FieldsFailedReason} \<or>
    (fail_Reason f = LoadInstanceFailedReason \<and> length (load_template c wd source) \<noteq> 1) \<or>
    (fail_Reason f = LookupPathFailedReason \<and> (\<exists>inst \<in> set (load_template c wd source). definition_in_error c inst))"
proof (cases "\<exists>inst. load_template c wd source = [inst]")
  case True
  then obtain inst where inst: "load_template c wd source = [inst]" ..
  with good have "instance_ok c inst" by simp
  then have "Value_Err c (BuildInstance c inst) = None"
    "Exists c (LookupPath c (BuildInstance c inst) (Def c ''#workload''))"
    "Exists c (LookupPath c (BuildInstance c inst) (Def c ''#cluster''))"
    unfolding instance_ok_def cue_ok_definitions [OF cue] by argo+
  with failed inst show ?thesis
    by (auto simp: render_template_def definition_in_error_def Let_def split: if_splits sum.splits)
next
  case False
  then have "length (load_template c wd source) \<noteq> 1" by (simp add: length_Suc_conv)
  moreover from False failed have "fail_Reason f = LoadInstanceFailedReason"
    by (auto simp: render_template_def split: list.splits)
  ultimately show ?thesis by simp
qed

text \<open>
  C24. The template webhook and the workload reconciler agree. A template the webhook rejects
  cannot be rendered for any workload and cluster: the reconciler gives up because the template
  does not load, does not build, or lacks a definition, so that nothing that would have worked
  is refused. Conversely, an admitted template gets past these stages and can only fail later,
  when the values are filled in, validated or listed; the two exceptions are sources that are
  not exactly one instance, and definitions that exist but are in error, which the webhook does
  not look at.
\<close>

theorem template_webhook_agrees:
  assumes cue: "cue_ok c"
  shows "if admitted (WorkloadTemplate_ValidateCreate \<lparr>twh_Getwd = Inr wd, twh_cue = c\<rparr> (OWorkloadTemplate t))
    then (case render_template c wd (wlt_Source t) ownerCluster workload of
        Inr vals \<Rightarrow> True
      | Inl f \<Rightarrow>
          fail_Reason f \<in> {FillPathFailedReason, ValidateFailedReason, FieldsFailedReason} \<or>
          (fail_Reason f = LoadInstanceFailedReason \<and> length (load_template c wd (wlt_Source t)) \<noteq> 1) \<or>
          (fail_Reason f = LookupPathFailedReason \<and>
            (\<exists>inst \<in> set (load_template c wd (wlt_Source t)). definition_in_error c inst)))
    else \<exists>f. render_template c wd (wlt_Source t) ownerCluster workload = Inl f \<and>
      fail_Reason f \<in> {LoadInstanceFailedReason, BuildInstanceFailedReason, LookupPathFailedReason}"
proof -
  let ?h = "\<lparr>twh_Getwd = Inr wd, twh_cue = c\<rparr>"
  have iff: "admitted (WorkloadTemplate_ValidateCreate ?h (OWorkloadTemplate t)) \<longleftrightarrow>
      (\<forall>inst \<in> set (load_template c wd (wlt_Source t)). instance_ok c inst)"
    using WorkloadTemplate_validate_ok [of ?h t] cue
    by (simp add: WorkloadTemplate_ValidateCreate_def template_ok_def)
  show ?thesis
  proof (cases "admitted (WorkloadTemplate_ValidateCreate ?h (OWorkloadTemplate t))")
    case True
    with iff admitted_template_fails_late [OF cue, of wd "wlt_Source t" ownerCluster workload]
    show ?thesis by (simp split: sum.splits)
  next
    case False
    with iff obtain inst where "inst \<in> set (load_template c wd (wlt_Source t))" "\<not> instance_ok c inst" by blast
    from rejected_template_fails [OF cue this] False show ?thesis by simp
  qed
qed

theorem template_webhook_agrees_witness:
  "\<exists>f. render_template example_cue ''/'' ''broken'' example_cluster example_workload = Inl f \<and>
     fail_Reason f \<in> {LoadInstanceFailedReason, BuildInstanceFailedReason, LookupPathFailedReason}"
proof -
  let ?t = "example_template_with ''broken''"
  have "\<not> admitted (WorkloadTemplate_ValidateCreate \<lparr>twh_Getwd = Inr ''/'', twh_cue = example_cue\<rparr> (OWorkloadTemplate ?t))"
    by (simp add: WorkloadTemplate_ValidateCreate_def WorkloadTemplate_validate_def load_template_def
        example_cue_def example_template_with_def cue_error_invalid_def reader_Seek_def)
  with template_webhook_agrees [OF example_cue_ok, of "''/''" ?t example_cluster example_workload]
  show ?thesis by (simp add: example_template_with_def)
qed

end
